(* ===== verification/Dso_Prelude.thy ===== *)
theory Dso_Prelude
  imports
    Main
    "HOL-Library.State_Monad"
    "HOL-Library.Word"
    "HOL-Library.Sublist"
    "HOL-Library.Char_ord"
    "HOL-Library.List_Lexorder"
begin

text \<open>
  Shared vocabulary of the development.

  \<^item> The part of Go's standard library that the operator uses on strings (package
    \<^verbatim>\<open>strings\<close>, \<^verbatim>\<open>strconv\<close>, \<^verbatim>\<open>net.SplitHostPort\<close>, \<^verbatim>\<open>net.JoinHostPort\<close>). A Go string is a
    list of bytes, here \<^typ>\<open>string\<close>; the case and white-space functions are those of the
    ASCII range, which is where Kubernetes names, label values and endpoints live.
  \<^item> Go errors as values: an API status error with its documented classification, or an
    error built by \<^verbatim>\<open>fmt.Errorf\<close> from a format, its operands and the wrapped error.
  \<^item> The effect monad: a computation of the operator runs against an environment state
    (cluster, clock, network) that only the environment's own functions change, and it
    appends to a trace every call that changes something outside the process.
  \<^item> \<open>spec m Q\<close>: for every environment and every behaviour of it, running \<open>m\<close> returns a
    result \<open>r\<close> and appends events \<open>es\<close> with \<open>Q r es\<close>; the rules in \<open>spec_rules\<close> compute
    backwards through a computation.
\<close>

named_theorems spec_rules \<open>backward rules for computations\<close>
named_theorems go_defs \<open>definitions of the Go library functions, for evaluation\<close>

type_synonym bytes = string
type_synonym int32 = "32 word"

section \<open>Go strings\<close>

abbreviation HasPrefix :: "string \<Rightarrow> string \<Rightarrow> bool" where
  "HasPrefix s p \<equiv> prefix p s"

abbreviation Contains :: "string \<Rightarrow> string \<Rightarrow> bool" where
  "Contains s t \<equiv> sublist t s"

definition TrimPrefix :: "string \<Rightarrow> string \<Rightarrow> string" where
  "TrimPrefix s p = (if prefix p s then drop (length p) s else s)"

definition TrimSuffix :: "string \<Rightarrow> string \<Rightarrow> string" where
  "TrimSuffix s p = (if suffix p s then take (length s - length p) s else s)"

definition TrimLeft :: "string \<Rightarrow> string \<Rightarrow> string" where
  "TrimLeft s cutset = dropWhile (\<lambda>c. c \<in> set cutset) s"

definition TrimRight :: "string \<Rightarrow> string \<Rightarrow> string" where
  "TrimRight s cutset = rev (dropWhile (\<lambda>c. c \<in> set cutset) (rev s))"

definition Trim :: "string \<Rightarrow> string \<Rightarrow> string" where
  "Trim s cutset = TrimRight (TrimLeft s cutset) cutset"

text \<open>The white space of \<^verbatim>\<open>strings.TrimSpace\<close> in the ASCII range: tab, newline, vertical tab,
  form feed, carriage return, space.\<close>

definition ascii_space :: string where
  "ascii_space = [CHR 0x09, CHR 0x0A, CHR 0x0B, CHR 0x0C, CHR 0x0D, CHR 0x20]"

definition TrimSpace :: "string \<Rightarrow> string" where
  "TrimSpace s = Trim s ascii_space"

definition is_upper :: "char \<Rightarrow> bool" where
  "is_upper c \<longleftrightarrow> 65 \<le> (of_char c :: nat) \<and> (of_char c :: nat) \<le> 90"

definition is_lower :: "char \<Rightarrow> bool" where
  "is_lower c \<longleftrightarrow> 97 \<le> (of_char c :: nat) \<and> (of_char c :: nat) \<le> 122"

definition is_digit :: "char \<Rightarrow> bool" where
  "is_digit c \<longleftrightarrow> 48 \<le> (of_char c :: nat) \<and> (of_char c :: nat) \<le> 57"

definition lower_char :: "char \<Rightarrow> char" where
  "lower_char c = (if is_upper c then char_of ((of_char c :: nat) + 32) else c)"

definition ToLower :: "string \<Rightarrow> string" where
  "ToLower s = map lower_char s"

definition EqualFold :: "string \<Rightarrow> string \<Rightarrow> bool" where
  "EqualFold s t \<longleftrightarrow> ToLower s = ToLower t"

text \<open>\<^verbatim>\<open>strings.Index\<close> and \<^verbatim>\<open>strings.LastIndex\<close> for a one-byte separator; \<open>None\<close> is Go's \<open>-1\<close>.\<close>

fun Index :: "string \<Rightarrow> char \<Rightarrow> nat option" where
  "Index [] c = None"
| "Index (x # xs) c = (if x = c then Some 0 else map_option Suc (Index xs c))"

fun LastIndex :: "string \<Rightarrow> char \<Rightarrow> nat option" where
  "LastIndex [] c = None"
| "LastIndex (x # xs) c =
     (case LastIndex xs c of Some i \<Rightarrow> Some (Suc i) | None \<Rightarrow> if x = c then Some 0 else None)"

text \<open>\<^verbatim>\<open>strings.Split\<close> for a one-byte separator.\<close>

fun Split :: "string \<Rightarrow> char \<Rightarrow> string list" where
  "Split [] c = [[]]"
| "Split (x # xs) c =
     (if x = c then [] # Split xs c
      else (case Split xs c of [] \<Rightarrow> [[x]] | p # ps \<Rightarrow> (x # p) # ps))"

text \<open>Decimal rendering, as \<^verbatim>\<open>strconv.FormatInt(n, 10)\<close>, \<^verbatim>\<open>strconv.Itoa\<close> and \<^verbatim>\<open>%d\<close>.\<close>

definition digit_char :: "nat \<Rightarrow> char" where
  "digit_char d = char_of (48 + d)"

fun nat_decimal :: "nat \<Rightarrow> string" where
  "nat_decimal n = (if n < 10 then [digit_char n] else nat_decimal (n div 10) @ [digit_char (n mod 10)])"

declare nat_decimal.simps [simp del]

definition FormatInt :: "int \<Rightarrow> string" where
  "FormatInt n = (if n < 0 then ''-'' @ nat_decimal (nat (- n)) else nat_decimal (nat n))"

text \<open>\<^verbatim>\<open>strconv.Atoi\<close> on a 64-bit platform: an optional sign, at least one digit, and a value in
  the range of \<^verbatim>\<open>int\<close>; anything else is an error (\<open>None\<close>).\<close>

fun parse_digits :: "nat \<Rightarrow> string \<Rightarrow> nat option" where
  "parse_digits acc [] = Some acc"
| "parse_digits acc (c # cs) =
     (if is_digit c then parse_digits (10 * acc + (of_char c - 48)) cs else None)"

definition Atoi :: "string \<Rightarrow> int option" where
  "Atoi s =
     (let (neg, ds) = (case s of
          [] \<Rightarrow> (False, [])
        | c # cs \<Rightarrow> if c = CHR ''-'' then (True, cs) else if c = CHR ''+'' then (False, cs) else (False, s))
      in if ds = [] then None
         else (case parse_digits 0 ds of
             None \<Rightarrow> None
           | Some n \<Rightarrow>
               (let v = (if neg then - int n else int n)
                in if - (2 ^ 63) \<le> v \<and> v < 2 ^ 63 then Some v else None)))"

text \<open>
  \<^verbatim>\<open>net.SplitHostPort\<close>: the port follows the last colon; a bracketed host ends at the first
  closing bracket, which must be followed by that colon; an unbracketed host holds no colon;
  no other bracket may occur. \<open>None\<close> is the error result.
\<close>

definition SplitHostPort :: "string \<Rightarrow> (string \<times> string) option" where
  "SplitHostPort hostport =
     (case LastIndex hostport (CHR '':'') of
        None \<Rightarrow> None
      | Some i \<Rightarrow>
          (let port = drop (Suc i) hostport in
           if prefix ''['' hostport then
             (case Index hostport (CHR '']'') of
                None \<Rightarrow> None
              | Some e \<Rightarrow>
                  if Suc e = length hostport then None
                  else if Suc e \<noteq> i then None
                  else
                    (let host = take (e - 1) (drop 1 hostport) in
                     if CHR ''['' \<in> set (drop 1 hostport) then None
                     else if CHR '']'' \<in> set (drop (Suc e) hostport) then None
                     else Some (host, port)))
           else
             (let host = take i hostport in
              if CHR '':'' \<in> set host then None
              else if CHR ''['' \<in> set hostport then None
              else if CHR '']'' \<in> set hostport then None
              else Some (host, port))))"

text \<open>\<^verbatim>\<open>net.JoinHostPort\<close>: a host with a colon is bracketed.\<close>

definition JoinHostPort :: "string \<Rightarrow> string \<Rightarrow> string" where
  "JoinHostPort host port =
     (if CHR '':'' \<in> set host then ''['' @ host @ '']:'' @ port else host @ '':'' @ port)"

lemmas [go_defs] =
  TrimPrefix_def TrimSuffix_def TrimLeft_def TrimRight_def Trim_def ascii_space_def TrimSpace_def
  is_upper_def is_lower_def is_digit_def lower_char_def ToLower_def EqualFold_def digit_char_def
  FormatInt_def Atoi_def SplitHostPort_def JoinHostPort_def nat_decimal.simps

section \<open>Errors\<close>

text \<open>The classification of an API status error that the operator distinguishes
  (\<^verbatim>\<open>apierrors.IsNotFound\<close>, \<^verbatim>\<open>IsAlreadyExists\<close>, \<^verbatim>\<open>IsConflict\<close>).\<close>

datatype api_reason = NotFound | AlreadyExists | Conflict | OtherReason string

text \<open>\<open>Errorf fmt args wrapped\<close> is \<^verbatim>\<open>fmt.Errorf\<close>: its format, its string operands, and the
  error given to \<^verbatim>\<open>%w\<close> (or rendered by \<^verbatim>\<open>%v\<close>), if any.\<close>

datatype err =
    StatusErr api_reason
  | Errorf string "string list" "err option"

type_synonym text_msg = "string \<times> string list \<times> err option"

fun reason_of :: "err \<Rightarrow> api_reason option" where
  "reason_of (StatusErr r) = Some r"
| "reason_of (Errorf f args None) = None"
| "reason_of (Errorf f args (Some e)) = reason_of e"

definition IsNotFound :: "err \<Rightarrow> bool" where
  "IsNotFound e \<longleftrightarrow> reason_of e = Some NotFound"

definition IsAlreadyExists :: "err \<Rightarrow> bool" where
  "IsAlreadyExists e \<longleftrightarrow> reason_of e = Some AlreadyExists"

definition IsConflict :: "err \<Rightarrow> bool" where
  "IsConflict e \<longleftrightarrow> reason_of e = Some Conflict"

definition IgnoreNotFound :: "err option \<Rightarrow> err option" where
  "IgnoreNotFound e = (case e of Some x \<Rightarrow> if IsNotFound x then None else Some x | None \<Rightarrow> None)"

lemmas [go_defs] = IsNotFound_def IsAlreadyExists_def IsConflict_def IgnoreNotFound_def

section \<open>Hosts and ports\<close>

text \<open>Separators in ports and numbers, and the round trip of a host and a port.\<close>

lemma sublist_single: "sublist [c] s \<longleftrightarrow> c \<in> set s"
  by (auto simp: sublist_def in_set_conv_decomp)

lemma LastIndex_None: "LastIndex xs c = None \<longleftrightarrow> c \<notin> set xs"
  by (induction xs) (auto split: option.splits)

lemma LastIndex_append: "c \<notin> set ys \<Longrightarrow> LastIndex (xs @ c # ys) c = Some (length xs)"
  by (induction xs) (auto simp: LastIndex_None [THEN iffD2])

lemma Index_append: "c \<notin> set xs \<Longrightarrow> Index (xs @ c # ys) c = Some (length xs)"
  by (induction xs) auto

lemma LastIndex_rest: "LastIndex xs c = Some i \<Longrightarrow> c \<notin> set (drop (Suc i) xs)"
  by (induction xs arbitrary: i) (auto simp: LastIndex_None split: option.splits if_splits)

lemma SplitHostPort_port:
  assumes "SplitHostPort s = Some (host, port)"
  shows "CHR '':'' \<in> set s" and "set port \<inter> {CHR '':'', CHR ''['', CHR '']''} = {}"
proof -
  from assms obtain i where i: "LastIndex s (CHR '':'') = Some i"
    by (auto simp: SplitHostPort_def split: option.splits)
  then show "CHR '':'' \<in> set s" by (metis LastIndex_None option.distinct(1))
  have "port = drop (Suc i) s" using assms i by (auto simp: SplitHostPort_def Let_def split: option.splits if_splits)
  moreover have "set (drop (Suc i) s) \<subseteq> set (drop 1 s)" "set (drop (Suc i) s) \<subseteq> set (drop i s)" "set (drop (Suc i) s) \<subseteq> set s"
    by (simp_all only: set_drop_subset_set_drop set_drop_subset)
  then have "CHR ''['' \<notin> set (drop (Suc i) s)" "CHR '']'' \<notin> set (drop (Suc i) s)"
    using assms i unfolding SplitHostPort_def Let_def by (auto split: option.splits if_splits)
  ultimately show "set port \<inter> {CHR '':'', CHR ''['', CHR '']''} = {}" using LastIndex_rest [OF i] by auto
qed

lemma SplitHostPort_Join:
  assumes "set host \<inter> {CHR ''['', CHR '']''} = {}" and "set port \<inter> {CHR '':'', CHR ''['', CHR '']''} = {}"
  shows "SplitHostPort (JoinHostPort host port) = Some (host, port)"
proof (cases "CHR '':'' \<in> set host")
  case True
  have "LastIndex ((CHR ''['' # host @ [CHR '']'']) @ CHR '':'' # port) (CHR '':'') = Some (length (CHR ''['' # host @ [CHR '']'']))"
    using assms by (intro LastIndex_append) auto
  moreover have "Index ((CHR ''['' # host) @ CHR '']'' # CHR '':'' # port) (CHR '']'') = Some (length (CHR ''['' # host))"
    using assms by (intro Index_append) auto
  ultimately show ?thesis using True assms by (simp add: SplitHostPort_def JoinHostPort_def)
next
  case False
  have "LastIndex (host @ CHR '':'' # port) (CHR '':'') = Some (length host)"
    using assms by (intro LastIndex_append) auto
  moreover have "\<not> prefix ''['' (host @ '':'' @ port)" using assms by (cases host) auto
  ultimately show ?thesis using False assms by (auto simp: SplitHostPort_def JoinHostPort_def)
qed

lemma parse_digits_chars: "parse_digits a s = Some n \<Longrightarrow> c \<in> set s \<Longrightarrow> is_digit c"
  by (induction a s rule: parse_digits.induct) (auto split: if_splits)

lemma Atoi_chars: "Atoi s \<noteq> None \<Longrightarrow> c \<in> set s \<Longrightarrow> is_digit c \<or> c = CHR ''-'' \<or> c = CHR ''+''"
  by (auto simp: Atoi_def Let_def split: list.splits if_splits option.splits dest: parse_digits_chars)

lemma Atoi_no_separator: "Atoi s \<noteq> None \<Longrightarrow> set s \<inter> {CHR '':'', CHR ''['', CHR '']''} = {}"
proof -
  assume "Atoi s \<noteq> None"
  note chars = Atoi_chars [OF this]
  have "\<not> is_digit (CHR '':'')" "\<not> is_digit (CHR ''['')" "\<not> is_digit (CHR '']'')" by (simp_all add: is_digit_def)
  with chars [of "CHR '':''"] chars [of "CHR ''[''"] chars [of "CHR '']''"] show ?thesis by auto
qed

end
