(* ===== verification/Dso_Types.thy ===== *)
theory Dso_Types
  imports Dso_Prelude
begin

text \<open>
  The data of the operator: the Kubernetes objects it reads and writes, restricted to the
  fields the operator uses (every other field of an object is one opaque \<open>rest\<close> value, which
  the operator only copies), and the API types of \<^verbatim>\<open>api/v1alpha1\<close> with their two accessors
  \<open>GetResolvedSource\<close> and \<open>GetVaultObjectName\<close>.

  A Go pointer that may be nil is an \<open>option\<close>; a Go map used for lookups and updates is a
  partial map (a nil map and an empty map behave alike in every use); a map that is ranged
  over is an association list with distinct keys, in the order of one iteration. String
  enumerations stay strings, since the code also meets the empty and the unknown value.
\<close>

section \<open>Kubernetes objects\<close>

type_synonym labels = "string \<rightharpoonup> string"

record OwnerReference =
  or_apiVersion :: string
  or_kind :: string
  or_name :: string
  or_uid :: string
  or_controller :: bool

text \<open>A creation timestamp is a number of nanoseconds; \<open>None\<close> is the zero time.\<close>

record ObjectMeta =
  om_name :: string
  om_namespace :: string
  om_uid :: string
  om_labels :: labels
  om_annotations :: labels
  om_generation :: int
  om_resourceVersion :: string
  om_creationTimestamp :: "int option"
  om_deletionTimestamp :: "int option"
  om_ownerReferences :: "OwnerReference list"

definition empty_meta :: ObjectMeta where
  "empty_meta = \<lparr>om_name = '''', om_namespace = '''', om_uid = '''', om_labels = Map.empty,
     om_annotations = Map.empty, om_generation = 0, om_resourceVersion = '''',
     om_creationTimestamp = None, om_deletionTimestamp = None, om_ownerReferences = []\<rparr>"

text \<open>Pod templates (\<^verbatim>\<open>corev1.PodTemplateSpec\<close>).\<close>

record SecretVolumeSource =
  sv_secretName :: string
  sv_rest :: string

record Volume =
  vol_name :: string
  vol_secret :: "SecretVolumeSource option"
  vol_rest :: string

record SecretKeySelector =
  skr_name :: string
  skr_key :: string
  skr_rest :: string

record EnvVarSource =
  evs_secretKeyRef :: "SecretKeySelector option"
  evs_rest :: string

record EnvVar =
  env_name :: string
  env_value :: string
  env_valueFrom :: "EnvVarSource option"

record SecretEnvSource =
  ses_name :: string
  ses_rest :: string

record EnvFromSource =
  ef_secretRef :: "SecretEnvSource option"
  ef_rest :: string

record Container =
  ct_name :: string
  ct_env :: "EnvVar list"
  ct_envFrom :: "EnvFromSource list"
  ct_rest :: string

record PodSpec =
  ps_volumes :: "Volume list"
  ps_containers :: "Container list"
  ps_initContainers :: "Container list"
  ps_rest :: string

record PodTemplateSpec =
  pt_labels :: labels
  pt_annotations :: labels
  pt_spec :: PodSpec

text \<open>The workload kinds (Deployment, StatefulSet, DaemonSet, Argo Rollout) share the fields the
  operator uses; observed generation and phase are those of a Rollout's status.\<close>

record Workload =
  w_meta :: ObjectMeta
  w_replicas :: "int32 option"
  w_selector :: labels
  w_template :: PodTemplateSpec
  w_observedGeneration :: string
  w_phase :: string
  w_rest :: string

record Secret =
  s_meta :: ObjectMeta
  s_type :: string
  s_data :: "(string \<times> bytes) list"

record JobSpec =
  js_template :: PodTemplateSpec
  js_backoffLimit :: "int32 option"
  js_rest :: string

datatype ConditionStatus = ConditionTrue | ConditionFalse | ConditionUnknown

record JobCondition =
  jc_type :: string
  jc_status :: ConditionStatus
  jc_reason :: string
  jc_message :: string

record Job =
  j_meta :: ObjectMeta
  j_spec :: JobSpec
  j_conditions :: "JobCondition list"

record PodCondition =
  pc_type :: string
  pc_status :: ConditionStatus

record ContainerStatus =
  cs_restartCount :: int32
  cs_waiting :: "string option"

record Pod =
  pod_meta :: ObjectMeta
  pod_containers :: "string list"
  pod_phase :: string
  pod_podIP :: string
  pod_conditions :: "PodCondition list"
  pod_containerStatuses :: "ContainerStatus list"

text \<open>Network policies (\<^verbatim>\<open>networking.k8s.io/v1\<close>).\<close>

record LabelSelectorRequirement =
  lsr_key :: string
  lsr_operator :: string
  lsr_values :: "string list"

record LabelSelector =
  ls_matchLabels :: labels
  ls_matchExpressions :: "LabelSelectorRequirement list"

definition empty_selector :: LabelSelector where
  "empty_selector = \<lparr>ls_matchLabels = Map.empty, ls_matchExpressions = []\<rparr>"

record NetworkPolicyPeer =
  peer_podSelector :: "LabelSelector option"
  peer_namespaceSelector :: "LabelSelector option"
  peer_ipBlock :: "string option"

record NetworkPolicyPort =
  npp_protocol :: string
  npp_port :: int

record NetworkPolicyRule =
  npr_ports :: "NetworkPolicyPort list"
  npr_peers :: "NetworkPolicyPeer list"

record NetworkPolicyObj =
  net_meta :: ObjectMeta
  net_podSelector :: LabelSelector
  net_policyTypes :: "string list"
  net_ingress :: "NetworkPolicyRule list"
  net_egress :: "NetworkPolicyRule list"

text \<open>An unstructured object (\<^verbatim>\<open>unstructured.Unstructured\<close>): a JSON-like tree.\<close>

datatype json =
    JNull
  | JBool bool
  | JNum string
  | JStr string
  | JArr "json list"
  | JObj "(string \<times> json) list"

text \<open>Argo CD applications, with the ignore rules the operator maintains.\<close>

record ResourceIgnoreDifferences =
  rid_group :: string
  rid_kind :: string
  rid_jsonPointers :: "string list"
  rid_jqPathExpressions :: "string list"
  rid_rest :: string

record Application =
  app_meta :: ObjectMeta
  app_ignoreDifferences :: "ResourceIgnoreDifferences list"
  app_rest :: string

text \<open>A status condition (\<^verbatim>\<open>metav1.Condition\<close>) without its transition time, which the operator
  neither sets nor reads.\<close>

record Condition =
  c_type :: string
  c_status :: ConditionStatus
  c_reason :: string
  c_message :: text_msg

section \<open>The API group dso.quantumsys.dev/v1alpha1\<close>

abbreviation VaultObjectTypeSecret :: string where "VaultObjectTypeSecret \<equiv> ''Secret''"
abbreviation VaultObjectTypeCertificate :: string where "VaultObjectTypeCertificate \<equiv> ''Certificate''"
abbreviation VaultObjectTypeKey :: string where "VaultObjectTypeKey \<equiv> ''Key''"

abbreviation ProbeTypeTLS :: string where "ProbeTypeTLS \<equiv> ''TLS''"
abbreviation ProbeTypePostgreSQL :: string where "ProbeTypePostgreSQL \<equiv> ''PostgreSQL''"
abbreviation ProbeTypeMySQL :: string where "ProbeTypeMySQL \<equiv> ''MySQL''"
abbreviation ProbeTypeHTTP :: string where "ProbeTypeHTTP \<equiv> ''HTTP''"
abbreviation ProbeTypeJob :: string where "ProbeTypeJob \<equiv> ''Job''"

abbreviation SourceTypeAzureKeyVault :: string where "SourceTypeAzureKeyVault \<equiv> ''AzureKeyVault''"
abbreviation SourceTypeK8sSecret :: string where "SourceTypeK8sSecret \<equiv> ''K8sSecret''"
abbreviation SourceTypeAWSSecretsManager :: string where "SourceTypeAWSSecretsManager \<equiv> ''AWSSecretsManager''"
abbreviation SourceTypeGCPSecretManager :: string where "SourceTypeGCPSecretManager \<equiv> ''GCPSecretManager''"
abbreviation SourceTypeVault :: string where "SourceTypeVault \<equiv> ''Vault''"

record AzureKeyVaultSource =
  akv_KeyVaultURI :: string
  akv_ObjectName :: string
  akv_ObjectType :: string

record K8sSecretSource =
  k8s_Name :: string

record AWSSecretsManagerSource =
  aws_SecretID :: string
  aws_Region :: string

record GCPSecretManagerSource =
  gcp_SecretID :: string

record VaultSource =
  vault_Path :: string

record SecretSource =
  src_Type :: string
  src_ParseJSON :: bool
  src_AzureKeyVault :: "AzureKeyVaultSource option"
  src_K8sSecret :: "K8sSecretSource option"
  src_AWSSecretsManager :: "AWSSecretsManagerSource option"
  src_GCPSecretManager :: "GCPSecretManagerSource option"
  src_Vault :: "VaultSource option"

text \<open>The zero value \<^verbatim>\<open>SecretSource{}\<close>.\<close>

definition zero_source :: SecretSource where
  "zero_source = \<lparr>src_Type = '''', src_ParseJSON = False, src_AzureKeyVault = None, src_K8sSecret = None,
     src_AWSSecretsManager = None, src_GCPSecretManager = None, src_Vault = None\<rparr>"

abbreviation NetworkPolicyProviderStandard :: string where "NetworkPolicyProviderStandard \<equiv> ''Standard''"
abbreviation NetworkPolicyProviderCilium :: string where "NetworkPolicyProviderCilium \<equiv> ''Cilium''"

record NetworkPolicySpec =
  np_Provider :: string

record VaultReference =
  vr_KeyVaultURI :: string
  vr_ObjectName :: string
  vr_ObjectType :: string

record WorkloadSelector =
  ws_Kind :: string
  ws_Name :: string

record CanaryStrategy =
  canary_TimeoutSeconds :: int32

record ProbeCredentials =
  cred_PasswordKey :: string
  cred_UsernameKey :: string
  cred_DatabaseKey :: string

record JobProbeSpec =
  jp_TimeoutSeconds :: "int32 option"
  jp_JobTemplate :: JobSpec

record ValidationProbe =
  vp_Type :: string
  vp_Endpoint :: string
  vp_QueryTimeout :: int32
  vp_Credentials :: "ProbeCredentials option"
  vp_Job :: "JobProbeSpec option"

record RollbackConfig =
  rb_AutoRollback :: bool
  rb_CircuitBreakerThreshold :: int32

record TargetRef =
  tr_VolumeName :: string
  tr_EnvName :: string
  tr_ContainerName :: string

record DynamicSecretPolicySpec =
  spec_Source :: "SecretSource option"
  spec_VaultRef :: VaultReference
  spec_NetworkPolicy :: "NetworkPolicySpec option"
  spec_WorkloadSelector :: WorkloadSelector
  spec_CanaryStrategy :: "CanaryStrategy option"
  spec_ValidationProbes :: "ValidationProbe list"
  spec_RollbackConfig :: "RollbackConfig option"
  spec_TargetRef :: "TargetRef option"

record DynamicSecretPolicyStatus =
  CurrentRevision :: string
  DesiredRevision :: string
  ConsecutiveFailures :: int32
  Conditions :: "Condition list"

record DynamicSecretPolicy =
  p_meta :: ObjectMeta
  p_spec :: DynamicSecretPolicySpec
  p_status :: DynamicSecretPolicyStatus

abbreviation pol_name :: "DynamicSecretPolicy \<Rightarrow> string" where
  "pol_name p \<equiv> om_name (p_meta p)"

abbreviation pol_namespace :: "DynamicSecretPolicy \<Rightarrow> string" where
  "pol_namespace p \<equiv> om_namespace (p_meta p)"

abbreviation target_name :: "DynamicSecretPolicy \<Rightarrow> string" where
  "target_name p \<equiv> ws_Name (spec_WorkloadSelector (p_spec p))"

text \<open>\<open>GetResolvedSource\<close> returns the active source, synthesised from the legacy reference if needed.\<close>

definition GetResolvedSource :: "DynamicSecretPolicySpec \<Rightarrow> SecretSource" where
  "GetResolvedSource s =
     (case spec_Source s of
        Some src \<Rightarrow> src
      | None \<Rightarrow>
          if vr_KeyVaultURI (spec_VaultRef s) \<noteq> '''' \<or> vr_ObjectName (spec_VaultRef s) \<noteq> '''' then
            (let objType = (if vr_ObjectType (spec_VaultRef s) = '''' then VaultObjectTypeSecret
                            else vr_ObjectType (spec_VaultRef s))
             in zero_source\<lparr>src_Type := SourceTypeAzureKeyVault,
                  src_AzureKeyVault := Some \<lparr>akv_KeyVaultURI = vr_KeyVaultURI (spec_VaultRef s),
                    akv_ObjectName = vr_ObjectName (spec_VaultRef s), akv_ObjectType = objType\<rparr>\<rparr>)
          else zero_source)"

text \<open>The switch of \<open>GetVaultObjectName\<close> on the source type: \<open>None\<close> falls through to its end.\<close>

definition source_object_name :: "SecretSource \<Rightarrow> string option" where
  "source_object_name src =
     (if src_Type src = SourceTypeAzureKeyVault then map_option akv_ObjectName (src_AzureKeyVault src)
      else if src_Type src = SourceTypeK8sSecret then map_option k8s_Name (src_K8sSecret src)
      else if src_Type src = SourceTypeAWSSecretsManager then map_option aws_SecretID (src_AWSSecretsManager src)
      else if src_Type src = SourceTypeGCPSecretManager then map_option gcp_SecretID (src_GCPSecretManager src)
      else if src_Type src = SourceTypeVault then map_option vault_Path (src_Vault src)
      else None)"

definition GetVaultObjectName :: "DynamicSecretPolicySpec \<Rightarrow> string" where
  "GetVaultObjectName s =
     (case source_object_name (GetResolvedSource s) of
        Some n \<Rightarrow> n
      | None \<Rightarrow> if vr_ObjectName (spec_VaultRef s) \<noteq> '''' then vr_ObjectName (spec_VaultRef s)
                else ''secret'')"

text \<open>The name \<^verbatim>\<open>fmt.Sprintf("%s-%s-rev-%s", target, object, revision)\<close> of a materialised revision.\<close>

definition revisionSecretName :: "string \<Rightarrow> string \<Rightarrow> string \<Rightarrow> string" where
  "revisionSecretName target obj revision = target @ ''-'' @ obj @ ''-rev-'' @ revision"

definition desiredSecretName :: "DynamicSecretPolicy \<Rightarrow> string" where
  "desiredSecretName p =
     revisionSecretName (target_name p) (GetVaultObjectName (p_spec p)) (DesiredRevision (p_status p))"

section \<open>Lemmas\<close>

lemma GetResolvedSource_source: "spec_Source s = Some src \<Longrightarrow> GetResolvedSource s = src"
  by (simp add: GetResolvedSource_def)

text \<open>Without a source, the object name is the one the legacy reference carries.\<close>

lemma GetVaultObjectName_legacy:
  "spec_Source s = None \<Longrightarrow> vr_ObjectName (spec_VaultRef s) \<noteq> '''' \<Longrightarrow>
   GetVaultObjectName s = vr_ObjectName (spec_VaultRef s)"
  by (simp add: GetVaultObjectName_def GetResolvedSource_def source_object_name_def zero_source_def)

lemma revisionSecretName_inject:
  "revisionSecretName t n r = revisionSecretName t n r' \<longleftrightarrow> r = r'"
  by (simp add: revisionSecretName_def)

end
