(* ===== verification/Dso_Effects.thy ===== *)
theory Dso_Effects
  imports Dso_Prelude
begin

text \<open>
  Computations with effects. The environment (cluster, vaults, network, clock) is a state
  \<open>'w\<close> about which the development assumes nothing: each external function is a parameter
  \<open>'w \<Rightarrow> result \<times> 'w\<close>. The system state pairs it with the trace of the externally visible
  actions taken so far. \<open>spec\<close> is the specification triple of the development: it quantifies
  over every starting state, hence over every behaviour of the environment.
\<close>

record ('w, 'e) sys =
  world :: 'w
  trace :: "'e list"

type_synonym ('w, 'e, 'a) eff = "(('w, 'e) sys, 'a) state"

text \<open>Reading from the environment: the reply is arbitrary, nothing is recorded.\<close>

definition query :: "('w \<Rightarrow> 'r \<times> 'w) \<Rightarrow> ('w, 'e, 'r) eff" where
  "query f = State (\<lambda>s. case f (world s) of (r, w) \<Rightarrow> (r, s\<lparr>world := w\<rparr>))"

text \<open>An action on the environment: it is recorded together with the reply.\<close>

definition call :: "('w \<Rightarrow> 'r \<times> 'w) \<Rightarrow> ('r \<Rightarrow> 'e) \<Rightarrow> ('w, 'e, 'r) eff" where
  "call f ev = State (\<lambda>s. case f (world s) of (r, w) \<Rightarrow> (r, s\<lparr>world := w, trace := trace s @ [ev r]\<rparr>))"

definition emit :: "'e \<Rightarrow> ('w, 'e, unit) eff" where
  "emit e = State (\<lambda>s. ((), s\<lparr>trace := trace s @ [e]\<rparr>))"

abbreviation ret :: "'a \<Rightarrow> ('w, 'e, 'a) eff" where
  "ret \<equiv> State_Monad.return"

text \<open>A loop over a slice that runs its body for every element.\<close>

fun for_each :: "'a list \<Rightarrow> ('a \<Rightarrow> ('w, 'e, unit) eff) \<Rightarrow> ('w, 'e, unit) eff" where
  "for_each [] body = ret ()"
| "for_each (x # xs) body = do { body x; for_each xs body }"

section \<open>Specification triples\<close>

definition spec :: "('w, 'e, 'a) eff \<Rightarrow> ('a \<Rightarrow> 'e list \<Rightarrow> bool) \<Rightarrow> bool" where
  "spec m Q \<longleftrightarrow>
     (\<forall>s. \<exists>es. trace (snd (run_state m s)) = trace s @ es \<and> Q (fst (run_state m s)) es)"

lemma specI:
  assumes "\<And>s r s'. run_state m s = (r, s') \<Longrightarrow> \<exists>es. trace s' = trace s @ es \<and> Q r es"
  shows "spec m Q"
  unfolding spec_def using assms by (metis prod.collapse)

lemma specD:
  assumes "spec m Q" and "run_state m s = (r, s')"
  obtains es where "trace s' = trace s @ es" and "Q r es"
  using assms unfolding spec_def by (metis fst_conv snd_conv)

text \<open>The form in which properties use a triple: the events of one run.\<close>

definition events_of :: "('w, 'e, 'a) eff \<Rightarrow> ('w, 'e) sys \<Rightarrow> 'e list" where
  "events_of m s = drop (length (trace s)) (trace (snd (run_state m s)))"

definition result_of :: "('w, 'e, 'a) eff \<Rightarrow> ('w, 'e) sys \<Rightarrow> 'a" where
  "result_of m s = fst (run_state m s)"

lemma spec_events: "spec m Q \<Longrightarrow> Q (result_of m s) (events_of m s)"
  unfolding spec_def events_of_def result_of_def by (metis append_eq_conv_conj)

lemma run_bind_ret:
  assumes "f (result_of m s) = ret y"
  shows "result_of (State_Monad.bind m f) s = y" and "events_of (State_Monad.bind m f) s = events_of m s"
  using assms by (simp_all add: result_of_def events_of_def split_beta)

lemma spec_mono: "spec m Q \<Longrightarrow> (\<And>r es. Q r es \<Longrightarrow> R r es) \<Longrightarrow> spec m R"
  unfolding spec_def by blast

lemma spec_conj: "spec m Q \<Longrightarrow> spec m R \<Longrightarrow> spec m (\<lambda>r es. Q r es \<and> R r es)"
  unfolding spec_def by (metis same_append_eq)

lemma spec_result: "spec m Q \<Longrightarrow> spec m (\<lambda>r es. Q r es \<and> (\<exists>s. result_of m s = r))"
  unfolding spec_def result_of_def by blast

lemma spec_ret [spec_rules]: "Q x [] \<Longrightarrow> spec (ret x) Q"
  unfolding spec_def by simp

lemma spec_bind [spec_rules]:
  assumes "spec m (\<lambda>r es. spec (f r) (\<lambda>r' es'. Q r' (es @ es')))"
  shows "spec (State_Monad.bind m f) Q"
proof (rule specI)
  fix s r s' assume run: "run_state (State_Monad.bind m f) s = (r, s')"
  obtain x t where x: "run_state m s = (x, t)" by fastforce
  from specD [OF assms x] obtain es
    where es: "trace t = trace s @ es" and f: "spec (f x) (\<lambda>r' es'. Q r' (es @ es'))" .
  from run x have "run_state (f x) t = (r, s')" by simp
  from specD [OF f this] es show "\<exists>es. trace s' = trace s @ es \<and> Q r es" by auto
qed

lemma spec_query [spec_rules]: "(\<And>r. Q r []) \<Longrightarrow> spec (query f) Q"
  unfolding spec_def query_def by (auto split: prod.splits)

lemma spec_query_reply: "(\<And>w r w'. f w = (r, w') \<Longrightarrow> Q r []) \<Longrightarrow> spec (query f) Q"
  unfolding spec_def query_def by (auto split: prod.splits)

lemma spec_call [spec_rules]: "(\<And>r. Q r [ev r]) \<Longrightarrow> spec (call f ev) Q"
  unfolding spec_def call_def by (auto split: prod.splits)

lemma spec_call_reply: "(\<And>w r w'. f w = (r, w') \<Longrightarrow> Q r [ev r]) \<Longrightarrow> spec (call f ev) Q"
  unfolding spec_def call_def by (auto split: prod.splits)

lemma spec_emit [spec_rules]: "Q () [e] \<Longrightarrow> spec (emit e) Q"
  unfolding spec_def emit_def by auto

lemma spec_if [spec_rules]:
  "(b \<Longrightarrow> spec m Q) \<Longrightarrow> (\<not> b \<Longrightarrow> spec n Q) \<Longrightarrow> spec (if b then m else n) Q"
  by simp

lemma spec_case_sum [spec_rules]:
  "(\<And>e. x = Inl e \<Longrightarrow> spec (f e) Q) \<Longrightarrow> (\<And>a. x = Inr a \<Longrightarrow> spec (g a) Q) \<Longrightarrow>
   spec (case x of Inl e \<Rightarrow> f e | Inr a \<Rightarrow> g a) Q"
  by (cases x) auto

lemma spec_case_option [spec_rules]:
  "(x = None \<Longrightarrow> spec m Q) \<Longrightarrow> (\<And>a. x = Some a \<Longrightarrow> spec (g a) Q) \<Longrightarrow>
   spec (case x of None \<Rightarrow> m | Some a \<Rightarrow> g a) Q"
  by (cases x) auto

lemma spec_case_prod [spec_rules]:
  "(\<And>a b. x = (a, b) \<Longrightarrow> spec (g a b) Q) \<Longrightarrow> spec (case x of (a, b) \<Rightarrow> g a b) Q"
  by (cases x) auto

lemma spec_let [spec_rules]: "(\<And>x. x = a \<Longrightarrow> spec (f x) Q) \<Longrightarrow> spec (let x = a in f x) Q"
  by simp

text \<open>Triples about the events only: every event satisfies \<open>P\<close>.\<close>

abbreviation emits_only :: "('e \<Rightarrow> bool) \<Rightarrow> ('w, 'e, 'a) eff \<Rightarrow> bool" where
  "emits_only P m \<equiv> spec m (\<lambda>_ es. list_all P es)"

lemma emits_only_mono: "emits_only P m \<Longrightarrow> (\<And>e. P e \<Longrightarrow> R e) \<Longrightarrow> emits_only R m"
  by (erule spec_mono) (auto simp: list_all_iff)

lemma emits_only_bind:
  assumes "emits_only P m" and "\<And>x. emits_only P (f x)"
  shows "emits_only P (State_Monad.bind m f)"
  by (rule spec_bind, rule spec_mono [OF assms(1)], rule spec_mono [OF assms(2)]) simp

lemma emits_only_for_each:
  assumes "\<And>x. x \<in> set xs \<Longrightarrow> emits_only P (body x)"
  shows "emits_only P (for_each xs body)"
  using assms
  by (induction xs) (auto intro!: spec_ret emits_only_bind)

text \<open>A silent computation appends no event.\<close>

abbreviation silent :: "('w, 'e, 'a) eff \<Rightarrow> bool" where
  "silent m \<equiv> spec m (\<lambda>_ es. es = [])"

lemma spec_silent: "silent m \<Longrightarrow> (\<And>r. Q r []) \<Longrightarrow> spec m Q"
  by (erule spec_mono) simp

end
