(* ===== verification/Dso_Env.thy ===== *)
theory Dso_Env
  imports Dso_Types Dso_Effects
begin

text \<open>
  The environment of the operator: everything it calls that is not its own code, as parameters.

  \<^item> \<open>Client\<close>: the controller-runtime client and the API server behind it. Each function takes
    the environment state and returns a reply and the next state, so a reply may be any error
    and any object at any time.
  \<^item> \<open>Libs\<close>: pure functions of Kubernetes libraries: the condition helpers of
    \<^verbatim>\<open>apimachinery/pkg/api/meta\<close>, \<^verbatim>\<open>controllerutil.SetControllerReference\<close>, the number of attempts of
    \<^verbatim>\<open>retry.DefaultRetry\<close>. What the operator relies on of the condition helpers is \<open>meta_laws\<close>.
  \<^item> \<open>Net\<close>: the clock, name resolution, address and URL parsing of packages \<^verbatim>\<open>net\<close> and
    \<^verbatim>\<open>net/url\<close>, pod logs, environment variables, and the decoders of \<^verbatim>\<open>encoding/json\<close> (into a
    map of values) and \<^verbatim>\<open>encoding/pem\<close>.
  \<^item> \<open>Wire\<close>: the connections of the probes (HTTP, TLS, SQL) and the rendering of errors and times.

  The externally visible actions are the constructors of \<open>event\<close>, each with the error the
  environment replied, if any.
\<close>

section \<open>Events\<close>

datatype event =
    ECreateSecret Secret "err option"
  | ECreateDeployment Workload "err option"
  | ECreateNetworkPolicy NetworkPolicyObj "err option"
  | ECreateCilium json "err option"
  | ECreateJob Job "err option"
  | EPatchWorkload string Workload Workload "err option"
  | EPatchStatus DynamicSecretPolicy DynamicSecretPolicy "err option"
  | EUpdateApplication Application "err option"
  | EDeleteSecret Secret "err option"
  | EDeleteDeployment string string "err option"
  | EDeleteNetworkPolicy string string "err option"
  | EDeleteCilium string string "err option"
  | EDeleteJob Job "err option"
  | EHttpGet bool string
  | ETlsDial bool string
  | ESqlOpen string string
  | ERunProbe ValidationProbe "err option"
  | EMaterialized string string "err option"
  | EMetric string "string list"

section \<open>Parameters\<close>

record 'w Client =
  cl_getPolicy :: "string \<Rightarrow> string \<Rightarrow> 'w \<Rightarrow> (err + DynamicSecretPolicy) \<times> 'w"
  cl_getSecret :: "string \<Rightarrow> string \<Rightarrow> 'w \<Rightarrow> (err + Secret) \<times> 'w"
  cl_getWorkload :: "string \<Rightarrow> string \<Rightarrow> string \<Rightarrow> 'w \<Rightarrow> (err + Workload) \<times> 'w"
  cl_getJob :: "string \<Rightarrow> string \<Rightarrow> 'w \<Rightarrow> (err + Job) \<times> 'w"
  cl_getApplication :: "string \<Rightarrow> string \<Rightarrow> 'w \<Rightarrow> (err + Application) \<times> 'w"
  cl_listSecrets :: "string \<Rightarrow> (string \<times> string) list \<Rightarrow> 'w \<Rightarrow> (err + Secret list) \<times> 'w"
  cl_listPods :: "string \<Rightarrow> (string \<times> string) list \<Rightarrow> 'w \<Rightarrow> (err + Pod list) \<times> 'w"
  cl_listJobs :: "string \<Rightarrow> (string \<times> string) list \<Rightarrow> 'w \<Rightarrow> (err + Job list) \<times> 'w"
  cl_listPolicies :: "string option \<Rightarrow> 'w \<Rightarrow> (err + DynamicSecretPolicy list) \<times> 'w"
  cl_listApplications :: "'w \<Rightarrow> (err + Application list) \<times> 'w"
  cl_createSecret :: "Secret \<Rightarrow> 'w \<Rightarrow> err option \<times> 'w"
  cl_createDeployment :: "Workload \<Rightarrow> 'w \<Rightarrow> err option \<times> 'w"
  cl_createNetworkPolicy :: "NetworkPolicyObj \<Rightarrow> 'w \<Rightarrow> err option \<times> 'w"
  cl_createCilium :: "json \<Rightarrow> 'w \<Rightarrow> err option \<times> 'w"
  cl_createJob :: "Job \<Rightarrow> 'w \<Rightarrow> err option \<times> 'w"
  cl_patchWorkload :: "string \<Rightarrow> Workload \<Rightarrow> Workload \<Rightarrow> 'w \<Rightarrow> err option \<times> 'w"
  cl_patchStatus :: "DynamicSecretPolicy \<Rightarrow> DynamicSecretPolicy \<Rightarrow> 'w \<Rightarrow> (err + DynamicSecretPolicy) \<times> 'w"
  cl_updateApplication :: "Application \<Rightarrow> 'w \<Rightarrow> err option \<times> 'w"
  cl_deleteSecret :: "Secret \<Rightarrow> 'w \<Rightarrow> err option \<times> 'w"
  cl_deleteDeployment :: "string \<Rightarrow> string \<Rightarrow> 'w \<Rightarrow> err option \<times> 'w"
  cl_deleteNetworkPolicy :: "string \<Rightarrow> string \<Rightarrow> 'w \<Rightarrow> err option \<times> 'w"
  cl_deleteCilium :: "string \<Rightarrow> string \<Rightarrow> 'w \<Rightarrow> err option \<times> 'w"
  cl_deleteJob :: "Job \<Rightarrow> 'w \<Rightarrow> err option \<times> 'w"

record Libs =
  SetStatusCondition :: "Condition list \<Rightarrow> Condition \<Rightarrow> Condition list"
  RemoveStatusCondition :: "Condition list \<Rightarrow> string \<Rightarrow> Condition list"
  FindStatusCondition :: "Condition list \<Rightarrow> string \<Rightarrow> Condition option"
  IsStatusConditionTrue :: "Condition list \<Rightarrow> string \<Rightarrow> bool"
  SetControllerReference :: "DynamicSecretPolicy \<Rightarrow> ObjectMeta \<Rightarrow> err + ObjectMeta"
  DefaultRetrySteps :: nat

text \<open>A parsed URL, with the parts the operator reads and writes; rendering it is \<open>net_urlString\<close>.\<close>

record URL =
  url_scheme :: string
  url_host :: string
  url_hostname :: string
  url_port :: string
  url_rest :: string

text \<open>A PEM block: its type, its decoded bytes, and its headers.\<close>

record PemBlock =
  pem_type :: string
  pem_bytes :: bytes
  pem_rest :: string

text \<open>The fields of an X.509 certificate that the operator reads; times are nanoseconds.\<close>

record Certificate =
  crt_NotBefore :: int
  crt_NotAfter :: int
  crt_Raw :: bytes

record 'w Net =
  net_now :: "'w \<Rightarrow> int \<times> 'w"
  net_lookupIPAddr :: "string \<Rightarrow> 'w \<Rightarrow> (err + string list) \<times> 'w"
  net_urlParse :: "string \<Rightarrow> URL option"
  net_urlString :: "URL \<Rightarrow> string"
  net_parseCIDR :: "string \<Rightarrow> string option"
  net_parseIP :: "string \<Rightarrow> string option"
  net_isIPv4 :: "string \<Rightarrow> bool"
  net_getLogs :: "string \<Rightarrow> string \<Rightarrow> string \<Rightarrow> nat \<Rightarrow> 'w \<Rightarrow> (err + (err + string)) \<times> 'w"
  net_getenv :: "string \<Rightarrow> string"
  net_jsonUnmarshal :: "bytes \<Rightarrow> err + (string \<times> json) list"
  net_jsonMarshal :: "json \<Rightarrow> err + bytes"
  net_pemDecode :: "bytes \<Rightarrow> (PemBlock \<times> bytes) option"
  net_pemEncode :: "PemBlock \<Rightarrow> bytes"

text \<open>What the probes use of \<^verbatim>\<open>net/http\<close>, \<^verbatim>\<open>crypto/tls\<close> and \<^verbatim>\<open>database/sql\<close>: a request answers a status
  code, a TLS dial answers the peer certificates (\<open>None\<close>: not a TLS connection), a database handle is
  named by its driver and data source. The flag of the first two is \<^verbatim>\<open>InsecureSkipVerify\<close>.\<close>

record 'w Wire =
  wi_newRequest :: "string \<Rightarrow> err option"
  wi_httpDo :: "bool \<Rightarrow> string \<Rightarrow> 'w \<Rightarrow> (err + int) \<times> 'w"
  wi_tlsDial :: "bool \<Rightarrow> string \<Rightarrow> 'w \<Rightarrow> (err + Certificate list option) \<times> 'w"
  wi_sqlOpen :: "string \<Rightarrow> string \<Rightarrow> 'w \<Rightarrow> err option \<times> 'w"
  wi_sqlPing :: "string \<Rightarrow> string \<Rightarrow> 'w \<Rightarrow> err option \<times> 'w"
  wi_sqlQueryRow :: "string \<Rightarrow> string \<Rightarrow> string \<Rightarrow> 'w \<Rightarrow> err option \<times> 'w"
  wi_errText :: "err \<Rightarrow> string"
  wi_rfc3339 :: "int \<Rightarrow> string"

record 'w env =
  client :: "'w Client"
  libs :: Libs
  net :: "'w Net"
  wire :: "'w Wire"

section \<open>The recorded actions\<close>

type_synonym ('w, 'a) dso = "('w, event, 'a) eff"

definition createSecret :: "'w env \<Rightarrow> Secret \<Rightarrow> ('w, err option) dso" where
  "createSecret E s = call (cl_createSecret (client E) s) (ECreateSecret s)"

definition createDeployment :: "'w env \<Rightarrow> Workload \<Rightarrow> ('w, err option) dso" where
  "createDeployment E d = call (cl_createDeployment (client E) d) (ECreateDeployment d)"

definition createNetworkPolicy :: "'w env \<Rightarrow> NetworkPolicyObj \<Rightarrow> ('w, err option) dso" where
  "createNetworkPolicy E n = call (cl_createNetworkPolicy (client E) n) (ECreateNetworkPolicy n)"

definition createCilium :: "'w env \<Rightarrow> json \<Rightarrow> ('w, err option) dso" where
  "createCilium E u = call (cl_createCilium (client E) u) (ECreateCilium u)"

definition createJob :: "'w env \<Rightarrow> Job \<Rightarrow> ('w, err option) dso" where
  "createJob E j = call (cl_createJob (client E) j) (ECreateJob j)"

definition patchWorkload :: "'w env \<Rightarrow> string \<Rightarrow> Workload \<Rightarrow> Workload \<Rightarrow> ('w, err option) dso" where
  "patchWorkload E kind old new = call (cl_patchWorkload (client E) kind old new) (EPatchWorkload kind old new)"

definition err_of :: "err + 'a \<Rightarrow> err option" where
  "err_of r = (case r of Inl e \<Rightarrow> Some e | Inr _ \<Rightarrow> None)"

definition patchStatus ::
  "'w env \<Rightarrow> DynamicSecretPolicy \<Rightarrow> DynamicSecretPolicy \<Rightarrow> ('w, err + DynamicSecretPolicy) dso" where
  "patchStatus E old new =
     call (cl_patchStatus (client E) old new) (\<lambda>r. EPatchStatus old new (err_of r))"

definition updateApplication :: "'w env \<Rightarrow> Application \<Rightarrow> ('w, err option) dso" where
  "updateApplication E a = call (cl_updateApplication (client E) a) (EUpdateApplication a)"

definition deleteSecret :: "'w env \<Rightarrow> Secret \<Rightarrow> ('w, err option) dso" where
  "deleteSecret E s = call (cl_deleteSecret (client E) s) (EDeleteSecret s)"

definition deleteDeployment :: "'w env \<Rightarrow> string \<Rightarrow> string \<Rightarrow> ('w, err option) dso" where
  "deleteDeployment E ns n = call (cl_deleteDeployment (client E) ns n) (EDeleteDeployment ns n)"

definition deleteNetworkPolicy :: "'w env \<Rightarrow> string \<Rightarrow> string \<Rightarrow> ('w, err option) dso" where
  "deleteNetworkPolicy E ns n = call (cl_deleteNetworkPolicy (client E) ns n) (EDeleteNetworkPolicy ns n)"

definition deleteCilium :: "'w env \<Rightarrow> string \<Rightarrow> string \<Rightarrow> ('w, err option) dso" where
  "deleteCilium E ns n = call (cl_deleteCilium (client E) ns n) (EDeleteCilium ns n)"

definition deleteJob :: "'w env \<Rightarrow> Job \<Rightarrow> ('w, err option) dso" where
  "deleteJob E j = call (cl_deleteJob (client E) j) (EDeleteJob j)"

lemmas action_defs =
  createSecret_def createDeployment_def createNetworkPolicy_def createCilium_def createJob_def
  patchWorkload_def patchStatus_def updateApplication_def deleteSecret_def deleteDeployment_def
  deleteNetworkPolicy_def deleteCilium_def deleteJob_def

section \<open>What the operator relies on of the condition helpers\<close>

text \<open>
  The documented behaviour of \<^verbatim>\<open>apimachinery/pkg/api/meta\<close>: \<open>FindStatusCondition\<close> finds the
  condition of a type; \<open>IsStatusConditionTrue\<close> holds when it is present with status true;
  \<open>SetStatusCondition\<close> adds or updates the condition of the new one's type and keeps the others;
  \<open>RemoveStatusCondition\<close> removes the condition of a type and keeps the others.
\<close>

definition meta_laws :: "Libs \<Rightarrow> bool" where
  "meta_laws L \<longleftrightarrow>
     (\<forall>cs t. FindStatusCondition L cs t = find (\<lambda>c. c_type c = t) cs) \<and>
     (\<forall>cs t. IsStatusConditionTrue L cs t \<longleftrightarrow>
        (\<exists>c. FindStatusCondition L cs t = Some c \<and> c_status c = ConditionTrue)) \<and>
     (\<forall>cs c. FindStatusCondition L (SetStatusCondition L cs c) (c_type c) = Some c) \<and>
     (\<forall>cs c t. t \<noteq> c_type c \<longrightarrow>
        FindStatusCondition L (SetStatusCondition L cs c) t = FindStatusCondition L cs t) \<and>
     (\<forall>cs t. FindStatusCondition L (RemoveStatusCondition L cs t) t = None) \<and>
     (\<forall>cs t t'. t' \<noteq> t \<longrightarrow>
        FindStatusCondition L (RemoveStatusCondition L cs t) t' = FindStatusCondition L cs t')"

text \<open>A list implementation of the helpers, which shows that the laws can hold.\<close>

fun set_condition :: "Condition list \<Rightarrow> Condition \<Rightarrow> Condition list" where
  "set_condition [] c = [c]"
| "set_condition (x # xs) c = (if c_type x = c_type c then c # xs else x # set_condition xs c)"

definition remove_condition :: "Condition list \<Rightarrow> string \<Rightarrow> Condition list" where
  "remove_condition cs t = filter (\<lambda>c. c_type c \<noteq> t) cs"

definition find_condition :: "Condition list \<Rightarrow> string \<Rightarrow> Condition option" where
  "find_condition cs t = find (\<lambda>c. c_type c = t) cs"

definition condition_true :: "Condition list \<Rightarrow> string \<Rightarrow> bool" where
  "condition_true cs t = (case find_condition cs t of None \<Rightarrow> False | Some c \<Rightarrow> c_status c = ConditionTrue)"

definition list_libs :: Libs where
  "list_libs = \<lparr>SetStatusCondition = set_condition, RemoveStatusCondition = remove_condition,
     FindStatusCondition = find_condition, IsStatusConditionTrue = condition_true,
     SetControllerReference = (\<lambda>_ m. Inr m), DefaultRetrySteps = 5\<rparr>"

section \<open>Lemmas\<close>

lemma err_of_simps [simp]: "err_of (Inl e) = Some e" "err_of (Inr x) = None"
  by (simp_all add: err_of_def)

lemma find_set_condition:
  "find (\<lambda>x. c_type x = t) (set_condition cs c) =
     (if t = c_type c then Some c else find (\<lambda>x. c_type x = t) cs)"
  by (induction cs) auto

lemma find_remove_condition:
  "find (\<lambda>x. c_type x = t') (remove_condition cs t) =
     (if t' = t then None else find (\<lambda>x. c_type x = t') cs)"
  by (induction cs) (auto simp: remove_condition_def)

lemma meta_laws_list_libs: "meta_laws list_libs"
  unfolding meta_laws_def list_libs_def
  by (simp add: find_condition_def condition_true_def find_set_condition find_remove_condition
      split: option.splits)

lemma FindStatusCondition_list:
  "meta_laws L \<Longrightarrow> FindStatusCondition L cs t = find (\<lambda>c. c_type c = t) cs"
  by (simp add: meta_laws_def)

lemma IsStatusConditionTrue_iff:
  "meta_laws L \<Longrightarrow> IsStatusConditionTrue L cs t \<longleftrightarrow>
     (\<exists>c. FindStatusCondition L cs t = Some c \<and> c_status c = ConditionTrue)"
  by (simp add: meta_laws_def)

lemma Find_Set:
  "meta_laws L \<Longrightarrow> FindStatusCondition L (SetStatusCondition L cs c) t =
     (if t = c_type c then Some c else FindStatusCondition L cs t)"
  unfolding meta_laws_def by metis

lemma Find_Remove:
  "meta_laws L \<Longrightarrow> FindStatusCondition L (RemoveStatusCondition L cs t) t' =
     (if t' = t then None else FindStatusCondition L cs t')"
  unfolding meta_laws_def by metis

lemmas condition_laws = IsStatusConditionTrue_iff Find_Set Find_Remove

end
