(* ===== verification/Dso_Sample.thy ===== *)
theory Dso_Sample
  imports Dso_Env
begin

text \<open>
  One concrete policy, workload and environment, at which the properties of the development are
  instantiated: a policy of the legacy form that rotates the object \<^verbatim>\<open>db\<close> of the Deployment \<^verbatim>\<open>web\<close>,
  and an environment without state in which every write succeeds.
\<close>

definition sample_status :: DynamicSecretPolicyStatus where
  "sample_status = \<lparr>CurrentRevision = ''aaaaaaaaaaaa'', DesiredRevision = ''bbbbbbbbbbbb'', ConsecutiveFailures = 0,
     Conditions = [\<lparr>c_type = ''CanaryProvisioning'', c_status = ConditionTrue, c_reason = ''Provisioning'',
       c_message = ('''', [], None)\<rparr>]\<rparr>"

definition sample_probe :: ValidationProbe where
  "sample_probe = \<lparr>vp_Type = ProbeTypeMySQL, vp_Endpoint = ''10.0.0.5:3306'', vp_QueryTimeout = 5,
     vp_Credentials = None, vp_Job = None\<rparr>"

definition sample_spec :: DynamicSecretPolicySpec where
  "sample_spec = \<lparr>spec_Source = None,
     spec_VaultRef = \<lparr>vr_KeyVaultURI = ''https://kv'', vr_ObjectName = ''db'', vr_ObjectType = ''Secret''\<rparr>,
     spec_NetworkPolicy = None, spec_WorkloadSelector = \<lparr>ws_Kind = ''Deployment'', ws_Name = ''web''\<rparr>,
     spec_CanaryStrategy = None, spec_ValidationProbes = [sample_probe],
     spec_RollbackConfig = Some \<lparr>rb_AutoRollback = True, rb_CircuitBreakerThreshold = 2\<rparr>, spec_TargetRef = None\<rparr>"

definition sample_policy :: DynamicSecretPolicy where
  "sample_policy = \<lparr>p_meta = empty_meta\<lparr>om_name := ''web-policy'', om_namespace := ''prod''\<rparr>,
     p_spec = sample_spec, p_status = sample_status\<rparr>"

text \<open>The same policy with another condition, or in sync.\<close>

definition sample_in :: "string \<Rightarrow> DynamicSecretPolicy" where
  "sample_in t = sample_policy\<lparr>p_status := sample_status\<lparr>Conditions :=
     [\<lparr>c_type = t, c_status = ConditionTrue, c_reason = ''Sample'', c_message = ('''', [], None)\<rparr>]\<rparr>\<rparr>"

definition sample_volume :: "string \<Rightarrow> Volume" where
  "sample_volume s = \<lparr>vol_name = ''creds'', vol_secret = Some \<lparr>sv_secretName = s, sv_rest = ''''\<rparr>, vol_rest = ''''\<rparr>"

definition sample_env_var :: "string \<Rightarrow> string \<Rightarrow> EnvVar" where
  "sample_env_var s k = \<lparr>env_name = ''DB_PASSWORD'', env_value = '''',
     env_valueFrom = Some \<lparr>evs_secretKeyRef = Some \<lparr>skr_name = s, skr_key = k, skr_rest = ''''\<rparr>, evs_rest = ''''\<rparr>\<rparr>"

definition sample_template :: "Volume list \<Rightarrow> EnvVar list \<Rightarrow> PodTemplateSpec" where
  "sample_template vs es = \<lparr>pt_labels = [''app'' \<mapsto> ''web''], pt_annotations = Map.empty,
     pt_spec = \<lparr>ps_volumes = vs,
       ps_containers = [\<lparr>ct_name = ''app'', ct_env = es, ct_envFrom = [], ct_rest = ''''\<rparr>],
       ps_initContainers = [], ps_rest = ''''\<rparr>\<rparr>"

definition sample_workload :: Workload where
  "sample_workload = \<lparr>w_meta = empty_meta\<lparr>om_name := ''web'', om_namespace := ''prod''\<rparr>, w_replicas = Some 3,
     w_selector = [''app'' \<mapsto> ''web''], w_template = sample_template [sample_volume ''web-db-rev-aaaaaaaaaaaa''] [],
     w_observedGeneration = ''0'', w_phase = ''Healthy'', w_rest = ''''\<rparr>"

definition sample_secret :: Secret where
  "sample_secret = \<lparr>s_meta = empty_meta\<lparr>om_name := ''web-db-rev-bbbbbbbbbbbb'', om_namespace := ''prod''\<rparr>,
     s_type = ''Opaque'', s_data = [(''username'', ''app''), (''password'', ''s3cr3t'')]\<rparr>"

definition sample_client :: "'w Client" where
  "sample_client = \<lparr>
     cl_getPolicy = (\<lambda>ns n w. (Inr sample_policy, w)),
     cl_getSecret = (\<lambda>ns n w. (Inr sample_secret, w)),
     cl_getWorkload = (\<lambda>k ns n w. (Inr sample_workload, w)),
     cl_getJob = (\<lambda>ns n w. (Inl (StatusErr NotFound), w)),
     cl_getApplication = (\<lambda>ns n w. (Inl (StatusErr NotFound), w)),
     cl_listSecrets = (\<lambda>ns l w. (Inr [sample_secret], w)),
     cl_listPods = (\<lambda>ns l w. (Inr [], w)),
     cl_listJobs = (\<lambda>ns l w. (Inr [], w)),
     cl_listPolicies = (\<lambda>ns w. (Inr [sample_policy], w)),
     cl_listApplications = (\<lambda>w. (Inr [], w)),
     cl_createSecret = (\<lambda>x w. (None, w)), cl_createDeployment = (\<lambda>x w. (None, w)),
     cl_createNetworkPolicy = (\<lambda>x w. (None, w)), cl_createCilium = (\<lambda>x w. (None, w)), cl_createJob = (\<lambda>x w. (None, w)),
     cl_patchWorkload = (\<lambda>k a b w. (None, w)), cl_patchStatus = (\<lambda>a b w. (Inr b, w)),
     cl_updateApplication = (\<lambda>x w. (None, w)), cl_deleteSecret = (\<lambda>x w. (None, w)),
     cl_deleteDeployment = (\<lambda>ns n w. (None, w)), cl_deleteNetworkPolicy = (\<lambda>ns n w. (None, w)),
     cl_deleteCilium = (\<lambda>ns n w. (None, w)), cl_deleteJob = (\<lambda>x w. (None, w))\<rparr>"

definition sample_net :: "'w Net" where
  "sample_net = \<lparr>net_now = (\<lambda>w. (0, w)), net_lookupIPAddr = (\<lambda>h w. (Inr [], w)), net_urlParse = (\<lambda>s. None),
     net_urlString = url_host, net_parseCIDR = (\<lambda>s. None), net_parseIP = Some, net_isIPv4 = (\<lambda>s. True),
     net_getLogs = (\<lambda>ns p c n w. (Inr (Inr ''''), w)), net_getenv = (\<lambda>s. ''''),
     net_jsonUnmarshal = (\<lambda>b. Inl (Errorf ''json'' [] None)), net_jsonMarshal = (\<lambda>v. Inr ''''),
     net_pemDecode = (\<lambda>b. None), net_pemEncode = pem_bytes\<rparr>"

definition sample_wire :: "'w Wire" where
  "sample_wire = \<lparr>wi_newRequest = (\<lambda>u. None), wi_httpDo = (\<lambda>b u w. (Inr 200, w)),
     wi_tlsDial = (\<lambda>b a w. (Inr (Some []), w)), wi_sqlOpen = (\<lambda>d n w. (None, w)),
     wi_sqlPing = (\<lambda>d n w. (Some (Errorf ''denied for s3cr3t'' [] None), w)),
     wi_sqlQueryRow = (\<lambda>d n q w. (None, w)),
     wi_errText = (\<lambda>e. case e of StatusErr r \<Rightarrow> '''' | Errorf f as x \<Rightarrow> f), wi_rfc3339 = FormatInt\<rparr>"

definition sample_world :: "unit env" where
  "sample_world = \<lparr>client = sample_client, libs = list_libs, net = sample_net, wire = sample_wire\<rparr>"

definition sample_sys :: "(unit, event) sys" where
  "sample_sys = \<lparr>world = (), trace = []\<rparr>"

lemmas sample_defs =
  sample_status_def sample_probe_def sample_spec_def sample_policy_def sample_in_def sample_volume_def
  sample_env_var_def sample_template_def sample_workload_def sample_secret_def sample_client_def
  sample_net_def sample_wire_def sample_world_def sample_sys_def empty_meta_def

lemma sample_laws: "meta_laws (libs sample_world)"
  by (simp add: sample_world_def meta_laws_list_libs)

end
