(* ===== verification/Dso_Telemetry.thy ===== *)
theory Dso_Telemetry
  imports Dso_Env
begin

text \<open>
  The telemetry of the operator. The metrics (\<^verbatim>\<open>pkg/telemetry/metrics.go\<close>): the declared collectors with the
  names of their labels, in the order of their registration. \<^verbatim>\<open>MustRegister\<close> panics when two collectors share a
  name, and \<^verbatim>\<open>WithLabelValues\<close> panics when the number of values is not that of the declared labels; a
  metric is well labelled when the use matches its declaration.
\<close>

text \<open>Both histograms have the default buckets of the library.\<close>

datatype metric_kind = CounterVec | HistogramVec

record collector =
  co_kind :: metric_kind
  co_name :: string
  co_labels :: "string list"
  co_help :: string

definition RotationsTotal :: collector where
  "RotationsTotal = \<lparr>co_kind = CounterVec, co_name = ''dso_rotations_total'', co_labels = [''namespace''],
     co_help = ''Total number of dynamic secret rotation progression cycles started''\<rparr>"

definition RotationsFailed :: collector where
  "RotationsFailed = \<lparr>co_kind = CounterVec, co_name = ''dso_rotations_failed_total'', co_labels = [''namespace''],
     co_help = ''Total number of failed canary validation probe runs''\<rparr>"

definition CircuitBreakersTripped :: collector where
  "CircuitBreakersTripped = \<lparr>co_kind = CounterVec, co_name = ''dso_circuit_breakers_tripped_total'', co_labels = [''namespace''],
     co_help = ''Total number of times a circuit breaker has tripped and halted reconciliations''\<rparr>"

definition ProbeDurationSeconds :: collector where
  "ProbeDurationSeconds = \<lparr>co_kind = HistogramVec, co_name = ''dso_probe_duration_seconds'', co_labels = [''namespace'', ''probe_type''],
     co_help = ''Execution duration of synthetic validation probes in seconds''\<rparr>"

definition ServiceBusMessagesTotal :: collector where
  "ServiceBusMessagesTotal = \<lparr>co_kind = CounterVec, co_name = ''dso_servicebus_messages_total'', co_labels = [''status''],
     co_help = ''Total number of Azure Service Bus messages processed, partitioned by status.''\<rparr>"

definition KeyVaultFetchLatency :: collector where
  "KeyVaultFetchLatency = \<lparr>co_kind = HistogramVec, co_name = ''dso_keyvault_fetch_latency_seconds'', co_labels = [''vault_name'', ''status''],
     co_help = ''Latency in seconds for fetching secrets/certificates from Azure Key Vault.''\<rparr>"

text \<open>The registry after \<^verbatim>\<open>init\<close>.\<close>

definition collectors :: "collector list" where
  "collectors = [RotationsTotal, RotationsFailed, CircuitBreakersTripped, ProbeDurationSeconds,
     ServiceBusMessagesTotal, KeyVaultFetchLatency]"

definition well_labelled :: "string \<Rightarrow> string list \<Rightarrow> bool" where
  "well_labelled m ls = (case find (\<lambda>c. co_name c = m) collectors of None \<Rightarrow> False | Some c \<Rightarrow> length ls = length (co_labels c))"

text \<open>The tracer (\<^verbatim>\<open>pkg/telemetry/tracing.go\<close>): the scope of its spans and the propagator that \<^verbatim>\<open>init\<close>
  installs. The spans themselves decide nothing and are left out.\<close>

datatype propagator = TraceContext | Baggage

definition InstrumentationScopeName :: string where
  "InstrumentationScopeName = ''github.com/quantumsys-dev/dynamic-secret-operator''"

definition textMapPropagator :: "propagator list" where
  "textMapPropagator = [TraceContext, Baggage]"

fun metric_ok :: "event \<Rightarrow> bool" where
  "metric_ok (EMetric m ls) = well_labelled m ls"
| "metric_ok _ = True"

section \<open>Lemmas\<close>

lemmas collector_defs = RotationsTotal_def RotationsFailed_def CircuitBreakersTripped_def ProbeDurationSeconds_def
  ServiceBusMessagesTotal_def KeyVaultFetchLatency_def collectors_def

lemma well_labelled_uses [simp]:
  "well_labelled ''dso_rotations_total'' [a]" "well_labelled ''dso_rotations_failed_total'' [a]"
  "well_labelled ''dso_circuit_breakers_tripped_total'' [a]" "well_labelled ''dso_probe_duration_seconds'' [a, b]"
  "well_labelled ''dso_servicebus_messages_total'' [a]" "well_labelled ''dso_keyvault_fetch_latency_seconds'' [a, b]"
  by (simp_all add: well_labelled_def collector_defs)

lemma collectors_distinct: "distinct (map co_name collectors)"
  by (simp add: collector_defs)

end
