(* ===== verification/Dso_Sha256.thy ===== *)
theory Dso_Sha256
  imports Dso_Prelude
begin

text \<open>
  \<^verbatim>\<open>crypto/sha256\<close> on byte strings, with machine words, and the hexadecimal rendering \<^verbatim>\<open>%x\<close>: what
  the controller uses to derive a revision hash from a secret payload. Words are 32-bit and
  addition wraps, as in FIPS 180-4. The schedule and the compression loop keep the words of a
  block in a list, most recent first.
\<close>

unbundle bit_operations_syntax

section \<open>Definitions\<close>

type_synonym u32 = "32 word"

definition round_constants :: "u32 list" where
  "round_constants = [
    1116352408, 1899447441, 3049323471, 3921009573, 961987163, 1508970993, 2453635748,
    2870763221, 3624381080, 310598401, 607225278, 1426881987, 1925078388, 2162078206,
    2614888103, 3248222580, 3835390401, 4022224774, 264347078, 604807628, 770255983,
    1249150122, 1555081692, 1996064986, 2554220882, 2821834349, 2952996808, 3210313671,
    3336571891, 3584528711, 113926993, 338241895, 666307205, 773529912, 1294757372, 1396182291,
    1695183700, 1986661051, 2177026350, 2456956037, 2730485921, 2820302411, 3259730800,
    3345764771, 3516065817, 3600352804, 4094571909, 275423344, 430227734, 506948616, 659060556,
    883997877, 958139571, 1322822218, 1537002063, 1747873779, 1955562222, 2024104815,
    2227730452, 2361852424, 2428436474, 2756734187, 3204031479, 3329325298]"

definition initial_hash :: "u32 list" where
  "initial_hash = [
    1779033703, 3144134277, 1013904242, 2773480762, 1359893119, 2600822924, 528734635,
    1541459225]"

definition rotr :: "nat \<Rightarrow> u32 \<Rightarrow> u32" where
  "rotr n x = drop_bit n x OR push_bit (32 - n) x"

definition big_sigma0 :: "u32 \<Rightarrow> u32" where
  "big_sigma0 x = rotr 2 x XOR rotr 13 x XOR rotr 22 x"

definition big_sigma1 :: "u32 \<Rightarrow> u32" where
  "big_sigma1 x = rotr 6 x XOR rotr 11 x XOR rotr 25 x"

definition small_sigma0 :: "u32 \<Rightarrow> u32" where
  "small_sigma0 x = rotr 7 x XOR rotr 18 x XOR drop_bit 3 x"

definition small_sigma1 :: "u32 \<Rightarrow> u32" where
  "small_sigma1 x = rotr 17 x XOR rotr 19 x XOR drop_bit 10 x"

definition ch :: "u32 \<Rightarrow> u32 \<Rightarrow> u32 \<Rightarrow> u32" where
  "ch x y z = (x AND y) XOR (NOT x AND z)"

definition maj :: "u32 \<Rightarrow> u32 \<Rightarrow> u32 \<Rightarrow> u32" where
  "maj x y z = (x AND y) XOR (x AND z) XOR (y AND z)"

text \<open>Padding: the byte 0x80, zeros, and the length in bits as eight bytes, to a multiple of 64.\<close>

definition length_bytes :: "nat \<Rightarrow> u32 list" where
  "length_bytes n = map (\<lambda>i. word_of_int ((8 * int n div 256 ^ i) mod 256)) [7, 6, 5, 4, 3, 2, 1, 0]"

definition pad :: "bytes \<Rightarrow> u32 list" where
  "pad msg =
     (let n = length msg
      in map of_char msg @ [128] @ replicate ((119 - n mod 64) mod 64) 0 @ length_bytes n)"

fun be_words :: "u32 list \<Rightarrow> u32 list" where
  "be_words (a # b # c # d # xs) =
     (push_bit 24 a OR push_bit 16 b OR push_bit 8 c OR d) # be_words xs"
| "be_words _ = []"

text \<open>The message schedule of one block, reversed: each new word is put in front.\<close>

fun extend_schedule :: "nat \<Rightarrow> u32 list \<Rightarrow> u32 list" where
  "extend_schedule 0 ws = ws"
| "extend_schedule (Suc n) ws =
     extend_schedule n ((small_sigma1 (ws ! 1) + ws ! 6 + small_sigma0 (ws ! 14) + ws ! 15) # ws)"

definition schedule :: "u32 list \<Rightarrow> u32 list" where
  "schedule block = rev (extend_schedule 48 (rev block))"

text \<open>One round on the working variables \<open>a\<close> to \<open>h\<close>, the elements 0 to 7 of the list.\<close>

definition compress_round :: "u32 list \<Rightarrow> u32 \<times> u32 \<Rightarrow> u32 list" where
  "compress_round vs kw =
     (let t1 = vs ! 7 + big_sigma1 (vs ! 4) + ch (vs ! 4) (vs ! 5) (vs ! 6) + fst kw + snd kw;
          t2 = big_sigma0 (vs ! 0) + maj (vs ! 0) (vs ! 1) (vs ! 2)
      in [t1 + t2, vs ! 0, vs ! 1, vs ! 2, vs ! 3 + t1, vs ! 4, vs ! 5, vs ! 6])"

definition compress :: "u32 list \<Rightarrow> u32 list \<Rightarrow> u32 list" where
  "compress hs block = map2 (+) hs (foldl compress_round hs (zip round_constants (schedule block)))"

fun hash_blocks :: "nat \<Rightarrow> u32 list \<Rightarrow> u32 list \<Rightarrow> u32 list" where
  "hash_blocks 0 hs ws = hs"
| "hash_blocks (Suc n) hs ws = hash_blocks n (compress hs (take 16 ws)) (drop 16 ws)"

definition sha256_words :: "bytes \<Rightarrow> u32 list" where
  "sha256_words msg =
     (let ws = be_words (pad msg) in hash_blocks (length ws div 16) initial_hash ws)"

definition hex_char :: "u32 \<Rightarrow> char" where
  "hex_char d = ''0123456789abcdef'' ! unat d"

definition hex_word :: "u32 \<Rightarrow> string" where
  "hex_word w = map (\<lambda>i. hex_char (drop_bit (4 * i) w AND 15)) [7, 6, 5, 4, 3, 2, 1, 0]"

text \<open>\<^verbatim>\<open>fmt.Sprintf("%x", sha256.Sum256(msg))\<close>.\<close>

definition sha256_hex :: "bytes \<Rightarrow> string" where
  "sha256_hex msg = concat (map hex_word (sha256_words msg))"

section \<open>SHA-1\<close>

text \<open>\<^verbatim>\<open>crypto/sha1\<close>, for the thumbprints of the TLS probe: the same padding and the same reversed
  schedule; each round takes its index, which selects function and constant, and a word.\<close>

fun sha1_extend :: "nat \<Rightarrow> u32 list \<Rightarrow> u32 list" where
  "sha1_extend 0 ws = ws"
| "sha1_extend (Suc n) ws =
     sha1_extend n (rotr 31 (ws ! 2 XOR ws ! 7 XOR ws ! 13 XOR ws ! 15) # ws)"

definition sha1_fk :: "nat \<Rightarrow> u32 \<Rightarrow> u32 \<Rightarrow> u32 \<Rightarrow> u32 \<times> u32" where
  "sha1_fk t b c d =
     (if t < 20 then (ch b c d, 1518500249)
      else if t < 40 then (b XOR c XOR d, 1859775393)
      else if t < 60 then (maj b c d, 2400959708)
      else (b XOR c XOR d, 3395469782))"

definition sha1_round :: "u32 list \<Rightarrow> nat \<times> u32 \<Rightarrow> u32 list" where
  "sha1_round vs tw =
     (let fk = sha1_fk (fst tw) (vs ! 1) (vs ! 2) (vs ! 3)
      in [rotr 27 (vs ! 0) + fst fk + vs ! 4 + snd fk + snd tw, vs ! 0, rotr 2 (vs ! 1), vs ! 2, vs ! 3])"

definition sha1_compress :: "u32 list \<Rightarrow> u32 list \<Rightarrow> u32 list" where
  "sha1_compress hs block =
     map2 (+) hs (foldl sha1_round hs (zip [0..<80] (rev (sha1_extend 64 (rev block)))))"

fun sha1_blocks :: "nat \<Rightarrow> u32 list \<Rightarrow> u32 list \<Rightarrow> u32 list" where
  "sha1_blocks 0 hs ws = hs"
| "sha1_blocks (Suc n) hs ws = sha1_blocks n (sha1_compress hs (take 16 ws)) (drop 16 ws)"

definition sha1_hex :: "bytes \<Rightarrow> string" where
  "sha1_hex msg =
     (let ws = be_words (pad msg)
      in concat (map hex_word (sha1_blocks (length ws div 16)
           [1732584193, 4023233417, 2562383102, 271733878, 3285377520] ws)))"

section \<open>Lemmas\<close>

lemma compress_round_length [simp]: "length (compress_round vs kw) = 8"
  by (simp add: compress_round_def Let_def)

lemma foldl_compress_round_length: "length hs = 8 \<Longrightarrow> length (foldl compress_round hs kws) = 8"
  by (induction kws arbitrary: hs) simp_all

lemma compress_length: "length hs = 8 \<Longrightarrow> length (compress hs block) = 8"
  by (simp add: compress_def foldl_compress_round_length)

lemma hash_blocks_length: "length hs = 8 \<Longrightarrow> length (hash_blocks n hs ws) = 8"
  by (induction n arbitrary: hs ws) (simp_all add: compress_length)

lemma sha256_words_length: "length (sha256_words msg) = 8"
  by (simp add: sha256_words_def Let_def hash_blocks_length initial_hash_def)

lemma hex_word_length [simp]: "length (hex_word w) = 8"
  by (simp add: hex_word_def)

lemma sha256_hex_length: "length (sha256_hex msg) = 64"
proof -
  have "length (concat (map hex_word ws)) = 8 * length ws" for ws
    by (induction ws) simp_all
  then show ?thesis by (simp add: sha256_hex_def sha256_words_length)
qed

definition is_hex :: "char \<Rightarrow> bool" where
  "is_hex c \<longleftrightarrow> c \<in> set ''0123456789abcdef''"

lemma hex_char_hex: "is_hex (hex_char (x AND 15))"
proof -
  have "unat (x AND 15) \<le> unat (15 :: u32)"
    by (rule word_and_le1 [THEN word_le_nat_alt [THEN iffD1]])
  then have "unat (x AND 15) < length ''0123456789abcdef''" by simp
  then show ?thesis unfolding is_hex_def hex_char_def by (rule nth_mem)
qed

lemma sha256_hex_chars: "list_all is_hex (sha256_hex msg)"
  by (auto simp: sha256_hex_def list_all_iff hex_word_def intro!: hex_char_hex)

text \<open>Padding gives whole blocks.\<close>

lemma length_bytes_length [simp]: "length (length_bytes n) = 8"
  unfolding length_bytes_def length_map by simp

lemma pad_zeros:
  assumes "m < 64"
  shows "(119 - m) mod 64 + m + 9 \<in> {64, 128 :: nat}"
proof (cases "m \<le> 55")
  case True
  then have "119 - m = 64 + (55 - m)" by simp
  then have "(119 - m) mod 64 = (55 - m) mod 64" by (simp only: mod_add_self1)
  also have "\<dots> = 55 - m" by (rule mod_less) simp
  finally show ?thesis using True by simp
next
  case False
  then have "(119 - m) mod 64 = 119 - m" by (intro mod_less) simp
  then show ?thesis using assms by simp
qed

lemma pad_length: "length (pad msg) mod 64 = 0"
proof -
  define m where "m = length msg mod 64"
  define k where "k = (119 - m) mod 64"
  have "length (pad msg) = length msg + (1 + (k + 8))"
    by (simp add: pad_def Let_def k_def m_def)
  also have "\<dots> = 64 * (length msg div 64) + (k + m + 9)"
    using mult_div_mod_eq [of 64 "length msg"] by (simp add: m_def)
  finally have len: "length (pad msg) = 64 * (length msg div 64) + (k + m + 9)" .
  have "k + m + 9 \<in> {64, 128}"
    unfolding k_def by (rule pad_zeros) (simp add: m_def)
  then have "64 dvd k + m + 9" by auto
  then have "64 dvd length (pad msg)" unfolding len by (rule dvd_add [rotated]) simp
  then show ?thesis by (rule dvd_imp_mod_0)
qed

end
