(* ===== verification/Dso_Source.thy ===== *)
theory Dso_Source
  imports Dso_Sample Dso_Telemetry Dso_Sha256 "HOL-Library.AList" "HOL-Library.Multiset"
begin

text \<open>
  Secret ingestion: the Azure Key Vault fetcher (\<^verbatim>\<open>internal/azure/keyvault.go\<close>), the providers and
  the registry (\<^verbatim>\<open>internal/source/provider.go\<close>), and the revision hash of a payload, computed in
  \<open>materializeSecretRevision\<close> of the controller. A payload's data is a Go map that is ranged over:
  an association list with distinct keys in iteration order.
\<close>

section \<open>Key Vault\<close>

record AzureSecretPayload =
  az_Value :: bytes
  az_Version :: string
  az_ID :: string

type_synonym 'w SecretFetcher = "string \<Rightarrow> string \<Rightarrow> string \<Rightarrow> ('w, err + AzureSecretPayload) dso"

text \<open>The \<^verbatim>\<open>azsecrets\<close> client, a parameter: creating it, and a request for a version, whose response
  carries an optional value and an optional identifier.\<close>

record 'w AzSecrets =
  azs_newClient :: "string \<Rightarrow> err option"
  azs_getSecret :: "string \<Rightarrow> string \<Rightarrow> string \<Rightarrow> 'w \<Rightarrow> (err + (string option \<times> string option)) \<times> 'w"

definition observeFetch :: "string \<Rightarrow> string \<Rightarrow> ('w, unit) dso" where
  "observeFetch vaultURI status = emit (EMetric ''dso_keyvault_fetch_latency_seconds'' [vaultURI, status])"

definition secretVersionOf :: "string option \<Rightarrow> string" where
  "secretVersionOf sid = (case sid of None \<Rightarrow> '''' | Some i \<Rightarrow> last (Split i (CHR ''/'')))"

definition AzureKeyVaultFetcher_GetSecret :: "'w AzSecrets \<Rightarrow> 'w SecretFetcher" where
  "AzureKeyVaultFetcher_GetSecret az vaultURI secretName version =
     (let fail = (\<lambda>e. do { observeFetch vaultURI ''error''; ret (Inl e) }) in
      if vaultURI = '''' then fail (Errorf ''vaultURI must not be empty'' [] None)
      else if secretName = '''' then fail (Errorf ''secretName must not be empty'' [] None)
      else (case azs_newClient az vaultURI of
         Some e \<Rightarrow> fail (Errorf ''failed to create azsecrets client for %q: %w'' [vaultURI] (Some e))
       | None \<Rightarrow> do {
           resp \<leftarrow> query (azs_getSecret az vaultURI secretName version);
           case resp of
             Inl e \<Rightarrow> fail (Errorf ''failed to retrieve secret %q from vault %q: %w'' [secretName, vaultURI] (Some e))
           | Inr vi \<Rightarrow>
               (case fst vi of
                  None \<Rightarrow> fail (Errorf ''retrieved secret %q has nil value'' [secretName] None)
                | Some v \<Rightarrow> do {
                    observeFetch vaultURI ''success'';
                    ret (Inr \<lparr>az_Value = v, az_Version = secretVersionOf (snd vi),
                              az_ID = (case snd vi of None \<Rightarrow> '''' | Some i \<Rightarrow> i)\<rparr>)
                  })
         }))"

section \<open>Providers\<close>

record SecretPayload =
  sp_Data :: "(string \<times> bytes) list"
  sp_Version :: string

type_synonym 'w Provider = "'w env \<Rightarrow> DynamicSecretPolicy \<Rightarrow> ('w, err + SecretPayload) dso"

text \<open>The value of one key: a JSON string is taken as its bytes, any other value is marshalled.\<close>

fun jsonEntry :: "'w Net \<Rightarrow> string \<times> json \<Rightarrow> err + (string \<times> bytes)" where
  "jsonEntry N (k, JStr s) = Inr (k, s)"
| "jsonEntry N (k, v) =
     (case net_jsonMarshal N v of
        Inl e \<Rightarrow> Inl (Errorf ''failed to marshal JSON value for key %q: %w'' [k] (Some e))
      | Inr b \<Rightarrow> Inr (k, b))"

fun jsonEntries :: "'w Net \<Rightarrow> (string \<times> json) list \<Rightarrow> err + (string \<times> bytes) list" where
  "jsonEntries N [] = Inr []"
| "jsonEntries N (kv # kvs) =
     (case jsonEntry N kv of
        Inl e \<Rightarrow> Inl e
      | Inr x \<Rightarrow> (case jsonEntries N kvs of Inl e \<Rightarrow> Inl e | Inr xs \<Rightarrow> Inr (x # xs)))"

definition ParseJSONPayload :: "'w Net \<Rightarrow> bytes \<Rightarrow> err + (string \<times> bytes) list" where
  "ParseJSONPayload N raw =
     (case net_jsonUnmarshal N raw of
        Inl e \<Rightarrow> Inl (Errorf ''failed to parse secret JSON payload: %w'' [] (Some e))
      | Inr kvs \<Rightarrow> jsonEntries N kvs)"

definition AzureKeyVaultProvider :: "'w SecretFetcher option \<Rightarrow> 'w Provider" where
  "AzureKeyVaultProvider fetcher E p =
     (case fetcher of
        None \<Rightarrow> ret (Inl (Errorf ''azure secret fetcher is not initialized'' [] None))
      | Some getSecret \<Rightarrow>
          (let src = GetResolvedSource (p_spec p) in
           case src_AzureKeyVault src of
             None \<Rightarrow> ret (Inl (Errorf ''azureKeyVault configuration is missing on policy %s'' [pol_name p] None))
           | Some akv \<Rightarrow> do {
               r \<leftarrow> getSecret (akv_KeyVaultURI akv) (akv_ObjectName akv) '''';
               case r of
                 Inl e \<Rightarrow> ret (Inl (Errorf ''failed to fetch secret from Azure Key Vault %q (object %q): %w''
                                     [akv_KeyVaultURI akv, akv_ObjectName akv] (Some e)))
               | Inr pl \<Rightarrow>
                   if src_ParseJSON src then
                     (case ParseJSONPayload (net E) (az_Value pl) of
                        Inl e \<Rightarrow> ret (Inl (Errorf ''failed to unmarshal JSON payload for Azure Key Vault object %q: %w''
                                           [akv_ObjectName akv] (Some e)))
                      | Inr d \<Rightarrow> ret (Inr \<lparr>sp_Data = d, sp_Version = az_Version pl\<rparr>))
                   else ret (Inr \<lparr>sp_Data = [(akv_ObjectName akv, az_Value pl)], sp_Version = az_Version pl\<rparr>)
             }))"

text \<open>The merge of the K8s provider: each value that parses as a JSON object contributes its keys,
  any other value is kept under its own key; a later key overwrites an earlier one.\<close>

definition mergeEntry :: "'w Net \<Rightarrow> string \<times> bytes \<Rightarrow> (string \<times> bytes) list \<Rightarrow> (string \<times> bytes) list" where
  "mergeEntry N kv merged =
     (case ParseJSONPayload N (snd kv) of
        Inl _ \<Rightarrow> AList.update (fst kv) (snd kv) merged
      | Inr parsed \<Rightarrow> fold (\<lambda>x m. AList.update (fst x) (snd x) m) parsed merged)"

definition mergedData :: "'w Net \<Rightarrow> (string \<times> bytes) list \<Rightarrow> (string \<times> bytes) list" where
  "mergedData N d = fold (mergeEntry N) d []"

type_synonym 'w Reader = "string \<Rightarrow> string \<Rightarrow> 'w \<Rightarrow> (err + Secret) \<times> 'w"

definition K8sSecretProvider :: "'w Reader option \<Rightarrow> 'w Provider" where
  "K8sSecretProvider reader E p =
     (case reader of
        None \<Rightarrow> ret (Inl (Errorf ''k8s reader is not initialized on K8sSecretProvider'' [] None))
      | Some get \<Rightarrow>
          (let src = GetResolvedSource (p_spec p) in
           case src_K8sSecret src of
             None \<Rightarrow> ret (Inl (Errorf ''k8sSecret configuration is missing on policy %s'' [pol_name p] None))
           | Some ks \<Rightarrow> do {
               r \<leftarrow> query (get (pol_namespace p) (k8s_Name ks));
               case r of
                 Inl e \<Rightarrow> ret (Inl (Errorf
                   ''failed to fetch intermediate Kubernetes source secret %q in namespace %q: %w''
                   [k8s_Name ks, pol_namespace p] (Some e)))
               | Inr sec \<Rightarrow>
                   ret (Inr \<lparr>sp_Data = (if src_ParseJSON src then mergedData (net E) (s_data sec) else s_data sec),
                             sp_Version = om_resourceVersion (s_meta sec)\<rparr>)
             }))"

definition StubProvider :: "string \<Rightarrow> string \<Rightarrow> 'w Provider" where
  "StubProvider name milestone E p =
     ret (Inl (Errorf (''native provider %q is currently in roadmap (%s); please use type %q with External Secrets '' @
       ''Operator (ESO) for multi-cloud vault ingestion'') [name, milestone, SourceTypeK8sSecret] None))"

section \<open>Registry\<close>

type_synonym 'w Registry = "string \<rightharpoonup> 'w Provider"

definition NewRegistry :: "'w Registry" where
  "NewRegistry = Map.empty"

definition Register :: "'w Registry \<Rightarrow> string \<Rightarrow> 'w Provider \<Rightarrow> 'w Registry" where
  "Register reg sourceType pr = reg(sourceType \<mapsto> pr)"

definition Registry_Get :: "'w Registry \<Rightarrow> string \<Rightarrow> err + 'w Provider" where
  "Registry_Get reg sourceType =
     (case reg sourceType of
        None \<Rightarrow> Inl (Errorf ''no provider registered for source type %q'' [sourceType] None)
      | Some pr \<Rightarrow> Inr pr)"

definition SetupDefaultRegistry :: "'w Reader option \<Rightarrow> 'w SecretFetcher option \<Rightarrow> 'w Registry" where
  "SetupDefaultRegistry reader fetcher =
     (let reg = NewRegistry;
          reg = (if fetcher \<noteq> None then Register reg SourceTypeAzureKeyVault (AzureKeyVaultProvider fetcher) else reg);
          reg = (if reader \<noteq> None then Register reg SourceTypeK8sSecret (K8sSecretProvider reader) else reg);
          reg = Register reg SourceTypeAWSSecretsManager (StubProvider ''AWSSecretsManager'' ''v0.3.0'');
          reg = Register reg SourceTypeGCPSecretManager (StubProvider ''GCPSecretManager'' ''v0.3.0'')
      in Register reg SourceTypeVault (StubProvider ''Vault'' ''v0.3.0''))"

section \<open>The revision hash\<close>

definition hashInput :: "SecretPayload \<Rightarrow> bytes" where
  "hashInput pl =
     (if length (sp_Data pl) = 1 then concat (map snd (sp_Data pl))
      else concat (map (\<lambda>k. k @ the (map_of (sp_Data pl) k)) (sort (map fst (sp_Data pl)))))
     @ sp_Version pl"

definition revisionHash :: "SecretPayload \<Rightarrow> string" where
  "revisionHash pl = take 12 (sha256_hex (hashInput pl))"

section \<open>The provider interface\<close>

text \<open>What the controller relies on: fetching is read-only, apart from well labelled metrics.\<close>

fun is_metric :: "event \<Rightarrow> bool" where
  "is_metric (EMetric m ls) = well_labelled m ls"
| "is_metric _ = False"

locale secret_provider =
  fixes fetch :: "'w Provider"
  assumes fetch_readonly: "emits_only is_metric (fetch E p)"
begin

text \<open>Registering such a provider keeps a registry of such providers.\<close>

lemma register_readonly:
  "\<forall>t pr. reg t = Some pr \<longrightarrow> (\<forall>E p. emits_only is_metric (pr E p)) \<Longrightarrow>
   \<forall>t pr. Register reg s fetch t = Some pr \<longrightarrow> (\<forall>E p. emits_only is_metric (pr E p))"
  by (auto simp: Register_def fetch_readonly)

end

lemma observeFetch_emits [spec_rules]: "Q () [EMetric ''dso_keyvault_fetch_latency_seconds'' [u, s]] \<Longrightarrow> spec (observeFetch u s) Q"
  unfolding observeFetch_def by (rule spec_emit)

lemma GetSecret_readonly: "emits_only is_metric (AzureKeyVaultFetcher_GetSecret az u n v)"
  unfolding AzureKeyVaultFetcher_GetSecret_def Let_def by (auto intro!: spec_rules)

lemma AzureKeyVaultProvider_readonly:
  assumes "\<And>f u n v. fetcher = Some f \<Longrightarrow> emits_only is_metric (f u n v)"
  shows "emits_only is_metric (AzureKeyVaultProvider fetcher E p)"
  unfolding AzureKeyVaultProvider_def Let_def
  by (auto intro!: spec_rules spec_mono [OF assms])

interpretation azure_provider: secret_provider "AzureKeyVaultProvider (Some (AzureKeyVaultFetcher_GetSecret az))" for az
  by unfold_locales (auto intro!: AzureKeyVaultProvider_readonly GetSecret_readonly)

interpretation k8s_provider: secret_provider "K8sSecretProvider reader" for reader
  by unfold_locales (auto simp: K8sSecretProvider_def Let_def intro!: spec_rules)

interpretation stub_provider: secret_provider "StubProvider name milestone" for name milestone
  by unfold_locales (auto simp: StubProvider_def intro!: spec_rules)

definition registry_readonly :: "'w Registry \<Rightarrow> bool" where
  "registry_readonly reg \<longleftrightarrow> (\<forall>t pr. reg t = Some pr \<longrightarrow> (\<forall>E p. emits_only is_metric (pr E p)))"

lemma SetupDefaultRegistry_readonly:
  assumes "\<And>f u n v. fetcher = Some f \<Longrightarrow> emits_only is_metric (f u n v)"
  shows "registry_readonly (SetupDefaultRegistry reader fetcher)"
proof -
  have az: "emits_only is_metric (AzureKeyVaultProvider fetcher E p)" for E :: "'a env" and p
    using assms by (rule AzureKeyVaultProvider_readonly)
  show ?thesis
    unfolding registry_readonly_def SetupDefaultRegistry_def Let_def Register_def NewRegistry_def
    by (simp add: az k8s_provider.fetch_readonly stub_provider.fetch_readonly)
qed

section \<open>Lemmas\<close>

lemma revisionHash_length: "length (revisionHash pl) = 12"
  by (simp add: revisionHash_def sha256_hex_length)

lemma revisionHash_nonempty [simp]: "revisionHash pl \<noteq> ''''"
  using revisionHash_length [of pl] by auto

lemma revisionHash_hex: "list_all is_hex (revisionHash pl)"
  using sha256_hex_chars [of "hashInput pl"]
  by (auto simp: revisionHash_def list_all_iff dest: in_set_takeD)

text \<open>The hashed bytes depend on the map, not on the order in which Go iterates over it.\<close>

lemma hashInput_order:
  assumes "mset d = mset d'" and "distinct (map fst d)"
  shows "hashInput \<lparr>sp_Data = d, sp_Version = v\<rparr> = hashInput \<lparr>sp_Data = d', sp_Version = v\<rparr>"
proof -
  have len: "length d = length d'" using assms(1) by (rule mset_eq_length)
  have keys: "mset (map fst d) = mset (map fst d')" using assms(1) by (metis mset_map)
  then have sorted: "sort (map fst d) = sort (map fst d')"
    by (intro properties_for_sort) simp_all
  have "distinct (map fst d')" using keys assms(2) by (metis mset_eq_imp_distinct_iff)
  then have lookup: "map_of d = map_of d'"
    using assms by (intro map_of_eqI [OF _ ]) (auto dest: mset_eq_setD)
  show ?thesis
  proof (cases "length d = 1")
    case True
    with len obtain x y where "d = [x]" and "d' = [y]"
      by (metis One_nat_def length_0_conv length_Suc_conv)
    with assms(1) show ?thesis by (simp add: hashInput_def)
  next
    case False
    with len sorted lookup show ?thesis by (simp add: hashInput_def)
  qed
qed

section \<open>Properties\<close>

text \<open>C34: the revision of a payload does not depend on the order in which Go iterates over its map.\<close>

theorem revision_hash_order:
  assumes "mset d = mset d'" and "distinct (map fst d)"
  shows "revisionHash \<lparr>sp_Data = d, sp_Version = v\<rparr> = revisionHash \<lparr>sp_Data = d', sp_Version = v\<rparr>"
  unfolding revisionHash_def hashInput_order [OF assms] ..

theorem revision_hash_order_witness:
  "revisionHash \<lparr>sp_Data = [(''user'', ''a''), (''password'', ''b'')], sp_Version = ''1''\<rparr> =
   revisionHash \<lparr>sp_Data = [(''password'', ''b''), (''user'', ''a'')], sp_Version = ''1''\<rparr>"
  by (rule revision_hash_order) simp_all

text \<open>A revision is always twelve lower-case hexadecimal digits, hence a valid label value and a valid end
  of an object name.\<close>

theorem revision_hash_shape: "length (revisionHash pl) = 12 \<and> list_all is_hex (revisionHash pl)"
  by (simp add: revisionHash_length revisionHash_hex)

text \<open>Fetching from any source of the default registry, with the Key Vault fetcher, changes nothing
  outside the process apart from metrics.\<close>

theorem default_sources_readonly:
  "registry_readonly (SetupDefaultRegistry reader (Some (AzureKeyVaultFetcher_GetSecret az)))"
  by (rule SetupDefaultRegistry_readonly) (auto intro: GetSecret_readonly)

text \<open>With \<^verbatim>\<open>parseJSON\<close>, the data of a Kubernetes source secret depends on the order in which Go iterates
  over it when two of its values define the same key: two reads of the same secret may give two
  different payloads, and two revisions.\<close>

theorem json_merge_order_dependent:
  "let N = sample_net\<lparr>net_jsonUnmarshal := (\<lambda>b. Inr [(''k'', JStr b)])\<rparr>;
       d = [(''x'', ''A''), (''y'', ''B'')]; d' = [(''y'', ''B''), (''x'', ''A'')]
   in mset d = mset d' \<and> distinct (map fst d) \<and>
      map_of (mergedData N d) ''k'' = Some ''B'' \<and> map_of (mergedData N d') ''k'' = Some ''A''"
  by (simp add: mergedData_def mergeEntry_def ParseJSONPayload_def)

end
