(* ===== verification/Dso_Argo.thy ===== *)
theory Dso_Argo
  imports Dso_Sample
begin

text \<open>
  The Argo CD integration (\<^verbatim>\<open>internal/integration/argocd.go\<close>): before a promotion, the operator lists
  its own mutations in \<^verbatim>\<open>spec.ignoreDifferences\<close> of the parent Application, so that Argo CD does not
  revert them. \<open>ensureIgnoreDifferences\<close> is the pure update; the reconcile function retries it on
  conflicting writes.
\<close>

section \<open>Definitions\<close>

abbreviation EnvArgoCDAutoPatchEnabled :: string where
  "EnvArgoCDAutoPatchEnabled \<equiv> ''ARGOCD_AUTOPATCH_ENABLED''"
abbreviation LabelArgoCDInstance :: string where
  "LabelArgoCDInstance \<equiv> ''app.kubernetes.io/instance''"
abbreviation LabelArgoCDTrackingInstance :: string where
  "LabelArgoCDTrackingInstance \<equiv> ''argocd.argoproj.io/instance''"
abbreviation AnnotationArgoCDTrackingID :: string where
  "AnnotationArgoCDTrackingID \<equiv> ''argocd.argoproj.io/tracking-id''"
abbreviation JSONPointerRevisionAnnotation :: string where
  "JSONPointerRevisionAnnotation \<equiv> ''/spec/template/metadata/annotations/dso.quantumsys.dev~1revision''"

definition IsAutoPatchEnabled :: "'w env \<Rightarrow> bool" where
  "IsAutoPatchEnabled E \<longleftrightarrow> ToLower (net_getenv (net E) EnvArgoCDAutoPatchEnabled) = ''true''"

text \<open>A lookup in a Go map of strings: a missing key reads as the empty string.\<close>

definition map_get :: "labels \<Rightarrow> string \<Rightarrow> string" where
  "map_get m k = (case m k of Some v \<Rightarrow> v | None \<Rightarrow> '''')"

definition trackingApp :: "labels \<Rightarrow> string" where
  "trackingApp annotations =
     (let trackingID = map_get annotations AnnotationArgoCDTrackingID in
      if trackingID \<noteq> '''' then
        (case Split trackingID (CHR '':'') of [] \<Rightarrow> '''' | part # _ \<Rightarrow> part)
      else '''')"

definition discoverArgoCDAppName :: "ObjectMeta \<Rightarrow> string" where
  "discoverArgoCDAppName m =
     (if trackingApp (om_annotations m) \<noteq> '''' then trackingApp (om_annotations m)
      else if map_get (om_labels m) LabelArgoCDTrackingInstance \<noteq> ''''
        then map_get (om_labels m) LabelArgoCDTrackingInstance
      else if map_get (om_labels m) LabelArgoCDInstance \<noteq> ''''
        then map_get (om_labels m) LabelArgoCDInstance
      else '''')"

definition fetchArgoCDApplication :: "'w env \<Rightarrow> string \<Rightarrow> string \<Rightarrow> ('w, err + Application) dso" where
  "fetchArgoCDApplication E appName ns = do {
     a \<leftarrow> query (cl_getApplication (client E) ns appName);
     case a of
       Inr app \<Rightarrow> ret (Inr app)
     | Inl _ \<Rightarrow> do {
         b \<leftarrow> query (cl_getApplication (client E) ''argocd'' appName);
         case b of
           Inr app \<Rightarrow> ret (Inr app)
         | Inl _ \<Rightarrow> do {
             apps \<leftarrow> query (cl_listApplications (client E));
             case apps of
               Inl _ \<Rightarrow> ret (Inl (StatusErr NotFound))
             | Inr as \<Rightarrow>
                 (case find (\<lambda>x. om_name (app_meta x) = appName) as of
                    Some app \<Rightarrow> ret (Inr app)
                  | None \<Rightarrow> ret (Inl (StatusErr NotFound)))
           }
       }
   }"

definition requiredJQ :: "string \<Rightarrow> string list" where
  "requiredJQ appName =
     [''.spec.template.spec.volumes[] | select(.secret.secretName | startswith(\"'' @ appName @ ''-\"))'',
      ''.spec.template.spec.containers[].env[]? | select(.valueFrom.secretKeyRef.name | startswith(\"'' @ appName @ ''-\"))'']"

definition ignore_matches :: "string \<Rightarrow> string \<Rightarrow> ResourceIgnoreDifferences \<Rightarrow> bool" where
  "ignore_matches grp kind item \<longleftrightarrow>
     (rid_group item = grp \<or> (rid_group item = '''' \<and> grp = ''apps'')) \<and> rid_kind item = kind"

definition extend_item :: "string list \<Rightarrow> ResourceIgnoreDifferences \<Rightarrow> ResourceIgnoreDifferences" where
  "extend_item req item =
     item\<lparr>rid_jsonPointers := rid_jsonPointers item @
            (if JSONPointerRevisionAnnotation \<in> set (rid_jsonPointers item) then []
             else [JSONPointerRevisionAnnotation]),
          rid_jqPathExpressions := rid_jqPathExpressions item @
            filter (\<lambda>r. r \<notin> set (rid_jqPathExpressions item)) req\<rparr>"

definition item_modified :: "string list \<Rightarrow> ResourceIgnoreDifferences \<Rightarrow> bool" where
  "item_modified req item \<longleftrightarrow>
     JSONPointerRevisionAnnotation \<notin> set (rid_jsonPointers item) \<or>
     (\<exists>r \<in> set req. r \<notin> set (rid_jqPathExpressions item))"

text \<open>The loop returns at the first matching entry; \<open>None\<close> means that it ran to its end.\<close>

fun ensure_items ::
  "string \<Rightarrow> string \<Rightarrow> string list \<Rightarrow> ResourceIgnoreDifferences list \<Rightarrow> (bool \<times> ResourceIgnoreDifferences list) option" where
  "ensure_items grp kind req [] = None"
| "ensure_items grp kind req (item # items) =
     (if ignore_matches grp kind item then Some (item_modified req item, extend_item req item # items)
      else map_option (\<lambda>(m, xs). (m, item # xs)) (ensure_items grp kind req items))"

definition ensureIgnoreDifferences :: "Application \<Rightarrow> string \<Rightarrow> string \<Rightarrow> bool \<times> Application" where
  "ensureIgnoreDifferences app grp kind =
     (let req = requiredJQ (om_name (app_meta app)) in
      case ensure_items grp kind req (app_ignoreDifferences app) of
        Some (m, items) \<Rightarrow> (m, app\<lparr>app_ignoreDifferences := items\<rparr>)
      | None \<Rightarrow> (True, app\<lparr>app_ignoreDifferences := app_ignoreDifferences app @
            [\<lparr>rid_group = grp, rid_kind = kind, rid_jsonPointers = [JSONPointerRevisionAnnotation],
              rid_jqPathExpressions = req, rid_rest = ''''\<rparr>]\<rparr>))"

text \<open>\<^verbatim>\<open>retry.RetryOnConflict\<close>: the function is run again while it fails with a conflict, up to the
  number of attempts of the back-off; the last conflict is returned when they are used up.\<close>

fun RetryOnConflict :: "nat \<Rightarrow> err option \<Rightarrow> ('w, err option) dso \<Rightarrow> ('w, err option) dso" where
  "RetryOnConflict 0 lastErr fn = ret lastErr"
| "RetryOnConflict (Suc n) lastErr fn = do {
     r \<leftarrow> fn;
     case r of
       None \<Rightarrow> ret None
     | Some e \<Rightarrow> if IsConflict e then RetryOnConflict n (Some e) fn else ret (Some e)
   }"

definition patchArgoCDApplication :: "'w env \<Rightarrow> string \<Rightarrow> string \<Rightarrow> string \<Rightarrow> string \<Rightarrow> ('w, err option) dso" where
  "patchArgoCDApplication E appName ns grp kind = do {
     a \<leftarrow> fetchArgoCDApplication E appName ns;
     case a of
       Inl e \<Rightarrow> ret (Some e)
     | Inr app \<Rightarrow>
         (case ensureIgnoreDifferences app grp kind of
            (modified, app') \<Rightarrow> if \<not> modified then ret None else updateApplication E app')
   }"

definition targetGroup :: "string \<Rightarrow> string" where
  "targetGroup kind = (if kind = ''Rollout'' then ''argoproj.io'' else ''apps'')"

definition ReconcileArgoCDIgnoreDifferences ::
  "'w env \<Rightarrow> ObjectMeta option \<Rightarrow> string \<Rightarrow> ('w, err option) dso" where
  "ReconcileArgoCDIgnoreDifferences E targetObj kind =
     (case targetObj of
        None \<Rightarrow> ret None
      | Some m \<Rightarrow>
          if \<not> IsAutoPatchEnabled E then ret None
          else
            (let appName = discoverArgoCDAppName m in
             if appName = '''' then ret None
             else do {
               r \<leftarrow> RetryOnConflict (DefaultRetrySteps (libs E)) None
                      (patchArgoCDApplication E appName (om_namespace m) (targetGroup kind) kind);
               case r of
                 None \<Rightarrow> ret None
               | Some e \<Rightarrow>
                   if IsNotFound e then ret None
                   else ret (Some (Errorf ''failed to update Argo CD Application %q: %w'' [appName] (Some e)))
             }))"

section \<open>Lemmas\<close>

lemma fetchArgoCDApplication_silent [spec_rules]: "silent (fetchArgoCDApplication E n ns)"
  unfolding fetchArgoCDApplication_def by (auto intro!: spec_rules)

text \<open>An entry covers the operator's mutations when it lists the pointer and both expressions.\<close>

definition covers :: "string list \<Rightarrow> ResourceIgnoreDifferences \<Rightarrow> bool" where
  "covers req item \<longleftrightarrow>
     JSONPointerRevisionAnnotation \<in> set (rid_jsonPointers item) \<and> set req \<subseteq> set (rid_jqPathExpressions item)"

lemma extend_item_covers: "covers req (extend_item req item)"
  by (auto simp: covers_def extend_item_def)

lemma not_modified_iff: "\<not> item_modified req item \<longleftrightarrow> covers req item"
  by (auto simp: item_modified_def covers_def)

lemma extend_item_covered: "covers req item \<Longrightarrow> extend_item req item = item"
proof -
  assume "covers req item"
  then have "filter (\<lambda>r. r \<notin> set (rid_jqPathExpressions item)) req = []"
    by (auto simp: covers_def filter_empty_conv)
  with \<open>covers req item\<close> show ?thesis by (simp add: covers_def extend_item_def)
qed

lemma ignore_matches_extend [simp]: "ignore_matches g k (extend_item req i) = ignore_matches g k i"
  by (simp add: ignore_matches_def extend_item_def)

lemma ensure_items_again:
  "ensure_items g k req xs = Some (m, ys) \<Longrightarrow> ensure_items g k req ys = Some (False, ys)"
proof (induction xs arbitrary: m ys)
  case (Cons x xs)
  then show ?case
    by (auto simp: extend_item_covered extend_item_covers not_modified_iff
        not_modified_iff [THEN iffD2] split: if_splits)
qed simp

lemma ensure_items_covered:
  "ensure_items g k req xs = Some (False, xs) \<Longrightarrow> \<exists>item \<in> set xs. ignore_matches g k item \<and> covers req item"
  by (induction xs) (auto simp: not_modified_iff split: if_splits)

lemma ensure_items_append:
  "ensure_items g k req xs = None \<Longrightarrow>
   ensure_items g k req (xs @ [y]) =
     (if ignore_matches g k y then Some (item_modified req y, xs @ [extend_item req y]) else None)"
  by (induction xs) (auto split: if_splits)

lemma RetryOnConflict_emits:
  assumes "emits_only P fn"
  shows "emits_only P (RetryOnConflict n e fn)"
  by (induction n arbitrary: e)
    (auto intro!: spec_ret emits_only_bind assms spec_case_option spec_if)

lemma patchArgoCDApplication_emits:
  "emits_only (\<lambda>e. \<exists>a r. e = EUpdateApplication a r) (patchArgoCDApplication E n ns g k)"
  unfolding patchArgoCDApplication_def updateApplication_def
  by (auto intro!: spec_bind spec_silent [OF fetchArgoCDApplication_silent] spec_rules)

lemma ReconcileArgoCD_emits:
  "emits_only (\<lambda>e. \<exists>a r. e = EUpdateApplication a r) (ReconcileArgoCDIgnoreDifferences E m k)"
  unfolding ReconcileArgoCDIgnoreDifferences_def Let_def
  by (auto intro!: spec_rules spec_mono [OF RetryOnConflict_emits [OF patchArgoCDApplication_emits]])

section \<open>Properties\<close>

definition extends_item :: "ResourceIgnoreDifferences \<Rightarrow> ResourceIgnoreDifferences \<Rightarrow> bool" where
  "extends_item x y \<longleftrightarrow> rid_group y = rid_group x \<and> rid_kind y = rid_kind x \<and> rid_rest y = rid_rest x \<and>
     prefix (rid_jsonPointers x) (rid_jsonPointers y) \<and> prefix (rid_jqPathExpressions x) (rid_jqPathExpressions y)"

definition extends_app :: "Application \<Rightarrow> Application \<Rightarrow> bool" where
  "extends_app app app' \<longleftrightarrow> app_meta app' = app_meta app \<and> app_rest app' = app_rest app \<and>
     (\<exists>items added. app_ignoreDifferences app' = items @ added \<and> length added \<le> 1 \<and>
        list_all2 extends_item (app_ignoreDifferences app) items)"

lemma extends_item_refl [simp]: "extends_item x x"
  by (simp add: extends_item_def)

lemma ensure_items_extends: "ensure_items g k req xs = Some (m, ys) \<Longrightarrow> list_all2 extends_item xs ys"
  by (induction xs arbitrary: m ys)
    (auto simp: extends_item_def extend_item_def list_all2_refl split: if_splits)

lemma extends_appI:
  "app_meta app' = app_meta app \<Longrightarrow> app_rest app' = app_rest app \<Longrightarrow> app_ignoreDifferences app' = items @ added \<Longrightarrow>
   length added \<le> 1 \<Longrightarrow> list_all2 extends_item (app_ignoreDifferences app) items \<Longrightarrow> extends_app app app'"
  unfolding extends_app_def by blast

lemma ensure_keeps: "extends_app app (snd (ensureIgnoreDifferences app grp kind))"
proof (cases "ensure_items grp kind (requiredJQ (om_name (app_meta app))) (app_ignoreDifferences app)")
  case None
  then show ?thesis
    by (intro extends_appI [where items = "app_ignoreDifferences app" and added =
          "[\<lparr>rid_group = grp, rid_kind = kind, rid_jsonPointers = [JSONPointerRevisionAnnotation],
             rid_jqPathExpressions = requiredJQ (om_name (app_meta app)), rid_rest = []\<rparr>]"])
      (simp_all add: ensureIgnoreDifferences_def Let_def list_all2_refl)
next
  case (Some mi)
  then obtain m items where "ensure_items grp kind (requiredJQ (om_name (app_meta app))) (app_ignoreDifferences app) = Some (m, items)"
    by (cases mi) simp
  then show ?thesis
    by (intro extends_appI [where items = items and added = "[]"])
      (simp_all add: ensureIgnoreDifferences_def Let_def ensure_items_extends)
qed

text \<open>The ignore rules of the operator, spelled out: the annotation of the revision, and the volumes and the environment
  variables of containers whose secret name starts with the application's name and a hyphen.\<close>

definition lists_rules :: "string \<Rightarrow> ResourceIgnoreDifferences \<Rightarrow> bool" where
  "lists_rules appName item \<longleftrightarrow>
     ''/spec/template/metadata/annotations/dso.quantumsys.dev~1revision'' \<in> set (rid_jsonPointers item) \<and>
     (''.spec.template.spec.volumes[] | select(.secret.secretName | startswith(\"'' @ appName @ ''-\"))'')
       \<in> set (rid_jqPathExpressions item) \<and>
     (''.spec.template.spec.containers[].env[]? | select(.valueFrom.secretKeyRef.name | startswith(\"'' @ appName @ ''-\"))'')
       \<in> set (rid_jqPathExpressions item)"

lemma covers_lists: "covers (requiredJQ appName) item \<Longrightarrow> lists_rules appName item"
  by (simp add: covers_def requiredJQ_def lists_rules_def)

lemma ensure_settles:
  assumes "ensureIgnoreDifferences app grp kind = (m, app')"
  shows "(\<exists>item \<in> set (app_ignoreDifferences app'). ignore_matches grp kind item \<and> covers (requiredJQ (om_name (app_meta app))) item) \<and>
    ensureIgnoreDifferences app' grp kind = (False, app')"
proof -
  let ?req = "requiredJQ (om_name (app_meta app))"
  let ?new = "\<lparr>rid_group = grp, rid_kind = kind, rid_jsonPointers = [JSONPointerRevisionAnnotation],
      rid_jqPathExpressions = ?req, rid_rest = ''''\<rparr>"
  have new: "ignore_matches grp kind ?new" "covers ?req ?new" by (auto simp: ignore_matches_def covers_def)
  show ?thesis
  proof (cases "ensure_items grp kind ?req (app_ignoreDifferences app)")
    case None
    with assms new have "app' = app\<lparr>app_ignoreDifferences := app_ignoreDifferences app @ [?new]\<rparr>"
      by (simp add: ensureIgnoreDifferences_def Let_def)
    with new None show ?thesis
      by (auto simp: ensureIgnoreDifferences_def Let_def ensure_items_append extend_item_covered not_modified_iff)
  next
    case (Some mi)
    obtain m' items where mi: "mi = (m', items)" by fastforce
    with Some assms have app': "app' = app\<lparr>app_ignoreDifferences := items\<rparr>"
      by (simp add: ensureIgnoreDifferences_def Let_def)
    from Some mi ensure_items_again have again: "ensure_items grp kind ?req items = Some (False, items)" by blast
    with ensure_items_covered [OF again] show ?thesis
      by (auto simp: app' ensureIgnoreDifferences_def Let_def)
  qed
qed



end
