(* ===== verification/Dso_Canary.thy ===== *)
theory Dso_Canary
  imports Dso_Sample
begin

text \<open>
  The canary package (\<^verbatim>\<open>internal/canary\<close>), first part: \<open>BuildCanaryFromTemplate\<close>, the one-replica
  Deployment that mounts the new secret revision, and \<open>CleanupCanaryResources\<close>. The loops over
  volumes, environment variables and containers of the Go code are maps over the lists; the
  in-place updates of one element are the functions named after what they update.
\<close>

section \<open>Labels and explicit targets\<close>

abbreviation LabelRevision :: string where "LabelRevision \<equiv> ''dso.quantumsys.dev/revision''"
abbreviation LabelCanary :: string where "LabelCanary \<equiv> ''dso.quantumsys.dev/canary''"
abbreviation LabelTargetWorkload :: string where "LabelTargetWorkload \<equiv> ''dso.quantumsys.dev/target''"

text \<open>The three strings read from \<^verbatim>\<open>policy.Spec.TargetRef\<close>; empty when it is nil.\<close>

definition targetVolumeName :: "DynamicSecretPolicy \<Rightarrow> string" where
  "targetVolumeName p = (case spec_TargetRef (p_spec p) of Some t \<Rightarrow> tr_VolumeName t | None \<Rightarrow> '''')"

definition targetEnvName :: "DynamicSecretPolicy \<Rightarrow> string" where
  "targetEnvName p = (case spec_TargetRef (p_spec p) of Some t \<Rightarrow> tr_EnvName t | None \<Rightarrow> '''')"

definition targetContainerName :: "DynamicSecretPolicy \<Rightarrow> string" where
  "targetContainerName p = (case spec_TargetRef (p_spec p) of Some t \<Rightarrow> tr_ContainerName t | None \<Rightarrow> '''')"

text \<open>\<^verbatim>\<open>objectName\<close>, \<^verbatim>\<open>managedPrefix\<close> and \<^verbatim>\<open>legacyPrefix\<close>: note that the object name is the one of the
  legacy reference \<^verbatim>\<open>policy.Spec.VaultRef\<close>, not the resolved one.\<close>

definition vaultRefObjectName :: "DynamicSecretPolicy \<Rightarrow> string" where
  "vaultRefObjectName p = vr_ObjectName (spec_VaultRef (p_spec p))"

definition managedPrefix :: "string \<Rightarrow> DynamicSecretPolicy \<Rightarrow> string" where
  "managedPrefix targetName p = targetName @ ''-'' @ vaultRefObjectName p @ ''-rev-''"

definition legacyPrefix :: "string \<Rightarrow> string" where
  "legacyPrefix targetName = targetName @ ''-rev-''"

section \<open>BuildCanaryFromTemplate\<close>

definition canary_setVolume :: "DynamicSecretPolicy \<Rightarrow> string \<Rightarrow> Volume \<Rightarrow> Volume" where
  "canary_setVolume p newSecretName vol =
     (if vol_name vol = targetVolumeName p then
        vol\<lparr>vol_secret := Some ((case vol_secret vol of
              Some s \<Rightarrow> s | None \<Rightarrow> \<lparr>sv_secretName = '''', sv_rest = ''''\<rparr>)
            \<lparr>sv_secretName := newSecretName\<rparr>)\<rparr>
      else vol)"

definition canary_volumeMatches :: "string \<Rightarrow> DynamicSecretPolicy \<Rightarrow> string \<Rightarrow> string \<Rightarrow> bool" where
  "canary_volumeMatches targetName p volName sName \<longleftrightarrow>
     HasPrefix sName (managedPrefix targetName p) \<or>
     sName = vaultRefObjectName p \<or>
     sName = targetName @ ''-'' @ vaultRefObjectName p \<or>
     sName = targetName @ ''-'' @ vaultRefObjectName p @ ''-secret'' \<or>
     sName = targetName @ ''-secret'' \<or>
     volName = vaultRefObjectName p \<or>
     volName = vaultRefObjectName p @ ''-volume'' \<or>
     (HasPrefix sName (legacyPrefix targetName) \<and>
        (case spec_TargetRef (p_spec p) of None \<Rightarrow> True | Some t \<Rightarrow> tr_VolumeName t = ''''))"

definition canary_matchVolume :: "string \<Rightarrow> DynamicSecretPolicy \<Rightarrow> string \<Rightarrow> Volume \<Rightarrow> Volume" where
  "canary_matchVolume targetName p newSecretName vol =
     (case vol_secret vol of
        None \<Rightarrow> vol
      | Some s \<Rightarrow>
          if canary_volumeMatches targetName p (vol_name vol) (sv_secretName s)
          then vol\<lparr>vol_secret := Some (s\<lparr>sv_secretName := newSecretName\<rparr>)\<rparr>
          else vol)"

definition canary_volumes :: "string \<Rightarrow> DynamicSecretPolicy \<Rightarrow> string \<Rightarrow> Volume list \<Rightarrow> Volume list" where
  "canary_volumes targetName p newSecretName vols =
     (if targetVolumeName p \<noteq> '''' then map (canary_setVolume p newSecretName) vols
      else if targetEnvName p = '''' then map (canary_matchVolume targetName p newSecretName) vols
      else vols)"

definition canary_secretEnvSource :: "DynamicSecretPolicy \<Rightarrow> string \<Rightarrow> EnvVarSource" where
  "canary_secretEnvSource p newSecretName =
     \<lparr>evs_secretKeyRef = Some \<lparr>skr_name = newSecretName, skr_key = vaultRefObjectName p, skr_rest = ''''\<rparr>,
      evs_rest = ''''\<rparr>"

definition canary_setEnv :: "DynamicSecretPolicy \<Rightarrow> string \<Rightarrow> Container \<Rightarrow> EnvVar list \<Rightarrow> EnvVar list" where
  "canary_setEnv p newSecretName c envs =
     (let found = list_ex (\<lambda>e. env_name e = targetEnvName p) envs;
          envs' = map (\<lambda>e. if env_name e = targetEnvName p
                     then e\<lparr>env_value := '''', env_valueFrom := Some (canary_secretEnvSource p newSecretName)\<rparr>
                     else e) envs
      in if \<not> found \<and> (targetContainerName p = '''' \<or> ct_name c = targetContainerName p)
         then envs' @ [\<lparr>env_name = targetEnvName p, env_value = '''',
                        env_valueFrom = Some (canary_secretEnvSource p newSecretName)\<rparr>]
         else envs')"

definition canary_envMatches :: "string \<Rightarrow> DynamicSecretPolicy \<Rightarrow> string \<Rightarrow> string \<Rightarrow> bool" where
  "canary_envMatches targetName p refName refKey \<longleftrightarrow>
     HasPrefix refName (managedPrefix targetName p) \<or>
     refKey = vaultRefObjectName p \<or>
     refName = vaultRefObjectName p \<or>
     refName = targetName @ ''-'' @ vaultRefObjectName p \<or>
     (CurrentRevision (p_status p) \<noteq> '''' \<and>
        refName = targetName @ ''-'' @ vaultRefObjectName p @ ''-rev-'' @ CurrentRevision (p_status p)) \<or>
     (CurrentRevision (p_status p) \<noteq> '''' \<and>
        refName = targetName @ ''-rev-'' @ CurrentRevision (p_status p))"

definition canary_matchEnv :: "string \<Rightarrow> DynamicSecretPolicy \<Rightarrow> string \<Rightarrow> EnvVar \<Rightarrow> EnvVar" where
  "canary_matchEnv targetName p newSecretName e =
     (case env_valueFrom e of
        None \<Rightarrow> e
      | Some vf \<Rightarrow>
          (case evs_secretKeyRef vf of
             None \<Rightarrow> e
           | Some ref \<Rightarrow>
               if canary_envMatches targetName p (skr_name ref) (skr_key ref)
               then e\<lparr>env_valueFrom := Some (vf\<lparr>evs_secretKeyRef := Some (ref\<lparr>skr_name := newSecretName\<rparr>)\<rparr>)\<rparr>
               else e))"

definition canary_envFromMatches :: "string \<Rightarrow> DynamicSecretPolicy \<Rightarrow> string \<Rightarrow> bool" where
  "canary_envFromMatches targetName p refName \<longleftrightarrow>
     HasPrefix refName (managedPrefix targetName p) \<or>
     refName = vaultRefObjectName p \<or>
     refName = targetName @ ''-'' @ vaultRefObjectName p \<or>
     (CurrentRevision (p_status p) \<noteq> '''' \<and>
        refName = targetName @ ''-'' @ vaultRefObjectName p @ ''-rev-'' @ CurrentRevision (p_status p)) \<or>
     (CurrentRevision (p_status p) \<noteq> '''' \<and>
        refName = targetName @ ''-rev-'' @ CurrentRevision (p_status p))"

definition canary_matchEnvFrom :: "string \<Rightarrow> DynamicSecretPolicy \<Rightarrow> string \<Rightarrow> EnvFromSource \<Rightarrow> EnvFromSource" where
  "canary_matchEnvFrom targetName p newSecretName ef =
     (case ef_secretRef ef of
        None \<Rightarrow> ef
      | Some ref \<Rightarrow>
          if canary_envFromMatches targetName p (ses_name ref)
          then ef\<lparr>ef_secretRef := Some (ref\<lparr>ses_name := newSecretName\<rparr>)\<rparr>
          else ef)"

definition canary_mutateContainer :: "string \<Rightarrow> DynamicSecretPolicy \<Rightarrow> string \<Rightarrow> Container \<Rightarrow> Container" where
  "canary_mutateContainer targetName p newSecretName c =
     (if targetContainerName p \<noteq> '''' \<and> ct_name c \<noteq> targetContainerName p then c
      else if targetEnvName p \<noteq> '''' then c\<lparr>ct_env := canary_setEnv p newSecretName c (ct_env c)\<rparr>
      else c\<lparr>ct_env := map (canary_matchEnv targetName p newSecretName) (ct_env c),
             ct_envFrom := map (canary_matchEnvFrom targetName p newSecretName) (ct_envFrom c)\<rparr>)"

definition canaryLabels :: "string \<Rightarrow> labels" where
  "canaryLabels targetName = [LabelCanary \<mapsto> ''true'', LabelTargetWorkload \<mapsto> targetName]"

definition canaryTemplate :: "string \<Rightarrow> PodTemplateSpec \<Rightarrow> DynamicSecretPolicy \<Rightarrow> string \<Rightarrow> PodTemplateSpec" where
  "canaryTemplate targetName tpl p newSecretName =
     tpl\<lparr>pt_labels := canaryLabels targetName,
         pt_annotations := (pt_annotations tpl)(LabelRevision \<mapsto> DesiredRevision (p_status p)),
         pt_spec := (pt_spec tpl)
           \<lparr>ps_volumes := canary_volumes targetName p newSecretName (ps_volumes (pt_spec tpl)),
            ps_containers := map (canary_mutateContainer targetName p newSecretName) (ps_containers (pt_spec tpl)),
            ps_initContainers := map (canary_mutateContainer targetName p newSecretName) (ps_initContainers (pt_spec tpl))\<rparr>\<rparr>"

definition canaryName :: "string \<Rightarrow> string" where
  "canaryName targetName = targetName @ ''-canary''"

definition BuildCanaryFromTemplate ::
  "string \<Rightarrow> PodTemplateSpec \<Rightarrow> DynamicSecretPolicy \<Rightarrow> string \<Rightarrow> Workload" where
  "BuildCanaryFromTemplate targetName tpl p newSecretName =
     \<lparr>w_meta = empty_meta\<lparr>om_name := canaryName targetName, om_namespace := pol_namespace p,
                           om_labels := canaryLabels targetName\<rparr>,
      w_replicas = Some 1,
      w_selector = canaryLabels targetName,
      w_template = canaryTemplate targetName tpl p newSecretName,
      w_observedGeneration = '''', w_phase = '''', w_rest = ''''\<rparr>"

definition BuildCanaryDeployment :: "Workload \<Rightarrow> DynamicSecretPolicy \<Rightarrow> string \<Rightarrow> Workload" where
  "BuildCanaryDeployment d p newSecretName =
     BuildCanaryFromTemplate (om_name (w_meta d)) (w_template d) p newSecretName"

section \<open>CleanupCanaryResources\<close>

definition cleanupJobs :: "'w env \<Rightarrow> DynamicSecretPolicy \<Rightarrow> ('w, unit) dso" where
  "cleanupJobs E p = do {
     jobs \<leftarrow> query (cl_listJobs (client E) (pol_namespace p) [(''dso.quantumsys.dev/policy'', pol_name p)]);
     case jobs of
       Inl _ \<Rightarrow> ret ()
     | Inr js \<Rightarrow> for_each js (\<lambda>j. do { _ \<leftarrow> deleteJob E j; ret () })
   }"

definition CleanupCanaryResources :: "'w env \<Rightarrow> DynamicSecretPolicy \<Rightarrow> ('w, err option) dso" where
  "CleanupCanaryResources E p = (let targetName = target_name p; ns = pol_namespace p in do {
     d \<leftarrow> deleteDeployment E ns (canaryName targetName);
     case IgnoreNotFound d of
       Some e \<Rightarrow> ret (Some (Errorf ''failed to delete canary deployment %q: %w'' [canaryName targetName] (Some e)))
     | None \<Rightarrow> do {
         n \<leftarrow> deleteNetworkPolicy E ns (targetName @ ''-canary-netpol'');
         case IgnoreNotFound n of
           Some e \<Rightarrow> ret (Some (Errorf ''failed to delete canary network policy %q: %w''
                                 [targetName @ ''-canary-netpol''] (Some e)))
         | None \<Rightarrow> do {
             _ \<leftarrow> deleteCilium E ns (targetName @ ''-canary-cilium-netpol'');
             _ \<leftarrow> cleanupJobs E p;
             ret None
           }
       }
   })"

section \<open>Lemmas\<close>

lemma canary_volumes_length [simp]: "length (canary_volumes n p s vs) = length vs"
  by (simp add: canary_volumes_def)

lemma canary_mutateContainer_frame [simp]:
  "ct_name (canary_mutateContainer n p s c) = ct_name c"
  "ct_rest (canary_mutateContainer n p s c) = ct_rest c"
  by (simp_all add: canary_mutateContainer_def)

lemma canary_matchVolume_frame [simp]:
  "vol_name (canary_matchVolume n p s v) = vol_name v"
  "vol_rest (canary_matchVolume n p s v) = vol_rest v"
  by (simp_all add: canary_matchVolume_def split: option.splits)

lemma canary_setVolume_frame [simp]:
  "vol_name (canary_setVolume p s v) = vol_name v"
  "vol_rest (canary_setVolume p s v) = vol_rest v"
  by (simp_all add: canary_setVolume_def)

section \<open>Properties\<close>

text \<open>Best effort for the probe Jobs: the Jobs that a listing by the policy's label returned are deleted in order,
  whatever the replies; none when the listing failed.\<close>

definition jobs_deleted :: "'w env \<Rightarrow> DynamicSecretPolicy \<Rightarrow> event list \<Rightarrow> bool" where
  "jobs_deleted E p es \<longleftrightarrow>
     (\<exists>r w w'. cl_listJobs (client E) (pol_namespace p) [(''dso.quantumsys.dev/policy'', pol_name p)] w = (r, w') \<and>
        (case r of Inl _ \<Rightarrow> es = [] | Inr js \<Rightarrow> list_all2 (\<lambda>j ev. \<exists>e. ev = EDeleteJob j e) js es))"

text \<open>The outcome of a cleanup. A failed deletion of the Deployment or of the standard network policy stops it and is
  the reported error. The reply to the deletion of the Cilium policy has no influence.\<close>

definition cleanup_outcome :: "'w env \<Rightarrow> DynamicSecretPolicy \<Rightarrow> err option \<Rightarrow> event list \<Rightarrow> bool" where
  "cleanup_outcome E p r es \<longleftrightarrow>
     (\<exists>d x f as. IgnoreNotFound d = Some x \<and> r = Some (Errorf f as (Some x)) \<and>
        es = [EDeleteDeployment (pol_namespace p) (target_name p @ ''-canary'') d]) \<or>
     (\<exists>d n x f as. IgnoreNotFound d = None \<and> IgnoreNotFound n = Some x \<and> r = Some (Errorf f as (Some x)) \<and>
        es = [EDeleteDeployment (pol_namespace p) (target_name p @ ''-canary'') d,
              EDeleteNetworkPolicy (pol_namespace p) (target_name p @ ''-canary-netpol'') n]) \<or>
     (\<exists>d n c jobs. IgnoreNotFound d = None \<and> IgnoreNotFound n = None \<and> r = None \<and>
        es = [EDeleteDeployment (pol_namespace p) (target_name p @ ''-canary'') d,
              EDeleteNetworkPolicy (pol_namespace p) (target_name p @ ''-canary-netpol'') n,
              EDeleteCilium (pol_namespace p) (target_name p @ ''-canary-cilium-netpol'') c] @ jobs \<and>
        jobs_deleted E p jobs)"

lemma cleanup_outcomeI:
  "IgnoreNotFound d = Some x \<Longrightarrow>
   cleanup_outcome E p (Some (Errorf f as (Some x))) [EDeleteDeployment (pol_namespace p) (target_name p @ ''-canary'') d]"
  "IgnoreNotFound d = None \<Longrightarrow> IgnoreNotFound n = Some x \<Longrightarrow>
   cleanup_outcome E p (Some (Errorf f as (Some x))) [EDeleteDeployment (pol_namespace p) (target_name p @ ''-canary'') d,
     EDeleteNetworkPolicy (pol_namespace p) (target_name p @ ''-canary-netpol'') n]"
  "IgnoreNotFound d = None \<Longrightarrow> IgnoreNotFound n = None \<Longrightarrow> jobs_deleted E p jobs \<Longrightarrow>
   cleanup_outcome E p None (EDeleteDeployment (pol_namespace p) (target_name p @ ''-canary'') d #
     EDeleteNetworkPolicy (pol_namespace p) (target_name p @ ''-canary-netpol'') n #
     EDeleteCilium (pol_namespace p) (target_name p @ ''-canary-cilium-netpol'') c # jobs)"
  unfolding cleanup_outcome_def by simp_all

lemma delete_each: "spec (for_each js (\<lambda>j. do { _ \<leftarrow> deleteJob E j; ret () })) (\<lambda>_. list_all2 (\<lambda>j ev. \<exists>e. ev = EDeleteJob j e) js)"
proof (induction js)
  case Nil
  show ?case by (simp add: spec_ret)
next
  case (Cons j js)
  then show ?case
    by (auto simp: deleteJob_def intro!: spec_bind spec_call spec_ret elim!: spec_mono)
qed

lemma cleanupJobs_deletes: "spec (cleanupJobs E p) (\<lambda>_. jobs_deleted E p)"
proof -
  let ?list = "cl_listJobs (client E) (pol_namespace p) [(''dso.quantumsys.dev/policy'', pol_name p)]"
  have "spec (query ?list) (\<lambda>r es. es = [] \<and> (\<exists>w w'. ?list w = (r, w')))" by (rule spec_query_reply) blast
  note reply = spec_mono [OF this]
  have "jobs_deleted E p []" if "?list w = (Inl e, w')" for e w w'
    using that unfolding jobs_deleted_def by (intro exI [of _ "Inl e"]) auto
  moreover have "jobs_deleted E p es" if "?list w = (Inr js, w')" "list_all2 (\<lambda>j ev. \<exists>e. ev = EDeleteJob j e) js es" for js es w w'
    using that unfolding jobs_deleted_def by (intro exI [of _ "Inr js"]) auto
  ultimately show ?thesis
    unfolding cleanupJobs_def
    by (auto intro!: spec_bind [where m = "query _"] reply spec_case_sum spec_ret spec_mono [OF delete_each])
qed

text \<open>C24: a cleanup reports success exactly when the canary Deployment and the standard network policy were deleted or
  not found; otherwise it stops at the first of these two deletions that failed and reports its error. On
  success it has also tried to delete the Cilium policy and, in order, the Jobs listed for the policy, but
  errors of these are ignored, so a Cilium policy may remain after a success.\<close>

theorem cleanup_outcomes: "spec (CleanupCanaryResources E p) (cleanup_outcome E p)"
  unfolding CleanupCanaryResources_def deleteDeployment_def deleteNetworkPolicy_def deleteCilium_def Let_def canaryName_def
  by (auto intro!: spec_rules spec_mono [OF cleanupJobs_deletes] cleanup_outcomeI)

end
