(* ===== verification/Dso_Materialize.thy ===== *)
theory Dso_Materialize
  imports Dso_Source Dso_Argo Dso_Canary
begin

text \<open>
  Secret revisions in the cluster (\<^verbatim>\<open>internal/controller\<close>): \<open>materializeSecretRevision\<close> fetches the
  payload from the configured source, names it by its hash and creates an immutable Secret;
  \<open>gcOldSecretRevisions\<close> deletes the revisions that are neither current nor desired. The reconciler's
  injected collaborators are the record \<open>reconciler\<close>.
\<close>

section \<open>The reconciler\<close>

text \<open>\<open>rc_KubeClient\<close> tells whether a clientset for pod logs is configured. The scheme and the worker
  settings have no influence on the operations modelled here.\<close>

record 'w reconciler =
  rc_SecretFetcher :: "'w SecretFetcher option"
  rc_ProviderRegistry :: "'w Registry option"
  rc_KubeClient :: bool
  rc_ProbeRunner :: "(ValidationProbe \<Rightarrow> (string \<times> bytes) list \<Rightarrow> 'w \<Rightarrow> err option \<times> 'w) option"
  rc_OnSecretMaterialized :: "(string \<Rightarrow> string \<Rightarrow> 'w \<Rightarrow> err option \<times> 'w) option"

abbreviation LabelPolicy :: string where "LabelPolicy \<equiv> ''dso.quantumsys.dev/policy''"
abbreviation LabelManaged :: string where "LabelManaged \<equiv> ''dso.quantumsys.dev/managed''"
abbreviation ManagedValueTrue :: string where "ManagedValueTrue \<equiv> ''true''"
abbreviation ManagedValueWatch :: string where "ManagedValueWatch \<equiv> ''watch''"
abbreviation SecretTypeOpaque :: string where "SecretTypeOpaque \<equiv> ''Opaque''"
abbreviation SecretTypeTLS :: string where "SecretTypeTLS \<equiv> ''kubernetes.io/tls''"
abbreviation TLSCertKey :: string where "TLSCertKey \<equiv> ''tls.crt''"
abbreviation TLSPrivateKeyKey :: string where "TLSPrivateKeyKey \<equiv> ''tls.key''"

section \<open>PEM payloads\<close>

text \<open>One block, appended to the certificates or to the keys by its type.\<close>

definition appendBlock :: "'w Net \<Rightarrow> PemBlock \<Rightarrow> bytes \<times> bytes \<Rightarrow> bytes \<times> bytes" where
  "appendBlock N block acc =
     (if Contains (pem_type block) ''CERTIFICATE'' then (fst acc @ net_pemEncode N block, snd acc)
      else if Contains (pem_type block) ''PRIVATE KEY'' \<or> Contains (pem_type block) ''KEY''
      then (fst acc, snd acc @ net_pemEncode N block)
      else acc)"

text \<open>The decoding loop, with fuel: \<^verbatim>\<open>pem.Decode\<close> returns a shorter rest, so one more than the number
  of bytes is enough.\<close>

fun pemLoop :: "'w Net \<Rightarrow> nat \<Rightarrow> bytes \<Rightarrow> bytes \<times> bytes \<Rightarrow> bytes \<times> bytes" where
  "pemLoop N 0 rest acc = acc"
| "pemLoop N (Suc n) rest acc =
     (case net_pemDecode N rest of
        None \<Rightarrow> acc
      | Some (block, rest') \<Rightarrow> pemLoop N n rest' (appendBlock N block acc))"

definition extractPEMCertAndKey :: "'w Net \<Rightarrow> bytes \<Rightarrow> bytes \<times> bytes" where
  "extractPEMCertAndKey N data = pemLoop N (Suc (length data)) data ('''', '''')"

section \<open>materializeSecretRevision\<close>

definition isCertificateSource :: "SecretSource \<Rightarrow> bool" where
  "isCertificateSource src \<longleftrightarrow>
     src_Type src = SourceTypeAzureKeyVault \<and>
     (case src_AzureKeyVault src of None \<Rightarrow> False | Some a \<Rightarrow> akv_ObjectType a = VaultObjectTypeCertificate)"

text \<open>The type and the data of the Secret: a certificate payload is split into the two TLS keys.\<close>

definition secretTypeAndData :: "'w Net \<Rightarrow> SecretSource \<Rightarrow> (string \<times> bytes) list \<Rightarrow> string \<times> (string \<times> bytes) list" where
  "secretTypeAndData N src d =
     (if isCertificateSource src then
        (case find (\<lambda>kv. Contains (snd kv) ''-----BEGIN '') d of
           None \<Rightarrow> (SecretTypeOpaque, d)
         | Some kv \<Rightarrow>
             (case extractPEMCertAndKey N (snd kv) of
                (certData, keyData) \<Rightarrow>
                  if certData \<noteq> '''' then
                    (SecretTypeTLS,
                     (if keyData \<noteq> '''' then AList.update TLSPrivateKeyKey keyData (AList.update TLSCertKey certData d)
                      else AList.update TLSCertKey certData d))
                  else (SecretTypeOpaque, d)))
      else if map_of d TLSCertKey \<noteq> None \<and> map_of d TLSPrivateKeyKey \<noteq> None then (SecretTypeTLS, d)
      else (SecretTypeOpaque, d))"

definition revisionLabels :: "DynamicSecretPolicy \<Rightarrow> string \<Rightarrow> labels" where
  "revisionLabels p revision =
     [LabelRevision \<mapsto> revision, LabelTargetWorkload \<mapsto> target_name p,
      LabelPolicy \<mapsto> pol_name p, LabelManaged \<mapsto> ManagedValueTrue]"

definition revisionSecretOf :: "'w env \<Rightarrow> DynamicSecretPolicy \<Rightarrow> SecretPayload \<Rightarrow> Secret" where
  "revisionSecretOf E p payload =
     (let revision = revisionHash payload;
          td = secretTypeAndData (net E) (GetResolvedSource (p_spec p)) (sp_Data payload)
      in \<lparr>s_meta = empty_meta
            \<lparr>om_name := revisionSecretName (target_name p) (GetVaultObjectName (p_spec p)) revision,
             om_namespace := pol_namespace p,
             om_labels := revisionLabels p revision\<rparr>,
          s_type = fst td, s_data = snd td\<rparr>)"

definition activeRegistry :: "'w env \<Rightarrow> 'w reconciler \<Rightarrow> 'w Registry" where
  "activeRegistry E R =
     (case rc_ProviderRegistry R of
        Some reg \<Rightarrow> reg
      | None \<Rightarrow> SetupDefaultRegistry (Some (cl_getSecret (client E))) (rc_SecretFetcher R))"

definition materializeSecretRevision ::
  "'w env \<Rightarrow> 'w reconciler \<Rightarrow> DynamicSecretPolicy \<Rightarrow> ('w, err + string) dso" where
  "materializeSecretRevision E R p =
     (let src = GetResolvedSource (p_spec p) in
      case Registry_Get (activeRegistry E R) (src_Type src) of
        Inl e \<Rightarrow> ret (Inl (Errorf ''failed to resolve source provider for policy %q: %w'' [pol_name p] (Some e)))
      | Inr fetchSecret \<Rightarrow> do {
          r \<leftarrow> fetchSecret E p;
          case r of
            Inl e \<Rightarrow> ret (Inl (Errorf ''failed to fetch secret from source provider %q: %w'' [src_Type src] (Some e)))
          | Inr payload \<Rightarrow>
              (let secret = revisionSecretOf E p payload in
               case SetControllerReference (libs E) p (s_meta secret) of
                 Inl e \<Rightarrow> ret (Inl (Errorf ''failed to set controller reference on secret: %w'' [] (Some e)))
               | Inr m \<Rightarrow> do {
                   created \<leftarrow> createSecret E (secret\<lparr>s_meta := m\<rparr>);
                   case created of
                     None \<Rightarrow> ret (Inr (revisionHash payload))
                   | Some e \<Rightarrow>
                       if IsAlreadyExists e then ret (Inr (revisionHash payload))
                       else ret (Inl (Errorf ''failed to create secret revision %q: %w'' [om_name (s_meta secret)] (Some e)))
                 })
        })"

section \<open>gcOldSecretRevisions\<close>

definition is_old_revision :: "DynamicSecretPolicy \<Rightarrow> Secret \<Rightarrow> bool" where
  "is_old_revision p s \<longleftrightarrow>
     (let rev = map_get (om_labels (s_meta s)) LabelRevision
      in rev \<noteq> DesiredRevision (p_status p) \<and> rev \<noteq> CurrentRevision (p_status p))"

definition gcOldSecretRevisions :: "'w env \<Rightarrow> DynamicSecretPolicy \<Rightarrow> string \<Rightarrow> ('w, unit) dso" where
  "gcOldSecretRevisions E p targetName = do {
     r \<leftarrow> query (cl_listSecrets (client E) (pol_namespace p)
            [(LabelTargetWorkload, targetName), (LabelPolicy, pol_name p)]);
     case r of
       Inl _ \<Rightarrow> ret ()
     | Inr secrets \<Rightarrow>
         for_each secrets (\<lambda>s. if is_old_revision p s then do { _ \<leftarrow> deleteSecret E s; ret () } else ret ())
   }"

section \<open>Lemmas\<close>

text \<open>The documented behaviour of \<^verbatim>\<open>pem.Decode\<close> the loop relies on: it consumes input.\<close>

definition pem_consumes :: "'w Net \<Rightarrow> bool" where
  "pem_consumes N \<longleftrightarrow> (\<forall>s b r. net_pemDecode N s = Some (b, r) \<longrightarrow> length r < length s)"

lemma pemLoop_fuel:
  assumes "pem_consumes N"
  shows "length rest < n \<Longrightarrow> length rest < m \<Longrightarrow> pemLoop N n rest acc = pemLoop N m rest acc"
proof (induction n arbitrary: m rest acc)
  case (Suc n)
  then obtain k where m: "m = Suc k" by (cases m) auto
  have "length r < n" "length r < k" if "net_pemDecode N rest = Some (b, r)" for b r
    using that assms Suc.prems m by (auto simp: pem_consumes_def) fastforce+
  with Suc.IH m show ?case by (simp split: option.splits prod.splits)
qed simp

text \<open>Sources read only: the events of a materialisation are metrics, and the one creation.\<close>

definition sources_readonly :: "'w env \<Rightarrow> 'w reconciler \<Rightarrow> bool" where
  "sources_readonly E R \<longleftrightarrow> registry_readonly (activeRegistry E R)"

fun is_secret_creation :: "event \<Rightarrow> bool" where
  "is_secret_creation (ECreateSecret s e) = True"
| "is_secret_creation _ = False"

lemma Registry_Get_readonly:
  "registry_readonly reg \<Longrightarrow> Registry_Get reg t = Inr pr \<Longrightarrow> emits_only is_metric (pr E p)"
  by (auto simp: registry_readonly_def Registry_Get_def split: option.splits)

lemma materialize_emits:
  assumes "sources_readonly E R"
  shows "emits_only (\<lambda>e. is_metric e \<or> is_secret_creation e) (materializeSecretRevision E R p)"
  unfolding materializeSecretRevision_def Let_def createSecret_def
  using assms unfolding sources_readonly_def
  by (auto intro!: spec_rules spec_mono [OF Registry_Get_readonly] simp: list_all_iff)

text \<open>A returned hash was computed from a fetched payload, and a creation of its Secret was accepted
  or found it already there.\<close>

definition fetched :: "'w env \<Rightarrow> 'w reconciler \<Rightarrow> DynamicSecretPolicy \<Rightarrow> SecretPayload \<Rightarrow> bool" where
  "fetched E R p payload \<longleftrightarrow>
     (\<exists>fetchSecret s. Registry_Get (activeRegistry E R) (src_Type (GetResolvedSource (p_spec p))) = Inr fetchSecret \<and>
        result_of (fetchSecret E p) s = Inr payload)"

definition materialized :: "'w env \<Rightarrow> 'w reconciler \<Rightarrow> DynamicSecretPolicy \<Rightarrow> string \<Rightarrow> event list \<Rightarrow> bool" where
  "materialized E R p h es \<longleftrightarrow>
     (\<exists>payload s e. fetched E R p payload \<and> h = revisionHash payload \<and> ECreateSecret s e \<in> set es \<and>
        (case e of None \<Rightarrow> True | Some x \<Rightarrow> IsAlreadyExists x) \<and>
        s_data s = s_data (revisionSecretOf E p payload) \<and>
        SetControllerReference (libs E) p (s_meta (revisionSecretOf E p payload)) = Inr (s_meta s))"

lemma materialize_result:
  assumes "sources_readonly E R"
  shows "spec (materializeSecretRevision E R p) (\<lambda>r es. \<forall>h. r = Inr h \<longrightarrow> materialized E R p h es)"
  unfolding materializeSecretRevision_def Let_def createSecret_def materialized_def fetched_def
  using assms unfolding sources_readonly_def
  by (auto intro!: spec_rules spec_mono [OF spec_result [OF Registry_Get_readonly]])
    (auto intro!: exI)

text \<open>The events of a materialisation that returns a revision: metrics of the fetch, then the one creation of
  the Secret that belongs to the fetched payload, owned by the policy.\<close>

definition stored_events :: "'w env \<Rightarrow> 'w reconciler \<Rightarrow> DynamicSecretPolicy \<Rightarrow> string \<Rightarrow> event list \<Rightarrow> bool" where
  "stored_events E R p h es \<longleftrightarrow>
     (\<exists>ms payload m e. es = ms @ [ECreateSecret ((revisionSecretOf E p payload)\<lparr>s_meta := m\<rparr>) e] \<and> list_all is_metric ms \<and>
        fetched E R p payload \<and> h = revisionHash payload \<and>
        SetControllerReference (libs E) p (s_meta (revisionSecretOf E p payload)) = Inr m \<and>
        (case e of None \<Rightarrow> True | Some x \<Rightarrow> IsAlreadyExists x))"

lemma materialize_stored:
  assumes "sources_readonly E R"
  shows "spec (materializeSecretRevision E R p) (\<lambda>r es. \<forall>h. r = Inr h \<longrightarrow> stored_events E R p h es)"
  unfolding materializeSecretRevision_def Let_def createSecret_def stored_events_def fetched_def
  using assms unfolding sources_readonly_def
  by (auto intro!: spec_rules spec_mono [OF spec_result [OF Registry_Get_readonly]])
    (auto intro!: exI)

lemma materialize_nonempty:
  assumes "sources_readonly E R"
  shows "spec (materializeSecretRevision E R p) (\<lambda>r es. r \<noteq> Inr '''')"
  by (rule spec_mono [OF materialize_result [OF assms]]) (auto simp: materialized_def revisionHash_nonempty [symmetric] simp del: revisionHash_nonempty)

text \<open>Garbage collection deletes only revisions that are neither current nor desired.\<close>

definition gc_event :: "DynamicSecretPolicy \<Rightarrow> event \<Rightarrow> bool" where
  "gc_event p ev = (case ev of EDeleteSecret s e \<Rightarrow> is_old_revision p s | _ \<Rightarrow> False)"

lemma gc_emits: "emits_only (gc_event p) (gcOldSecretRevisions E p t)"
  unfolding gcOldSecretRevisions_def deleteSecret_def
  by (auto intro!: spec_rules emits_only_for_each simp: gc_event_def)

section \<open>Properties\<close>

text \<open>C11: when a materialisation returns a revision, that revision is the hash of a payload fetched from the
  source, and the creation of a Secret with the payload's data, owned by the policy, was accepted or
  found the Secret already there; besides, only metrics were written.\<close>

theorem materialize_stores_revision:
  assumes "sources_readonly E R"
  shows "spec (materializeSecretRevision E R p) (\<lambda>r es.
    (case r of Inr h \<Rightarrow> materialized E R p h es | Inl _ \<Rightarrow> True) \<and> list_all (\<lambda>e. is_metric e \<or> is_secret_creation e) es)"
  by (rule spec_mono [OF spec_conj [OF materialize_result [OF assms] materialize_emits [OF assms]]]) (auto split: sum.splits)

definition sample_reconciler :: "unit reconciler" where
  "sample_reconciler = \<lparr>rc_SecretFetcher = None,
     rc_ProviderRegistry = Some [SourceTypeAzureKeyVault \<mapsto> (\<lambda>E p. ret (Inr \<lparr>sp_Data = [(''db'', ''v'')], sp_Version = ''1''\<rparr>))],
     rc_KubeClient = False, rc_ProbeRunner = None, rc_OnSecretMaterialized = None\<rparr>"

lemma sample_readonly: "sources_readonly sample_world sample_reconciler"
  by (auto simp: sources_readonly_def activeRegistry_def registry_readonly_def sample_reconciler_def intro!: spec_ret split: if_splits)

theorem materialize_stores_revision_witness:
  "spec (materializeSecretRevision sample_world sample_reconciler sample_policy) (\<lambda>r es.
    (case r of Inr h \<Rightarrow> materialized sample_world sample_reconciler sample_policy h es | Inl _ \<Rightarrow> True) \<and>
    list_all (\<lambda>e. is_metric e \<or> is_secret_creation e) es)"
  by (rule materialize_stores_revision [OF sample_readonly])

text \<open>Garbage collection deletes no Secret that is labelled with the current or the desired revision, and
  does nothing else.\<close>

theorem gc_keeps_live_revisions: "emits_only (gc_event p) (gcOldSecretRevisions E p t)"
  by (rule gc_emits)

text \<open>The fuel of the PEM loop is enough: any larger amount gives the same certificate and key parts, when
  decoding a block consumes input.\<close>

theorem pem_fuel_enough:
  assumes "pem_consumes N" and "length data < n"
  shows "pemLoop N n data ('''', '''') = extractPEMCertAndKey N data"
  unfolding extractPEMCertAndKey_def by (rule pemLoop_fuel [OF assms]) simp

text \<open>A decoder of one-byte blocks, for the witness.\<close>

definition byte_pem :: "unit Net" where
  "byte_pem = sample_net\<lparr>net_pemDecode := (\<lambda>s. case s of [] \<Rightarrow> None
     | c # cs \<Rightarrow> Some (\<lparr>pem_type = (if c = CHR ''K'' then ''PRIVATE KEY'' else ''CERTIFICATE''), pem_bytes = [c], pem_rest = ''''\<rparr>, cs))\<rparr>"

theorem pem_fuel_enough_witness:
  "pemLoop byte_pem 100 ''CKC'' ('''', '''') = (''CC'', ''K'')"
proof -
  have "pem_consumes byte_pem" by (auto simp: pem_consumes_def byte_pem_def split: list.splits)
  from pem_fuel_enough [OF this, of "''CKC''" 100] show ?thesis
    by (simp add: extractPEMCertAndKey_def byte_pem_def appendBlock_def sample_net_def sublist_code)
qed

end
