(* ===== verification/Dso_Workload.thy ===== *)
theory Dso_Workload
  imports Dso_Canary
begin

text \<open>
  The workload package (\<^verbatim>\<open>internal/workload\<close>): \<open>MutatePodTemplateSpec\<close>, which points a pod template
  at a new secret revision, and the four adapters behind the \<open>WorkloadAdapter\<close> interface, chosen
  by \<open>NewAdapter\<close>. An adapter object holds the fetched workload; here \<open>Fetch\<close> returns it and the
  other methods take it as an argument.
\<close>

abbreviation KindDeployment :: string where "KindDeployment \<equiv> ''Deployment''"
abbreviation KindStatefulSet :: string where "KindStatefulSet \<equiv> ''StatefulSet''"
abbreviation KindDaemonSet :: string where "KindDaemonSet \<equiv> ''DaemonSet''"
abbreviation KindRollout :: string where "KindRollout \<equiv> ''Rollout''"

section \<open>MutatePodTemplateSpec\<close>

definition mutate_setVolume :: "DynamicSecretPolicy \<Rightarrow> string \<Rightarrow> Volume \<Rightarrow> Volume" where
  "mutate_setVolume p newSecretName vol =
     (if vol_name vol = targetVolumeName p then
        vol\<lparr>vol_secret := Some ((case vol_secret vol of
              Some s \<Rightarrow> s | None \<Rightarrow> \<lparr>sv_secretName = '''', sv_rest = ''''\<rparr>)
            \<lparr>sv_secretName := newSecretName\<rparr>)\<rparr>
      else vol)"

definition mutate_volumeMatches :: "string \<Rightarrow> DynamicSecretPolicy \<Rightarrow> string \<Rightarrow> string \<Rightarrow> bool" where
  "mutate_volumeMatches targetName p volName sName \<longleftrightarrow>
     HasPrefix sName (managedPrefix targetName p) \<or>
     sName = vaultRefObjectName p \<or>
     sName = targetName @ ''-'' @ vaultRefObjectName p \<or>
     sName = targetName @ ''-'' @ vaultRefObjectName p @ ''-secret'' \<or>
     sName = targetName @ ''-secret'' \<or>
     volName = vaultRefObjectName p \<or>
     volName = vaultRefObjectName p @ ''-volume'' \<or>
     (HasPrefix sName (legacyPrefix targetName) \<and>
        (case spec_TargetRef (p_spec p) of None \<Rightarrow> True | Some t \<Rightarrow> tr_VolumeName t = ''''))"

definition mutate_matchVolume :: "string \<Rightarrow> DynamicSecretPolicy \<Rightarrow> string \<Rightarrow> Volume \<Rightarrow> Volume" where
  "mutate_matchVolume targetName p newSecretName vol =
     (case vol_secret vol of
        None \<Rightarrow> vol
      | Some s \<Rightarrow>
          if mutate_volumeMatches targetName p (vol_name vol) (sv_secretName s)
          then vol\<lparr>vol_secret := Some (s\<lparr>sv_secretName := newSecretName\<rparr>)\<rparr>
          else vol)"

definition mutate_volumes :: "string \<Rightarrow> DynamicSecretPolicy \<Rightarrow> string \<Rightarrow> Volume list \<Rightarrow> Volume list" where
  "mutate_volumes targetName p newSecretName vols =
     (if targetVolumeName p \<noteq> '''' then map (mutate_setVolume p newSecretName) vols
      else if targetEnvName p = '''' then map (mutate_matchVolume targetName p newSecretName) vols
      else vols)"

definition mutate_secretEnvSource :: "DynamicSecretPolicy \<Rightarrow> string \<Rightarrow> EnvVarSource" where
  "mutate_secretEnvSource p newSecretName =
     \<lparr>evs_secretKeyRef = Some \<lparr>skr_name = newSecretName, skr_key = vaultRefObjectName p, skr_rest = ''''\<rparr>,
      evs_rest = ''''\<rparr>"

definition mutate_setEnv :: "DynamicSecretPolicy \<Rightarrow> string \<Rightarrow> Container \<Rightarrow> EnvVar list \<Rightarrow> EnvVar list" where
  "mutate_setEnv p newSecretName c envs =
     (let found = list_ex (\<lambda>e. env_name e = targetEnvName p) envs;
          envs' = map (\<lambda>e. if env_name e = targetEnvName p
                     then e\<lparr>env_value := '''', env_valueFrom := Some (mutate_secretEnvSource p newSecretName)\<rparr>
                     else e) envs
      in if \<not> found \<and> (targetContainerName p = '''' \<or> ct_name c = targetContainerName p)
         then envs' @ [\<lparr>env_name = targetEnvName p, env_value = '''',
                        env_valueFrom = Some (mutate_secretEnvSource p newSecretName)\<rparr>]
         else envs')"

definition mutate_envMatches :: "string \<Rightarrow> DynamicSecretPolicy \<Rightarrow> string \<Rightarrow> bool" where
  "mutate_envMatches targetName p refName \<longleftrightarrow>
     HasPrefix refName (managedPrefix targetName p) \<or>
     HasPrefix refName (legacyPrefix targetName) \<or>
     refName = vaultRefObjectName p \<or>
     refName = targetName @ ''-'' @ vaultRefObjectName p"

definition mutate_matchEnv :: "string \<Rightarrow> DynamicSecretPolicy \<Rightarrow> string \<Rightarrow> EnvVar \<Rightarrow> EnvVar" where
  "mutate_matchEnv targetName p newSecretName e =
     (case env_valueFrom e of
        None \<Rightarrow> e
      | Some vf \<Rightarrow>
          (case evs_secretKeyRef vf of
             None \<Rightarrow> e
           | Some ref \<Rightarrow>
               if mutate_envMatches targetName p (skr_name ref)
               then e\<lparr>env_valueFrom := Some (vf\<lparr>evs_secretKeyRef := Some (ref\<lparr>skr_name := newSecretName\<rparr>)\<rparr>)\<rparr>
               else e))"

definition mutate_envFromMatches :: "string \<Rightarrow> DynamicSecretPolicy \<Rightarrow> string \<Rightarrow> bool" where
  "mutate_envFromMatches targetName p refName \<longleftrightarrow>
     HasPrefix refName (managedPrefix targetName p) \<or>
     refName = vaultRefObjectName p \<or>
     refName = targetName @ ''-'' @ vaultRefObjectName p \<or>
     (CurrentRevision (p_status p) \<noteq> '''' \<and>
        refName = targetName @ ''-'' @ vaultRefObjectName p @ ''-rev-'' @ CurrentRevision (p_status p)) \<or>
     (CurrentRevision (p_status p) \<noteq> '''' \<and>
        refName = targetName @ ''-rev-'' @ CurrentRevision (p_status p))"

definition mutate_matchEnvFrom :: "string \<Rightarrow> DynamicSecretPolicy \<Rightarrow> string \<Rightarrow> EnvFromSource \<Rightarrow> EnvFromSource" where
  "mutate_matchEnvFrom targetName p newSecretName ef =
     (case ef_secretRef ef of
        None \<Rightarrow> ef
      | Some ref \<Rightarrow>
          if mutate_envFromMatches targetName p (ses_name ref)
          then ef\<lparr>ef_secretRef := Some (ref\<lparr>ses_name := newSecretName\<rparr>)\<rparr>
          else ef)"

definition mutateContainer :: "string \<Rightarrow> DynamicSecretPolicy \<Rightarrow> string \<Rightarrow> Container \<Rightarrow> Container" where
  "mutateContainer targetName p newSecretName c =
     (if targetContainerName p \<noteq> '''' \<and> ct_name c \<noteq> targetContainerName p then c
      else if targetEnvName p \<noteq> '''' then c\<lparr>ct_env := mutate_setEnv p newSecretName c (ct_env c)\<rparr>
      else c\<lparr>ct_env := map (mutate_matchEnv targetName p newSecretName) (ct_env c),
             ct_envFrom := map (mutate_matchEnvFrom targetName p newSecretName) (ct_envFrom c)\<rparr>)"

definition MutatePodTemplateSpec ::
  "PodTemplateSpec \<Rightarrow> string \<Rightarrow> DynamicSecretPolicy \<Rightarrow> string \<Rightarrow> PodTemplateSpec" where
  "MutatePodTemplateSpec tpl targetName p newSecretName =
     tpl\<lparr>pt_annotations := (pt_annotations tpl)(LabelRevision \<mapsto> DesiredRevision (p_status p)),
         pt_spec := (pt_spec tpl)
           \<lparr>ps_volumes := mutate_volumes targetName p newSecretName (ps_volumes (pt_spec tpl)),
            ps_containers := map (mutateContainer targetName p newSecretName) (ps_containers (pt_spec tpl)),
            ps_initContainers := map (mutateContainer targetName p newSecretName) (ps_initContainers (pt_spec tpl))\<rparr>\<rparr>"

section \<open>Adapters\<close>

record 'w WorkloadAdapter =
  wa_Kind :: string
  wa_Fetch :: "'w env \<Rightarrow> string \<Rightarrow> string \<Rightarrow> ('w, err + Workload) dso"
  wa_BuildCanary :: "Workload \<Rightarrow> DynamicSecretPolicy \<Rightarrow> string \<Rightarrow> Workload option"
  wa_Promote :: "'w env \<Rightarrow> Workload \<Rightarrow> DynamicSecretPolicy \<Rightarrow> string \<Rightarrow> ('w, err option) dso"

text \<open>\<open>Promote\<close> patches the fetched workload with its mutated copy.\<close>

definition promoted :: "Workload \<Rightarrow> DynamicSecretPolicy \<Rightarrow> string \<Rightarrow> Workload" where
  "promoted w p newSecretName =
     w\<lparr>w_template := MutatePodTemplateSpec (w_template w) (om_name (w_meta w)) p newSecretName\<rparr>"

definition DeploymentAdapter :: "'w WorkloadAdapter" where
  "DeploymentAdapter =
     \<lparr>wa_Kind = KindDeployment,
      wa_Fetch = (\<lambda>E ns name. do {
        r \<leftarrow> query (cl_getWorkload (client E) KindDeployment ns name);
        case r of
          Inl e \<Rightarrow> ret (Inl (Errorf ''failed to fetch target deployment %q: %w'' [name] (Some e)))
        | Inr d \<Rightarrow> ret (Inr d) }),
      wa_BuildCanary = (\<lambda>d p s. Some (BuildCanaryFromTemplate (om_name (w_meta d)) (w_template d) p s)),
      wa_Promote = (\<lambda>E d p s. do {
        r \<leftarrow> patchWorkload E KindDeployment d (promoted d p s);
        case r of
          Some e \<Rightarrow> ret (Some (Errorf ''failed to patch deployment %q: %w'' [om_name (w_meta d)] (Some e)))
        | None \<Rightarrow> ret None })\<rparr>"

definition StatefulSetAdapter :: "'w WorkloadAdapter" where
  "StatefulSetAdapter =
     \<lparr>wa_Kind = KindStatefulSet,
      wa_Fetch = (\<lambda>E ns name. do {
        r \<leftarrow> query (cl_getWorkload (client E) KindStatefulSet ns name);
        case r of
          Inl e \<Rightarrow> ret (Inl (Errorf ''failed to fetch target statefulset %q: %w'' [name] (Some e)))
        | Inr d \<Rightarrow> ret (Inr d) }),
      wa_BuildCanary = (\<lambda>d p s. Some (BuildCanaryFromTemplate (om_name (w_meta d)) (w_template d) p s)),
      wa_Promote = (\<lambda>E d p s. do {
        r \<leftarrow> patchWorkload E KindStatefulSet d (promoted d p s);
        case r of
          Some e \<Rightarrow> ret (Some (Errorf ''failed to patch statefulset %q: %w'' [om_name (w_meta d)] (Some e)))
        | None \<Rightarrow> ret None })\<rparr>"

definition DaemonSetAdapter :: "'w WorkloadAdapter" where
  "DaemonSetAdapter =
     \<lparr>wa_Kind = KindDaemonSet,
      wa_Fetch = (\<lambda>E ns name. do {
        r \<leftarrow> query (cl_getWorkload (client E) KindDaemonSet ns name);
        case r of
          Inl e \<Rightarrow> ret (Inl (Errorf ''failed to fetch target daemonset %q: %w'' [name] (Some e)))
        | Inr d \<Rightarrow> ret (Inr d) }),
      wa_BuildCanary = (\<lambda>d p s. Some (BuildCanaryFromTemplate (om_name (w_meta d)) (w_template d) p s)),
      wa_Promote = (\<lambda>E d p s. do {
        r \<leftarrow> patchWorkload E KindDaemonSet d (promoted d p s);
        case r of
          Some e \<Rightarrow> ret (Some (Errorf ''failed to patch daemonset %q: %w'' [om_name (w_meta d)] (Some e)))
        | None \<Rightarrow> ret None })\<rparr>"

text \<open>A Rollout gets no canary of its own: Argo's progressive delivery validates the change.\<close>

definition RolloutAdapter :: "'w WorkloadAdapter" where
  "RolloutAdapter =
     \<lparr>wa_Kind = KindRollout,
      wa_Fetch = (\<lambda>E ns name. do {
        r \<leftarrow> query (cl_getWorkload (client E) KindRollout ns name);
        case r of
          Inl e \<Rightarrow> ret (Inl (Errorf ''failed to fetch target rollout %q: %w'' [name] (Some e)))
        | Inr d \<Rightarrow> ret (Inr d) }),
      wa_BuildCanary = (\<lambda>d p s. None),
      wa_Promote = (\<lambda>E d p s. do {
        r \<leftarrow> patchWorkload E KindRollout d (promoted d p s);
        case r of
          Some e \<Rightarrow> ret (Some (Errorf ''failed to patch rollout %q: %w'' [om_name (w_meta d)] (Some e)))
        | None \<Rightarrow> ret None })\<rparr>"

definition NewAdapter :: "string \<Rightarrow> err + 'w WorkloadAdapter" where
  "NewAdapter kind =
     (if kind = KindDeployment \<or> kind = '''' then Inr DeploymentAdapter
      else if kind = KindStatefulSet then Inr StatefulSetAdapter
      else if kind = KindDaemonSet then Inr DaemonSetAdapter
      else if kind = KindRollout then Inr RolloutAdapter
      else Inl (Errorf ''unsupported workload kind %q: supported kinds are %s, %s, %s, %s''
                  [kind, KindDeployment, KindStatefulSet, KindDaemonSet, KindRollout] None))"

text \<open>The secret names a pod template refers to, in order.\<close>

definition vol_ref :: "Volume \<Rightarrow> string list" where
  "vol_ref v = (case vol_secret v of None \<Rightarrow> [] | Some s \<Rightarrow> [sv_secretName s])"

definition env_ref :: "EnvVar \<Rightarrow> string list" where
  "env_ref e = (case env_valueFrom e of None \<Rightarrow> []
     | Some vf \<Rightarrow> (case evs_secretKeyRef vf of None \<Rightarrow> [] | Some ref \<Rightarrow> [skr_name ref]))"

definition envFrom_ref :: "EnvFromSource \<Rightarrow> string list" where
  "envFrom_ref ef = (case ef_secretRef ef of None \<Rightarrow> [] | Some ref \<Rightarrow> [ses_name ref])"

definition container_refs :: "Container \<Rightarrow> string list" where
  "container_refs c = concat (map env_ref (ct_env c)) @ concat (map envFrom_ref (ct_envFrom c))"

definition secret_refs :: "PodTemplateSpec \<Rightarrow> string list" where
  "secret_refs tpl =
     concat (map vol_ref (ps_volumes (pt_spec tpl))) @
     concat (map container_refs (ps_containers (pt_spec tpl))) @
     concat (map container_refs (ps_initContainers (pt_spec tpl)))"

text \<open>No explicit target: the references to replace are found by name.\<close>

definition implicit_target :: "DynamicSecretPolicy \<Rightarrow> bool" where
  "implicit_target p \<longleftrightarrow> targetVolumeName p = '''' \<and> targetEnvName p = '''' \<and> targetContainerName p = ''''"

text \<open>A secret name that the operator does not recognise as one of its own.\<close>

definition unmanaged_name :: "string \<Rightarrow> DynamicSecretPolicy \<Rightarrow> string \<Rightarrow> bool" where
  "unmanaged_name targetName p x \<longleftrightarrow>
     \<not> HasPrefix x (managedPrefix targetName p) \<and> \<not> HasPrefix x (legacyPrefix targetName) \<and>
     x \<noteq> vaultRefObjectName p \<and> x \<noteq> targetName @ ''-'' @ vaultRefObjectName p \<and>
     x \<noteq> targetName @ ''-'' @ vaultRefObjectName p @ ''-secret'' \<and> x \<noteq> targetName @ ''-secret''"

section \<open>The adapter interface\<close>

text \<open>
  What the controller relies on: fetching changes nothing; promoting issues exactly one patch, of
  the adapter's kind, whose new template is the mutated one, and succeeds exactly when the patch
  does; a canary, when there is one, is the one-replica copy built from the workload's template.
\<close>

locale workload_adapter =
  fixes A :: "'w WorkloadAdapter" and kind :: string
  assumes adapter_kind: "wa_Kind A = kind"
    and fetch_silent: "silent (wa_Fetch A E ns name)"
    and promote_patch: "spec (wa_Promote A E w p s)
          (\<lambda>r es. \<exists>e. es = [EPatchWorkload kind w (promoted w p s) e] \<and> (r = None \<longleftrightarrow> e = None))"
    and canary_built: "wa_BuildCanary A w p s = Some c \<Longrightarrow>
          c = BuildCanaryFromTemplate (om_name (w_meta w)) (w_template w) p s"
    and canary_none: "wa_BuildCanary A w p s = None \<longleftrightarrow> kind = KindRollout"
begin

text \<open>A patch touches only the pod template: metadata, replicas and selector stay.\<close>

lemma promote_frame:
  "spec (wa_Promote A E w p s) (\<lambda>r es. \<forall>k old new e. EPatchWorkload k old new e \<in> set es \<longrightarrow>
     k = kind \<and> old = w \<and> w_meta new = w_meta w \<and> w_replicas new = w_replicas w \<and> w_selector new = w_selector w)"
  by (rule spec_mono [OF promote_patch]) (auto simp: promoted_def)

lemma canary_single_replica:
  "wa_BuildCanary A w p s = Some c \<Longrightarrow>
   w_replicas c = Some 1 \<and> om_name (w_meta c) = canaryName (om_name (w_meta w)) \<and>
   om_namespace (w_meta c) = pol_namespace p"
  by (drule canary_built) (simp add: BuildCanaryFromTemplate_def)

end

lemmas adapter_defs = DeploymentAdapter_def StatefulSetAdapter_def DaemonSetAdapter_def RolloutAdapter_def

interpretation deployment: workload_adapter DeploymentAdapter KindDeployment
  by unfold_locales (auto simp: adapter_defs patchWorkload_def intro!: spec_rules)

interpretation statefulset: workload_adapter StatefulSetAdapter KindStatefulSet
  by unfold_locales (auto simp: adapter_defs patchWorkload_def intro!: spec_rules)

interpretation daemonset: workload_adapter DaemonSetAdapter KindDaemonSet
  by unfold_locales (auto simp: adapter_defs patchWorkload_def intro!: spec_rules)

interpretation rollout: workload_adapter RolloutAdapter KindRollout
  by unfold_locales (auto simp: adapter_defs patchWorkload_def intro!: spec_rules)

text \<open>Every adapter the factory returns fulfils the interface for its kind.\<close>

lemma NewAdapter_adapter:
  "NewAdapter k = Inr A \<Longrightarrow> workload_adapter A (if k = '''' then KindDeployment else k)"
  unfolding NewAdapter_def
  by (auto split: if_splits intro: deployment.workload_adapter_axioms statefulset.workload_adapter_axioms
      daemonset.workload_adapter_axioms rollout.workload_adapter_axioms)

section \<open>Idempotence\<close>

lemma mutate_setVolume_idem [simp]:
  "mutate_setVolume p s (mutate_setVolume p s v) = mutate_setVolume p s v"
  by (simp add: mutate_setVolume_def)

lemma mutate_matchVolume_idem [simp]:
  "mutate_matchVolume n p s (mutate_matchVolume n p s v) = mutate_matchVolume n p s v"
  by (auto simp: mutate_matchVolume_def split: option.splits)

lemma mutate_volumes_idem [simp]:
  "mutate_volumes n p s (mutate_volumes n p s vs) = mutate_volumes n p s vs"
  by (simp add: mutate_volumes_def)

lemma mutate_matchEnv_idem [simp]:
  "mutate_matchEnv n p s (mutate_matchEnv n p s e) = mutate_matchEnv n p s e"
  by (auto simp: mutate_matchEnv_def split: option.splits)

lemma mutate_matchEnvFrom_idem [simp]:
  "mutate_matchEnvFrom n p s (mutate_matchEnvFrom n p s e) = mutate_matchEnvFrom n p s e"
  by (auto simp: mutate_matchEnvFrom_def split: option.splits)

lemma mutate_setEnv_idem [simp]:
  "mutate_setEnv p s c (mutate_setEnv p s c es) = mutate_setEnv p s c es"
proof -
  let ?f = "\<lambda>e. if env_name e = targetEnvName p
      then e\<lparr>env_value := [], env_valueFrom := Some (mutate_secretEnvSource p s)\<rparr> else e"
  have f: "?f (?f e) = ?f e" for e by simp
  have found: "list_ex (\<lambda>e. env_name e = targetEnvName p) (map ?f xs) =
      list_ex (\<lambda>e. env_name e = targetEnvName p) xs" for xs
    by (induction xs) auto
  show ?thesis
    unfolding mutate_setEnv_def Let_def by (simp add: found f comp_def)
qed

lemma mutate_setEnv_cong: "ct_name c = ct_name d \<Longrightarrow> mutate_setEnv p s c = mutate_setEnv p s d"
  by (simp add: mutate_setEnv_def fun_eq_iff)

lemma mutateContainer_idem [simp]:
  "mutateContainer n p s (mutateContainer n p s c) = mutateContainer n p s c"
proof -
  have "mutate_setEnv p s (c\<lparr>ct_env := x\<rparr>) = mutate_setEnv p s c" for x
    by (rule mutate_setEnv_cong) simp
  then show ?thesis by (simp add: mutateContainer_def)
qed

section \<open>References after a mutation\<close>

lemma filter_concat_map_same:
  "(\<And>x. x \<in> set xs \<Longrightarrow> filter P (g (f x)) = filter P (g x)) \<Longrightarrow>
   filter P (concat (map g (map f xs))) = filter P (concat (map g xs))"
  by (induction xs) auto

lemma vol_ref_match:
  "unmanaged_name n p x \<Longrightarrow> x \<noteq> s \<Longrightarrow>
   vol_name v \<noteq> vaultRefObjectName p \<Longrightarrow> vol_name v \<noteq> vaultRefObjectName p @ ''-volume'' \<Longrightarrow>
   filter ((=) x) (vol_ref (mutate_matchVolume n p s v)) = filter ((=) x) (vol_ref v)"
  by (auto simp: vol_ref_def mutate_matchVolume_def mutate_volumeMatches_def unmanaged_name_def split: option.splits)

lemma env_ref_match:
  "unmanaged_name n p x \<Longrightarrow> x \<noteq> s \<Longrightarrow>
   filter ((=) x) (env_ref (mutate_matchEnv n p s e)) = filter ((=) x) (env_ref e)"
  by (auto simp: env_ref_def mutate_matchEnv_def mutate_envMatches_def unmanaged_name_def split: option.splits)

lemma legacy_revision_prefix: "HasPrefix (n @ ''-rev-'' @ r) (legacyPrefix n)"
  by (simp add: legacyPrefix_def)

lemma managed_revision_prefix: "HasPrefix (revisionSecretName n (vaultRefObjectName p) r) (managedPrefix n p)"
  by (simp add: managedPrefix_def revisionSecretName_def)

lemma envFrom_ref_match:
  assumes "unmanaged_name n p x" and "x \<noteq> s"
  shows "filter ((=) x) (envFrom_ref (mutate_matchEnvFrom n p s e)) = filter ((=) x) (envFrom_ref e)"
proof -
  have "\<not> mutate_envFromMatches n p x"
    using assms(1) legacy_revision_prefix [of n "CurrentRevision (p_status p)"]
      managed_revision_prefix [of n p "CurrentRevision (p_status p)"]
    by (auto simp: mutate_envFromMatches_def unmanaged_name_def revisionSecretName_def)
  then show ?thesis
    using assms(2) by (auto simp: envFrom_ref_def mutate_matchEnvFrom_def split: option.splits)
qed

lemma container_refs_match:
  "implicit_target p \<Longrightarrow> unmanaged_name n p x \<Longrightarrow> x \<noteq> s \<Longrightarrow>
   filter ((=) x) (container_refs (mutateContainer n p s c)) = filter ((=) x) (container_refs c)"
  by (simp add: container_refs_def mutateContainer_def implicit_target_def filter_concat_map_same
      env_ref_match envFrom_ref_match del: map_map)

lemma vol_ref_replaced:
  "implicit_target p \<Longrightarrow> HasPrefix x (managedPrefix n p) \<Longrightarrow> x \<noteq> s \<Longrightarrow> x \<notin> set (vol_ref (mutate_matchVolume n p s v))"
  by (auto simp: vol_ref_def mutate_matchVolume_def mutate_volumeMatches_def split: option.splits if_splits)

lemma container_refs_replaced:
  assumes "implicit_target p" and "HasPrefix x (managedPrefix n p)" and "x \<noteq> s"
  shows "x \<notin> set (container_refs (mutateContainer n p s c))"
proof -
  have "x \<notin> set (env_ref (mutate_matchEnv n p s e))" for e
    using assms by (auto simp: env_ref_def mutate_matchEnv_def mutate_envMatches_def split: option.splits)
  moreover have "x \<notin> set (envFrom_ref (mutate_matchEnvFrom n p s e))" for e
    using assms by (auto simp: envFrom_ref_def mutate_matchEnvFrom_def mutate_envFromMatches_def split: option.splits)
  ultimately show ?thesis
    using assms(1) by (auto simp: container_refs_def mutateContainer_def implicit_target_def)
qed

text \<open>A revision name of a policy whose object name the mutation does not see (it comes from
  \<^verbatim>\<open>spec.source\<close>) is not recognised as managed.\<close>

lemma own_revision_unmanaged:
  assumes "vaultRefObjectName p = ''''" and "obj \<noteq> ''''" and "hd obj \<noteq> CHR ''-''"
    and "\<not> HasPrefix (obj @ ''-rev-'' @ r) ''rev-''"
  shows "unmanaged_name n p (revisionSecretName n obj r)"
proof -
  have "obj @ ''-rev-'' @ r \<noteq> ''secret''"
  proof
    assume eq: "obj @ ''-rev-'' @ r = ''secret''"
    have "CHR ''-'' \<in> set (obj @ ''-rev-'' @ r)" by simp
    with eq have "CHR ''-'' \<in> set ''secret''" by (simp only:)
    then show False by simp
  qed
  with assms show ?thesis
    by (cases obj)
      (auto simp: unmanaged_name_def managedPrefix_def legacyPrefix_def revisionSecretName_def)
qed

section \<open>The canary and the promotion\<close>

lemma canary_mutate_volumes: "canary_volumes n p s vs = mutate_volumes n p s vs"
proof -
  have "canary_setVolume p s = mutate_setVolume p s"
    by (simp add: fun_eq_iff canary_setVolume_def mutate_setVolume_def)
  moreover have "canary_matchVolume n p s = mutate_matchVolume n p s"
    unfolding fun_eq_iff canary_matchVolume_def mutate_matchVolume_def
      canary_volumeMatches_def mutate_volumeMatches_def by (intro allI refl)
  ultimately show ?thesis by (simp add: canary_volumes_def mutate_volumes_def)
qed

lemma canary_mutate_setEnv: "canary_setEnv p s c es = mutate_setEnv p s c es"
  unfolding canary_setEnv_def mutate_setEnv_def canary_secretEnvSource_def mutate_secretEnvSource_def by (rule refl)

lemma canary_mutate_envFrom: "canary_matchEnvFrom n p s ef = mutate_matchEnvFrom n p s ef"
  unfolding canary_matchEnvFrom_def mutate_matchEnvFrom_def canary_envFromMatches_def mutate_envFromMatches_def
  by (rule refl)

text \<open>The secret key references of a container on which the two name tests agree.\<close>

definition env_tests_agree :: "string \<Rightarrow> DynamicSecretPolicy \<Rightarrow> Container \<Rightarrow> bool" where
  "env_tests_agree n p c \<longleftrightarrow>
     (\<forall>e \<in> set (ct_env c). case env_valueFrom e of None \<Rightarrow> True
        | Some vf \<Rightarrow> (case evs_secretKeyRef vf of None \<Rightarrow> True
            | Some ref \<Rightarrow> canary_envMatches n p (skr_name ref) (skr_key ref) = mutate_envMatches n p (skr_name ref)))"

lemma canary_mutate_container:
  assumes "targetEnvName p \<noteq> '''' \<or> env_tests_agree n p c"
  shows "canary_mutateContainer n p s c = mutateContainer n p s c"
proof -
  have "map (canary_matchEnv n p s) (ct_env c) = map (mutate_matchEnv n p s) (ct_env c)"
    if "env_tests_agree n p c"
    using that by (auto simp: env_tests_agree_def canary_matchEnv_def mutate_matchEnv_def split: option.splits)
  then show ?thesis
    using assms by (auto simp: canary_mutateContainer_def mutateContainer_def canary_mutate_setEnv canary_mutate_envFrom)
qed

section \<open>Properties\<close>

text \<open>Pointing a pod template at a revision twice is the same as once, so a reconciliation that is
  repeated after a partial failure does not change the workload again.\<close>

theorem mutate_idempotent:
  "MutatePodTemplateSpec (MutatePodTemplateSpec tpl n p s) n p s = MutatePodTemplateSpec tpl n p s"
  by (simp add: MutatePodTemplateSpec_def comp_def)

text \<open>C18: after a rotation without explicit target, no volume, environment variable or environment
  source of the template refers to another revision of the policy's legacy object any more.\<close>

theorem rotation_replaces:
  assumes "implicit_target p" and "HasPrefix x (managedPrefix n p)" and "x \<noteq> s"
  shows "x \<notin> set (secret_refs (MutatePodTemplateSpec tpl n p s))"
proof -
  from assms(1) have "targetVolumeName p = ''''" "targetEnvName p = ''''" by (simp_all add: implicit_target_def)
  with assms show ?thesis
    by (auto simp: secret_refs_def MutatePodTemplateSpec_def mutate_volumes_def vol_ref_replaced container_refs_replaced)
qed

theorem rotation_replaces_witness:
  "implicit_target sample_policy \<and>
   HasPrefix ''web-db-rev-aaaaaaaaaaaa'' (managedPrefix ''web'' sample_policy) \<and>
   ''web-db-rev-aaaaaaaaaaaa'' \<in> set (secret_refs (w_template sample_workload)) \<and>
   ''web-db-rev-aaaaaaaaaaaa'' \<notin> set (secret_refs
     (MutatePodTemplateSpec (w_template sample_workload) ''web'' sample_policy ''web-db-rev-bbbbbbbbbbbb''))"
proof -
  have h: "implicit_target sample_policy" "HasPrefix ''web-db-rev-aaaaaaaaaaaa'' (managedPrefix ''web'' sample_policy)"
    by (simp_all add: implicit_target_def targetVolumeName_def targetEnvName_def targetContainerName_def
        managedPrefix_def vaultRefObjectName_def sample_defs)
  moreover have "''web-db-rev-aaaaaaaaaaaa'' \<in> set (secret_refs (w_template sample_workload))"
    by (simp add: secret_refs_def vol_ref_def sample_defs)
  ultimately show ?thesis
    using rotation_replaces [OF h, of "''web-db-rev-bbbbbbbbbbbb''" "w_template sample_workload"] by simp
qed

lemma unmanaged_refs_same:
  assumes "implicit_target p" and "unmanaged_name n p x" and "x \<noteq> s"
    and "list_all (\<lambda>v. vol_name v \<noteq> vaultRefObjectName p \<and> vol_name v \<noteq> vaultRefObjectName p @ ''-volume'') (ps_volumes (pt_spec tpl))"
  shows "filter ((=) x) (secret_refs (MutatePodTemplateSpec tpl n p s)) = filter ((=) x) (secret_refs tpl)"
proof -
  from assms(1) have "targetVolumeName p = ''''" "targetEnvName p = ''''" by (simp_all add: implicit_target_def)
  with assms show ?thesis
    by (simp add: secret_refs_def MutatePodTemplateSpec_def mutate_volumes_def list_all_iff
        filter_concat_map_same vol_ref_match container_refs_match del: map_map)
qed

text \<open>What a rotation may change: a volume only when it carries the object's name or names a recognised secret, a
  variable or an environment source only when it names a recognised secret; every other one is the same record at
  the same position of the same container, and nothing else of the pod specification changes.\<close>

definition keeps_volume :: "string \<Rightarrow> DynamicSecretPolicy \<Rightarrow> Volume \<Rightarrow> Volume \<Rightarrow> bool" where
  "keeps_volume n p v v' \<longleftrightarrow> vol_name v' = vol_name v \<and> vol_rest v' = vol_rest v \<and>
     (vol_name v \<notin> {vaultRefObjectName p, vaultRefObjectName p @ ''-volume''} \<and> list_all (unmanaged_name n p) (vol_ref v) \<longrightarrow> v' = v)"

definition keeps_env :: "string \<Rightarrow> DynamicSecretPolicy \<Rightarrow> EnvVar \<Rightarrow> EnvVar \<Rightarrow> bool" where
  "keeps_env n p e e' \<longleftrightarrow> env_name e' = env_name e \<and> (list_all (unmanaged_name n p) (env_ref e) \<longrightarrow> e' = e)"

definition keeps_envFrom :: "string \<Rightarrow> DynamicSecretPolicy \<Rightarrow> EnvFromSource \<Rightarrow> EnvFromSource \<Rightarrow> bool" where
  "keeps_envFrom n p e e' \<longleftrightarrow> (list_all (unmanaged_name n p) (envFrom_ref e) \<longrightarrow> e' = e)"

definition keeps_container :: "string \<Rightarrow> DynamicSecretPolicy \<Rightarrow> Container \<Rightarrow> Container \<Rightarrow> bool" where
  "keeps_container n p c c' \<longleftrightarrow> c' = c\<lparr>ct_env := ct_env c', ct_envFrom := ct_envFrom c'\<rparr> \<and>
     list_all2 (keeps_env n p) (ct_env c) (ct_env c') \<and> list_all2 (keeps_envFrom n p) (ct_envFrom c) (ct_envFrom c')"

definition keeps_unmanaged :: "string \<Rightarrow> DynamicSecretPolicy \<Rightarrow> PodSpec \<Rightarrow> PodSpec \<Rightarrow> bool" where
  "keeps_unmanaged n p s s' \<longleftrightarrow>
     s' = s\<lparr>ps_volumes := ps_volumes s', ps_containers := ps_containers s', ps_initContainers := ps_initContainers s'\<rparr> \<and>
     list_all2 (keeps_volume n p) (ps_volumes s) (ps_volumes s') \<and>
     list_all2 (keeps_container n p) (ps_containers s) (ps_containers s') \<and>
     list_all2 (keeps_container n p) (ps_initContainers s) (ps_initContainers s')"

lemma unmanaged_no_match:
  assumes "unmanaged_name n p x"
  shows "\<not> mutate_envMatches n p x" and "\<not> mutate_envFromMatches n p x"
    and "vn \<notin> {vaultRefObjectName p, vaultRefObjectName p @ ''-volume''} \<Longrightarrow> \<not> mutate_volumeMatches n p vn x"
proof -
  show "\<not> mutate_envMatches n p x" using assms by (auto simp: mutate_envMatches_def unmanaged_name_def)
  show "\<not> mutate_envFromMatches n p x"
    using assms legacy_revision_prefix [of n "CurrentRevision (p_status p)"] managed_revision_prefix [of n p "CurrentRevision (p_status p)"]
    by (auto simp: mutate_envFromMatches_def unmanaged_name_def revisionSecretName_def)
  show "vn \<notin> {vaultRefObjectName p, vaultRefObjectName p @ ''-volume''} \<Longrightarrow> \<not> mutate_volumeMatches n p vn x"
    using assms by (auto simp: mutate_volumeMatches_def unmanaged_name_def)
qed

lemma list_all2_map_self: "(\<And>x. P x (f x)) \<Longrightarrow> list_all2 P xs (map f xs)"
  by (induction xs) auto

lemma matches_keep:
  "keeps_volume n p v (mutate_matchVolume n p s v)"
  "keeps_env n p e (mutate_matchEnv n p s e)"
  "keeps_envFrom n p f (mutate_matchEnvFrom n p s f)"
  by (auto simp: keeps_volume_def keeps_env_def keeps_envFrom_def vol_ref_def env_ref_def envFrom_ref_def mutate_matchVolume_def
      mutate_matchEnv_def mutate_matchEnvFrom_def dest: unmanaged_no_match split: option.splits)

lemma keeps_refl [simp]: "keeps_container n p c c"
  by (simp add: keeps_container_def keeps_env_def keeps_envFrom_def list_all2_refl)

lemma mutateContainer_keeps: "targetEnvName p = '''' \<Longrightarrow> keeps_container n p c (mutateContainer n p s c)"
  by (simp add: mutateContainer_def) (simp add: keeps_container_def list_all2_map_self matches_keep)

text \<open>C19: a rotation of a policy that names neither a target volume nor a target variable leaves everything alone that
  it does not recognise as its own: each volume, variable and environment source whose secret is not
  recognised, and which is no volume with the object's name, is unchanged at its position in its container, and
  so is the rest of the pod specification. (With an explicit target volume or variable the named element
  is replaced whatever secret it names.)\<close>

theorem unmanaged_refs_kept:
  assumes "targetVolumeName p = ''''" and "targetEnvName p = ''''"
  shows "keeps_unmanaged n p (pt_spec tpl) (pt_spec (MutatePodTemplateSpec tpl n p s))"
  using assms
  by (simp add: keeps_unmanaged_def MutatePodTemplateSpec_def mutate_volumes_def list_all2_map_self matches_keep mutateContainer_keeps)

theorem unmanaged_refs_kept_witness:
  "ps_volumes (pt_spec (MutatePodTemplateSpec
     (sample_template [sample_volume ''tls-cert'', sample_volume ''web-db-rev-aaaaaaaaaaaa''] []) ''web'' sample_policy ''web-db-rev-bbbbbbbbbbbb'')) ! 0 =
   sample_volume ''tls-cert''"
proof -
  have h: "targetVolumeName sample_policy = ''''" "targetEnvName sample_policy = ''''"
    by (simp_all add: targetVolumeName_def targetEnvName_def sample_defs)
  have "unmanaged_name ''web'' sample_policy ''tls-cert''"
    by (simp add: unmanaged_name_def managedPrefix_def legacyPrefix_def vaultRefObjectName_def sample_defs)
  then have "list_all (unmanaged_name ''web'' sample_policy) (vol_ref (sample_volume ''tls-cert''))"
    by (simp add: vol_ref_def sample_defs)
  moreover have "vol_name (sample_volume ''tls-cert'') \<notin> {vaultRefObjectName sample_policy, vaultRefObjectName sample_policy @ ''-volume''}"
    by (simp add: vaultRefObjectName_def sample_defs)
  ultimately show ?thesis
    using unmanaged_refs_kept [OF h, of "''web''" "sample_template [sample_volume ''tls-cert'', sample_volume ''web-db-rev-aaaaaaaaaaaa''] []" "''web-db-rev-bbbbbbbbbbbb''"]
    by (auto simp: keeps_unmanaged_def keeps_volume_def sample_template_def list_all2_Cons1)
qed


definition source_policy :: DynamicSecretPolicy where
  "source_policy = sample_policy\<lparr>p_spec := sample_spec
     \<lparr>spec_VaultRef := \<lparr>vr_KeyVaultURI = '''', vr_ObjectName = '''', vr_ObjectType = ''''\<rparr>,
      spec_Source := Some (zero_source\<lparr>src_Type := SourceTypeK8sSecret, src_K8sSecret := Some \<lparr>k8s_Name = ''db''\<rparr>\<rparr>)\<rparr>\<rparr>"


text \<open>C20: the canary runs the pod specification that is promoted later, if the environment variable is
  named explicitly or the two name tests agree on every secret key reference of the template.\<close>

theorem canary_matches_promotion:
  assumes "targetEnvName p \<noteq> '''' \<or>
     list_all (env_tests_agree n p) (ps_containers (pt_spec tpl) @ ps_initContainers (pt_spec tpl))"
  shows "pt_spec (canaryTemplate n tpl p s) = pt_spec (MutatePodTemplateSpec tpl n p s)"
proof -
  have "map (canary_mutateContainer n p s) cs = map (mutateContainer n p s) cs"
    if "targetEnvName p \<noteq> '''' \<or> list_all (env_tests_agree n p) cs" for cs
    using that canary_mutate_container [of p n _ s] by (auto simp: list_all_iff)
  then have "map (canary_mutateContainer n p s) (ps_containers (pt_spec tpl)) = map (mutateContainer n p s) (ps_containers (pt_spec tpl))"
    and "map (canary_mutateContainer n p s) (ps_initContainers (pt_spec tpl)) = map (mutateContainer n p s) (ps_initContainers (pt_spec tpl))"
    using assms by auto
  then show ?thesis
    by (simp del: map_eq_conv add: canaryTemplate_def MutatePodTemplateSpec_def canary_mutate_volumes)
qed

theorem canary_matches_promotion_witness:
  "pt_spec (canaryTemplate ''web'' (w_template sample_workload) sample_policy ''web-db-rev-bbbbbbbbbbbb'') =
   pt_spec (MutatePodTemplateSpec (w_template sample_workload) ''web'' sample_policy ''web-db-rev-bbbbbbbbbbbb'')"
proof -
  have "list_all (env_tests_agree ''web'' sample_policy) (ps_containers (pt_spec (w_template sample_workload)) @
      ps_initContainers (pt_spec (w_template sample_workload)))"
    by (simp add: env_tests_agree_def sample_defs)
  then show ?thesis using canary_matches_promotion [of sample_policy "''web''" "w_template sample_workload"] by blast
qed

text \<open>The two differ for a variable that takes the key named like the object from a foreign secret:
  the canary validates the new revision there, the promotion leaves the foreign secret.\<close>

theorem canary_diverges_from_promotion:
  "secret_refs (canaryTemplate ''web'' (sample_template [] [sample_env_var ''shared'' ''db'']) sample_policy ''web-db-rev-bbbbbbbbbbbb'') =
     [''web-db-rev-bbbbbbbbbbbb''] \<and>
   secret_refs (MutatePodTemplateSpec (sample_template [] [sample_env_var ''shared'' ''db'']) ''web'' sample_policy ''web-db-rev-bbbbbbbbbbbb'') =
     [''shared'']"
  by (simp add: secret_refs_def canaryTemplate_def MutatePodTemplateSpec_def canary_volumes_def mutate_volumes_def
      canary_mutateContainer_def mutateContainer_def canary_matchEnv_def mutate_matchEnv_def canary_envMatches_def
      mutate_envMatches_def container_refs_def env_ref_def targetVolumeName_def targetEnvName_def targetContainerName_def
      managedPrefix_def legacyPrefix_def vaultRefObjectName_def sample_defs)

definition patches_template_only :: "string \<Rightarrow> Workload \<Rightarrow> err option \<Rightarrow> event list \<Rightarrow> bool" where
  "patches_template_only kind w r es \<longleftrightarrow>
     (\<exists>tpl e. es = [EPatchWorkload kind w (w\<lparr>w_template := tpl\<rparr>) e] \<and> (r = None \<longleftrightarrow> e = None))"

text \<open>C22: whatever the kind, a promotion issues exactly one patch, of that kind, against the fetched
  workload; the patch changes nothing but the pod template, and its error is the promotion's.\<close>

theorem promote_patches_template_only:
  assumes "NewAdapter k = Inr A"
  shows "spec (wa_Promote A E w p s) (patches_template_only (if k = '''' then KindDeployment else k) w)"
  by (rule spec_mono [OF workload_adapter.promote_patch [OF NewAdapter_adapter [OF assms]]])
    (auto simp: patches_template_only_def promoted_def)

theorem promote_patches_template_only_witness:
  "spec (wa_Promote StatefulSetAdapter sample_world sample_workload sample_policy ''web-db-rev-bbbbbbbbbbbb'')
     (patches_template_only KindStatefulSet sample_workload)"
  using promote_patches_template_only [of KindStatefulSet StatefulSetAdapter sample_world sample_workload sample_policy]
  by (simp add: NewAdapter_def)

text \<open>C21: the canary is one replica under its own name, its selector is the label set of its pods, and
  a selector that its pods satisfy uses no key but the two canary labels: the services and the
  workload that select the production pods by their labels do not reach it.\<close>

theorem canary_isolated:
  assumes "c = BuildCanaryFromTemplate n tpl p s" and "sel \<subseteq>\<^sub>m pt_labels (w_template c)"
  shows "dom sel \<subseteq> {LabelCanary, LabelTargetWorkload} \<and> w_replicas c = Some 1 \<and>
    om_name (w_meta c) = n @ ''-canary'' \<and> w_selector c = pt_labels (w_template c)"
proof -
  have "dom (canaryLabels n) = {LabelCanary, LabelTargetWorkload}" by (auto simp: canaryLabels_def)
  then show ?thesis
    using assms map_le_implies_dom_le [OF assms(2)]
    by (simp add: BuildCanaryFromTemplate_def canaryTemplate_def canaryName_def)
qed

theorem canary_isolated_witness:
  "dom [LabelCanary \<mapsto> ''true''] \<subseteq> {LabelCanary, LabelTargetWorkload} \<and>
   w_replicas (BuildCanaryFromTemplate ''web'' (w_template sample_workload) sample_policy ''s'') = Some 1"
proof -
  have "[LabelCanary \<mapsto> ''true''] \<subseteq>\<^sub>m pt_labels (w_template (BuildCanaryFromTemplate ''web'' (w_template sample_workload) sample_policy ''s''))"
    by (simp add: BuildCanaryFromTemplate_def canaryTemplate_def canaryLabels_def map_le_def)
  from canary_isolated [OF refl this] show ?thesis by simp
qed

end
