(* ===== verification/Dso_Jobs.thy ===== *)
theory Dso_Jobs
  imports Dso_Workload Dso_Sha256
begin

text \<open>
  Job probes (\<^verbatim>\<open>internal/probes/job.go\<close>): the name of the ephemeral Job, the Job built from the
  user's template, the evaluation of its status, and the retrieval of failure logs. Strings are
  bytes; on the names the API server admits, which are ASCII, a byte is a rune.
\<close>

section \<open>Names\<close>

definition sanitizeRune :: "char \<Rightarrow> char" where
  "sanitizeRune r = (if is_lower r \<or> is_digit r then r else CHR ''-'')"

definition sanitizeName :: "string \<Rightarrow> string" where
  "sanitizeName s = Trim (map sanitizeRune (ToLower s)) ''-''"

text \<open>The last 24 bytes of the sanitized secret name, without one leading dash.\<close>

definition probeRevisionPart :: "string \<Rightarrow> string" where
  "probeRevisionPart sanitizedRev =
     (if length sanitizedRev > 24
      then TrimPrefix (drop (length sanitizedRev - 24) sanitizedRev) ''-''
      else sanitizedRev)"

text \<open>The sanitized policy name, cut so that the whole name has at most 63 bytes.\<close>

definition probePolicyPart :: "string \<Rightarrow> string \<Rightarrow> string" where
  "probePolicyPart sanitizedPolicy sanitizedRev =
     (let maxPolicyLen = 63 - int (length ''dso-probe-'') - 1 - int (length sanitizedRev)
      in if maxPolicyLen > 0 \<and> int (length sanitizedPolicy) > maxPolicyLen
         then TrimSuffix (take (nat maxPolicyLen) sanitizedPolicy) ''-'' else sanitizedPolicy)"

definition DeriveProbeJobName :: "string \<Rightarrow> string \<Rightarrow> string" where
  "DeriveProbeJobName policyName revSecretName =
     (let sanitizedRev = probeRevisionPart (sanitizeName revSecretName);
          sanitizedPolicy = probePolicyPart (sanitizeName policyName) sanitizedRev;
          jobName = ''dso-probe-'' @ sanitizedPolicy @ ''-'' @ sanitizedRev;
          jobName = (if length jobName > 63 then take 63 jobName else jobName)
      in TrimRight jobName ''-'')"

section \<open>The Job\<close>

abbreviation EnvRevisionSecretName :: string where "EnvRevisionSecretName \<equiv> ''DSO_REVISION_SECRET_NAME''"

text \<open>The first variable of that name is overwritten; without one, it is appended.\<close>

fun setOrAppendVar :: "string \<Rightarrow> string \<Rightarrow> EnvVar list \<Rightarrow> EnvVar list" where
  "setOrAppendVar key v [] = [\<lparr>env_name = key, env_value = v, env_valueFrom = None\<rparr>]"
| "setOrAppendVar key v (e # es) =
     (if env_name e = key then e\<lparr>env_value := v, env_valueFrom := None\<rparr> # es
      else e # setOrAppendVar key v es)"

definition setOrAppendEnv :: "Container list \<Rightarrow> string \<Rightarrow> string \<Rightarrow> Container list" where
  "setOrAppendEnv containers key v = map (\<lambda>c. c\<lparr>ct_env := setOrAppendVar key v (ct_env c)\<rparr>) containers"

definition injectRevisionSecretEnv :: "PodSpec \<Rightarrow> string \<Rightarrow> PodSpec" where
  "injectRevisionSecretEnv ps secretName =
     ps\<lparr>ps_initContainers := setOrAppendEnv (ps_initContainers ps) EnvRevisionSecretName secretName,
        ps_containers := setOrAppendEnv (ps_containers ps) EnvRevisionSecretName secretName\<rparr>"

definition probePolicy :: "DynamicSecretPolicy \<Rightarrow> DynamicSecretPolicy" where
  "probePolicy p =
     p\<lparr>p_spec := (p_spec p)\<lparr>spec_TargetRef :=
         map_option (\<lambda>t. t\<lparr>tr_ContainerName := ''''\<rparr>) (spec_TargetRef (p_spec p))\<rparr>\<rparr>"

definition jobLabels :: "string \<Rightarrow> labels" where
  "jobLabels policyName =
     [''app.kubernetes.io/managed-by'' \<mapsto> ''dynamic-secret-operator'',
      ''dso.quantumsys.dev/probe'' \<mapsto> ''job'',
      ''dso.quantumsys.dev/policy'' \<mapsto> policyName]"

definition BuildProbeJob :: "DynamicSecretPolicy \<Rightarrow> JobProbeSpec \<Rightarrow> string \<Rightarrow> Job" where
  "BuildProbeJob p spc secretName =
     (let tmpl = jp_JobTemplate spc;
          podTpl = MutatePodTemplateSpec (js_template tmpl) (target_name p) (probePolicy p) secretName;
          podTpl = podTpl\<lparr>pt_spec := injectRevisionSecretEnv (pt_spec podTpl) secretName\<rparr>;
          backoff = (case js_backoffLimit tmpl of None \<Rightarrow> Some 0 | Some b \<Rightarrow> Some b)
      in \<lparr>j_meta = empty_meta\<lparr>om_name := DeriveProbeJobName (pol_name p) secretName,
                               om_namespace := pol_namespace p,
                               om_labels := jobLabels (pol_name p),
                               om_ownerReferences :=
                                 [\<lparr>or_apiVersion = ''dso.quantumsys.dev/v1alpha1'', or_kind = ''DynamicSecretPolicy'',
                                   or_name = pol_name p, or_uid = om_uid (p_meta p), or_controller = False\<rparr>]\<rparr>,
          j_spec = tmpl\<lparr>js_template := podTpl, js_backoffLimit := backoff\<rparr>,
          j_conditions = []\<rparr>)"

section \<open>Status\<close>

datatype ProbeJobState = ProbeJobStateRunning | ProbeJobStateSucceeded | ProbeJobStateFailed | ProbeJobStateTimedOut

abbreviation maxFailureLogBytes :: nat where "maxFailureLogBytes \<equiv> 4096"

definition failedPod :: "Pod list \<Rightarrow> Pod option" where
  "failedPod pods =
     (case find (\<lambda>pod. pod_phase pod = ''Failed'') pods of
        Some pod \<Rightarrow> Some pod
      | None \<Rightarrow> (case pods of [] \<Rightarrow> None | pod # _ \<Rightarrow> Some pod))"

text \<open>\<open>hasKube\<close>: whether a clientset for pod logs is configured.\<close>

definition RetrieveFailureLogs :: "'w env \<Rightarrow> bool \<Rightarrow> string \<Rightarrow> string \<Rightarrow> ('w, string) dso" where
  "RetrieveFailureLogs E hasKube ns jobName =
     (if \<not> hasKube then ret ''(log retrieval unavailable: kubernetes client not configured)''
      else do {
        r \<leftarrow> query (cl_listPods (client E) ns [(''batch.kubernetes.io/job-name'', jobName)]);
        case r of
          Inl _ \<Rightarrow> ret ''(no pods found for failed job)''
        | Inr pods \<Rightarrow>
            (case failedPod pods of
               None \<Rightarrow> ret ''(no pods found for failed job)''
             | Some pod \<Rightarrow> do {
                 logs \<leftarrow> query (net_getLogs (net E) ns (om_name (pod_meta pod))
                           (case pod_containers pod of [] \<Rightarrow> '''' | c # _ \<Rightarrow> c) maxFailureLogBytes);
                 case logs of
                   Inl e \<Rightarrow> ret (''(failed to stream pod logs: '' @ wi_errText (wire E) e @ '')'')
                 | Inr (Inl e) \<Rightarrow> ret (''(error reading pod logs: '' @ wi_errText (wire E) e @ '')'')
                 | Inr (Inr text) \<Rightarrow> ret (take maxFailureLogBytes text)
               })
      })"

abbreviation newline :: string where "newline \<equiv> [CHR 0x0A]"

definition jobFailedErr :: "Job \<Rightarrow> JobCondition \<Rightarrow> string \<Rightarrow> err" where
  "jobFailedErr job c logs =
     Errorf (''job probe %q failed (reason: %s): %s'' @ newline @ ''%s'')
       [om_name (j_meta job), jc_reason c, jc_message c, logs] None"

definition jobTimedOutErr :: "Job \<Rightarrow> int32 \<Rightarrow> string \<Rightarrow> err" where
  "jobTimedOutErr job timeoutSeconds logs =
     Errorf (''job probe %q timed out after %ds waiting for completion'' @ newline @ ''%s'')
       [om_name (j_meta job), FormatInt (sint timeoutSeconds), logs] None"

text \<open>The loop over the conditions stops at the first true completion or failure.\<close>

fun jobOutcome :: "JobCondition list \<Rightarrow> JobCondition option" where
  "jobOutcome [] = None"
| "jobOutcome (c # cs) =
     (if (jc_type c = ''Complete'' \<or> jc_type c = ''Failed'') \<and> jc_status c = ConditionTrue then Some c
      else jobOutcome cs)"

definition EvaluateJobStatus ::
  "'w env \<Rightarrow> bool \<Rightarrow> Job option \<Rightarrow> int32 \<Rightarrow> ('w, ProbeJobState \<times> err option) dso" where
  "EvaluateJobStatus E hasKube job timeoutSeconds =
     (case job of
        None \<Rightarrow> ret (ProbeJobStateFailed, Some (Errorf ''probe job is nil'' [] None))
      | Some j \<Rightarrow>
          (case jobOutcome (j_conditions j) of
             Some c \<Rightarrow>
               if jc_type c = ''Complete'' then ret (ProbeJobStateSucceeded, None)
               else do {
                 logs \<leftarrow> RetrieveFailureLogs E hasKube (om_namespace (j_meta j)) (om_name (j_meta j));
                 ret (ProbeJobStateFailed, Some (jobFailedErr j c logs))
               }
           | None \<Rightarrow>
               (case om_creationTimestamp (j_meta j) of
                  Some created \<Rightarrow>
                    if sint timeoutSeconds > 0 then do {
                      now \<leftarrow> query (net_now (net E));
                      if now > created + sint timeoutSeconds * 1000000000 then do {
                        logs \<leftarrow> RetrieveFailureLogs E hasKube (om_namespace (j_meta j)) (om_name (j_meta j));
                        ret (ProbeJobStateTimedOut, Some (jobTimedOutErr j timeoutSeconds logs))
                      } else ret (ProbeJobStateRunning, None)
                    } else ret (ProbeJobStateRunning, None)
                | None \<Rightarrow> ret (ProbeJobStateRunning, None))))"

section \<open>Lemmas\<close>

lemma RetrieveFailureLogs_silent [spec_rules]: "silent (RetrieveFailureLogs E k ns n)"
  unfolding RetrieveFailureLogs_def by (auto intro!: spec_rules split: sum.splits)

text \<open>An evaluation reads only; it reports an error exactly in the two failure states.\<close>

lemma EvaluateJobStatus_spec:
  "spec (EvaluateJobStatus E k job t) (\<lambda>r es. es = [] \<and>
     (snd r = None \<longleftrightarrow> fst r = ProbeJobStateRunning \<or> fst r = ProbeJobStateSucceeded))"
  unfolding EvaluateJobStatus_def
  by (auto intro!: spec_rules spec_silent [OF RetrieveFailureLogs_silent])

lemma TrimRight_append:
  "ys \<noteq> [] \<Longrightarrow> last ys \<notin> set cs \<Longrightarrow> TrimRight (xs @ ys) cs = xs @ ys"
  by (cases ys rule: rev_cases) (simp_all add: TrimRight_def)

lemma TrimRight_last: "TrimRight s cs = [] \<or> last (TrimRight s cs) \<notin> set cs"
  unfolding TrimRight_def by (metis hd_dropWhile hd_rev last_rev rev_is_Nil_conv)

lemma TrimRight_length: "length (TrimRight s cs) \<le> length s"
  unfolding TrimRight_def by (metis length_dropWhile_le length_rev)

lemma TrimRight_prefix: "prefix (TrimRight s cs) s"
  unfolding TrimRight_def
  by (metis prefixI rev_append rev_rev_ident takeWhile_dropWhile_id)

lemma Trim_keeps_suffix:
  assumes "ys \<noteq> []" and "\<forall>c \<in> set ys. c \<notin> set cs"
  shows "\<exists>zs. Trim (xs @ ys) cs = zs @ ys"
proof -
  have "\<exists>zs. TrimLeft (xs @ ys) cs = zs @ ys"
  proof (induction xs)
    case Nil
    with assms show ?case by (cases ys) (auto simp: TrimLeft_def)
  next
    case (Cons x xs)
    then show ?case by (auto simp: TrimLeft_def)
  qed
  then obtain zs where "TrimLeft (xs @ ys) cs = zs @ ys" by blast
  moreover from assms have "last ys \<notin> set cs" by simp
  ultimately show ?thesis using assms(1) by (simp add: Trim_def TrimRight_append)
qed

lemma set_TrimRight: "set (TrimRight s cs) \<subseteq> set s"
  unfolding TrimRight_def by (auto dest: set_dropWhileD)

lemma set_Trim: "set (Trim s cs) \<subseteq> set s"
  using set_TrimRight [of "TrimLeft s cs" cs] unfolding Trim_def TrimLeft_def by (auto dest: set_dropWhileD)

text \<open>The bytes of a DNS-1123 label.\<close>

definition dns_char :: "char \<Rightarrow> bool" where
  "dns_char c \<longleftrightarrow> is_lower c \<or> is_digit c \<or> c = CHR ''-''"

lemma sanitizeName_chars: "c \<in> set (sanitizeName s) \<Longrightarrow> dns_char c"
proof -
  assume "c \<in> set (sanitizeName s)"
  then have "c \<in> sanitizeRune ` set (ToLower s)"
    unfolding sanitizeName_def using set_Trim by fastforce
  then show "dns_char c" by (auto simp: sanitizeRune_def dns_char_def)
qed

lemma probeRevisionPart_chars: "set (probeRevisionPart s) \<subseteq> set s"
  by (auto simp: probeRevisionPart_def TrimPrefix_def dest: in_set_dropD)

lemma probeRevisionPart_length: "length (probeRevisionPart s) \<le> 24"
  by (simp add: probeRevisionPart_def TrimPrefix_def)

lemma hex_kept: "is_hex c \<Longrightarrow> sanitizeRune (lower_char c) = c \<and> c \<noteq> CHR ''-''"
  by (auto simp: is_hex_def sanitizeRune_def lower_char_def go_defs)

lemma sanitizeName_suffix:
  assumes "r \<noteq> []" and "list_all is_hex r"
  shows "\<exists>zs. sanitizeName (x @ r) = zs @ r"
proof -
  from assms(2) have "map sanitizeRune (ToLower r) = r"
    by (induction r) (auto simp: ToLower_def hex_kept)
  then have "map sanitizeRune (ToLower (x @ r)) = map sanitizeRune (ToLower x) @ r" by (simp add: ToLower_def)
  moreover from assms(2) have "\<forall>c \<in> set r. c \<notin> set ''-''" by (auto simp: list_all_iff dest: hex_kept)
  ultimately show ?thesis
    using Trim_keeps_suffix [OF assms(1), of "''-''"] by (simp add: sanitizeName_def)
qed

lemma probeRevisionPart_suffix:
  assumes "length r < 24"
  shows "\<exists>zs. probeRevisionPart (x @ r) = zs @ r"
proof (cases "length (x @ r) > 24")
  case True
  let ?d = "drop (length (x @ r) - 24) x"
  from True assms have "drop (length (x @ r) - 24) (x @ r) = ?d @ r" and "?d \<noteq> []" by simp_all
  then have "probeRevisionPart (x @ r) = TrimPrefix (?d @ r) ''-''" using True
    by (metis probeRevisionPart_def)
  with \<open>?d \<noteq> []\<close> show ?thesis
    by (cases ?d) (auto simp: TrimPrefix_def)
qed (auto simp: probeRevisionPart_def)

lemma probePolicyPart_length:
  "length rv \<le> 24 \<Longrightarrow> length (probePolicyPart pol rv) \<le> 52 - length rv"
  by (auto simp: probePolicyPart_def Let_def TrimSuffix_def)

lemma probePolicyPart_chars: "set (probePolicyPart pol rv) \<subseteq> set pol"
  by (auto simp: probePolicyPart_def Let_def TrimSuffix_def dest: in_set_takeD)

text \<open>The cut to 63 bytes never applies: the policy part was cut before.\<close>

lemma DeriveProbeJobName_uncut:
  "DeriveProbeJobName policyName s =
     TrimRight (''dso-probe-'' @ probePolicyPart (sanitizeName policyName) (probeRevisionPart (sanitizeName s)) @
       ''-'' @ probeRevisionPart (sanitizeName s)) ''-''"
proof -
  let ?rev = "probeRevisionPart (sanitizeName s)"
  let ?pol = "probePolicyPart (sanitizeName policyName) ?rev"
  have "length ?pol + length ?rev \<le> 52"
    using probePolicyPart_length [OF probeRevisionPart_length, of "sanitizeName policyName" "sanitizeName s"]
      probeRevisionPart_length [of "sanitizeName s"] by linarith
  then show ?thesis by (simp add: DeriveProbeJobName_def Let_def)
qed

text \<open>The revision hash at the end of the secret name is the end of the job name.\<close>

lemma DeriveProbeJobName_suffix:
  assumes "r \<noteq> []" and "list_all is_hex r" and "length r < 24"
  shows "\<exists>zs. DeriveProbeJobName policyName (x @ r) = zs @ r"
proof -
  obtain ys where "sanitizeName (x @ r) = ys @ r" using sanitizeName_suffix [OF assms(1,2)] by blast
  with probeRevisionPart_suffix [OF assms(3)] obtain zs where
    rev: "probeRevisionPart (sanitizeName (x @ r)) = zs @ r" by metis
  let ?pol = "probePolicyPart (sanitizeName policyName) (zs @ r)"
  have "DeriveProbeJobName policyName (x @ r) = TrimRight ((''dso-probe-'' @ ?pol @ ''-'' @ zs) @ r) ''-''"
    by (simp only: DeriveProbeJobName_uncut rev append_assoc)
  also have "\<dots> = (''dso-probe-'' @ ?pol @ ''-'' @ zs) @ r"
  proof (rule TrimRight_append [OF assms(1)])
    from assms(1,2) have "is_hex (last r)" by (simp add: list_all_iff)
    then show "last r \<notin> set ''-''" using hex_kept by simp
  qed
  finally show ?thesis by blast
qed

lemma DeriveProbeJobName_chars: "c \<in> set (DeriveProbeJobName policyName s) \<Longrightarrow> dns_char c"
proof -
  let ?rev = "probeRevisionPart (sanitizeName s)"
  let ?name = "''dso-probe-'' @ probePolicyPart (sanitizeName policyName) ?rev @ ''-'' @ ?rev"
  assume "c \<in> set (DeriveProbeJobName policyName s)"
  then have "c \<in> set ?name" unfolding DeriveProbeJobName_uncut using set_TrimRight by fastforce
  then have "c \<in> set ''dso-probe-'' \<or> c \<in> set (sanitizeName policyName) \<or> c \<in> set (sanitizeName s)"
    using probePolicyPart_chars probeRevisionPart_chars by fastforce
  moreover have "dns_char c" if "c \<in> set ''dso-probe-''"
    using that by (auto simp: dns_char_def go_defs)
  ultimately show "dns_char c" using sanitizeName_chars by blast
qed

section \<open>Properties\<close>

text \<open>A DNS-1123 label, as Kubernetes requires of a Job name.\<close>

definition dns_label :: "string \<Rightarrow> bool" where
  "dns_label s \<longleftrightarrow> s \<noteq> '''' \<and> length s \<le> 63 \<and> list_all dns_char s \<and> hd s \<noteq> CHR ''-'' \<and> last s \<noteq> CHR ''-''"

lemma TrimRight_keeps_prefix:
  assumes "xs \<noteq> []" and "last xs \<notin> set cs"
  shows "prefix xs (TrimRight (xs @ ys) cs)"
proof (induction ys rule: rev_induct)
  case Nil
  show ?case using TrimRight_append [OF assms, of "[]"] by simp
next
  case (snoc y ys)
  then show ?case by (auto simp: TrimRight_def)
qed

text \<open>Whatever the names of policy and secret, the Job name is a valid DNS label.\<close>

lemma job_name_valid: "dns_label (DeriveProbeJobName policyName secretName)"
proof -
  let ?rev = "probeRevisionPart (sanitizeName secretName)"
  let ?rest = "''-'' @ probePolicyPart (sanitizeName policyName) ?rev @ ''-'' @ ?rev"
  let ?name = "DeriveProbeJobName policyName secretName"
  have name: "?name = TrimRight (''dso-probe'' @ ?rest) ''-''" by (simp add: DeriveProbeJobName_uncut)
  have "prefix ''dso-probe'' ?name" unfolding name by (rule TrimRight_keeps_prefix) simp_all
  then have start: "?name \<noteq> ''''" "hd ?name = CHR ''d''" by (auto simp: prefix_def)
  have "length (probePolicyPart (sanitizeName policyName) ?rev) + length ?rev \<le> 52"
    using probePolicyPart_length [OF probeRevisionPart_length, of "sanitizeName policyName" "sanitizeName secretName"]
      probeRevisionPart_length [of "sanitizeName secretName"] by linarith
  then have "length ?name \<le> 63" using TrimRight_length [of "''dso-probe'' @ ?rest" "''-''"] unfolding name by simp
  moreover have "last ?name \<noteq> CHR ''-''" using TrimRight_last [of "''dso-probe'' @ ?rest" "''-''"] start unfolding name by auto
  ultimately show ?thesis using start DeriveProbeJobName_chars by (auto simp: dns_label_def list_all_iff)
qed

text \<open>The Jobs of two revisions never share a name.\<close>

lemma job_names_differ:
  assumes "list_all is_hex r" and "list_all is_hex r'" and "length r = 12" and "length r' = 12" and "r \<noteq> r'"
  shows "DeriveProbeJobName pol (revisionSecretName t obj r) \<noteq> DeriveProbeJobName pol (revisionSecretName t obj r')"
proof
  have ne: "r \<noteq> []" "r' \<noteq> []" and short: "length r < 24" "length r' < 24" using assms(3,4) by auto
  obtain zs where zs: "DeriveProbeJobName pol (revisionSecretName t obj r) = zs @ r"
    using DeriveProbeJobName_suffix [OF ne(1) assms(1) short(1), of pol "t @ ''-'' @ obj @ ''-rev-''"]
    by (auto simp: revisionSecretName_def)
  obtain ys where ys: "DeriveProbeJobName pol (revisionSecretName t obj r') = ys @ r'"
    using DeriveProbeJobName_suffix [OF ne(2) assms(2) short(2), of pol "t @ ''-'' @ obj @ ''-rev-''"]
    by (auto simp: revisionSecretName_def)
  assume "DeriveProbeJobName pol (revisionSecretName t obj r) = DeriveProbeJobName pol (revisionSecretName t obj r')"
  with zs ys assms(3,4) have "r = r'" by (metis append_eq_append_conv)
  with assms(5) show False ..
qed

text \<open>C29: the name of a probe Job is a valid DNS label, and the Jobs of two revisions of a policy never share a
  name, although the name is cut: a Job left over from an earlier rotation cannot be taken for the
  current one.\<close>

theorem job_names_distinct:
  assumes "list_all is_hex r" and "list_all is_hex r'" and "length r = 12" and "length r' = 12" and "r \<noteq> r'"
  shows "dns_label (DeriveProbeJobName pol (revisionSecretName t obj r)) \<and>
    DeriveProbeJobName pol (revisionSecretName t obj r) \<noteq> DeriveProbeJobName pol (revisionSecretName t obj r')"
  using job_name_valid job_names_differ [OF assms] by blast

theorem job_names_distinct_witness:
  "dns_label (DeriveProbeJobName ''p'' (revisionSecretName ''web'' ''db'' ''aaaaaaaaaaaa'')) \<and>
   DeriveProbeJobName ''p'' (revisionSecretName ''web'' ''db'' ''aaaaaaaaaaaa'') \<noteq>
   DeriveProbeJobName ''p'' (revisionSecretName ''web'' ''db'' ''bbbbbbbbbbbb'')"
  by (rule job_names_distinct) (simp_all add: is_hex_def)

text \<open>The value a container reads for a variable: the first one of that name.\<close>

definition env_reads :: "string \<Rightarrow> string \<Rightarrow> Container \<Rightarrow> bool" where
  "env_reads key v c \<longleftrightarrow> (\<exists>e. find (\<lambda>x. env_name x = key) (ct_env c) = Some e \<and> env_value e = v \<and> env_valueFrom e = None)"

lemma setOrAppendVar_reads: "env_reads key v (c\<lparr>ct_env := setOrAppendVar key v es\<rparr>)"
  unfolding env_reads_def by (induction es) auto

definition probe_job_for :: "DynamicSecretPolicy \<Rightarrow> string \<Rightarrow> Job \<Rightarrow> bool" where
  "probe_job_for p s j \<longleftrightarrow>
     om_name (j_meta j) = DeriveProbeJobName (pol_name p) s \<and> om_namespace (j_meta j) = pol_namespace p \<and>
     om_labels (j_meta j) ''dso.quantumsys.dev/policy'' = Some (pol_name p) \<and> js_backoffLimit (j_spec j) \<noteq> None \<and>
     list_all (env_reads EnvRevisionSecretName s)
       (ps_containers (pt_spec (js_template (j_spec j))) @ ps_initContainers (pt_spec (js_template (j_spec j))))"

text \<open>A probe Job is named after policy and revision, lives in the policy's namespace, carries the label
  by which the cleanup finds it, and gives every container the name of the revision secret.\<close>

theorem probe_job_built: "probe_job_for p s (BuildProbeJob p spc s)"
  unfolding probe_job_for_def BuildProbeJob_def Let_def
  by (auto simp: jobLabels_def injectRevisionSecretEnv_def setOrAppendEnv_def list_all_iff setOrAppendVar_reads
      split: option.splits)

end
