(* ===== verification/Dso_Sanitize.thy ===== *)
theory Dso_Sanitize
  imports Dso_Prelude
begin

text \<open>
  The redaction of database errors (\<^verbatim>\<open>internal/probes/sanitize.go\<close>): \<open>SanitizeDBError\<close> replaces every
  supplied secret, its URL-escaped form, and the two standard password patterns of connection
  strings by a marker. The standard library functions it uses are \<open>ReplaceAll\<close>, \<open>QueryEscape\<close>, and
  \<open>ReplaceAllString\<close> of its two regular expressions, each given as the scan it performs.
\<close>

section \<open>Definitions\<close>

text \<open>\<^verbatim>\<open>strings.ReplaceAll\<close> for a non-empty pattern: left to right, without overlaps.\<close>

function replace_scan :: "string \<Rightarrow> string \<Rightarrow> string \<Rightarrow> string" where
  "replace_scan old new [] = []"
| "replace_scan old new (c # cs) =
     (if old \<noteq> [] \<and> prefix old (c # cs) then new @ replace_scan old new (drop (length old) (c # cs))
      else c # replace_scan old new cs)"
  by pat_completeness auto
termination
  by (relation "measure (\<lambda>(old, new, s). length s)") auto

text \<open>An empty pattern matches before every byte and at the end.\<close>

definition ReplaceAll :: "string \<Rightarrow> string \<Rightarrow> string \<Rightarrow> string" where
  "ReplaceAll s old new =
     (if old = [] then new @ concat (map (\<lambda>c. c # new) s) else replace_scan old new s)"

text \<open>\<^verbatim>\<open>url.QueryEscape\<close>: letters, digits and four marks stay, a space becomes a plus sign, every
  other byte is percent-encoded with upper-case digits.\<close>

definition hex_upper :: "nat \<Rightarrow> char" where
  "hex_upper d = ''0123456789ABCDEF'' ! d"

definition query_unreserved :: "char \<Rightarrow> bool" where
  "query_unreserved c \<longleftrightarrow> is_upper c \<or> is_lower c \<or> is_digit c \<or> c \<in> set ''-_.~''"

definition escape_char :: "char \<Rightarrow> string" where
  "escape_char c =
     (if query_unreserved c then [c]
      else if c = CHR '' '' then ''+''
      else [CHR ''%'', hex_upper (of_char c div 16), hex_upper (of_char c mod 16)])"

definition QueryEscape :: "string \<Rightarrow> string" where
  "QueryEscape s = concat (map escape_char s)"

text \<open>The class \<^verbatim>\<open>\s\<close> of the regular expressions.\<close>

definition re_space :: string where
  "re_space = [CHR 0x09, CHR 0x0A, CHR 0x0C, CHR 0x0D, CHR 0x20]"

definition redacted :: string where
  "redacted = ''[REDACTED]''"

text \<open>\<^verbatim>\<open>(?i)(password=)[^&;\s]+\<close> replaced by \<^verbatim>\<open>$1[REDACTED]\<close>.\<close>

definition dsn_value_char :: "char \<Rightarrow> bool" where
  "dsn_value_char c \<longleftrightarrow> c \<notin> set ''&;'' \<and> c \<notin> set re_space"

definition dsn_match :: "string \<Rightarrow> bool" where
  "dsn_match s \<longleftrightarrow> ToLower (take 9 s) = ''password='' \<and> takeWhile dsn_value_char (drop 9 s) \<noteq> []"

function dsn_scan :: "string \<Rightarrow> string" where
  "dsn_scan [] = []"
| "dsn_scan (c # cs) =
     (if dsn_match (c # cs) then take 9 (c # cs) @ redacted @ dsn_scan (dropWhile dsn_value_char (drop 9 (c # cs)))
      else c # dsn_scan cs)"
  by pat_completeness auto
termination
proof (relation "measure length", goal_cases)
  case (2 c cs)
  have "length (dropWhile dsn_value_char (drop 9 (c # cs))) \<le> length (drop 9 (c # cs))"
    by (rule length_dropWhile_le)
  then show ?case by simp
qed auto

text \<open>\<^verbatim>\<open>(:)[^:@/\s]+(@)\<close> replaced by \<^verbatim>\<open>$1[REDACTED]$2\<close>.\<close>

definition uri_value_char :: "char \<Rightarrow> bool" where
  "uri_value_char c \<longleftrightarrow> c \<notin> set '':@/'' \<and> c \<notin> set re_space"

definition uri_match :: "string \<Rightarrow> bool" where
  "uri_match s \<longleftrightarrow>
     prefix '':'' s \<and> takeWhile uri_value_char (drop 1 s) \<noteq> [] \<and>
     prefix ''@'' (dropWhile uri_value_char (drop 1 s))"

function uri_scan :: "string \<Rightarrow> string" where
  "uri_scan [] = []"
| "uri_scan (c # cs) =
     (if uri_match (c # cs) then [c] @ redacted @ ''@'' @ uri_scan (drop 1 (dropWhile uri_value_char cs))
      else c # uri_scan cs)"
  by pat_completeness auto
termination
proof (relation "measure length", goal_cases)
  case (2 c cs)
  have "length (dropWhile uri_value_char cs) \<le> length cs"
    by (rule length_dropWhile_le)
  then show ?case by simp
qed auto

definition redactSecret :: "string \<Rightarrow> string \<Rightarrow> string" where
  "redactSecret msg sensitive =
     (let trimmed = TrimSpace sensitive in
      if trimmed \<noteq> '''' then
        (let msg1 = ReplaceAll msg trimmed redacted;
             escaped = QueryEscape trimmed
         in if escaped \<noteq> trimmed then ReplaceAll msg1 escaped redacted else msg1)
      else msg)"

definition sanitizeMessage :: "string \<Rightarrow> string list \<Rightarrow> string" where
  "sanitizeMessage msg sensitiveData = uri_scan (dsn_scan (foldl redactSecret msg sensitiveData))"

text \<open>\<open>errText\<close> is the text of an error, \<^verbatim>\<open>err.Error()\<close>.\<close>

definition SanitizeDBError :: "(err \<Rightarrow> string) \<Rightarrow> err \<Rightarrow> string list \<Rightarrow> err" where
  "SanitizeDBError errText e sensitiveData =
     Errorf ''database authentication failed: %s'' [sanitizeMessage (errText e) sensitiveData] None"

section \<open>Replacing by a marker\<close>

text \<open>
  A pattern avoids a marker when it cannot touch an inserted marker: it holds neither the first
  nor the last byte of the marker and does not occur between them.
\<close>

definition avoids :: "string \<Rightarrow> string \<Rightarrow> bool" where
  "avoids pat new \<longleftrightarrow>
     pat \<noteq> [] \<and> (\<exists>b mid d. new = b # mid @ [d] \<and> b \<notin> set pat \<and> d \<notin> set pat \<and> \<not> sublist pat mid)"

lemma prefix_before_sep:
  "d \<notin> set pat \<Longrightarrow> prefix pat (xs @ d # ys) \<Longrightarrow> prefix pat xs"
  by (auto simp: prefix_append prefix_Cons)

lemma sublist_after_sep:
  assumes "pat \<noteq> []" and "d \<notin> set pat" and "\<not> sublist pat xs" and "sublist pat (xs @ d # ys)"
  shows "sublist pat ys"
  using assms(3,4)
proof (induction xs)
  case Nil
  with assms(1,2) show ?case by (auto simp: sublist_Cons_right prefix_Cons)
next
  case (Cons x xs)
  then have "\<not> prefix pat (x # xs)" and "\<not> sublist pat xs" by (auto simp: sublist_Cons_right)
  with prefix_before_sep [OF assms(2), of "x # xs" ys] Cons.prems(2)
  have "sublist pat (xs @ d # ys)" by (auto simp: sublist_Cons_right)
  with Cons.IH \<open>\<not> sublist pat xs\<close> show ?case by blast
qed

lemma avoids_sublist: "avoids pat new \<Longrightarrow> sublist pat (new @ ys) \<Longrightarrow> sublist pat ys"
proof -
  assume av: "avoids pat new" and sub: "sublist pat (new @ ys)"
  from av obtain b mid d where new: "new = b # mid @ [d]" and b: "b \<notin> set pat" and d: "d \<notin> set pat"
    and mid: "\<not> sublist pat mid" and ne: "pat \<noteq> []"
    unfolding avoids_def by blast
  from sub new b ne have "sublist pat (mid @ d # ys)" by (auto simp: sublist_Cons_right prefix_Cons)
  with ne d mid show "sublist pat ys" by (rule sublist_after_sep)
qed

lemma avoids_prefix: "avoids pat new \<Longrightarrow> \<not> prefix pat (new @ ys)"
  unfolding avoids_def by (auto simp: prefix_Cons)

lemma sublist_drop: "sublist pat (drop n s) \<Longrightarrow> sublist pat s"
  by (metis append_take_drop_id sublist_append)

lemma sublist_take: "sublist pat (take n s) \<Longrightarrow> sublist pat s"
  by (metis append_take_drop_id sublist_append)

lemma sublist_dropWhile: "sublist pat (dropWhile P s) \<Longrightarrow> sublist pat s"
  by (metis takeWhile_dropWhile_id sublist_append)

lemma prefix_take: "prefix pat (take n s) \<Longrightarrow> prefix pat s"
  by (metis append_take_drop_id prefix_prefix)

text \<open>A replacement by a marker that the pattern avoids creates no occurrence of the pattern.\<close>

lemma replace_scan_prefix:
  "b \<notin> set pat \<Longrightarrow> prefix pat (replace_scan old (b # new) s) \<Longrightarrow> prefix pat s"
proof (induction old "b # new" s arbitrary: pat rule: replace_scan.induct)
  case (2 old c cs)
  show ?case
  proof (cases "old \<noteq> [] \<and> prefix old (c # cs)")
    case True
    with 2 show ?thesis by (cases pat) simp_all
  next
    case False
    with 2 show ?thesis by (cases pat) (auto split: if_splits)
  qed
qed simp

lemma replace_scan_sublist:
  "avoids pat new \<Longrightarrow> sublist pat (replace_scan old new s) \<Longrightarrow> sublist pat s"
proof (induction old new s rule: replace_scan.induct)
  case (2 old new c cs)
  from 2(3) obtain b new' where new: "new = b # new'" "b \<notin> set pat" unfolding avoids_def by blast
  show ?case
  proof (cases "old \<noteq> [] \<and> prefix old (c # cs)")
    case True
    with 2(1,3,4) show ?thesis by (auto dest!: avoids_sublist dest: sublist_drop simp del: drop_Suc_Cons)
  next
    case False
    with 2(2,3,4) replace_scan_prefix [of b pat old new' "c # cs"] new show ?thesis
      by (auto simp: sublist_Cons_right split: if_splits)
  qed
qed simp

lemma replace_scan_removes:
  "avoids pat new \<Longrightarrow> \<not> sublist pat (replace_scan pat new s)"
proof (induction pat new s rule: replace_scan.induct)
  case (1 pat new)
  then show ?case by (simp add: avoids_def)
next
  case (2 pat new c cs)
  from 2(3) obtain b new' where new: "new = b # new'" "b \<notin> set pat" and ne: "pat \<noteq> []"
    unfolding avoids_def by blast
  show ?case
  proof (cases "prefix pat (c # cs)")
    case True
    with 2(1,3) ne show ?thesis by (auto dest!: avoids_sublist simp del: drop_Suc_Cons)
  next
    case False
    with 2(2,3) ne replace_scan_prefix [of b pat pat new' "c # cs"] new show ?thesis
      by (auto simp: sublist_Cons_right)
  qed
qed

lemma ReplaceAll_keeps: "avoids pat redacted \<Longrightarrow> old \<noteq> [] \<Longrightarrow> sublist pat (ReplaceAll s old redacted) \<Longrightarrow> sublist pat s"
  by (simp add: ReplaceAll_def replace_scan_sublist)

lemma ReplaceAll_removes: "avoids pat redacted \<Longrightarrow> \<not> sublist pat (ReplaceAll s pat redacted)"
  by (simp add: ReplaceAll_def replace_scan_removes) (simp add: avoids_def)

section \<open>The two regular expressions\<close>

lemma redacted_Cons: "redacted = CHR ''['' # ''REDACTED'' @ [CHR '']'']"
  by (simp add: redacted_def)

lemma dsn_scan_prefix: "CHR ''['' \<notin> set pat \<Longrightarrow> prefix pat (dsn_scan s) \<Longrightarrow> prefix pat s"
proof (induction s arbitrary: pat rule: dsn_scan.induct)
  case (2 c cs)
  show ?case
  proof (cases "dsn_match (c # cs)")
    case True
    with 2(4) have "prefix pat (take 9 (c # cs) @ CHR ''['' # (''REDACTED]'' @ dsn_scan (dropWhile dsn_value_char (drop 9 (c # cs)))))"
      by (simp add: redacted_def)
    from prefix_before_sep [OF 2(3) this] show ?thesis by (rule prefix_take)
  next
    case False
    with 2(2,3,4) show ?thesis by (cases pat) auto
  qed
qed simp

lemma avoids_parts:
  "avoids pat redacted \<longleftrightarrow> pat \<noteq> [] \<and> CHR ''['' \<notin> set pat \<and> CHR '']'' \<notin> set pat \<and> \<not> sublist pat ''REDACTED''"
  unfolding avoids_def redacted_Cons by simp

lemma avoids_sep:
  assumes "avoids pat redacted" and "sublist pat (xs @ redacted @ ys)"
  shows "sublist pat xs \<or> sublist pat ys"
proof (rule disjCI)
  from assms(1) have p: "pat \<noteq> []" "CHR ''['' \<notin> set pat" "CHR '']'' \<notin> set pat" "\<not> sublist pat ''REDACTED''"
    by (simp_all add: avoids_parts)
  assume "\<not> sublist pat ys"
  with p sublist_after_sep [OF p(1,3,4), of ys] have r: "\<not> sublist pat (''REDACTED'' @ CHR '']'' # ys)" by blast
  show "sublist pat xs"
  proof (rule ccontr)
    assume "\<not> sublist pat xs"
    from sublist_after_sep [OF p(1,2) this, of "''REDACTED'' @ CHR '']'' # ys"] assms(2) r
    show False by (simp add: redacted_Cons)
  qed
qed

lemma dsn_scan_sublist: "avoids pat redacted \<Longrightarrow> sublist pat (dsn_scan s) \<Longrightarrow> sublist pat s"
proof (induction s rule: dsn_scan.induct)
  case (2 c cs)
  show ?case
  proof (cases "dsn_match (c # cs)")
    case True
    with 2(4) have "sublist pat (take 9 (c # cs) @ redacted @ dsn_scan (dropWhile dsn_value_char (drop 9 (c # cs))))"
      by simp
    from avoids_sep [OF 2(3) this] 2(1) [OF True 2(3)] show ?thesis
      by (blast dest: sublist_take sublist_drop sublist_dropWhile)
  next
    case False
    with 2(2,3,4) dsn_scan_prefix [of pat "c # cs"] show ?thesis
      by (auto simp: sublist_Cons_right avoids_parts)
  qed
qed simp

lemma uri_match_split:
  assumes "uri_match (c # cs)"
  obtains v where "cs = v @ CHR ''@'' # drop 1 (dropWhile uri_value_char cs)" and "c = CHR '':''"
proof
  from assms show "c = CHR '':''" by (simp add: uri_match_def)
  from assms have "prefix ''@'' (dropWhile uri_value_char cs)" by (simp add: uri_match_def)
  then have "dropWhile uri_value_char cs = CHR ''@'' # drop 1 (dropWhile uri_value_char cs)"
    by (auto simp: prefix_def)
  then show "cs = takeWhile uri_value_char cs @ CHR ''@'' # drop 1 (dropWhile uri_value_char cs)"
    by (metis takeWhile_dropWhile_id)
qed

lemma uri_scan_prefix: "CHR ''['' \<notin> set pat \<Longrightarrow> prefix pat (uri_scan s) \<Longrightarrow> prefix pat s"
proof (induction s arbitrary: pat rule: uri_scan.induct)
  case (2 c cs)
  show ?case
  proof (cases "uri_match (c # cs)")
    case True
    with 2(4) have "prefix pat ([c] @ CHR ''['' # (''REDACTED]@'' @ uri_scan (drop 1 (dropWhile uri_value_char cs))))"
      by (simp add: redacted_def)
    from prefix_before_sep [OF 2(3) this] show ?thesis by (cases pat) auto
  next
    case False
    with 2(2,3,4) show ?thesis by (cases pat) auto
  qed
qed simp

lemma uri_scan_sublist: "avoids pat redacted \<Longrightarrow> sublist pat (uri_scan s) \<Longrightarrow> sublist pat s"
proof (induction s rule: uri_scan.induct)
  case (2 c cs)
  show ?case
  proof (cases "uri_match (c # cs)")
    case True
    let ?rest = "drop 1 (dropWhile uri_value_char cs)"
    from uri_match_split [OF True] obtain v where v: "cs = v @ CHR ''@'' # ?rest" by blast
    from True 2(4) have "sublist pat ([c] @ redacted @ (CHR ''@'' # uri_scan ?rest))" by simp
    from avoids_sep [OF 2(3) this] have "sublist pat [c] \<or> prefix pat (CHR ''@'' # uri_scan ?rest) \<or> sublist pat (uri_scan ?rest)"
      by (auto simp: sublist_Cons_right)
    moreover have "sublist pat cs" if "prefix pat (CHR ''@'' # uri_scan ?rest)"
    proof -
      from that 2(3) uri_scan_prefix [of "tl pat" ?rest] have "prefix pat (CHR ''@'' # ?rest)"
        by (cases pat) (auto simp: avoids_parts)
      then have "sublist pat (CHR ''@'' # ?rest)" by blast
      then show ?thesis by (subst v) (simp add: sublist_append)
    qed
    moreover have "sublist pat cs" if "sublist pat (uri_scan ?rest)"
      using 2(1) [OF True 2(3) that] by (blast dest: sublist_drop sublist_dropWhile)
    ultimately show ?thesis by (auto simp: sublist_Cons_right prefix_Cons)
  next
    case False
    with 2(2,3,4) uri_scan_prefix [of pat "c # cs"] show ?thesis
      by (auto simp: sublist_Cons_right avoids_parts)
  qed
qed simp

section \<open>Redaction\<close>

lemma escape_char_nonempty: "escape_char c \<noteq> []"
  by (simp add: escape_char_def)

lemma QueryEscape_Nil [simp]: "QueryEscape s = [] \<longleftrightarrow> s = []"
  by (simp add: QueryEscape_def escape_char_nonempty)

lemma QueryEscape_Trim_nonempty: "TrimSpace x \<noteq> [] \<Longrightarrow> QueryEscape (TrimSpace x) \<noteq> []"
  by simp

lemma redactSecret_keeps:
  assumes "avoids pat redacted" and "sublist pat (redactSecret msg x)"
  shows "sublist pat msg"
proof (cases "TrimSpace x = []")
  case True
  with assms(2) show ?thesis by (simp add: redactSecret_def)
next
  case False
  note keep = ReplaceAll_keeps [OF assms(1) False] ReplaceAll_keeps [OF assms(1) QueryEscape_Trim_nonempty [OF False]]
  from False assms(2) show ?thesis
    by (cases "QueryEscape (TrimSpace x) = TrimSpace x") (auto simp: redactSecret_def Let_def intro: keep(1) keep(1) [OF keep(2)])
qed

lemma redactSecret_removes:
  assumes "avoids (TrimSpace x) redacted"
  shows "\<not> sublist (TrimSpace x) (redactSecret msg x)"
proof -
  from assms have "TrimSpace x \<noteq> []" by (simp add: avoids_parts)
  then show ?thesis
    using ReplaceAll_removes [OF assms] ReplaceAll_keeps [OF assms QueryEscape_Trim_nonempty]
    unfolding redactSecret_def Let_def by auto
qed

lemma redactSecret_removes_escaped:
  assumes "avoids (QueryEscape (TrimSpace x)) redacted"
  shows "\<not> sublist (QueryEscape (TrimSpace x)) (redactSecret msg x)"
  using assms ReplaceAll_removes [OF assms]
  unfolding redactSecret_def Let_def by (auto simp: avoids_parts)

lemma foldl_redact_keeps: "avoids pat redacted \<Longrightarrow> sublist pat (foldl redactSecret msg xs) \<Longrightarrow> sublist pat msg"
  by (induction xs arbitrary: msg) (auto dest: redactSecret_keeps)

lemma foldl_redact_removes:
  assumes "avoids pat redacted" and "\<And>m. \<not> sublist pat (redactSecret m x)" and "x \<in> set xs"
  shows "\<not> sublist pat (foldl redactSecret msg xs)"
proof -
  from assms(3) obtain ys zs where "xs = ys @ x # zs" by (auto dest: split_list)
  then have "foldl redactSecret msg xs = foldl redactSecret (redactSecret (foldl redactSecret msg ys) x) zs" by simp
  then show ?thesis using foldl_redact_keeps [OF assms(1)] assms(2) by metis
qed

lemma sanitize_hides:
  assumes "avoids pat redacted" and "\<And>m. \<not> sublist pat (redactSecret m x)" and "x \<in> set xs"
  shows "\<not> sublist pat (sanitizeMessage msg xs)"
  using foldl_redact_removes [OF assms] dsn_scan_sublist [OF assms(1)] uri_scan_sublist [OF assms(1)]
  unfolding sanitizeMessage_def by blast

section \<open>Properties\<close>

text \<open>C25: a supplied secret does not occur in the sanitized message, neither as such nor URL-escaped, however
  the redactions of the other secrets and of the two patterns interact; the secret must not itself
  occur in the marker (hold a bracket or be a part of its word).\<close>

theorem sanitize_hides_secret:
  assumes "x \<in> set sensitive" and "avoids (TrimSpace x) redacted" and "avoids (QueryEscape (TrimSpace x)) redacted"
  shows "\<not> Contains (sanitizeMessage msg sensitive) (TrimSpace x) \<and>
    \<not> Contains (sanitizeMessage msg sensitive) (QueryEscape (TrimSpace x))"
  using sanitize_hides [OF assms(2) redactSecret_removes [OF assms(2)] assms(1)]
    sanitize_hides [OF assms(3) redactSecret_removes_escaped [OF assms(3)] assms(1)] by blast

theorem sanitize_hides_secret_witness:
  "\<not> Contains (sanitizeMessage ''dial postgres://app:p w@db failed: p+w'' ['' p w '', ''host'']) ''p w'' \<and>
   \<not> Contains (sanitizeMessage ''dial postgres://app:p w@db failed: p+w'' ['' p w '', ''host'']) ''p+w''"
proof -
  have t: "TrimSpace '' p w '' = ''p w''" by (simp add: go_defs)
  have e: "QueryEscape ''p w'' = ''p+w''"
    by (simp add: QueryEscape_def escape_char_def query_unreserved_def go_defs)
  have "avoids ''p w'' redacted" "avoids ''p+w'' redacted" by (simp_all add: avoids_parts sublist_code)
  with sanitize_hides_secret [of "'' p w ''" "['' p w '', ''host'']"] t e show ?thesis by simp
qed

end
