(* ===== verification/Dso_Probes.thy ===== *)
theory Dso_Probes
  imports Dso_Sample Dso_Sha256 Dso_Sanitize
begin

text \<open>
  The synchronous probes (\<^verbatim>\<open>internal/probes/{http,tls,mysql,postgres,factory}.go\<close>): each executor takes
  the probe's configuration and the data of the secret revision and returns the error of the
  validation, if any. The executors are those the factory builds, without injected clients.
  Connections are recorded in the trace; deadlines show as errors of the replies.
\<close>

type_synonym secret_data = "(string \<times> bytes) list"
type_synonym 'w ProbeExecutor = "'w env \<Rightarrow> ValidationProbe \<Rightarrow> secret_data \<Rightarrow> ('w, err option) dso"

section \<open>Connections\<close>

definition httpDo :: "'w env \<Rightarrow> bool \<Rightarrow> string \<Rightarrow> ('w, err + int) dso" where
  "httpDo E insecure u = call (wi_httpDo (wire E) insecure u) (\<lambda>_. EHttpGet insecure u)"

definition tlsDial :: "'w env \<Rightarrow> bool \<Rightarrow> string \<Rightarrow> ('w, err + Certificate list option) dso" where
  "tlsDial E insecure a = call (wi_tlsDial (wire E) insecure a) (\<lambda>_. ETlsDial insecure a)"

definition sqlOpen :: "'w env \<Rightarrow> string \<Rightarrow> string \<Rightarrow> ('w, err option) dso" where
  "sqlOpen E driver dsn = call (wi_sqlOpen (wire E) driver dsn) (\<lambda>_. ESqlOpen driver dsn)"

lemmas connection_defs = httpDo_def tlsDial_def sqlOpen_def

text \<open>The value of a key of the secret data, and whether it is present and not empty.\<close>

definition data_get :: "secret_data \<Rightarrow> string \<Rightarrow> bytes" where
  "data_get d k = (case map_of d k of Some v \<Rightarrow> v | None \<Rightarrow> '''')"

definition hasPinnedSecret :: "secret_data \<Rightarrow> bool" where
  "hasPinnedSecret d \<longleftrightarrow>
     data_get d ''thumbprint'' \<noteq> '''' \<or> data_get d ''tls.crt'' \<noteq> '''' \<or> data_get d ''cert'' \<noteq> ''''"

section \<open>HTTP\<close>

definition HTTPProbe_Execute :: "'w ProbeExecutor" where
  "HTTPProbe_Execute E config secretData =
     (let ep = vp_Endpoint config in
      if ep = '''' then ret (Some (Errorf ''http probe endpoint must not be empty'' [] None))
      else (case wi_newRequest (wire E) ep of
         Some e \<Rightarrow> ret (Some (Errorf ''failed to construct http probe request for %q: %w'' [ep] (Some e)))
       | None \<Rightarrow> do {
           resp \<leftarrow> httpDo E (hasPinnedSecret secretData) ep;
           case resp of
             Inl e \<Rightarrow> ret (Some (Errorf ''http probe request failed for %q: %w'' [ep] (Some e)))
           | Inr code \<Rightarrow>
               if code < 200 \<or> code \<ge> 400
               then ret (Some (Errorf ''http probe received unsuccessful status code %d from %q'' [FormatInt code, ep] None))
               else ret None
         }))"

section \<open>TLS\<close>

definition cleanHex :: "string \<Rightarrow> string" where
  "cleanHex s = ToLower (TrimSpace (ReplaceAll (ReplaceAll s '':'' '''') '' '' ''''))"

definition thumbprintMismatch :: "secret_data \<Rightarrow> Certificate \<Rightarrow> bool" where
  "thumbprintMismatch d leaf \<longleftrightarrow>
     (let expected = data_get d ''thumbprint'' in
      expected \<noteq> '''' \<and> cleanHex expected \<noteq> sha256_hex (crt_Raw leaf) \<and> cleanHex expected \<noteq> sha1_hex (crt_Raw leaf))"

text \<open>\<^verbatim>\<open>tls.crt\<close> if the key is present, else \<^verbatim>\<open>cert\<close>.\<close>

definition certPEMBytes :: "secret_data \<Rightarrow> bytes" where
  "certPEMBytes d = (case map_of d ''tls.crt'' of Some b \<Rightarrow> b | None \<Rightarrow> data_get d ''cert'')"

definition payloadMismatch :: "'w Net \<Rightarrow> secret_data \<Rightarrow> Certificate \<Rightarrow> bool" where
  "payloadMismatch N d leaf \<longleftrightarrow>
     certPEMBytes d \<noteq> '''' \<and>
     (case net_pemDecode N (certPEMBytes d) of
        None \<Rightarrow> False
      | Some (block, _) \<Rightarrow> pem_bytes block \<noteq> '''' \<and> sha256_words (pem_bytes block) \<noteq> sha256_words (crt_Raw leaf))"

definition checkLeaf :: "'w env \<Rightarrow> secret_data \<Rightarrow> int \<Rightarrow> Certificate \<Rightarrow> err option" where
  "checkLeaf E d now leaf =
     (if now > crt_NotAfter leaf
      then Some (Errorf ''certificate expired on %s'' [wi_rfc3339 (wire E) (crt_NotAfter leaf)] None)
      else if now < crt_NotBefore leaf
      then Some (Errorf ''certificate is not yet valid (valid from %s)'' [wi_rfc3339 (wire E) (crt_NotBefore leaf)] None)
      else if thumbprintMismatch d leaf
      then Some (Errorf ''tls certificate thumbprint mismatch against expected secret value'' [] None)
      else if payloadMismatch (net E) d leaf
      then Some (Errorf ''tls certificate DER hash does not match tls.crt payload'' [] None)
      else None)"

definition TLSProbe_Execute :: "'w ProbeExecutor" where
  "TLSProbe_Execute E config secretData =
     (let ep = vp_Endpoint config in
      if ep = '''' then ret (Some (Errorf ''tls probe endpoint must not be empty'' [] None))
      else do {
        r \<leftarrow> tlsDial E (hasPinnedSecret secretData) ep;
        case r of
          Inl e \<Rightarrow> ret (Some (Errorf ''tls dial failed for %q: %w'' [ep] (Some e)))
        | Inr conn \<Rightarrow>
            (case conn of
               None \<Rightarrow> ret (Some (Errorf ''failed to obtain tls connection state for %q'' [ep] None))
             | Some certs \<Rightarrow>
                 if certs = [] then ret (Some (Errorf ''no peer certificates presented by endpoint %q'' [ep] None))
                 else do {
                   now \<leftarrow> query (net_now (net E));
                   ret (checkLeaf E secretData now (hd certs))
                 })
      })"

section \<open>Databases\<close>

text \<open>The first non-empty value among the keys, exact names before names that differ in case.\<close>

definition lookupKey :: "secret_data \<Rightarrow> string \<Rightarrow> string option" where
  "lookupKey d k =
     (if data_get d k \<noteq> '''' then Some (data_get d k)
      else map_option snd (find (\<lambda>kv. EqualFold (fst kv) k \<and> snd kv \<noteq> '''') d))"

fun extractSecretValue :: "secret_data \<Rightarrow> string list \<Rightarrow> string" where
  "extractSecretValue d [] = ''''"
| "extractSecretValue d (k # ks) =
     (case lookupKey d k of Some v \<Rightarrow> v | None \<Rightarrow> extractSecretValue d ks)"

definition unsafe_chars :: string where
  "unsafe_chars = ''?&/'' @ [CHR 0x5C] @ ''@#(): '' @ [CHR 0x09, CHR 0x0D, CHR 0x0A]"

definition unsafe_db_chars :: string where
  "unsafe_db_chars = ''?&'' @ [CHR 0x5C] @ ''@# '' @ [CHR 0x09, CHR 0x0D, CHR 0x0A]"

definition ContainsAny :: "string \<Rightarrow> string \<Rightarrow> bool" where
  "ContainsAny s chars \<longleftrightarrow> list_ex (\<lambda>c. c \<in> set chars) s"

definition validPort :: "string \<Rightarrow> bool" where
  "validPort port = (case Atoi port of None \<Rightarrow> False | Some n \<Rightarrow> 0 < n \<and> n \<le> 65535)"

definition splitHostPort :: "string \<Rightarrow> string \<Rightarrow> (string \<times> string) option" where
  "splitHostPort endpoint defaultPort =
     (let ep = TrimPrefix endpoint ''tcp://'' in
      if Contains ep '':'' then SplitHostPort ep else Some (ep, defaultPort))"

definition parsePostgresEndpoint :: "string \<Rightarrow> string \<Rightarrow> (string \<times> string \<times> string) option" where
  "parsePostgresEndpoint endpoint defaultPort =
     (let ep = TrimPrefix (TrimPrefix (TrimPrefix endpoint ''tcp://'') ''postgres://'') ''postgresql://'';
          (ep', dbName) = (case Index ep (CHR ''/'') of
             None \<Rightarrow> (ep, '''')
           | Some i \<Rightarrow> (take i ep, TrimPrefix (drop i ep) ''/''))
      in if Contains ep' '':''
         then (case SplitHostPort ep' of None \<Rightarrow> None | Some (host, port) \<Rightarrow> Some (host, port, dbName))
         else Some (ep', defaultPort, dbName))"

text \<open>The ping and the query on an opened handle; any error is sanitized.\<close>

definition sanitizedErr :: "'w env \<Rightarrow> err \<Rightarrow> string \<Rightarrow> string \<Rightarrow> err option" where
  "sanitizedErr E e password dsn = Some (SanitizeDBError (wi_errText (wire E)) e [password, dsn])"

definition selectOne :: "'w env \<Rightarrow> string \<Rightarrow> string \<Rightarrow> string \<Rightarrow> ('w, err option) dso" where
  "selectOne E driver dsn password = do {
     r \<leftarrow> query (wi_sqlQueryRow (wire E) driver dsn ''SELECT 1'');
     case r of Some e \<Rightarrow> ret (sanitizedErr E e password dsn) | None \<Rightarrow> ret None
   }"

definition mysqlUsername :: "secret_data \<Rightarrow> string" where
  "mysqlUsername d =
     (let u = extractSecretValue d [''username'', ''user'', ''MYSQL_USER'', ''mysql_user'']
      in if u = '''' then ''root'' else u)"

definition mysqlPassword :: "secret_data \<Rightarrow> string" where
  "mysqlPassword d = extractSecretValue d [''password'', ''pass'', ''MYSQL_PASSWORD'', ''mysql_password'']"

definition mysqlDSN :: "secret_data \<Rightarrow> string \<Rightarrow> string \<Rightarrow> string" where
  "mysqlDSN d host port =
     mysqlUsername d @ '':'' @ mysqlPassword d @ ''@tcp('' @ host @ '':'' @ port @ '')/'' @
     extractSecretValue d [''dbname'', ''database'', ''MYSQL_DATABASE'', ''db''] @ ''?timeout=5s''"

definition MySQLProbe_Execute :: "'w ProbeExecutor" where
  "MySQLProbe_Execute E config secretData =
     (let ep = vp_Endpoint config;
          password = mysqlPassword secretData;
          invalid = Some (Errorf ''invalid or unsafe mysql endpoint: %q'' [ep] None)
      in if ep = '''' then ret (Some (Errorf ''mysql probe endpoint must not be empty'' [] None))
         else (case splitHostPort ep ''3306'' of
            None \<Rightarrow> ret invalid
          | Some (host, port) \<Rightarrow>
              if host = '''' \<or> ContainsAny host unsafe_chars \<or> ContainsAny port unsafe_chars then ret invalid
              else if \<not> validPort port then ret invalid
              else (let dsn = mysqlDSN secretData host port in do {
                opened \<leftarrow> sqlOpen E ''mysql'' dsn;
                case opened of
                  Some e \<Rightarrow> ret (sanitizedErr E e password dsn)
                | None \<Rightarrow> do {
                    ping \<leftarrow> query (wi_sqlPing (wire E) ''mysql'' dsn);
                    case ping of
                      Some e \<Rightarrow> ret (sanitizedErr E e password dsn)
                    | None \<Rightarrow> selectOne E ''mysql'' dsn password
                  }
              })))"

text \<open>Credentials of the PostgreSQL probe: explicit keys first, then the well-known names; the sole
  value of a one-key secret serves as password when nothing else was found before.\<close>

definition credKey :: "ValidationProbe \<Rightarrow> (ProbeCredentials \<Rightarrow> string) \<Rightarrow> secret_data \<Rightarrow> string" where
  "credKey config field d =
     (case vp_Credentials config of
        None \<Rightarrow> ''''
      | Some c \<Rightarrow> if field c \<noteq> '''' then data_get d (field c) else '''')"

definition postgresPassword :: "ValidationProbe \<Rightarrow> secret_data \<Rightarrow> string" where
  "postgresPassword config d =
     (let explicit = credKey config cred_PasswordKey d;
          password = (if explicit = '''' then extractSecretValue d [''password'', ''pass'', ''POSTGRES_PASSWORD'', ''pgpassword'']
                      else explicit)
      in if password = '''' \<and> credKey config cred_UsernameKey d = '''' \<and> credKey config cred_DatabaseKey d = '''' \<and> length d = 1
         then snd (hd d) else password)"

definition postgresUsername :: "ValidationProbe \<Rightarrow> secret_data \<Rightarrow> string" where
  "postgresUsername config d =
     (let explicit = credKey config cred_UsernameKey d;
          u = (if explicit = '''' then extractSecretValue d [''username'', ''user'', ''POSTGRES_USER'', ''pguser''] else explicit)
      in if u = '''' then ''postgres'' else u)"

definition postgresDatabase :: "ValidationProbe \<Rightarrow> secret_data \<Rightarrow> string \<Rightarrow> string" where
  "postgresDatabase config d endpointDB =
     (let explicit = credKey config cred_DatabaseKey d;
          n = (if explicit = '''' then extractSecretValue d [''dbname'', ''database'', ''POSTGRES_DB'', ''db''] else explicit);
          n = (if endpointDB \<noteq> '''' \<and> n = '''' then endpointDB else n)
      in if n = '''' then ''appdb'' else n)"

definition postgresDSN :: "string \<Rightarrow> string \<Rightarrow> string \<Rightarrow> string \<Rightarrow> string \<Rightarrow> string" where
  "postgresDSN user password host port db =
     ''postgres://'' @ QueryEscape user @ '':'' @ QueryEscape password @ ''@'' @ host @ '':'' @ port @ ''/'' @ db @
     ''?sslmode=disable&connect_timeout=5''"

text \<open>After a failed ping: with a missing database, a ping of the default database decides.\<close>

definition postgresFallback :: "'w env \<Rightarrow> err \<Rightarrow> string \<Rightarrow> string \<Rightarrow> ('w, bool) dso" where
  "postgresFallback E e dbname fallbackDSN =
     (if Contains (wi_errText (wire E) e) ''does not exist'' \<and> dbname \<noteq> ''postgres'' then do {
        opened \<leftarrow> sqlOpen E ''postgres'' fallbackDSN;
        case opened of
          Some _ \<Rightarrow> ret False
        | None \<Rightarrow> do {
            ping \<leftarrow> query (wi_sqlPing (wire E) ''postgres'' fallbackDSN);
            ret (ping = None)
          }
      } else ret False)"

definition PostgresProbe_Execute :: "'w ProbeExecutor" where
  "PostgresProbe_Execute E config secretData =
     (let ep = vp_Endpoint config;
          username = postgresUsername config secretData;
          password = postgresPassword config secretData;
          invalid = Some (Errorf ''invalid or unsafe postgres endpoint: %q'' [ep] None)
      in if ep = '''' then ret (Some (Errorf ''postgresql probe endpoint must not be empty'' [] None))
         else (case parsePostgresEndpoint ep ''5432'' of
            None \<Rightarrow> ret invalid
          | Some (host, port, endpointDB) \<Rightarrow>
              if host = '''' \<or> ContainsAny host unsafe_chars \<or> ContainsAny port unsafe_chars \<or>
                 ContainsAny endpointDB unsafe_db_chars then ret invalid
              else if \<not> validPort port then ret invalid
              else
                (let dbname = postgresDatabase config secretData endpointDB;
                     dsn = postgresDSN username password host port (QueryEscape dbname)
                 in do {
                   opened \<leftarrow> sqlOpen E ''postgres'' dsn;
                   case opened of
                     Some e \<Rightarrow> ret (sanitizedErr E e password dsn)
                   | None \<Rightarrow> do {
                       ping \<leftarrow> query (wi_sqlPing (wire E) ''postgres'' dsn);
                       case ping of
                         Some e \<Rightarrow> do {
                           ok \<leftarrow> postgresFallback E e dbname (postgresDSN username password host port ''postgres'');
                           if ok then ret None else ret (sanitizedErr E e password dsn)
                         }
                       | None \<Rightarrow> selectOne E ''postgres'' dsn password
                     }
                 })))"

section \<open>The factory\<close>

definition NewProbeExecutor :: "string \<Rightarrow> err + 'w ProbeExecutor option" where
  "NewProbeExecutor probeType =
     (if probeType = ProbeTypeHTTP then Inr (Some HTTPProbe_Execute)
      else if probeType = ProbeTypeTLS then Inr (Some TLSProbe_Execute)
      else if probeType = ProbeTypePostgreSQL then Inr (Some PostgresProbe_Execute)
      else if probeType = ProbeTypeMySQL then Inr (Some MySQLProbe_Execute)
      else if probeType = ProbeTypeJob then Inr None
      else Inl (Errorf ''unsupported probe type: %s'' [probeType] None))"

section \<open>The executor interface\<close>

text \<open>What the controller relies on: a probe opens connections and does nothing else to the outside,
  and a probe without endpoint fails before it opens any.\<close>

fun is_connection :: "event \<Rightarrow> bool" where
  "is_connection (EHttpGet b u) = True"
| "is_connection (ETlsDial b a) = True"
| "is_connection (ESqlOpen d n) = True"
| "is_connection _ = False"

locale probe_executor =
  fixes execute :: "'w ProbeExecutor"
  assumes connects_only: "emits_only is_connection (execute E v d)"
    and endpoint_required: "vp_Endpoint v = '''' \<Longrightarrow> spec (execute E v d) (\<lambda>r es. r \<noteq> None \<and> es = [])"
begin

lemma success_has_endpoint: "spec (execute E v d) (\<lambda>r es. r = None \<longrightarrow> vp_Endpoint v \<noteq> '''')"
  by (cases "vp_Endpoint v = ''''") (auto intro: spec_mono [OF endpoint_required] spec_mono [OF connects_only])

end

lemmas executor_defs =
  HTTPProbe_Execute_def TLSProbe_Execute_def MySQLProbe_Execute_def PostgresProbe_Execute_def
  postgresFallback_def selectOne_def connection_defs Let_def

interpretation http_probe: probe_executor HTTPProbe_Execute
  by unfold_locales (auto simp: executor_defs intro!: spec_rules)

interpretation tls_probe: probe_executor TLSProbe_Execute
  by unfold_locales (auto simp: executor_defs intro!: spec_rules)

interpretation mysql_probe: probe_executor MySQLProbe_Execute
  by unfold_locales (auto simp: executor_defs intro!: spec_rules)

interpretation postgres_probe: probe_executor PostgresProbe_Execute
  by unfold_locales (auto simp: executor_defs intro!: spec_rules)

lemma NewProbeExecutor_executor: "NewProbeExecutor t = Inr (Some x) \<Longrightarrow> probe_executor x"
  unfolding NewProbeExecutor_def
  by (auto split: if_splits intro: http_probe.probe_executor_axioms tls_probe.probe_executor_axioms
      mysql_probe.probe_executor_axioms postgres_probe.probe_executor_axioms)

section \<open>Lemmas\<close>

text \<open>The sanitized error of a database probe does not show the password.\<close>

lemma sanitizedErr_hides:
  assumes "avoids (TrimSpace password) redacted"
  shows "\<exists>msg. sanitizedErr E e password dsn = Some (Errorf ''database authentication failed: %s'' [msg] None) \<and>
           \<not> sublist (TrimSpace password) msg"
  using sanitize_hides [OF assms redactSecret_removes [OF assms], of "[password, dsn]"]
  by (simp add: sanitizedErr_def SanitizeDBError_def)

section \<open>Properties\<close>

text \<open>An error shows no secret when its format is one of the fixed texts of the two probes and neither an operand
  nor a wrapped error contains the secret. The text of an error that is not the operator's own is not known, so
  such an error does not count as hiding it.\<close>

definition database_formats :: "string list" where
  "database_formats =
     [''database authentication failed: %s'', ''mysql probe endpoint must not be empty'', ''invalid or unsafe mysql endpoint: %q'',
      ''postgresql probe endpoint must not be empty'', ''invalid or unsafe postgres endpoint: %q'']"

fun err_hides :: "string \<Rightarrow> err \<Rightarrow> bool" where
  "err_hides pw (StatusErr r) \<longleftrightarrow> False"
| "err_hides pw (Errorf f args w) \<longleftrightarrow>
     f \<in> set database_formats \<and> list_all (\<lambda>x. \<not> Contains x pw) args \<and>
     (case w of None \<Rightarrow> True | Some e \<Rightarrow> err_hides pw e)"

definition report_hides :: "string \<Rightarrow> err option \<Rightarrow> bool" where
  "report_hides pw r = (case r of None \<Rightarrow> True | Some e \<Rightarrow> err_hides pw e)"

lemma report_hides_sanitized: "avoids (TrimSpace pw) redacted \<Longrightarrow> report_hides (TrimSpace pw) (sanitizedErr E e pw dsn)"
  using sanitizedErr_hides [of pw E e dsn] by (auto simp: report_hides_def database_formats_def)

lemma report_hides_simps [simp]:
  "report_hides pw None"
  "f \<in> set database_formats \<Longrightarrow> report_hides pw (Some (Errorf f args None)) \<longleftrightarrow> list_all (\<lambda>x. \<not> Contains x pw) args"
  by (simp_all add: report_hides_def)

lemma database_formats_simps [simp]:
  "''mysql probe endpoint must not be empty'' \<in> set database_formats"
  "''invalid or unsafe mysql endpoint: %q'' \<in> set database_formats"
  "''postgresql probe endpoint must not be empty'' \<in> set database_formats"
  "''invalid or unsafe postgres endpoint: %q'' \<in> set database_formats"
  by (simp_all add: database_formats_def)

text \<open>C26: whatever the database driver reports, every error that a MySQL or PostgreSQL probe returns hides the
  password the probe used, without surrounding blanks: it is one of the probe's own messages, and neither
  an operand nor a wrapped error contains the password. This holds for a password that does not overlap
  the text \<^verbatim>\<open>[REDACTED]\<close> and that the configured endpoint, which the messages quote, does not contain.\<close>

theorem database_error_hides_password:
  "(avoids (TrimSpace (mysqlPassword d)) redacted \<and> \<not> Contains (vp_Endpoint v) (TrimSpace (mysqlPassword d)) \<longrightarrow>
      spec (MySQLProbe_Execute E v d) (\<lambda>r es. report_hides (TrimSpace (mysqlPassword d)) r)) \<and>
   (avoids (TrimSpace (postgresPassword v d)) redacted \<and> \<not> Contains (vp_Endpoint v) (TrimSpace (postgresPassword v d)) \<longrightarrow>
      spec (PostgresProbe_Execute E v d) (\<lambda>r es. report_hides (TrimSpace (postgresPassword v d)) r))"
  using report_hides_sanitized [of "mysqlPassword d" E] report_hides_sanitized [of "postgresPassword v d" E]
  by (auto simp: executor_defs intro!: spec_rules)

theorem database_error_hides_password_witness:
  "mysqlPassword (s_data sample_secret) = ''s3cr3t'' \<and>
   spec (MySQLProbe_Execute sample_world sample_probe (s_data sample_secret)) (\<lambda>r es. report_hides ''s3cr3t'' r) \<and>
   spec (PostgresProbe_Execute sample_world sample_probe (s_data sample_secret)) (\<lambda>r es. report_hides ''s3cr3t'' r)"
proof -
  have pw: "mysqlPassword (s_data sample_secret) = ''s3cr3t''" "postgresPassword sample_probe (s_data sample_secret) = ''s3cr3t''"
    by (simp_all add: mysqlPassword_def postgresPassword_def credKey_def lookupKey_def data_get_def sample_defs)
  have "TrimSpace ''s3cr3t'' = ''s3cr3t''" by (simp add: go_defs)
  moreover have "avoids ''s3cr3t'' redacted" by (simp add: avoids_parts sublist_code)
  moreover have "\<not> Contains (vp_Endpoint sample_probe) ''s3cr3t''" by (simp add: sample_defs sublist_code)
  ultimately show ?thesis
    using database_error_hides_password [of "s_data sample_secret" sample_probe sample_world] by (simp add: pw)
qed

text \<open>A data source whose host and port passed the checks.\<close>

definition checked_mysql :: "secret_data \<Rightarrow> event \<Rightarrow> bool" where
  "checked_mysql d ev \<longleftrightarrow> (\<exists>host port. ev = ESqlOpen ''mysql'' (mysqlDSN d host port) \<and>
     host \<noteq> '''' \<and> \<not> ContainsAny host unsafe_chars \<and> \<not> ContainsAny port unsafe_chars \<and> validPort port)"

definition checked_postgres :: "ValidationProbe \<Rightarrow> secret_data \<Rightarrow> event \<Rightarrow> bool" where
  "checked_postgres v d ev \<longleftrightarrow> (\<exists>host port db.
     ev = ESqlOpen ''postgres'' (postgresDSN (postgresUsername v d) (postgresPassword v d) host port (QueryEscape db)) \<and>
     host \<noteq> '''' \<and> \<not> ContainsAny host unsafe_chars \<and> \<not> ContainsAny port unsafe_chars \<and> validPort port)"

lemma QueryEscape_postgres: "QueryEscape ''postgres'' = ''postgres''"
  by (simp add: QueryEscape_def escape_char_def query_unreserved_def go_defs)

lemma checked_fallback:
  "host \<noteq> '''' \<Longrightarrow> \<not> ContainsAny host unsafe_chars \<Longrightarrow> \<not> ContainsAny port unsafe_chars \<Longrightarrow> validPort port \<Longrightarrow>
   checked_postgres v d (ESqlOpen ''postgres'' (postgresDSN (postgresUsername v d) (postgresPassword v d) host port ''postgres''))"
  unfolding checked_postgres_def using QueryEscape_postgres by metis

lemma checked_postgresI:
  "host \<noteq> '''' \<Longrightarrow> \<not> ContainsAny host unsafe_chars \<Longrightarrow> \<not> ContainsAny port unsafe_chars \<Longrightarrow> validPort port \<Longrightarrow>
   checked_postgres v d (ESqlOpen ''postgres'' (postgresDSN (postgresUsername v d) (postgresPassword v d) host port (QueryEscape db)))"
  unfolding checked_postgres_def by blast

lemma checked_mysqlI:
  "host \<noteq> '''' \<Longrightarrow> \<not> ContainsAny host unsafe_chars \<Longrightarrow> \<not> ContainsAny port unsafe_chars \<Longrightarrow> validPort port \<Longrightarrow>
   checked_mysql d (ESqlOpen ''mysql'' (mysqlDSN d host port))"
  unfolding checked_mysql_def by blast

text \<open>C27: a database probe opens connections only to a host without separator characters and to a port
  between 1 and 65535, in a data source built from the credentials of the revision: an endpoint
  cannot smuggle parameters into it.\<close>

theorem database_endpoint_checked:
  "emits_only (checked_mysql d) (MySQLProbe_Execute E v d) \<and> emits_only (checked_postgres v d) (PostgresProbe_Execute E v d)"
  by (auto simp: executor_defs intro!: spec_rules checked_mysqlI checked_postgresI checked_fallback)

text \<open>For an HTTP probe, a pinned certificate or thumbprint in the secret only switches verification off:
  any server that answers with a success code passes, whatever certificate it presents.\<close>

theorem http_pin_not_checked:
  assumes "vp_Endpoint v = ep" and "ep \<noteq> ''''" and "wi_newRequest (wire E) ep = None"
    and "wi_httpDo (wire E) True ep (world s) = (Inr code, w)" and "200 \<le> code" and "code < 400" and "hasPinnedSecret d"
  shows "result_of (HTTPProbe_Execute E v d) s = None \<and> events_of (HTTPProbe_Execute E v d) s = [EHttpGet True ep]"
  using assms by (simp add: HTTPProbe_Execute_def Let_def httpDo_def call_def result_of_def events_of_def)

theorem http_pin_not_checked_witness:
  "events_of (HTTPProbe_Execute sample_world (sample_probe\<lparr>vp_Endpoint := ''https://web''\<rparr>) [(''tls.crt'', ''PEM'')]) sample_sys =
     [EHttpGet True ''https://web'']"
  using http_pin_not_checked [of "sample_probe\<lparr>vp_Endpoint := ''https://web''\<rparr>" "''https://web''" sample_world sample_sys 200 "()"
      "[(''tls.crt'', ''PEM'')]"]
  by (simp add: sample_defs hasPinnedSecret_def data_get_def)

text \<open>C28: a TLS probe that passes with a decodable pinned certificate has seen a leaf within its validity whose
  SHA-256 hash is that of the pinned one.\<close>

theorem tls_pin_enforced:
  assumes "checkLeaf E d now leaf = None" and "net_pemDecode (net E) (certPEMBytes d) = Some (block, rest)"
    and "certPEMBytes d \<noteq> ''''" and "pem_bytes block \<noteq> ''''"
  shows "sha256_hex (crt_Raw leaf) = sha256_hex (pem_bytes block) \<and> crt_NotBefore leaf \<le> now \<and> now \<le> crt_NotAfter leaf"
  using assms by (auto simp: checkLeaf_def payloadMismatch_def sha256_hex_def split: if_splits)

theorem tls_pin_enforced_witness:
  "let E = sample_world\<lparr>net := sample_net\<lparr>net_pemDecode := (\<lambda>b. Some (\<lparr>pem_type = ''CERTIFICATE'', pem_bytes = ''DER'', pem_rest = ''''\<rparr>, ''''))\<rparr>\<rparr>;
       leaf = \<lparr>crt_NotBefore = 0, crt_NotAfter = 10, crt_Raw = ''DER''\<rparr>
   in checkLeaf E [(''tls.crt'', ''PEM'')] 5 leaf = None \<and> sha256_hex (crt_Raw leaf) = sha256_hex ''DER''"
proof -
  let ?E = "sample_world\<lparr>net := sample_net\<lparr>net_pemDecode := (\<lambda>b. Some (\<lparr>pem_type = ''CERTIFICATE'', pem_bytes = ''DER'', pem_rest = ''''\<rparr>, ''''))\<rparr>\<rparr>"
  let ?leaf = "\<lparr>crt_NotBefore = 0, crt_NotAfter = 10, crt_Raw = ''DER''\<rparr>"
  have "checkLeaf ?E [(''tls.crt'', ''PEM'')] 5 ?leaf = None"
    by (simp add: checkLeaf_def thumbprintMismatch_def payloadMismatch_def certPEMBytes_def data_get_def)
  with tls_pin_enforced [OF this, of "\<lparr>pem_type = ''CERTIFICATE'', pem_bytes = ''DER'', pem_rest = ''''\<rparr>" "''''"]
  show ?thesis by (simp add: certPEMBytes_def)
qed

text \<open>A pinned payload that is not PEM switches verification off and pins nothing: every leaf within its
  validity is accepted.\<close>

theorem tls_undecodable_pin_accepts:
  assumes "hasPinnedSecret d" and "data_get d ''thumbprint'' = ''''" and "net_pemDecode (net E) (certPEMBytes d) = None"
    and "wi_tlsDial (wire E) True (vp_Endpoint v) (world s) = (Inr (Some (leaf # certs)), w)" and "vp_Endpoint v \<noteq> ''''"
    and "net_now (net E) w = (now, w')" and "crt_NotBefore leaf \<le> now" and "now \<le> crt_NotAfter leaf"
  shows "result_of (TLSProbe_Execute E v d) s = None"
  using assms
  by (simp add: TLSProbe_Execute_def Let_def tlsDial_def call_def query_def result_of_def checkLeaf_def
      thumbprintMismatch_def payloadMismatch_def)

theorem tls_undecodable_pin_accepts_witness:
  "result_of (TLSProbe_Execute (sample_world\<lparr>wire := sample_wire\<lparr>wi_tlsDial :=
      (\<lambda>b a w. (Inr (Some [\<lparr>crt_NotBefore = 0, crt_NotAfter = 10, crt_Raw = ''anything''\<rparr>]), w))\<rparr>\<rparr>)
    sample_probe [(''tls.crt'', ''not a certificate'')]) sample_sys = None"
  by (rule tls_undecodable_pin_accepts [where leaf = "\<lparr>crt_NotBefore = 0, crt_NotAfter = 10, crt_Raw = ''anything''\<rparr>"
        and certs = "[]" and w = "()" and w' = "()" and now = 0])
    (simp_all add: hasPinnedSecret_def data_get_def certPEMBytes_def sample_defs)

end
