(* ===== verification/Dso_Validate.thy ===== *)
theory Dso_Validate
  imports Dso_Materialize Dso_Jobs Dso_Probes
begin

text \<open>
  The validation phase of the controller: \<open>reconcileValidationProbes\<close> runs the probes of a policy one
  after the other without blocking on Jobs; \<open>resolveCanaryProbeEndpoint\<close> redirects a probe of the
  rotated workload to the ready canary pod; \<open>isWorkloadProbe\<close> recognises such a probe.
\<close>

section \<open>Results\<close>

text \<open>\<^verbatim>\<open>ctrl.Result\<close>; times are in seconds.\<close>

record result =
  Requeue :: bool
  RequeueAfter :: int

definition noRequeue :: result where "noRequeue = \<lparr>Requeue = False, RequeueAfter = 0\<rparr>"
definition requeueNow :: result where "requeueNow = \<lparr>Requeue = True, RequeueAfter = 0\<rparr>"
definition requeueAfter :: "int \<Rightarrow> result" where "requeueAfter n = \<lparr>Requeue = False, RequeueAfter = n\<rparr>"

definition pending :: "result \<Rightarrow> bool" where
  "pending r \<longleftrightarrow> Requeue r \<or> RequeueAfter r > 0"

lemmas result_defs = noRequeue_def requeueNow_def requeueAfter_def pending_def

text \<open>\<^verbatim>\<open>time.Duration.String\<close> for a whole number of seconds.\<close>

definition durationString :: "int \<Rightarrow> string" where
  "durationString secs =
     (if secs < 60 then FormatInt secs @ ''s''
      else if secs < 3600 then FormatInt (secs div 60) @ ''m'' @ FormatInt (secs mod 60) @ ''s''
      else FormatInt (secs div 3600) @ ''h'' @ FormatInt (secs mod 3600 div 60) @ ''m'' @ FormatInt (secs mod 60) @ ''s'')"

section \<open>Redirecting a probe\<close>

definition endpointHost :: "'w Net \<Rightarrow> string \<Rightarrow> string" where
  "endpointHost N endpoint =
     (if Contains endpoint ''://'' then
        (case net_urlParse N endpoint of Some u \<Rightarrow> url_hostname u | None \<Rightarrow> endpoint)
      else if Contains endpoint '':'' then
        (case SplitHostPort endpoint of Some (h, _) \<Rightarrow> h | None \<Rightarrow> endpoint)
      else endpoint)"

definition isWorkloadProbe :: "'w Net \<Rightarrow> ValidationProbe \<Rightarrow> string \<Rightarrow> bool" where
  "isWorkloadProbe N probe targetName =
     (if vp_Type probe = ProbeTypeTLS then True
      else
        (let endpoint = TrimSpace (vp_Endpoint probe) in
         if endpoint = '''' then False
         else
           (let host = ToLower (TrimSpace (endpointHost N endpoint));
                targetNameLower = ToLower targetName
            in if host = '''' \<or> host = ''localhost'' \<or> host = ''127.0.0.1'' \<or> host = ''::1'' then False
               else host = targetNameLower \<or> HasPrefix host (targetNameLower @ ''.''))))"

definition podReady :: "Pod \<Rightarrow> bool" where
  "podReady pod \<longleftrightarrow>
     om_deletionTimestamp (pod_meta pod) = None \<and> pod_phase pod = ''Running'' \<and> pod_podIP pod \<noteq> '''' \<and>
     list_ex (\<lambda>c. pc_type c = ''Ready'' \<and> pc_status c = ConditionTrue) (pod_conditions pod)"

definition containerCrashing :: "ContainerStatus \<Rightarrow> bool" where
  "containerCrashing cs \<longleftrightarrow>
     sint (cs_restartCount cs) > 0 \<and>
     (cs_waiting cs = Some ''CrashLoopBackOff'' \<or> cs_waiting cs = Some ''RunContainerError'')"

definition crashingPod :: "Pod list \<Rightarrow> (Pod \<times> ContainerStatus) option" where
  "crashingPod pods =
     find (\<lambda>x. containerCrashing (snd x)) (concat (map (\<lambda>pod. map (Pair pod) (pod_containerStatuses pod)) pods))"

definition canaryTimeout :: "ValidationProbe \<Rightarrow> int" where
  "canaryTimeout probe =
     (if sint (vp_QueryTimeout probe) > 0 \<and> sint (vp_QueryTimeout probe) > 45 then sint (vp_QueryTimeout probe) else 45)"

definition redirectEndpoint :: "'w Net \<Rightarrow> string \<Rightarrow> string \<Rightarrow> string" where
  "redirectEndpoint N canaryIP endpoint =
     (if Contains endpoint ''://'' then
        (case net_urlParse N endpoint of
           None \<Rightarrow> endpoint
         | Some u \<Rightarrow>
             net_urlString N (u\<lparr>url_host := (if url_port u \<noteq> '''' then JoinHostPort canaryIP (url_port u) else canaryIP)\<rparr>))
      else if Contains endpoint '':'' then
        (case SplitHostPort endpoint of
           Some (_, port) \<Rightarrow> JoinHostPort canaryIP port
         | None \<Rightarrow> JoinHostPort canaryIP (TrimPrefix endpoint '':''))
      else if endpoint \<noteq> '''' then
        (if Atoi endpoint \<noteq> None then JoinHostPort canaryIP endpoint else canaryIP)
      else endpoint)"

text \<open>Without a ready pod: too late, crashing, or worth another try.\<close>

definition awaitCanary ::
  "'w env \<Rightarrow> string \<Rightarrow> ValidationProbe \<Rightarrow> Workload \<Rightarrow> Pod list \<Rightarrow> ('w, err + ValidationProbe \<times> result) dso" where
  "awaitCanary E targetName probe canaryDeploy pods = do {
     late \<leftarrow> (case om_creationTimestamp (w_meta canaryDeploy) of
               None \<Rightarrow> ret False
             | Some created \<Rightarrow> do {
                 now \<leftarrow> query (net_now (net E));
                 ret (now - created > canaryTimeout probe * 1000000000)
               });
     if late then
       ret (Inl (Errorf ''canary pod for %q failed to become ready within %v''
                  [targetName, durationString (canaryTimeout probe)] None))
     else
       (case crashingPod pods of
          Some (pod, cs) \<Rightarrow>
            ret (Inl (Errorf ''canary pod %q is crashing (%s, restarts: %d)''
                  [om_name (pod_meta pod), the (cs_waiting cs), FormatInt (sint (cs_restartCount cs))] None))
        | None \<Rightarrow> ret (Inr (probe, requeueAfter 2)))
   }"

definition resolveCanaryProbeEndpoint ::
  "'w env \<Rightarrow> 'w reconciler \<Rightarrow> DynamicSecretPolicy \<Rightarrow> ValidationProbe \<Rightarrow> ('w, err + ValidationProbe \<times> result) dso" where
  "resolveCanaryProbeEndpoint E R p probe =
     (let targetName = target_name p in
      if \<not> isWorkloadProbe (net E) probe targetName then ret (Inr (probe, noRequeue))
      else do {
        d \<leftarrow> query (cl_getWorkload (client E) ''Deployment'' (pol_namespace p) (canaryName targetName));
        case d of
          Inl e \<Rightarrow>
            if IsNotFound e then ret (Inr (probe, noRequeue))
            else ret (Inl (Errorf ''failed to inspect canary deployment %q: %w'' [canaryName targetName] (Some e)))
        | Inr canaryDeploy \<Rightarrow> do {
            l \<leftarrow> query (cl_listPods (client E) (pol_namespace p)
                   [(LabelCanary, ''true''), (LabelTargetWorkload, targetName)]);
            case l of
              Inl e \<Rightarrow> ret (Inl (Errorf ''failed to list canary pods for %q: %w'' [targetName] (Some e)))
            | Inr pods \<Rightarrow>
                if pods = [] \<and> rc_ProbeRunner R \<noteq> None then ret (Inr (probe, noRequeue))
                else (case find podReady pods of
                    None \<Rightarrow> awaitCanary E targetName probe canaryDeploy pods
                  | Some pod \<Rightarrow>
                      ret (Inr (probe\<lparr>vp_Endpoint := redirectEndpoint (net E) (pod_podIP pod) (vp_Endpoint probe)\<rparr>,
                                noRequeue)))
          }
      })"

section \<open>reconcileValidationProbes\<close>

text \<open>The injected runner, or the executor of the probe's type.\<close>

definition runProbe :: "'w env \<Rightarrow> 'w reconciler \<Rightarrow> ValidationProbe \<Rightarrow> secret_data \<Rightarrow> ('w, err option) dso" where
  "runProbe E R probe d =
     (case rc_ProbeRunner R of
        Some runner \<Rightarrow> query (runner probe d)
      | None \<Rightarrow>
          (case NewProbeExecutor (vp_Type probe) of
             Inl e \<Rightarrow> ret (Some e)
           | Inr None \<Rightarrow> ret (Some (Errorf ''executor is nil for probe type %s'' [vp_Type probe] None))
           | Inr (Some execute) \<Rightarrow> execute E probe d))"

definition observeProbe :: "DynamicSecretPolicy \<Rightarrow> string \<Rightarrow> ('w, unit) dso" where
  "observeProbe p t = emit (EMetric ''dso_probe_duration_seconds'' [pol_namespace p, t])"

text \<open>The outcome of one probe: go on with the next one (\<open>Inr None\<close>), leave with a result, or fail.\<close>

definition jobTimeout :: "JobProbeSpec \<Rightarrow> int32" where
  "jobTimeout job = (case jp_TimeoutSeconds job of Some t \<Rightarrow> if sint t > 0 then t else 60 | None \<Rightarrow> 60)"

definition runJobProbe ::
  "'w env \<Rightarrow> 'w reconciler \<Rightarrow> DynamicSecretPolicy \<Rightarrow> string \<Rightarrow> ValidationProbe \<Rightarrow> ('w, err + result option) dso" where
  "runJobProbe E R p secretName probe =
     (case vp_Job probe of
        None \<Rightarrow> ret (Inl (Errorf ''job probe spec is required when probe type is Job'' [] None))
      | Some job \<Rightarrow>
          (let jobName = DeriveProbeJobName (pol_name p) secretName in do {
             g \<leftarrow> query (cl_getJob (client E) (pol_namespace p) jobName);
             case g of
               Inl e \<Rightarrow>
                 if IsNotFound e then
                   (let newJob = BuildProbeJob p job secretName in
                    case SetControllerReference (libs E) p (j_meta newJob) of
                      Inl re \<Rightarrow> ret (Inl (Errorf ''failed to set controller reference on probe job: %w'' [] (Some re)))
                    | Inr m \<Rightarrow> do {
                        c \<leftarrow> createJob E (newJob\<lparr>j_meta := m\<rparr>);
                        case c of
                          None \<Rightarrow> ret (Inr (Some (requeueAfter 2)))
                        | Some ce \<Rightarrow>
                            if IsAlreadyExists ce then ret (Inr (Some (requeueAfter 2)))
                            else ret (Inl (Errorf ''failed to create probe job %q: %w'' [jobName] (Some ce)))
                      })
                 else ret (Inl (Errorf ''failed to inspect probe job %q: %w'' [jobName] (Some e)))
             | Inr currentJob \<Rightarrow> do {
                 st \<leftarrow> EvaluateJobStatus E (rc_KubeClient R) (Some currentJob) (jobTimeout job);
                 case fst st of
                   ProbeJobStateRunning \<Rightarrow> ret (Inr (Some (requeueAfter 2)))
                 | ProbeJobStateSucceeded \<Rightarrow> do {
                     _ \<leftarrow> deleteJob E currentJob;
                     observeProbe p (vp_Type probe);
                     ret (Inr None)
                   }
                 | _ \<Rightarrow> do {
                     _ \<leftarrow> deleteJob E currentJob;
                     (case snd st of Some e \<Rightarrow> ret (Inl e) | None \<Rightarrow> ret (Inr (Some noRequeue)))
                   }
               }
           }))"

definition runNetworkProbe ::
  "'w env \<Rightarrow> 'w reconciler \<Rightarrow> DynamicSecretPolicy \<Rightarrow> secret_data \<Rightarrow> ValidationProbe \<Rightarrow> ('w, err + result option) dso" where
  "runNetworkProbe E R p d probe = do {
     r \<leftarrow> resolveCanaryProbeEndpoint E R p probe;
     case r of
       Inl e \<Rightarrow> ret (Inl e)
     | Inr (effectiveProbe, res) \<Rightarrow>
         if pending res then ret (Inr (Some res))
         else do {
           e \<leftarrow> runProbe E R effectiveProbe d;
           emit (ERunProbe effectiveProbe e);
           observeProbe p (vp_Type effectiveProbe);
           (case e of Some x \<Rightarrow> ret (Inl x) | None \<Rightarrow> ret (Inr None))
         }
   }"

fun runProbes ::
  "'w env \<Rightarrow> 'w reconciler \<Rightarrow> DynamicSecretPolicy \<Rightarrow> string \<Rightarrow> secret_data \<Rightarrow> ValidationProbe list \<Rightarrow> ('w, err + result) dso" where
  "runProbes E R p secretName d [] = ret (Inr noRequeue)"
| "runProbes E R p secretName d (probe # probes) = do {
     r \<leftarrow> (if vp_Type probe = ProbeTypeJob then runJobProbe E R p secretName probe
           else runNetworkProbe E R p d probe);
     case r of
       Inl e \<Rightarrow> ret (Inl e)
     | Inr (Some res) \<Rightarrow> ret (Inr res)
     | Inr None \<Rightarrow> runProbes E R p secretName d probes
   }"

definition reconcileValidationProbes ::
  "'w env \<Rightarrow> 'w reconciler \<Rightarrow> DynamicSecretPolicy \<Rightarrow> ('w, err + result) dso" where
  "reconcileValidationProbes E R p =
     (if spec_ValidationProbes (p_spec p) = [] then ret (Inr noRequeue)
      else (let secretName = desiredSecretName p in do {
        s \<leftarrow> query (cl_getSecret (client E) (pol_namespace p) secretName);
        case s of
          Inl e \<Rightarrow> ret (Inl (Errorf ''failed to fetch secret revision %q for probe validation: %w'' [secretName] (Some e)))
        | Inr secret \<Rightarrow> runProbes E R p secretName (s_data secret) (spec_ValidationProbes (p_spec p))
      }))"

section \<open>Lemmas\<close>

lemma resolve_silent [spec_rules]: "silent (resolveCanaryProbeEndpoint E R p v)"
  unfolding resolveCanaryProbeEndpoint_def awaitCanary_def Let_def
  by (auto intro!: spec_rules split: prod.splits)

text \<open>Redirecting changes the endpoint only, and only to the same endpoint at an address.\<close>

definition probes_at :: "'w env \<Rightarrow> ValidationProbe \<Rightarrow> ValidationProbe \<Rightarrow> bool" where
  "probes_at E v v' \<longleftrightarrow> v' = v \<or> (\<exists>ip. v' = v\<lparr>vp_Endpoint := redirectEndpoint (net E) ip (vp_Endpoint v)\<rparr>)"

lemma resolve_frame:
  "spec (resolveCanaryProbeEndpoint E R p v) (\<lambda>r es. es = [] \<and> (\<forall>v' res. r = Inr (v', res) \<longrightarrow> probes_at E v v'))"
  unfolding resolveCanaryProbeEndpoint_def awaitCanary_def Let_def
  by (auto intro!: spec_rules simp: probes_at_def split: prod.splits)

lemma runProbe_connects: "emits_only is_connection (runProbe E R v d)"
  unfolding runProbe_def
  by (auto intro!: spec_rules dest!: NewProbeExecutor_executor intro: probe_executor.connects_only)

text \<open>The events of the validation phase.\<close>

fun is_validation :: "event \<Rightarrow> bool" where
  "is_validation (ERunProbe v e) = True"
| "is_validation (ECreateJob j e) = True"
| "is_validation (EDeleteJob j e) = True"
| "is_validation (EMetric m ls) = well_labelled m ls"
| "is_validation ev = is_connection ev"

lemma connection_validation: "is_connection e \<Longrightarrow> is_validation e"
  by (cases e) auto

text \<open>The events that decide about a probe: the outcome of a network probe, and a Job that was consumed,
  whether it had completed or failed.\<close>

fun is_verdict :: "event \<Rightarrow> bool" where
  "is_verdict (ERunProbe v e) = True"
| "is_verdict (EDeleteJob j e) = True"
| "is_verdict _ = False"

text \<open>A Job has completed when the first true condition among completion and failure is a completion.\<close>

definition job_completed :: "Job \<Rightarrow> bool" where
  "job_completed j \<longleftrightarrow>
     (case find (\<lambda>c. jc_status c = ConditionTrue \<and> (jc_type c = ''Complete'' \<or> jc_type c = ''Failed'')) (j_conditions j) of
        Some c \<Rightarrow> jc_type c = ''Complete'' | None \<Rightarrow> False)"

text \<open>The event shows that the probe passed: a network probe that was run at its endpoint, or redirected to an
  address, without an error; a Job probe by a completed Job that the server has under the name of the
  policy's Job for this revision.\<close>

fun passed :: "'w env \<Rightarrow> DynamicSecretPolicy \<Rightarrow> string \<Rightarrow> ValidationProbe \<Rightarrow> event \<Rightarrow> bool" where
  "passed E p s v (ERunProbe v' e) \<longleftrightarrow> vp_Type v \<noteq> ProbeTypeJob \<and> e = None \<and> probes_at E v v'"
| "passed E p s v (EDeleteJob j e) \<longleftrightarrow> vp_Type v = ProbeTypeJob \<and> job_completed j \<and>
     (\<exists>w w'. cl_getJob (client E) (pol_namespace p) (DeriveProbeJobName (pol_name p) s) w = (Inr j, w'))"
| "passed E p s v _ \<longleftrightarrow> False"

text \<open>The verdicts are one by one those of the policy's probes, and each probe passed.\<close>

definition all_passed :: "'w env \<Rightarrow> DynamicSecretPolicy \<Rightarrow> event list \<Rightarrow> bool" where
  "all_passed E p es \<longleftrightarrow>
     list_all2 (passed E p (desiredSecretName p)) (spec_ValidationProbes (p_spec p)) (filter is_verdict es)"

lemma connection_not_verdict: "list_all is_connection es \<Longrightarrow> filter is_verdict es = []"
proof -
  have "\<not> is_verdict e" if "is_connection e" for e using that by (cases e) auto
  then show "list_all is_connection es \<Longrightarrow> ?thesis" by (auto simp: filter_empty_conv list_all_iff)
qed

lemma jobOutcome_find:
  "jobOutcome cs = find (\<lambda>c. jc_status c = ConditionTrue \<and> (jc_type c = ''Complete'' \<or> jc_type c = ''Failed'')) cs"
  by (induction cs) auto

lemma EvaluateJobStatus_completed:
  "spec (EvaluateJobStatus E k (Some j) t) (\<lambda>r es. es = [] \<and> (fst r = ProbeJobStateSucceeded \<longrightarrow> job_completed j) \<and>
     (snd r = None \<longleftrightarrow> fst r = ProbeJobStateRunning \<or> fst r = ProbeJobStateSucceeded))"
  unfolding EvaluateJobStatus_def jobOutcome_find job_completed_def
  by (auto intro!: spec_rules spec_silent [OF RetrieveFailureLogs_silent])

lemma runJobProbe_spec:
  assumes "vp_Type v = ProbeTypeJob"
  shows "spec (runJobProbe E R p s v) (\<lambda>r es. list_all is_validation es \<and>
     (r = Inr None \<longrightarrow> (\<exists>ev. filter is_verdict es = [ev] \<and> passed E p s v ev)) \<and> (\<forall>res. r = Inr (Some res) \<longrightarrow> pending res))"
proof -
  let ?n = "DeriveProbeJobName (pol_name p) s"
  let ?stored = "\<lambda>j. \<exists>w w'. cl_getJob (client E) (pol_namespace p) ?n w = (Inr j, w')"
  have get: "spec (query (cl_getJob (client E) (pol_namespace p) ?n))
      (\<lambda>r es. es = [] \<and> (\<forall>j. r = Inr j \<longrightarrow> ?stored j))"
    by (rule spec_query_reply) blast
  show ?thesis
    unfolding runJobProbe_def Let_def createJob_def deleteJob_def observeProbe_def
    using assms
    by (auto intro!: spec_case_option spec_bind [where m = "query _"] spec_mono [OF get])
      (auto 0 4 intro!: spec_rules spec_mono [OF EvaluateJobStatus_completed] simp: result_defs split: ProbeJobState.splits)
qed

lemma runNetworkProbe_spec:
  assumes "vp_Type v \<noteq> ProbeTypeJob"
  shows "spec (runNetworkProbe E R p d v) (\<lambda>r es. list_all is_validation es \<and>
     (r = Inr None \<longrightarrow> (\<exists>ev. filter is_verdict es = [ev] \<and> passed E p s v ev)) \<and> (\<forall>res. r = Inr (Some res) \<longrightarrow> pending res))"
  unfolding runNetworkProbe_def observeProbe_def
  using assms
  by (auto intro!: spec_bind spec_emit spec_ret spec_if spec_case_option spec_mono [OF resolve_frame] spec_mono [OF runProbe_connects]
      simp: connection_not_verdict list_all_iff connection_validation split: prod.splits sum.splits)

text \<open>Without an error and without a requeue, every probe of the list has passed.\<close>

lemma runProbes_spec:
  "spec (runProbes E R p s d vs) (\<lambda>r es. list_all is_validation es \<and>
     (\<forall>res. r = Inr res \<longrightarrow> \<not> pending res \<longrightarrow> list_all2 (passed E p s) vs (filter is_verdict es)))"
proof (induction vs)
  case Nil
  then show ?case by (simp add: spec_ret)
next
  case (Cons v vs)
  have v: "spec (if vp_Type v = ProbeTypeJob then runJobProbe E R p s v else runNetworkProbe E R p d v) (\<lambda>r es. list_all is_validation es \<and>
      (r = Inr None \<longrightarrow> (\<exists>ev. filter is_verdict es = [ev] \<and> passed E p s v ev)) \<and> (\<forall>res. r = Inr (Some res) \<longrightarrow> pending res))"
    using runJobProbe_spec runNetworkProbe_spec by auto
  show ?case
    unfolding runProbes.simps
    by (rule spec_bind, rule spec_mono [OF v]) (auto intro!: spec_case_sum spec_case_option spec_ret spec_mono [OF Cons.IH])
qed

lemma reconcileValidationProbes_spec:
  "spec (reconcileValidationProbes E R p) (\<lambda>r es. list_all is_validation es \<and>
     (\<forall>res. r = Inr res \<longrightarrow> \<not> pending res \<longrightarrow> all_passed E p es))"
  unfolding reconcileValidationProbes_def Let_def all_passed_def
  by (auto intro!: spec_rules spec_mono [OF runProbes_spec])

section \<open>Properties\<close>

text \<open>A verdict of the validation: it may stop early, but it passes only when every probe passed.\<close>

definition sound_verdict :: "'w env \<Rightarrow> DynamicSecretPolicy \<Rightarrow> err + result \<Rightarrow> event list \<Rightarrow> bool" where
  "sound_verdict E p r es \<longleftrightarrow> list_all is_validation es \<and>
     (case r of Inl _ \<Rightarrow> True | Inr res \<Rightarrow> pending res \<or> all_passed E p es)"


text \<open>A cluster in which every Job completes as soon as it is created: the state holds the completed Jobs by
  namespace and name.\<close>

type_synonym job_store = "(string \<times> string) set"

definition finished_job :: "string \<Rightarrow> string \<Rightarrow> Job" where
  "finished_job ns n = \<lparr>j_meta = empty_meta\<lparr>om_name := n, om_namespace := ns\<rparr>,
     j_spec = \<lparr>js_template = sample_template [] [], js_backoffLimit = None, js_rest = ''''\<rparr>,
     j_conditions = [\<lparr>jc_type = ''Complete'', jc_status = ConditionTrue, jc_reason = '''', jc_message = ''''\<rparr>]\<rparr>"

definition job_key :: "Job \<Rightarrow> string \<times> string" where
  "job_key j = (om_namespace (j_meta j), om_name (j_meta j))"

definition job_cluster :: "job_store env" where
  "job_cluster = \<lparr>client = sample_client
       \<lparr>cl_getJob := (\<lambda>ns n w. (if (ns, n) \<in> w then Inr (finished_job ns n) else Inl (StatusErr NotFound), w)),
        cl_createJob := (\<lambda>j w. if job_key j \<in> w then (Some (StatusErr AlreadyExists), w) else (None, insert (job_key j) w)),
        cl_deleteJob := (\<lambda>j w. if job_key j \<in> w then (None, w - {job_key j}) else (Some (StatusErr NotFound), w))\<rparr>,
     libs = list_libs, net = sample_net, wire = sample_wire\<rparr>"

lemma probe_job_key: "job_key (BuildProbeJob p j sec) = (pol_namespace p, DeriveProbeJobName (pol_name p) sec)"
  by (simp add: job_key_def BuildProbeJob_def Let_def)

lemma run_job_probe:
  assumes "vp_Job v = Some j" and "k = (pol_namespace p, DeriveProbeJobName (pol_name p) sec)"
  shows "run_state (runJobProbe job_cluster R p sec v) s =
    (if k \<in> world s then (Inr None, s\<lparr>world := world s - {k}, trace := trace s @ [EDeleteJob (finished_job (fst k) (snd k)) None,
         EMetric ''dso_probe_duration_seconds'' [pol_namespace p, vp_Type v]]\<rparr>)
     else (Inr (Some (requeueAfter 2)), s\<lparr>world := insert k (world s), trace := trace s @ [ECreateJob (BuildProbeJob p j sec) None]\<rparr>))"
proof -
  have "job_key (finished_job ns n) = (ns, n)" for ns n by (simp add: finished_job_def job_key_def)
  with assms probe_job_key [of p j sec] show ?thesis
    by (simp add: runJobProbe_def job_cluster_def Let_def query_def createJob_def deleteJob_def call_def observeProbe_def emit_def
        EvaluateJobStatus_def finished_job_def list_libs_def sample_client_def IsNotFound_def)
qed

text \<open>C38: the Job probes of a policy share one Job name, so their Jobs displace each other: in a cluster that
  stores Jobs by namespace and name and where every Job succeeds at once, a validation whose first two probes
  are Job probes asks to be repeated whatever Jobs are there, so it never passes; the same policy with the
  first probe alone passes as soon as its Job is there.\<close>

theorem two_job_probes_never_pass:
  assumes "spec_ValidationProbes (p_spec p) = v1 # v2 # vs"
    and "vp_Type v1 = ProbeTypeJob" and "vp_Type v2 = ProbeTypeJob" and "vp_Job v1 = Some j1" and "vp_Job v2 = Some j2"
  shows "result_of (reconcileValidationProbes job_cluster R p) s = Inr (requeueAfter 2) \<and>
    result_of (reconcileValidationProbes job_cluster R (p\<lparr>p_spec := (p_spec p)\<lparr>spec_ValidationProbes := [v1]\<rparr>\<rparr>))
      (s\<lparr>world := {job_key (BuildProbeJob p j1 (desiredSecretName p))}\<rparr>) = Inr noRequeue"
proof -
  have get: "cl_getSecret (client job_cluster) ns n w = (Inr sample_secret, w)" for ns n w
    by (simp add: job_cluster_def sample_client_def)
  have name: "desiredSecretName (p\<lparr>p_spec := (p_spec p)\<lparr>spec_ValidationProbes := [v1]\<rparr>\<rparr>) = desiredSecretName p"
    by (simp add: desiredSecretName_def GetVaultObjectName_def GetResolvedSource_def Let_def cong: option.case_cong)
  show ?thesis
    using assms
    by (simp add: result_of_def reconcileValidationProbes_def Let_def query_def get name probe_job_key
        run_job_probe [OF assms(4) refl] run_job_probe [OF assms(5) refl])
qed

definition job_probe :: ValidationProbe where
  "job_probe = sample_probe\<lparr>vp_Type := ProbeTypeJob,
     vp_Job := Some \<lparr>jp_TimeoutSeconds = None, jp_JobTemplate = j_spec (finished_job '''' '''')\<rparr>\<rparr>"

theorem two_job_probes_never_pass_witness:
  "result_of (reconcileValidationProbes job_cluster
     \<lparr>rc_SecretFetcher = None, rc_ProviderRegistry = None, rc_KubeClient = False, rc_ProbeRunner = None, rc_OnSecretMaterialized = None\<rparr>
     (sample_policy\<lparr>p_spec := sample_spec\<lparr>spec_ValidationProbes := [job_probe, job_probe]\<rparr>\<rparr>)) \<lparr>world = {}, trace = []\<rparr> =
   Inr (requeueAfter 2)"
  by (rule conjunct1 [OF two_job_probes_never_pass [where ?v1.0 = job_probe and ?v2.0 = job_probe and vs = "[]"]])
    (simp_all add: job_probe_def)

section \<open>The canary's endpoint\<close>

text \<open>C33: a redirected probe reaches the canary: an endpoint with a host and a port, or only a port number,
  becomes an endpoint that splits into the pod's address, bracketed when it is an IPv6 address, and the same port.\<close>

theorem redirect_reaches_canary:
  assumes "\<not> Contains endpoint ''://''" and "set ip \<inter> {CHR ''['', CHR '']''} = {}"
    and "SplitHostPort endpoint = Some (host, port) \<or> Atoi endpoint \<noteq> None \<and> port = endpoint"
  shows "SplitHostPort (redirectEndpoint N ip endpoint) = Some (ip, port)"
  using assms(3)
proof
  assume split: "SplitHostPort endpoint = Some (host, port)"
  from SplitHostPort_port [OF split] have "Contains endpoint '':''" by (simp add: sublist_single)
  with split assms(1) have "redirectEndpoint N ip endpoint = JoinHostPort ip port" by (simp add: redirectEndpoint_def)
  with SplitHostPort_Join [OF assms(2) SplitHostPort_port(2) [OF split]] show ?thesis by simp
next
  assume num: "Atoi endpoint \<noteq> None \<and> port = endpoint"
  then have "\<not> Contains endpoint '':''" "endpoint \<noteq> ''''" using Atoi_no_separator [of endpoint] by (auto simp: sublist_single Atoi_def)
  with num assms(1) have "redirectEndpoint N ip endpoint = JoinHostPort ip port" by (simp add: redirectEndpoint_def)
  with SplitHostPort_Join [OF assms(2) Atoi_no_separator] num show ?thesis by simp
qed

theorem redirect_reaches_canary_witness:
  "SplitHostPort (redirectEndpoint (sample_net :: unit Net) ''fd00::7'' ''db:5432'') = Some (''fd00::7'', ''5432'')"
proof (rule redirect_reaches_canary)
  show "SplitHostPort ''db:5432'' = Some (''db'', ''5432'') \<or> Atoi ''db:5432'' \<noteq> None \<and> ''5432'' = ''db:5432''"
    by (simp add: SplitHostPort_def)
qed (simp_all add: sublist_code)

end
