(* ===== verification/Dso_Netpol.thy ===== *)
theory Dso_Netpol
  imports Dso_Canary
begin

text \<open>
  The canary package, second part: the network isolation of the canary. \<open>extractTargetCIDRAndPort\<close>
  turns a probe endpoint into address ranges and ports, \<open>BuildNetworkPolicy\<close> and
  \<open>BuildCiliumNetworkPolicy\<close> build the two kinds of policy from them. Name resolution is an
  environment call, so the builders are computations, but silent ones.
\<close>

section \<open>Endpoints\<close>

definition defaultPorts :: "string \<Rightarrow> int list" where
  "defaultPorts t =
     (if t = ProbeTypePostgreSQL then [5432]
      else if t = ProbeTypeMySQL then [3306]
      else if t = ProbeTypeHTTP then [80, 443]
      else if t = ProbeTypeTLS then [443]
      else [])"

text \<open>Stripping a URL scheme: the host part and the default ports that go with the scheme.\<close>

definition stripScheme :: "'w Net \<Rightarrow> string \<Rightarrow> string \<Rightarrow> string \<times> int list" where
  "stripScheme N endpoint probeType =
     (if Contains endpoint ''://'' then
        (case net_urlParse N endpoint of
           None \<Rightarrow> (endpoint, defaultPorts probeType)
         | Some u \<Rightarrow>
             (url_host u,
              if url_scheme u = ''https'' \<and> url_port u = '''' then [443]
              else if url_scheme u = ''http'' \<and> url_port u = '''' then [80]
              else defaultPorts probeType))
      else (endpoint, defaultPorts probeType))"

definition positivePort :: "string \<Rightarrow> int option" where
  "positivePort s = (case Atoi s of Some n \<Rightarrow> if n > 0 then Some n else None | None \<Rightarrow> None)"

text \<open>The case of an address range with an explicit port, \<^verbatim>\<open>10.240.1.0/24:3306\<close>.\<close>

definition cidrWithPort :: "string \<Rightarrow> (string \<times> int list) option" where
  "cidrWithPort raw =
     (case (LastIndex raw (CHR '':''), Index raw (CHR ''/'')) of
        (Some lastColon, Some slash) \<Rightarrow>
          if lastColon > slash then
            (case positivePort (drop (Suc lastColon) raw) of
               Some n \<Rightarrow> Some (take lastColon raw, [n])
             | None \<Rightarrow> None)
          else None
      | _ \<Rightarrow> None)"

text \<open>Dropping a database suffix, \<^verbatim>\<open>10.240.0.5:5432/mydb\<close>, unless the whole is an address range.\<close>

definition stripPath :: "'w Net \<Rightarrow> string \<Rightarrow> string" where
  "stripPath N raw =
     (case Index raw (CHR ''/'') of
        None \<Rightarrow> raw
      | Some idx \<Rightarrow> (case net_parseCIDR N raw of None \<Rightarrow> take idx raw | Some _ \<Rightarrow> raw))"

definition hostAndPorts :: "'w Net \<Rightarrow> string \<Rightarrow> string \<times> int list" where
  "hostAndPorts N raw =
     (case cidrWithPort raw of
        Some hp \<Rightarrow> hp
      | None \<Rightarrow>
          (let clean = stripPath N raw in
           case SplitHostPort clean of
             Some (h, p) \<Rightarrow> (h, case positivePort p of Some n \<Rightarrow> [n] | None \<Rightarrow> [])
           | None \<Rightarrow> (clean, [])))"

definition ipCIDR :: "'w Net \<Rightarrow> string \<Rightarrow> string" where
  "ipCIDR N ip = (if net_isIPv4 N ip then ip @ ''/32'' else ip @ ''/128'')"

definition extractTargetCIDRAndPort ::
  "'w env \<Rightarrow> string \<Rightarrow> string \<Rightarrow> ('w, string list \<times> int list) dso" where
  "extractTargetCIDRAndPort E endpoint probeType =
     (if endpoint = '''' then ret ([], defaultPorts probeType)
      else
        (let (raw, defaults) = stripScheme (net E) endpoint probeType;
             (host, explicit) = hostAndPorts (net E) raw;
             ports = (if explicit = [] then defaults else explicit)
         in case net_parseCIDR (net E) host of
              Some cidr \<Rightarrow> ret ([cidr], ports)
            | None \<Rightarrow>
                (case net_parseIP (net E) host of
                   Some ip \<Rightarrow> ret ([ipCIDR (net E) ip], ports)
                 | None \<Rightarrow> do {
                     addrs \<leftarrow> query (net_lookupIPAddr (net E) host);
                     case addrs of
                       Inl _ \<Rightarrow> ret ([], ports)
                     | Inr as \<Rightarrow> ret (map (ipCIDR (net E)) as, ports)
                   })))"

section \<open>BuildNetworkPolicy\<close>

definition dnsRule :: NetworkPolicyRule where
  "dnsRule =
     \<lparr>npr_ports = [\<lparr>npp_protocol = ''UDP'', npp_port = 53\<rparr>, \<lparr>npp_protocol = ''TCP'', npp_port = 53\<rparr>],
      npr_peers =
        [\<lparr>peer_podSelector = Some \<lparr>ls_matchLabels = Map.empty,
             ls_matchExpressions = [\<lparr>lsr_key = ''k8s-app'', lsr_operator = ''In'',
                                     lsr_values = [''kube-dns'', ''coredns'']\<rparr>]\<rparr>,
          peer_namespaceSelector = Some empty_selector,
          peer_ipBlock = None\<rparr>]\<rparr>"

text \<open>The peers of a probe's egress rule; without address ranges, the pods selected by an empty
  pod selector.\<close>

definition probePeers :: "string list \<Rightarrow> NetworkPolicyPeer list" where
  "probePeers cidrs =
     (if cidrs \<noteq> [] then
        map (\<lambda>c. \<lparr>peer_podSelector = None, peer_namespaceSelector = None, peer_ipBlock = Some c\<rparr>) cidrs
      else [\<lparr>peer_podSelector = Some empty_selector, peer_namespaceSelector = None, peer_ipBlock = None\<rparr>])"

definition probeRule :: "string list \<times> int list \<Rightarrow> NetworkPolicyRule" where
  "probeRule x = (case x of (cidrs, ports) \<Rightarrow>
     \<lparr>npr_ports = map (\<lambda>n. \<lparr>npp_protocol = ''TCP'', npp_port = n\<rparr>) ports, npr_peers = probePeers cidrs\<rparr>)"

fun probeRules :: "'w env \<Rightarrow> ValidationProbe list \<Rightarrow> ('w, NetworkPolicyRule list) dso" where
  "probeRules E [] = ret []"
| "probeRules E (v # vs) =
     (if vp_Type v = ProbeTypeJob then probeRules E vs
      else do {
        x \<leftarrow> extractTargetCIDRAndPort E (vp_Endpoint v) (vp_Type v);
        rest \<leftarrow> probeRules E vs;
        ret (probeRule x # rest)
      })"

definition BuildNetworkPolicy :: "'w env \<Rightarrow> DynamicSecretPolicy \<Rightarrow> ('w, NetworkPolicyObj) dso" where
  "BuildNetworkPolicy E p = do {
     rules \<leftarrow> probeRules E (spec_ValidationProbes (p_spec p));
     ret \<lparr>net_meta = empty_meta\<lparr>om_name := target_name p @ ''-canary-netpol'',
                                 om_namespace := pol_namespace p,
                                 om_labels := canaryLabels (target_name p)\<rparr>,
          net_podSelector = \<lparr>ls_matchLabels = canaryLabels (target_name p), ls_matchExpressions = []\<rparr>,
          net_policyTypes = [''Ingress'', ''Egress''],
          net_ingress = [],
          net_egress = dnsRule # rules\<rparr>
   }"

section \<open>BuildCiliumNetworkPolicy\<close>

definition ciliumDnsRule :: json where
  "ciliumDnsRule = JObj
     [(''toEndpoints'', JArr [JObj [(''matchExpressions'', JArr [JObj
         [(''key'', JStr ''k8s:k8s-app''), (''operator'', JStr ''In''),
          (''values'', JArr [JStr ''kube-dns'', JStr ''coredns''])]])]]),
      (''toPorts'', JArr [JObj
         [(''ports'', JArr [JObj [(''port'', JStr ''53''), (''protocol'', JStr ''UDP'')],
                            JObj [(''port'', JStr ''53''), (''protocol'', JStr ''TCP'')]]),
          (''rules'', JObj [(''dns'', JArr [JObj [(''matchPattern'', JStr ''*'')]])])]])]"

definition ciliumRule :: "string list \<Rightarrow> int list \<Rightarrow> json" where
  "ciliumRule cidrs ports = JObj
     [(''toPorts'', JArr [JObj [(''ports'',
         JArr (map (\<lambda>n. JObj [(''port'', JStr (FormatInt n)), (''protocol'', JStr ''TCP'')]) ports))]]),
      (''toCIDRSet'', JArr (map (\<lambda>c. JObj [(''cidr'', JStr c)]) cidrs))]"

fun ciliumRules :: "'w env \<Rightarrow> ValidationProbe list \<Rightarrow> ('w, json list) dso" where
  "ciliumRules E [] = ret []"
| "ciliumRules E (v # vs) =
     (if vp_Type v = ProbeTypeJob then ciliumRules E vs
      else do {
        x \<leftarrow> extractTargetCIDRAndPort E (vp_Endpoint v) (vp_Type v);
        if fst x = [] then ciliumRules E vs
        else do {
          rest \<leftarrow> ciliumRules E vs;
          ret (ciliumRule (fst x) (snd x) # rest)
        }
      })"

definition ciliumName :: "string \<Rightarrow> string" where
  "ciliumName targetName = targetName @ ''-canary-cilium-netpol''"

definition BuildCiliumNetworkPolicy :: "'w env \<Rightarrow> DynamicSecretPolicy \<Rightarrow> ('w, json) dso" where
  "BuildCiliumNetworkPolicy E p = do {
     rules \<leftarrow> ciliumRules E (spec_ValidationProbes (p_spec p));
     ret (JObj
       [(''apiVersion'', JStr ''cilium.io/v2''),
        (''kind'', JStr ''CiliumNetworkPolicy''),
        (''metadata'', JObj
          [(''name'', JStr (ciliumName (target_name p))),
           (''namespace'', JStr (pol_namespace p)),
           (''labels'', JObj
             [(''app.kubernetes.io/managed-by'', JStr ''dynamic-secret-operator''),
              (LabelCanary, JStr ''true''),
              (LabelTargetWorkload, JStr (target_name p))]),
           (''ownerReferences'', JArr [JObj
             [(''apiVersion'', JStr ''dso.quantumsys.dev/v1alpha1''),
              (''kind'', JStr ''DynamicSecretPolicy''),
              (''name'', JStr (pol_name p)),
              (''uid'', JStr (om_uid (p_meta p)))]])]),
        (''spec'', JObj
          [(''endpointSelector'', JObj [(''matchLabels'', JObj
             [(LabelCanary, JStr ''true''), (LabelTargetWorkload, JStr (target_name p))])]),
           (''ingress'', JArr []),
           (''egress'', JArr (ciliumDnsRule # rules))])])
   }"

section \<open>Lemmas\<close>

lemma extract_silent [spec_rules]: "silent (extractTargetCIDRAndPort E ep t)"
  unfolding extractTargetCIDRAndPort_def by (auto intro!: spec_rules split: prod.splits option.splits)

text \<open>What a probe may reach, written down without the builders. The endpoint of a probe, or the host part of
  the URL it is, names a host, which a port and a path may follow; the host of an address of version 6 is in
  brackets then.\<close>

definition endpoint_authority :: "'w Net \<Rightarrow> ValidationProbe \<Rightarrow> string" where
  "endpoint_authority N v = (case (Contains (vp_Endpoint v) ''://'', net_urlParse N (vp_Endpoint v)) of
     (True, Some u) \<Rightarrow> url_host u | _ \<Rightarrow> vp_Endpoint v)"

definition names_host :: "string \<Rightarrow> string \<Rightarrow> string option \<Rightarrow> bool" where
  "names_host a h port \<longleftrightarrow> (\<exists>path. (path = '''' \<or> prefix ''/'' path) \<and>
     (case port of None \<Rightarrow> a = h @ path \<and> SplitHostPort h = None
      | Some s \<Rightarrow> a = h @ '':'' @ s @ path \<or> a = ''['' @ h @ '']:'' @ s @ path))"

text \<open>A host is an address range itself, an address, or a name that the resolver answers with addresses; a
  single address is a range of its own.\<close>

definition host_address :: "'w env \<Rightarrow> string \<Rightarrow> string \<Rightarrow> bool" where
  "host_address E h c \<longleftrightarrow> net_parseCIDR (net E) h = Some c \<or>
     (\<exists>ip. c = ip @ (if net_isIPv4 (net E) ip then ''/32'' else ''/128'') \<and>
        (net_parseIP (net E) h = Some ip \<or> (\<exists>as w w'. net_lookupIPAddr (net E) h w = (Inr as, w') \<and> ip \<in> set as)))"

definition host_unresolved :: "'w env \<Rightarrow> string \<Rightarrow> bool" where
  "host_unresolved E h \<longleftrightarrow> h = '''' \<or> net_parseCIDR (net E) h = None \<and> net_parseIP (net E) h = None \<and>
     (\<exists>r w w'. net_lookupIPAddr (net E) h w = (r, w') \<and> (\<forall>as. r = Inr as \<longrightarrow> as = []))"

text \<open>The ports: the positive one the endpoint names, and otherwise the usual ones of the URL's scheme or of the
  probe's type.\<close>

definition usual_port :: "'w env \<Rightarrow> ValidationProbe \<Rightarrow> int \<Rightarrow> bool" where
  "usual_port E v n \<longleftrightarrow>
     (\<exists>u. net_urlParse (net E) (vp_Endpoint v) = Some u \<and> (url_scheme u, n) \<in> {(''https'', 443), (''http'', 80)}) \<or>
     (vp_Type v, n) \<in> {(ProbeTypePostgreSQL, 5432), (ProbeTypeMySQL, 3306), (ProbeTypeHTTP, 80), (ProbeTypeHTTP, 443), (ProbeTypeTLS, 443)}"

definition probe_ports :: "'w env \<Rightarrow> ValidationProbe \<Rightarrow> string option \<Rightarrow> int list \<Rightarrow> bool" where
  "probe_ports E v port ns \<longleftrightarrow> (case Option.bind port Atoi of
     Some n \<Rightarrow> if n > 0 then ns = [n] else ns \<noteq> [] \<and> list_all (usual_port E v) ns
   | None \<Rightarrow> ns \<noteq> [] \<and> list_all (usual_port E v) ns)"

text \<open>A rule of the standard policy for a probe: its ports over TCP, to the addresses of its host, or to the pods
  of the namespace when the host was not resolved. An empty list of ports or peers would admit all.\<close>

definition rule_for :: "'w env \<Rightarrow> ValidationProbe \<Rightarrow> NetworkPolicyRule \<Rightarrow> bool" where
  "rule_for E v r \<longleftrightarrow> (\<exists>h port. names_host (endpoint_authority (net E) v) h port \<and>
     list_all (\<lambda>q. npp_protocol q = ''TCP'') (npr_ports r) \<and> probe_ports E v port (map npp_port (npr_ports r)) \<and>
     npr_peers r \<noteq> [] \<and>
     (list_all (\<lambda>q. peer_podSelector q = None \<and> peer_namespaceSelector q = None \<and>
        (\<exists>c. peer_ipBlock q = Some c \<and> host_address E h c)) (npr_peers r) \<or>
      host_unresolved E h \<and>
        npr_peers r = [\<lparr>peer_podSelector = Some empty_selector, peer_namespaceSelector = None, peer_ipBlock = None\<rparr>]))"

text \<open>Name resolution: port 53 of the DNS pods, in whichever namespace they are.\<close>

definition dns_only :: "NetworkPolicyRule \<Rightarrow> bool" where
  "dns_only r \<longleftrightarrow>
     npr_ports r \<noteq> [] \<and> list_all (\<lambda>q. npp_port q = 53) (npr_ports r) \<and>
     npr_peers r \<noteq> [] \<and>
     list_all (\<lambda>q. peer_ipBlock q = None \<and> (\<exists>l e. peer_podSelector q = Some l \<and> e \<in> set (ls_matchExpressions l) \<and>
       lsr_key e = ''k8s-app'' \<and> lsr_operator e = ''In'' \<and> set (lsr_values e) \<subseteq> {''kube-dns'', ''coredns''})) (npr_peers r)"

definition network_probe :: "ValidationProbe \<Rightarrow> bool" where
  "network_probe v \<longleftrightarrow> vp_Type v \<in> {ProbeTypePostgreSQL, ProbeTypeMySQL, ProbeTypeHTTP, ProbeTypeTLS}"

lemma Index_SomeD: "Index xs c = Some i \<Longrightarrow> i < length xs \<and> xs ! i = c"
  by (induction xs arbitrary: i) (auto split: if_splits)

lemma LastIndex_SomeD: "LastIndex xs c = Some i \<Longrightarrow> i < length xs \<and> xs ! i = c"
  by (induction xs arbitrary: i) (auto split: if_splits option.splits)

lemma SplitHostPort_shape:
  assumes "SplitHostPort s = Some (host, port)"
  shows "s = host @ '':'' @ port \<or> s = ''['' @ host @ '']:'' @ port"
proof -
  obtain i where i: "LastIndex s (CHR '':'') = Some i" using assms by (auto simp: SplitHostPort_def split: option.splits)
  then have colon: "i < length s" "s ! i = CHR '':''" by (auto dest: LastIndex_SomeD)
  then have s: "s = take i s @ '':'' @ drop (Suc i) s" using id_take_nth_drop [of i s] by simp
  show ?thesis
  proof (cases "prefix ''['' s")
    case True
    with assms i obtain e where e: "Index s (CHR '']'') = Some e" "Suc e = i" and r: "host = take (e - 1) (drop 1 s)" "port = drop (Suc i) s"
      by (auto simp: SplitHostPort_def Let_def split: option.splits if_splits)
    from e have close: "e < length s" "s ! e = CHR '']''" by (auto dest: Index_SomeD)
    from True obtain t where t: "s = CHR ''['' # t" by (auto simp: prefix_def)
    with close e have "e \<noteq> 0" by (cases e) auto
    then have "take i s = ''['' @ host @ '']''"
      using t r close e(2) [symmetric] by (cases e) (auto simp: take_Suc_conv_app_nth)
    with s r show ?thesis by simp
  next
    case False
    with assms i have "host = take i s" "port = drop (Suc i) s"
      by (auto simp: SplitHostPort_def Let_def split: if_splits)
    with s show ?thesis by simp
  qed
qed

lemma stripPath_shape: "\<exists>path. (path = '''' \<or> prefix ''/'' path) \<and> raw = stripPath N raw @ path"
proof (cases "Index raw (CHR ''/'')")
  case (Some i)
  then have "i < length raw" "raw ! i = CHR ''/''" by (auto dest: Index_SomeD)
  then have "prefix ''/'' (drop i raw)" by (simp add: Cons_nth_drop_Suc [symmetric])
  moreover have "raw = take i raw @ drop i raw" by simp
  ultimately show ?thesis using Some unfolding stripPath_def by (auto split: option.splits)
qed (simp add: stripPath_def)

text \<open>The host and the port that the code finds are those that the endpoint names.\<close>

lemma hostAndPorts_named:
  "\<exists>port. names_host raw (fst (hostAndPorts N raw)) port \<and> snd (hostAndPorts N raw) = (case Option.bind port positivePort of Some n \<Rightarrow> [n] | None \<Rightarrow> [])"
proof (cases "cidrWithPort raw")
  case (Some hp)
  then obtain i n where "LastIndex raw (CHR '':'') = Some i" and hp: "hp = (take i raw, [n])" and n: "positivePort (drop (Suc i) raw) = Some n"
    by (auto simp: cidrWithPort_def split: option.splits if_splits)
  then have "raw = take i raw @ '':'' @ drop (Suc i) raw"
    using id_take_nth_drop [of i raw] by (auto dest: LastIndex_SomeD)
  then have "names_host raw (take i raw) (Some (drop (Suc i) raw))" unfolding names_host_def by auto
  with Some hp n show ?thesis by (intro exI [of _ "Some (drop (Suc i) raw)"]) (simp add: hostAndPorts_def)
next
  case None
  obtain path where path: "path = '''' \<or> prefix ''/'' path" "raw = stripPath N raw @ path" using stripPath_shape by blast
  show ?thesis
  proof (cases "SplitHostPort (stripPath N raw)")
    case no_port: None
    with path have "names_host raw (stripPath N raw) None" unfolding names_host_def by auto
    with None no_port show ?thesis by (intro exI [of _ None]) (simp add: hostAndPorts_def)
  next
    case (Some hp)
    then obtain h s where hp: "SplitHostPort (stripPath N raw) = Some (h, s)" by (cases hp) auto
    with path have "names_host raw h (Some s)" unfolding names_host_def by (auto dest!: SplitHostPort_shape)
    with None hp show ?thesis by (intro exI [of _ "Some s"]) (simp add: hostAndPorts_def)
  qed
qed

lemma stripScheme_authority: "fst (stripScheme N (vp_Endpoint v) t) = endpoint_authority N v"
  by (simp add: stripScheme_def endpoint_authority_def split: option.splits)

lemma defaultPorts_usual: "network_probe v \<Longrightarrow> defaultPorts (vp_Type v) \<noteq> [] \<and> list_all (usual_port E v) (defaultPorts (vp_Type v))"
  by (auto simp: network_probe_def defaultPorts_def usual_port_def)

lemma stripScheme_usual:
  assumes "network_probe v" and "stripScheme (net E) (vp_Endpoint v) (vp_Type v) = (raw, defaults)"
  shows "defaults \<noteq> [] \<and> list_all (usual_port E v) defaults"
  using assms(2) defaultPorts_usual [OF assms(1), of E]
  by (auto simp: stripScheme_def split: option.splits if_splits) (auto simp: usual_port_def)

lemma probe_ports_chosen:
  assumes "explicit = (case Option.bind port positivePort of Some n \<Rightarrow> [n] | None \<Rightarrow> [])"
    and "defaults \<noteq> [] \<and> list_all (usual_port E v) defaults"
  shows "probe_ports E v port (if explicit = [] then defaults else explicit)"
  using assms by (cases port) (auto simp: probe_ports_def positivePort_def split: option.splits if_splits)

text \<open>From a host to address ranges.\<close>

lemma resolve_exact:
  "spec (case net_parseCIDR (net E) host of Some cidr \<Rightarrow> ret ([cidr], ports)
      | None \<Rightarrow> (case net_parseIP (net E) host of Some i \<Rightarrow> ret ([ipCIDR (net E) i], ports)
          | None \<Rightarrow> do { addrs \<leftarrow> query (net_lookupIPAddr (net E) host);
              case addrs of Inl _ \<Rightarrow> ret ([], ports) | Inr as \<Rightarrow> ret (map (ipCIDR (net E)) as, ports) }))
    (\<lambda>x es. es = [] \<and> list_all (host_address E host) (fst x) \<and> (fst x = [] \<longrightarrow> host_unresolved E host) \<and> snd x = ports)"
proof -
  have ip: "host_address E host (ipCIDR (net E) i)"
    if "net_parseIP (net E) host = Some i \<or> (\<exists>as w w'. net_lookupIPAddr (net E) host w = (Inr as, w') \<and> i \<in> set as)" for i
  proof -
    have "ipCIDR (net E) i = i @ (if net_isIPv4 (net E) i then ''/32'' else ''/128'')" by (simp add: ipCIDR_def)
    with that show ?thesis unfolding host_address_def by blast
  qed
  then have resolved: "list_all (host_address E host) (map (ipCIDR (net E)) as)" if "net_lookupIPAddr (net E) host w = (Inr as, w')" for as w w'
    using that by (force simp: list_all_iff)
  have lookup: "spec (query (net_lookupIPAddr (net E) host)) (\<lambda>r es. es = [] \<and> (\<exists>w w'. net_lookupIPAddr (net E) host w = (r, w')))"
    by (rule spec_query_reply) blast
  show ?thesis
  proof (cases "net_parseCIDR (net E) host")
    case (Some c)
    then have "host_address E host c" unfolding host_address_def by blast
    with Some show ?thesis by (auto intro!: spec_ret)
  next
    case cidr: None
    have "host_unresolved E host"
      if "net_parseIP (net E) host = None" "net_lookupIPAddr (net E) host w = (r, w')" "\<forall>as. r = Inr as \<longrightarrow> as = []" for r w w'
      using cidr that unfolding host_unresolved_def by blast
    with cidr ip resolved show ?thesis
      by (auto intro!: spec_bind spec_mono [OF lookup] spec_ret spec_case_sum spec_case_option)
  qed
qed

definition probe_target :: "'w env \<Rightarrow> ValidationProbe \<Rightarrow> string list \<times> int list \<Rightarrow> bool" where
  "probe_target E v x \<longleftrightarrow> (\<exists>h port. names_host (endpoint_authority (net E) v) h port \<and>
     list_all (host_address E h) (fst x) \<and> (fst x = [] \<longrightarrow> host_unresolved E h) \<and> probe_ports E v port (snd x))"

lemma extract_exact:
  assumes "network_probe v"
  shows "spec (extractTargetCIDRAndPort E (vp_Endpoint v) (vp_Type v)) (\<lambda>x es. es = [] \<and> probe_target E v x)"
proof (cases "vp_Endpoint v = []")
  case True
  then have "names_host (endpoint_authority (net E) v) [] None"
    by (simp add: names_host_def endpoint_authority_def SplitHostPort_def)
  then have "probe_target E v ([], defaultPorts (vp_Type v))"
    unfolding probe_target_def using defaultPorts_usual [OF assms, of E]
    by (intro exI [of _ "[]"] exI [of _ None]) (simp add: host_unresolved_def probe_ports_def)
  with True show ?thesis by (simp add: extractTargetCIDRAndPort_def spec_ret)
next
  case False
  obtain raw defaults where raw: "stripScheme (net E) (vp_Endpoint v) (vp_Type v) = (raw, defaults)" by fastforce
  obtain host explicit where host: "hostAndPorts (net E) raw = (host, explicit)" by fastforce
  define ports where "ports = (if explicit = [] then defaults else explicit)"
  from hostAndPorts_named [of raw "net E"] host stripScheme_authority [of "net E" v "vp_Type v"] raw
  obtain port where "names_host (endpoint_authority (net E) v) host port" and "probe_ports E v port ports"
    using probe_ports_chosen [OF _ stripScheme_usual [OF assms raw]] by (auto simp: ports_def)
  then have target: "probe_target E v x"
    if "list_all (host_address E host) (fst x)" "fst x = [] \<longrightarrow> host_unresolved E host" "snd x = ports" for x
    using that unfolding probe_target_def by blast
  have "spec (extractTargetCIDRAndPort E (vp_Endpoint v) (vp_Type v))
    (\<lambda>x es. es = [] \<and> list_all (host_address E host) (fst x) \<and> (fst x = [] \<longrightarrow> host_unresolved E host) \<and> snd x = ports)"
    unfolding extractTargetCIDRAndPort_def Let_def raw host prod.case if_not_P [OF False] ports_def by (rule resolve_exact)
  then show ?thesis by (rule spec_mono) (use target in blast)
qed

lemma probeRule_for:
  assumes "probe_target E v x"
  shows "rule_for E v (probeRule x)"
proof -
  obtain cidrs ports where x: "x = (cidrs, ports)" by fastforce
  from assms obtain h port where h: "names_host (endpoint_authority (net E) v) h port" "list_all (host_address E h) cidrs"
    "cidrs = [] \<longrightarrow> host_unresolved E h" "probe_ports E v port ports"
    by (auto simp: probe_target_def x)
  then show ?thesis unfolding rule_for_def
    by (intro exI [of _ h] exI [of _ port]) (auto simp: x probeRule_def probePeers_def list_all_iff comp_def)
qed

lemma probeRules_exact:
  assumes "list_all (\<lambda>v. vp_Type v = ProbeTypeJob \<or> network_probe v) vs"
  shows "spec (probeRules E vs) (\<lambda>rs es. es = [] \<and> list_all2 (rule_for E) (filter (\<lambda>v. vp_Type v \<noteq> ProbeTypeJob) vs) rs)"
  using assms
proof (induction vs)
  case Nil
  then show ?case by (simp add: spec_ret)
next
  case (Cons v vs)
  then have IH: "spec (probeRules E vs) (\<lambda>rs es. es = [] \<and> list_all2 (rule_for E) (filter (\<lambda>v. vp_Type v \<noteq> ProbeTypeJob) vs) rs)" by simp
  show ?case
  proof (cases "vp_Type v = ProbeTypeJob")
    case True
    with IH show ?thesis by simp
  next
    case False
    with Cons.prems have "network_probe v" by simp
    note x = extract_exact [OF this]
    from False show ?thesis
      by (auto intro!: spec_bind spec_mono [OF x] spec_mono [OF IH] spec_ret probeRule_for)
  qed
qed

text \<open>The fields of an object of the Cilium policy, read back.\<close>

fun json_field :: "json \<Rightarrow> string \<Rightarrow> json" where
  "json_field (JObj kvs) k = (case map_of kvs k of Some v \<Rightarrow> v | None \<Rightarrow> JNull)"
| "json_field _ k = JNull"

fun json_keys :: "json \<Rightarrow> string list" where
  "json_keys (JObj kvs) = map fst kvs"
| "json_keys _ = []"

text \<open>A Cilium egress rule for a probe names its addresses and its ports, at least one of each, and nothing else.\<close>

definition cilium_rule_for :: "'w env \<Rightarrow> ValidationProbe \<Rightarrow> json \<Rightarrow> bool" where
  "cilium_rule_for E v r \<longleftrightarrow> set (json_keys r) = {''toPorts'', ''toCIDRSet''} \<and>
     (\<exists>h port cidrs ports. names_host (endpoint_authority (net E) v) h port \<and>
        json_field r ''toCIDRSet'' = JArr (map (\<lambda>c. JObj [(''cidr'', JStr c)]) cidrs) \<and>
        cidrs \<noteq> [] \<and> list_all (host_address E h) cidrs \<and>
        json_field r ''toPorts'' =
          JArr [JObj [(''ports'', JArr (map (\<lambda>n. JObj [(''port'', JStr (FormatInt n)), (''protocol'', JStr ''TCP'')]) ports))]] \<and>
        probe_ports E v port ports)"

lemma ciliumRule_for:
  assumes "cidrs \<noteq> []" and "probe_target E v (cidrs, ports)"
  shows "cilium_rule_for E v (ciliumRule cidrs ports)"
proof -
  from assms(2) obtain h port where "names_host (endpoint_authority (net E) v) h port" "list_all (host_address E h) cidrs"
    "probe_ports E v port ports"
    by (auto simp: probe_target_def)
  with assms(1) show ?thesis unfolding cilium_rule_for_def
    by (intro conjI exI [of _ h] exI [of _ port] exI [of _ cidrs] exI [of _ ports]) (auto simp: ciliumRule_def)
qed

lemma ciliumRules_silent: "silent (ciliumRules E vs)"
  by (induction vs) (auto intro!: spec_bind spec_if spec_silent [OF extract_silent] spec_ret elim!: spec_mono)

lemma ciliumRules_exact:
  assumes "list_all (\<lambda>v. vp_Type v = ProbeTypeJob \<or> network_probe v) vs"
  shows "spec (ciliumRules E vs) (\<lambda>rs es. es = [] \<and> list_all (\<lambda>r. \<exists>v \<in> set vs. vp_Type v \<noteq> ProbeTypeJob \<and> cilium_rule_for E v r) rs)"
  using assms
proof (induction vs)
  case Nil
  then show ?case by (simp add: spec_ret)
next
  case (Cons v vs)
  then have "spec (ciliumRules E vs) (\<lambda>rs es. es = [] \<and> list_all (\<lambda>r. \<exists>v \<in> set vs. vp_Type v \<noteq> ProbeTypeJob \<and> cilium_rule_for E v r) rs)" by simp
  then have IH: "spec (ciliumRules E vs) (\<lambda>rs es. es = [] \<and> list_all (\<lambda>r. \<exists>u \<in> set (v # vs). vp_Type u \<noteq> ProbeTypeJob \<and> cilium_rule_for E u r) rs)"
    by (rule spec_mono) (auto simp: list_all_iff)
  show ?case
  proof (cases "vp_Type v = ProbeTypeJob")
    case True
    with IH show ?thesis by simp
  next
    case False
    with Cons.prems have "network_probe v" by simp
    note x = extract_exact [OF this]
    from False have rule: "\<exists>u \<in> set (v # vs). vp_Type u \<noteq> ProbeTypeJob \<and> cilium_rule_for E u (ciliumRule cidrs ports)"
      if "cidrs \<noteq> []" "probe_target E v (cidrs, ports)" for cidrs ports
      using ciliumRule_for [OF that] by auto
    show ?thesis
      unfolding ciliumRules.simps if_not_P [OF False]
      by (auto intro!: spec_bind [where m = "extractTargetCIDRAndPort E _ _"] spec_mono [OF x] spec_if
          spec_bind [where m = "ciliumRules E _"] spec_mono [OF IH] spec_ret intro: rule simp del: list.set)
  qed
qed

section \<open>Properties\<close>

text \<open>What the network policy of the canary admits: no ingress to the canary's pods, and as egress name
  resolution and one rule for each network probe of the policy.\<close>

definition isolates_canary :: "'w env \<Rightarrow> DynamicSecretPolicy \<Rightarrow> NetworkPolicyObj \<Rightarrow> bool" where
  "isolates_canary E p n \<longleftrightarrow>
     net_podSelector n = \<lparr>ls_matchLabels = canaryLabels (target_name p), ls_matchExpressions = []\<rparr> \<and>
     net_policyTypes n = [''Ingress'', ''Egress''] \<and> net_ingress n = [] \<and>
     (\<exists>dns rules. net_egress n = dns # rules \<and> dns_only dns \<and>
        list_all2 (rule_for E) (filter (\<lambda>v. vp_Type v \<noteq> ProbeTypeJob) (spec_ValidationProbes (p_spec p))) rules)"

lemma network_policy_isolates:
  assumes "list_all (\<lambda>v. vp_Type v = ProbeTypeJob \<or> network_probe v) (spec_ValidationProbes (p_spec p))"
  shows "spec (BuildNetworkPolicy E p) (\<lambda>n es. es = [] \<and> isolates_canary E p n)"
  unfolding BuildNetworkPolicy_def isolates_canary_def
  by (auto intro!: spec_bind spec_mono [OF probeRules_exact [OF assms]] spec_ret simp: dns_only_def dnsRule_def)

definition cilium_dns_only :: "json \<Rightarrow> bool" where
  "cilium_dns_only r \<longleftrightarrow> set (json_keys r) = {''toEndpoints'', ''toPorts''} \<and>
     json_field r ''toEndpoints'' = JArr [JObj [(''matchExpressions'', JArr [JObj [(''key'', JStr ''k8s:k8s-app''),
        (''operator'', JStr ''In''), (''values'', JArr [JStr ''kube-dns'', JStr ''coredns''])]])]] \<and>
     (\<exists>q. json_field r ''toPorts'' = JArr [q] \<and> json_field q ''ports'' =
        JArr [JObj [(''port'', JStr ''53''), (''protocol'', JStr ''UDP'')], JObj [(''port'', JStr ''53''), (''protocol'', JStr ''TCP'')]])"

definition cilium_isolates :: "'w env \<Rightarrow> DynamicSecretPolicy \<Rightarrow> json \<Rightarrow> bool" where
  "cilium_isolates E p u \<longleftrightarrow>
     json_field (json_field u ''spec'') ''ingress'' = JArr [] \<and>
     json_field (json_field u ''spec'') ''endpointSelector'' =
       JObj [(''matchLabels'', JObj [(LabelCanary, JStr ''true''), (LabelTargetWorkload, JStr (target_name p))])] \<and>
     (\<exists>dns rules. json_field (json_field u ''spec'') ''egress'' = JArr (dns # rules) \<and> cilium_dns_only dns \<and>
        list_all (\<lambda>r. \<exists>v \<in> set (spec_ValidationProbes (p_spec p)). vp_Type v \<noteq> ProbeTypeJob \<and> cilium_rule_for E v r) rules)"

lemma cilium_policy_isolates:
  assumes "list_all (\<lambda>v. vp_Type v = ProbeTypeJob \<or> network_probe v) (spec_ValidationProbes (p_spec p))"
  shows "spec (BuildCiliumNetworkPolicy E p) (\<lambda>u es. es = [] \<and> cilium_isolates E p u)"
  unfolding BuildCiliumNetworkPolicy_def cilium_isolates_def
  by (auto intro!: spec_bind spec_mono [OF ciliumRules_exact [OF assms]] spec_ret simp: cilium_dns_only_def ciliumDnsRule_def)

text \<open>C23: for the probe types of the API, and whatever the name resolution answers, both network policies select
  the canary and admit no ingress. Besides name resolution the standard policy has exactly one egress rule
  for each network probe, with the ports of that probe, to the addresses its endpoint names or resolves to; a
  probe without any resolved address gets the pods of its own namespace instead. Each egress rule of the
  Cilium policy names addresses and ports of one of the probes, and an unresolved probe gets none. Building
  the policies changes nothing.\<close>

theorem canary_policies_isolate:
  assumes "list_all (\<lambda>v. vp_Type v = ProbeTypeJob \<or> network_probe v) (spec_ValidationProbes (p_spec p))"
  shows "spec (BuildNetworkPolicy E p) (\<lambda>n es. es = [] \<and> isolates_canary E p n) \<and>
    spec (BuildCiliumNetworkPolicy E p) (\<lambda>u es. es = [] \<and> cilium_isolates E p u)"
  using network_policy_isolates [OF assms] cilium_policy_isolates [OF assms] by blast

theorem canary_policies_isolate_witness:
  "spec (BuildNetworkPolicy sample_world sample_policy) (\<lambda>n es. es = [] \<and> isolates_canary sample_world sample_policy n) \<and>
   spec (BuildCiliumNetworkPolicy sample_world sample_policy) (\<lambda>u es. es = [] \<and> cilium_isolates sample_world sample_policy u)"
  by (rule canary_policies_isolate) (simp add: network_probe_def sample_defs)

text \<open>A probe whose endpoint names no address range and no address, and for whose host the resolver has no address.\<close>

definition unresolvable :: "'w env \<Rightarrow> ValidationProbe \<Rightarrow> bool" where
  "unresolvable E v \<longleftrightarrow> (\<forall>h port. names_host (endpoint_authority (net E) v) h port \<longrightarrow>
     net_parseCIDR (net E) h = None \<and> net_parseIP (net E) h = None \<and> (\<forall>w as w'. net_lookupIPAddr (net E) h w = (Inr as, w') \<longrightarrow> as = []))"

lemma unresolvable_rule:
  assumes "unresolvable E v" and "rule_for E v r"
  shows "npr_peers r = [\<lparr>peer_podSelector = Some empty_selector, peer_namespaceSelector = None, peer_ipBlock = None\<rparr>] \<and>
    (\<exists>h port. names_host (endpoint_authority (net E) v) h port \<and> probe_ports E v port (map npp_port (npr_ports r)))"
proof -
  have "\<not> host_address E h c" if "names_host (endpoint_authority (net E) v) h port" for h port c
    using assms(1) that unfolding unresolvable_def host_address_def by fastforce
  with assms(2) show ?thesis unfolding rule_for_def by (cases "npr_peers r") auto
qed

lemma list_all2_setD: "list_all2 P xs ys \<Longrightarrow> x \<in> set xs \<Longrightarrow> \<exists>y \<in> set ys. P x y"
  by (induction rule: list_all2_induct) auto

text \<open>C40: the standard policy does not fail closed: a network probe whose endpoint does not resolve, at any position of
  the list, opens its ports to every pod of the namespace.\<close>

theorem unresolved_probe_opens_namespace:
  assumes "list_all (\<lambda>v. vp_Type v = ProbeTypeJob \<or> network_probe v) (spec_ValidationProbes (p_spec p))"
    and "v \<in> set (spec_ValidationProbes (p_spec p))" and "vp_Type v \<noteq> ProbeTypeJob" and "unresolvable E v"
  shows "spec (BuildNetworkPolicy E p) (\<lambda>n es. \<exists>r h port. r \<in> set (net_egress n) \<and>
    npr_peers r = [\<lparr>peer_podSelector = Some empty_selector, peer_namespaceSelector = None, peer_ipBlock = None\<rparr>] \<and>
    names_host (endpoint_authority (net E) v) h port \<and> probe_ports E v port (map npp_port (npr_ports r)))"
proof (rule spec_mono [OF network_policy_isolates [OF assms(1)]])
  fix n es
  assume "es = [] \<and> isolates_canary E p n"
  with assms(2,3) obtain r where "r \<in> set (net_egress n)" "rule_for E v r"
    by (force simp: isolates_canary_def dest!: list_all2_setD [of _ _ _ v])
  with unresolvable_rule [OF assms(4)] show "\<exists>r h port. r \<in> set (net_egress n) \<and>
      npr_peers r = [\<lparr>peer_podSelector = Some empty_selector, peer_namespaceSelector = None, peer_ipBlock = None\<rparr>] \<and>
      names_host (endpoint_authority (net E) v) h port \<and> probe_ports E v port (map npp_port (npr_ports r))"
    by blast
qed

theorem unresolved_probe_opens_namespace_witness:
  "let E = sample_world\<lparr>net := sample_net\<lparr>net_parseIP := (\<lambda>_. None)\<rparr>\<rparr>;
       n = result_of (BuildNetworkPolicy E sample_policy) sample_sys
   in \<exists>r. r \<in> set (net_egress n) \<and>
     npr_peers r = [\<lparr>peer_podSelector = Some empty_selector, peer_namespaceSelector = None, peer_ipBlock = None\<rparr>]"
proof -
  let ?E = "sample_world\<lparr>net := sample_net\<lparr>net_parseIP := (\<lambda>_. None)\<rparr>\<rparr>"
  have "unresolvable ?E sample_probe" by (simp add: unresolvable_def sample_defs)
  from spec_events [OF unresolved_probe_opens_namespace [OF _ _ _ this, of sample_policy], of sample_sys] show ?thesis
    by (auto simp: network_probe_def sample_defs)
qed

end
