(* ===== verification/Dso_Controller.thy ===== *)
theory Dso_Controller
  imports Dso_Validate Dso_Netpol
begin

text \<open>
  The reconciler (\<^verbatim>\<open>internal/controller/dynamicsecretpolicy_controller.go\<close>): \<open>Reconcile\<close> with one
  definition per case of its switch, \<open>determineState\<close>, \<open>updateStatus\<close>, \<open>promoteTargetWorkload\<close>, and
  the two watch mappers. The Go code changes the fetched policy in place and patches its status
  against the copy \<open>base\<close> taken at the start; here the changed policy is passed on. Log lines, trace
  spans and deadlines of contexts are left out.
\<close>

section \<open>Conditions\<close>

abbreviation RevisionPrepared :: string where "RevisionPrepared \<equiv> ''RevisionPrepared''"
abbreviation CanaryProvisioning :: string where "CanaryProvisioning \<equiv> ''CanaryProvisioning''"
abbreviation Validating :: string where "Validating \<equiv> ''Validating''"
abbreviation RolloutProgressing :: string where "RolloutProgressing \<equiv> ''RolloutProgressing''"
abbreviation Promoting :: string where "Promoting \<equiv> ''Promoting''"
abbreviation RolledBack :: string where "RolledBack \<equiv> ''RolledBack''"
abbreviation CircuitBreakerTripped :: string where "CircuitBreakerTripped \<equiv> ''CircuitBreakerTripped''"

abbreviation conds :: "DynamicSecretPolicy \<Rightarrow> Condition list" where
  "conds p \<equiv> Conditions (p_status p)"

definition removeCond :: "Libs \<Rightarrow> string \<Rightarrow> DynamicSecretPolicy \<Rightarrow> DynamicSecretPolicy" where
  "removeCond L t p = p\<lparr>p_status := (p_status p)\<lparr>Conditions := RemoveStatusCondition L (conds p) t\<rparr>\<rparr>"

definition setCond :: "Libs \<Rightarrow> Condition \<Rightarrow> DynamicSecretPolicy \<Rightarrow> DynamicSecretPolicy" where
  "setCond L c p = p\<lparr>p_status := (p_status p)\<lparr>Conditions := SetStatusCondition L (conds p) c\<rparr>\<rparr>"

definition setFailures :: "int32 \<Rightarrow> DynamicSecretPolicy \<Rightarrow> DynamicSecretPolicy" where
  "setFailures n p = p\<lparr>p_status := (p_status p)\<lparr>ConsecutiveFailures := n\<rparr>\<rparr>"

definition setDesired :: "string \<Rightarrow> DynamicSecretPolicy \<Rightarrow> DynamicSecretPolicy" where
  "setDesired r p = p\<lparr>p_status := (p_status p)\<lparr>DesiredRevision := r\<rparr>\<rparr>"

text \<open>Promotion in the status: the desired revision becomes the current one.\<close>

definition advanceRevision :: "DynamicSecretPolicy \<Rightarrow> DynamicSecretPolicy" where
  "advanceRevision p =
     p\<lparr>p_status := (p_status p)\<lparr>CurrentRevision := DesiredRevision (p_status p), DesiredRevision := ''''\<rparr>\<rparr>"

abbreviation failures :: "DynamicSecretPolicy \<Rightarrow> int32" where
  "failures p \<equiv> ConsecutiveFailures (p_status p)"

text \<open>\<open>updateStatus\<close> sets the condition and patches the status. The result is the error, if any, and
  the policy as it is in memory afterwards: on success the server's reply.\<close>

definition updateStatus ::
  "'w env \<Rightarrow> DynamicSecretPolicy \<Rightarrow> DynamicSecretPolicy \<Rightarrow> Condition \<Rightarrow> ('w, err option \<times> DynamicSecretPolicy) dso" where
  "updateStatus E p base c =
     (let p' = setCond (libs E) c p in do {
        r \<leftarrow> patchStatus E base p';
        case r of Inl e \<Rightarrow> ret (Some e, p') | Inr q \<Rightarrow> ret (None, q)
      })"

section \<open>determineState\<close>

definition determineState :: "Libs \<Rightarrow> DynamicSecretPolicy \<Rightarrow> string" where
  "determineState L p =
     (if DesiredRevision (p_status p) = '''' then ''''
      else if IsStatusConditionTrue L (conds p) RolledBack then RolledBack
      else if FindStatusCondition L (conds p) Validating \<noteq> None then Validating
      else if FindStatusCondition L (conds p) RolloutProgressing \<noteq> None then RolloutProgressing
      else if FindStatusCondition L (conds p) CanaryProvisioning \<noteq> None then CanaryProvisioning
      else if FindStatusCondition L (conds p) RevisionPrepared \<noteq> None then RevisionPrepared
      else (case find (\<lambda>c. c_status c = ConditionTrue) (conds p) of
              Some c \<Rightarrow> c_type c
            | None \<Rightarrow> RevisionPrepared))"

section \<open>The circuit breaker\<close>

definition breakerThreshold :: "DynamicSecretPolicy \<Rightarrow> int32" where
  "breakerThreshold p =
     (case spec_RollbackConfig (p_spec p) of
        Some rb \<Rightarrow> if sint (rb_CircuitBreakerThreshold rb) > 0 then rb_CircuitBreakerThreshold rb else 3
      | None \<Rightarrow> 3)"

definition thresholdReached :: "DynamicSecretPolicy \<Rightarrow> bool" where
  "thresholdReached p \<longleftrightarrow> sint (failures p) \<ge> sint (breakerThreshold p)"

definition breakerOpen :: "Libs \<Rightarrow> DynamicSecretPolicy \<Rightarrow> bool" where
  "breakerOpen L p \<longleftrightarrow> thresholdReached p \<or> IsStatusConditionTrue L (conds p) CircuitBreakerTripped"

definition countMetric :: "string \<Rightarrow> DynamicSecretPolicy \<Rightarrow> ('w, unit) dso" where
  "countMetric m p = emit (EMetric m [pol_namespace p])"

definition trippedCond :: "text_msg \<Rightarrow> Condition" where
  "trippedCond msg = \<lparr>c_type = CircuitBreakerTripped, c_status = ConditionTrue,
     c_reason = ''ValidationThresholdExceeded'', c_message = msg\<rparr>"

definition trueCond :: "string \<Rightarrow> string \<Rightarrow> text_msg \<Rightarrow> Condition" where
  "trueCond t reason msg = \<lparr>c_type = t, c_status = ConditionTrue, c_reason = reason, c_message = msg\<rparr>"

definition failureArgs :: "DynamicSecretPolicy \<Rightarrow> string list" where
  "failureArgs p = [FormatInt (sint (failures p)), FormatInt (sint (breakerThreshold p))]"

definition haltReconcile :: "'w env \<Rightarrow> DynamicSecretPolicy \<Rightarrow> DynamicSecretPolicy \<Rightarrow> ('w, err + result) dso" where
  "haltReconcile E p base = do {
     countMetric ''dso_circuit_breakers_tripped_total'' p;
     if \<not> IsStatusConditionTrue (libs E) (conds p) CircuitBreakerTripped then do {
       u \<leftarrow> updateStatus E p base (trippedCond
              (''Circuit breaker tripped after %d consecutive failures (threshold: %d)'', failureArgs p, None));
       _ \<leftarrow> CleanupCanaryResources E (snd u);
       ret (Inr noRequeue)
     } else ret (Inr noRequeue)
   }"

section \<open>The states\<close>

text \<open>Case \<^verbatim>\<open>""\<close>: in sync, or the start of a rotation.\<close>

definition driftStatus :: "Libs \<Rightarrow> string \<Rightarrow> DynamicSecretPolicy \<Rightarrow> DynamicSecretPolicy" where
  "driftStatus L revision p =
     setDesired revision
       (removeCond L CanaryProvisioning (removeCond L Validating (removeCond L Promoting
         (removeCond L RolledBack (removeCond L CircuitBreakerTripped (setFailures 0 p))))))"

definition onMaterialized :: "'w reconciler \<Rightarrow> DynamicSecretPolicy \<Rightarrow> string \<Rightarrow> ('w, unit) dso" where
  "onMaterialized R p revision =
     (case rc_OnSecretMaterialized R of
        None \<Rightarrow> ret ()
      | Some f \<Rightarrow> do {
          _ \<leftarrow> call (f (pol_name p) revision) (EMaterialized (pol_name p) revision);
          ret ()
        })"

definition driftState ::
  "'w env \<Rightarrow> 'w reconciler \<Rightarrow> DynamicSecretPolicy \<Rightarrow> DynamicSecretPolicy \<Rightarrow> string \<Rightarrow> ('w, err + result) dso" where
  "driftState E R p base revision =
     (if CurrentRevision (p_status p) \<noteq> '''' \<and> revision = CurrentRevision (p_status p) then ret (Inr noRequeue)
      else do {
        countMetric ''dso_rotations_total'' p;
        u \<leftarrow> updateStatus E (driftStatus (libs E) revision p) base
               (trueCond RevisionPrepared ''Prepared''
                  (''Secret revision %s successfully materialized; initiating rollout'', [revision], None));
        (case fst u of
           Some e \<Rightarrow> ret (Inl e)
         | None \<Rightarrow> do {
             onMaterialized R (snd u) revision;
             ret (Inr requeueNow)
           })
      })"

definition targetKind :: "DynamicSecretPolicy \<Rightarrow> string" where
  "targetKind p =
     (if ws_Kind (spec_WorkloadSelector (p_spec p)) = '''' then KindDeployment
      else ws_Kind (spec_WorkloadSelector (p_spec p)))"

text \<open>Case \<^verbatim>\<open>RevisionPrepared\<close> for a Rollout: patch it and let Argo validate.\<close>

definition rolloutPatchState ::
  "'w env \<Rightarrow> 'w WorkloadAdapter \<Rightarrow> Workload \<Rightarrow> DynamicSecretPolicy \<Rightarrow> DynamicSecretPolicy \<Rightarrow> ('w, err + result) dso" where
  "rolloutPatchState E adapter w p base = do {
     _ \<leftarrow> ReconcileArgoCDIgnoreDifferences E (Some (w_meta w)) (targetKind p);
     r \<leftarrow> wa_Promote adapter E w p (desiredSecretName p);
     case r of
       Some e \<Rightarrow> ret (Inl e)
     | None \<Rightarrow> do {
         u \<leftarrow> updateStatus E (removeCond (libs E) RevisionPrepared p) base
                (trueCond RolloutProgressing ''RolloutProgressing''
                   (''Rollout %q patched with secret revision %s; awaiting Argo's native progressive delivery to report Healthy'',
                    [target_name p, DesiredRevision (p_status p)], None));
         case fst u of Some e \<Rightarrow> ret (Inl e) | None \<Rightarrow> ret (Inr requeueNow)
       }
   }"

text \<open>The isolation of the canary: the name of the created policy.\<close>

definition created_or_exists :: "err option \<Rightarrow> err option" where
  "created_or_exists r = (case r of Some e \<Rightarrow> if IsAlreadyExists e then None else Some e | None \<Rightarrow> None)"

definition provisionNetworkPolicy :: "'w env \<Rightarrow> DynamicSecretPolicy \<Rightarrow> ('w, err + string) dso" where
  "provisionNetworkPolicy E p =
     (if (case spec_NetworkPolicy (p_spec p) of Some n \<Rightarrow> np_Provider n = NetworkPolicyProviderCilium | None \<Rightarrow> False)
      then do {
        u \<leftarrow> BuildCiliumNetworkPolicy E p;
        r \<leftarrow> createCilium E u;
        (case created_or_exists r of Some e \<Rightarrow> ret (Inl e) | None \<Rightarrow> ret (Inr (ciliumName (target_name p))))
      }
      else do {
        n \<leftarrow> BuildNetworkPolicy E p;
        case SetControllerReference (libs E) p (net_meta n) of
          Inl e \<Rightarrow> ret (Inl e)
        | Inr m \<Rightarrow> do {
            r \<leftarrow> createNetworkPolicy E (n\<lparr>net_meta := m\<rparr>);
            case created_or_exists r of Some e \<Rightarrow> ret (Inl e) | None \<Rightarrow> ret (Inr (om_name m))
          }
      })"

definition canaryPatchState ::
  "'w env \<Rightarrow> Workload \<Rightarrow> DynamicSecretPolicy \<Rightarrow> DynamicSecretPolicy \<Rightarrow> ('w, err + result) dso" where
  "canaryPatchState E canaryDeploy p base =
     (case SetControllerReference (libs E) p (w_meta canaryDeploy) of
        Inl e \<Rightarrow> ret (Inl e)
      | Inr m \<Rightarrow> do {
          d \<leftarrow> createDeployment E (canaryDeploy\<lparr>w_meta := m\<rparr>);
          case created_or_exists d of
            Some e \<Rightarrow> ret (Inl e)
          | None \<Rightarrow> do {
              n \<leftarrow> provisionNetworkPolicy E p;
              case n of
                Inl e \<Rightarrow> ret (Inl e)
              | Inr netpolName \<Rightarrow> do {
                  u \<leftarrow> updateStatus E (removeCond (libs E) RevisionPrepared p) base
                         (trueCond CanaryProvisioning ''Provisioning''
                            (''Canary deployment %s and isolation policy %s provisioned'', [om_name m, netpolName], None));
                  case fst u of Some e \<Rightarrow> ret (Inl e) | None \<Rightarrow> ret (Inr requeueNow)
                }
            }
        })"

definition revisionPreparedState ::
  "'w env \<Rightarrow> DynamicSecretPolicy \<Rightarrow> DynamicSecretPolicy \<Rightarrow> ('w, err + result) dso" where
  "revisionPreparedState E p base =
     (case NewAdapter (targetKind p) of
        Inl e \<Rightarrow> ret (Inl e)
      | Inr adapter \<Rightarrow> do {
          f \<leftarrow> wa_Fetch adapter E (pol_namespace p) (target_name p);
          case f of
            Inl e \<Rightarrow> ret (Inl e)
          | Inr w \<Rightarrow>
              (case wa_BuildCanary adapter w p (desiredSecretName p) of
                 None \<Rightarrow> rolloutPatchState E adapter w p base
               | Some canaryDeploy \<Rightarrow> canaryPatchState E canaryDeploy p base)
        })"

definition canaryProvisioningState ::
  "'w env \<Rightarrow> DynamicSecretPolicy \<Rightarrow> DynamicSecretPolicy \<Rightarrow> ('w, err + result) dso" where
  "canaryProvisioningState E p base = do {
     u \<leftarrow> updateStatus E (removeCond (libs E) CanaryProvisioning p) base
            (trueCond Validating ''ProbesRunning'' (''Synthetic probes and health validation in progress'', [], None));
     case fst u of Some e \<Rightarrow> ret (Inl e) | None \<Rightarrow> ret (Inr requeueNow)
   }"

text \<open>Case \<^verbatim>\<open>RolloutProgressing\<close>: follow the phase of the Rollout.\<close>

definition rolloutHealthyState ::
  "'w env \<Rightarrow> DynamicSecretPolicy \<Rightarrow> DynamicSecretPolicy \<Rightarrow> ('w, err + result) dso" where
  "rolloutHealthyState E p base =
     (let p1 = setFailures 0 p in do {
        gcOldSecretRevisions E p1 (target_name p);
        (let p2 = removeCond (libs E) RolloutProgressing (advanceRevision p1) in do {
           u \<leftarrow> updateStatus E p2 base
                  (trueCond Promoting ''Completed''
                     (''Argo Rollout %q reached Healthy phase; revision %s promoted and old secret revisions cleaned up'',
                      [target_name p, CurrentRevision (p_status p2)], None));
           case fst u of Some e \<Rightarrow> ret (Inl e) | None \<Rightarrow> ret (Inr requeueNow)
         })
      })"

definition rolloutDegradedState ::
  "'w env \<Rightarrow> DynamicSecretPolicy \<Rightarrow> DynamicSecretPolicy \<Rightarrow> ('w, err + result) dso" where
  "rolloutDegradedState E p base =
     (let p1 = setFailures (failures p + 1) p in do {
        countMetric ''dso_rotations_failed_total'' p1;
        if thresholdReached p1 then do {
          countMetric ''dso_circuit_breakers_tripped_total'' p1;
          _ \<leftarrow> updateStatus E p1 base (trippedCond
                 (''Circuit breaker tripped after %d consecutive Argo Rollout degradations (threshold: %d)'', failureArgs p1, None));
          ret (Inr noRequeue)
        } else do {
          _ \<leftarrow> updateStatus E p1 base
                 \<lparr>c_type = RolloutProgressing, c_status = ConditionFalse, c_reason = ''RolloutDegraded'',
                  c_message = (''Argo Rollout %q is Degraded after the secret revision patch'', [target_name p1], None)\<rparr>;
          ret (Inl (Errorf ''argo rollout %q degraded after secret revision patch'' [target_name p1] None))
        }
      })"

definition rolloutProgressingState ::
  "'w env \<Rightarrow> DynamicSecretPolicy \<Rightarrow> DynamicSecretPolicy \<Rightarrow> ('w, err + result) dso" where
  "rolloutProgressingState E p base = do {
     g \<leftarrow> query (cl_getWorkload (client E) KindRollout (pol_namespace p) (target_name p));
     case g of
       Inl e \<Rightarrow> ret (Inl e)
     | Inr rollout \<Rightarrow>
         if w_observedGeneration rollout \<noteq> FormatInt (om_generation (w_meta rollout)) then ret (Inr (requeueAfter 3))
         else if w_phase rollout = ''Healthy'' then rolloutHealthyState E p base
         else if w_phase rollout = ''Degraded'' then rolloutDegradedState E p base
         else ret (Inr (requeueAfter 5))
   }"

text \<open>Case \<^verbatim>\<open>Validating\<close>.\<close>

definition promoteTargetWorkload :: "'w env \<Rightarrow> DynamicSecretPolicy \<Rightarrow> ('w, err option) dso" where
  "promoteTargetWorkload E p =
     (case NewAdapter (targetKind p) of
        Inl e \<Rightarrow> ret (Some (Errorf ''unsupported workload kind %q: %w'' [targetKind p] (Some e)))
      | Inr adapter \<Rightarrow> do {
          f \<leftarrow> wa_Fetch adapter E (pol_namespace p) (target_name p);
          case f of
            Inl e \<Rightarrow> ret (Some (Errorf ''failed to fetch target %s %q: %w'' [targetKind p, target_name p] (Some e)))
          | Inr w \<Rightarrow> do {
              _ \<leftarrow> ReconcileArgoCDIgnoreDifferences E (Some (w_meta w)) (targetKind p);
              r \<leftarrow> wa_Promote adapter E w p (desiredSecretName p);
              case r of
                Some e \<Rightarrow> ret (Some (Errorf ''failed to promote target %s %q: %w'' [targetKind p, target_name p] (Some e)))
              | None \<Rightarrow> do {
                  gcOldSecretRevisions E p (target_name p);
                  ret None
                }
            }
        })"

definition validationFailedState ::
  "'w env \<Rightarrow> DynamicSecretPolicy \<Rightarrow> DynamicSecretPolicy \<Rightarrow> err \<Rightarrow> ('w, err + result) dso" where
  "validationFailedState E p base e =
     (let p1 = setFailures (failures p + 1) p in do {
        countMetric ''dso_rotations_failed_total'' p1;
        if thresholdReached p1 then do {
          countMetric ''dso_circuit_breakers_tripped_total'' p1;
          u \<leftarrow> updateStatus E p1 base (trippedCond
                 (''Circuit breaker tripped after %d consecutive failures (threshold: %d): %v'', failureArgs p1, Some e));
          _ \<leftarrow> CleanupCanaryResources E (snd u);
          ret (Inr noRequeue)
        } else do {
          _ \<leftarrow> updateStatus E p1 base
                 \<lparr>c_type = Validating, c_status = ConditionFalse, c_reason = ''ProbeFailed'',
                  c_message = (''Validation probe failed: %v'', [], Some e)\<rparr>;
          ret (Inl e)
        }
      })"

definition promoteState ::
  "'w env \<Rightarrow> DynamicSecretPolicy \<Rightarrow> DynamicSecretPolicy \<Rightarrow> ('w, err + result) dso" where
  "promoteState E p base =
     (let p1 = setFailures 0 p in do {
        r \<leftarrow> promoteTargetWorkload E p1;
        case r of
          Some e \<Rightarrow> ret (Inl e)
        | None \<Rightarrow> do {
            _ \<leftarrow> CleanupCanaryResources E p1;
            (let p2 = removeCond (libs E) Validating (advanceRevision p1) in do {
               u \<leftarrow> updateStatus E p2 base
                      (trueCond Promoting ''Completed''
                         (''Target workload successfully promoted to revision %s; canary cleaned up'',
                          [CurrentRevision (p_status p2)], None));
               case fst u of Some e \<Rightarrow> ret (Inl e) | None \<Rightarrow> ret (Inr requeueNow)
             })
          }
      })"

definition validatingState ::
  "'w env \<Rightarrow> 'w reconciler \<Rightarrow> DynamicSecretPolicy \<Rightarrow> DynamicSecretPolicy \<Rightarrow> ('w, err + result) dso" where
  "validatingState E R p base = do {
     v \<leftarrow> reconcileValidationProbes E R p;
     case v of
       Inl e \<Rightarrow> validationFailedState E p base e
     | Inr res \<Rightarrow> if pending res then ret (Inr res) else promoteState E p base
   }"

text \<open>Case \<^verbatim>\<open>RolledBack\<close>: the desired revision is cleared in memory only, no patch follows.\<close>

definition rolledBackState :: "'w env \<Rightarrow> DynamicSecretPolicy \<Rightarrow> ('w, err + result) dso" where
  "rolledBackState E p = do {
     _ \<leftarrow> CleanupCanaryResources E p;
     ret (Inr noRequeue)
   }"

definition dispatch ::
  "'w env \<Rightarrow> 'w reconciler \<Rightarrow> string \<Rightarrow> DynamicSecretPolicy \<Rightarrow> DynamicSecretPolicy \<Rightarrow> string \<Rightarrow> ('w, err + result) dso" where
  "dispatch E R st p base revision =
     (if st = '''' then driftState E R p base revision
      else if st = RevisionPrepared then revisionPreparedState E p base
      else if st = CanaryProvisioning then canaryProvisioningState E p base
      else if st = RolloutProgressing then rolloutProgressingState E p base
      else if st = Validating then validatingState E R p base
      else if st = RolledBack then rolledBackState E p
      else ret (Inr requeueNow))"

section \<open>Reconcile\<close>

text \<open>A new upstream revision resets the breaker and restarts the state machine.\<close>

definition drifted :: "DynamicSecretPolicy \<Rightarrow> string \<Rightarrow> bool" where
  "drifted p revision \<longleftrightarrow>
     revision \<noteq> '''' \<and> CurrentRevision (p_status p) \<noteq> revision \<and> DesiredRevision (p_status p) \<noteq> revision"

definition resetForDrift :: "Libs \<Rightarrow> string \<Rightarrow> DynamicSecretPolicy \<Rightarrow> DynamicSecretPolicy" where
  "resetForDrift L revision p = removeCond L CircuitBreakerTripped (setDesired revision (setFailures 0 p))"

text \<open>After the upstream check: a hash was computed, or it is empty since none was needed.\<close>

definition continueReconcile ::
  "'w env \<Rightarrow> 'w reconciler \<Rightarrow> DynamicSecretPolicy \<Rightarrow> string \<Rightarrow> ('w, err + result) dso" where
  "continueReconcile E R base revision =
     (let p = (if drifted base revision then resetForDrift (libs E) revision base else base);
          st = (if drifted base revision then '''' else determineState (libs E) base)
      in if breakerOpen (libs E) p then haltReconcile E p base
         else dispatch E R st p base revision)"

definition reconcilePolicy ::
  "'w env \<Rightarrow> 'w reconciler \<Rightarrow> DynamicSecretPolicy \<Rightarrow> ('w, err + result) dso" where
  "reconcilePolicy E R base =
     (if determineState (libs E) base = '''' \<or> breakerOpen (libs E) base then do {
        m \<leftarrow> materializeSecretRevision E R base;
        case m of
          Inl e \<Rightarrow> ret (Inl e)
        | Inr revision \<Rightarrow> continueReconcile E R base revision
      } else continueReconcile E R base '''')"

definition Reconcile :: "'w env \<Rightarrow> 'w reconciler \<Rightarrow> string \<Rightarrow> string \<Rightarrow> ('w, err + result) dso" where
  "Reconcile E R ns name = do {
     g \<leftarrow> query (cl_getPolicy (client E) ns name);
     case g of
       Inl e \<Rightarrow> ret (case IgnoreNotFound (Some e) of None \<Rightarrow> Inr noRequeue | Some x \<Rightarrow> Inl x)
     | Inr policy \<Rightarrow> reconcilePolicy E R policy
   }"

section \<open>Watches\<close>

text \<open>The requests (namespace and name) a change of an object leads to.\<close>

definition findPoliciesForSourceSecret :: "'w env \<Rightarrow> Secret \<Rightarrow> ('w, (string \<times> string) list) dso" where
  "findPoliciesForSourceSecret E secret =
     (if map_get (om_labels (s_meta secret)) LabelManaged = ManagedValueTrue then ret []
      else do {
        l \<leftarrow> query (cl_listPolicies (client E) (Some (om_namespace (s_meta secret))));
        case l of
          Inl _ \<Rightarrow> ret []
        | Inr policies \<Rightarrow>
            ret (map (\<lambda>p. (pol_namespace p, pol_name p))
              (filter (\<lambda>p. let src = GetResolvedSource (p_spec p) in
                  src_Type src = SourceTypeK8sSecret \<and>
                  (case src_K8sSecret src of None \<Rightarrow> False | Some k \<Rightarrow> k8s_Name k = om_name (s_meta secret))) policies))
      })"

definition findPoliciesForRollout :: "'w env \<Rightarrow> Workload \<Rightarrow> ('w, (string \<times> string) list) dso" where
  "findPoliciesForRollout E rollout = do {
     l \<leftarrow> query (cl_listPolicies (client E) (Some (om_namespace (w_meta rollout))));
     case l of
       Inl _ \<Rightarrow> ret []
     | Inr policies \<Rightarrow>
         ret (map (\<lambda>p. (pol_namespace p, pol_name p))
           (filter (\<lambda>p. ws_Kind (spec_WorkloadSelector (p_spec p)) = KindRollout \<and>
                        target_name p = om_name (w_meta rollout)) policies))
   }"

end
