(* ===== verification/Dso_Runs.thy ===== *)
theory Dso_Runs
  imports Dso_Controller
begin

text \<open>
  What each state of the reconciler does to the outside: for every case of the switch, the shape of
  the events it appends, in order, for every behaviour of the environment. The properties of whole
  reconciliations and the refinement of the abstract machine rest on these lemmas.
\<close>

section \<open>Events of the parts\<close>

fun is_cleanup :: "event \<Rightarrow> bool" where
  "is_cleanup (EDeleteDeployment ns n e) = True"
| "is_cleanup (EDeleteNetworkPolicy ns n e) = True"
| "is_cleanup (EDeleteCilium ns n e) = True"
| "is_cleanup (EDeleteJob j e) = True"
| "is_cleanup _ = False"

fun is_app_update :: "event \<Rightarrow> bool" where
  "is_app_update (EUpdateApplication a e) = True"
| "is_app_update _ = False"

lemma cleanup_emits: "emits_only is_cleanup (CleanupCanaryResources E p)"
  unfolding CleanupCanaryResources_def cleanupJobs_def action_defs Let_def
  by (auto intro!: spec_rules emits_only_for_each [where P = is_cleanup, THEN spec_mono])

lemma spec_emits_only: "emits_only P m \<Longrightarrow> (\<And>r es. list_all P es \<Longrightarrow> Q r es) \<Longrightarrow> spec m Q"
  by (erule spec_mono) blast

lemma argo_emits: "emits_only is_app_update (ReconcileArgoCDIgnoreDifferences E m k)"
  by (rule emits_only_mono [OF ReconcileArgoCD_emits]) auto

lemma spec_updateStatus:
  "(\<And>q e. Q (e, q) [EPatchStatus base (setCond (libs E) c p) e]) \<Longrightarrow> spec (updateStatus E p base c) Q"
  unfolding updateStatus_def patchStatus_def Let_def by (auto intro!: spec_rules)

lemma spec_countMetric: "Q () [EMetric m [pol_namespace p]] \<Longrightarrow> spec (countMetric m p) Q"
  unfolding countMetric_def by (rule spec_emit)

lemma probeRules_silent: "silent (probeRules E vs)"
  by (induction vs) (auto intro!: spec_rules spec_silent [OF extract_silent] elim!: spec_silent)

lemma BuildNetworkPolicy_silent: "silent (BuildNetworkPolicy E p)"
  unfolding BuildNetworkPolicy_def by (auto intro!: spec_rules spec_silent [OF probeRules_silent])

lemma BuildCilium_silent: "silent (BuildCiliumNetworkPolicy E p)"
  unfolding BuildCiliumNetworkPolicy_def
  by (auto intro!: spec_rules spec_silent [OF ciliumRules_silent])

lemma targetKind_nonempty [simp]: "targetKind p \<noteq> ''''"
  by (simp add: targetKind_def)

lemma adapter_of_kind: "NewAdapter (targetKind p) = Inr A \<Longrightarrow> workload_adapter A (targetKind p)"
  using NewAdapter_adapter [of "targetKind p" A] by simp

lemma spec_fetch:
  "NewAdapter (targetKind p) = Inr A \<Longrightarrow> (\<And>r. Q r []) \<Longrightarrow> spec (wa_Fetch A E ns n) Q"
  using workload_adapter.fetch_silent [OF adapter_of_kind] by (rule spec_silent)

lemma spec_promote:
  "NewAdapter (targetKind p) = Inr A \<Longrightarrow>
   (\<And>r e. r = None \<longleftrightarrow> e = None \<Longrightarrow> Q r [EPatchWorkload (targetKind p) w (promoted w q s) e]) \<Longrightarrow>
   spec (wa_Promote A E w q s) Q"
  by (rule spec_mono [OF workload_adapter.promote_patch [OF adapter_of_kind]]) auto

lemmas part_rules =
  spec_rules spec_updateStatus spec_countMetric
  cleanup_emits [THEN spec_emits_only] argo_emits [THEN spec_emits_only] gc_emits [THEN spec_emits_only]
  BuildNetworkPolicy_silent [THEN spec_silent] BuildCilium_silent [THEN spec_silent]

section \<open>What each state does\<close>

text \<open>The events of a promotion, in order: ignore rules first, then the one workload patch; only when
  it is accepted, garbage collection, cleanup and the status patch.\<close>

definition patched_events :: "DynamicSecretPolicy \<Rightarrow> err option \<Rightarrow> event list \<Rightarrow> bool" where
  "patched_events p r es \<longleftrightarrow>
     (\<exists>apps. list_all is_app_update apps \<and>
        (es = apps \<and> r \<noteq> None \<or>
         (\<exists>w e. es = apps @ [EPatchWorkload (targetKind p) w (promoted w p (desiredSecretName p)) (Some e)] \<and> r \<noteq> None) \<or>
         (\<exists>w gcs. es = apps @ [EPatchWorkload (targetKind p) w (promoted w p (desiredSecretName p)) None] @ gcs \<and>
            list_all (gc_event p) gcs \<and> r = None)))"

lemma patched_events_rejected: "list_all is_app_update apps \<Longrightarrow> patched_events p (Some x) apps"
  "list_all is_app_update apps \<Longrightarrow>
   patched_events p (Some x) (apps @ [EPatchWorkload (targetKind p) w (promoted w p (desiredSecretName p)) (Some e)])"
  unfolding patched_events_def by blast+

lemma patched_events_accepted:
  "list_all is_app_update apps \<Longrightarrow> list_all (gc_event p) gcs \<Longrightarrow>
   patched_events p None (apps @ EPatchWorkload (targetKind p) w (promoted w p (desiredSecretName p)) None # gcs)"
  unfolding patched_events_def by force

lemma promoteTargetWorkload_events: "spec (promoteTargetWorkload E p) (patched_events p)"
  unfolding promoteTargetWorkload_def
  by (auto intro!: part_rules spec_fetch [of p] spec_promote [of p] patched_events_accepted
      intro: patched_events_rejected)

text \<open>The events of a promotion, in order: ignore rules first, then the one workload patch; only when
  it is accepted, garbage collection, cleanup and the status patch.\<close>

definition promotion_events :: "Libs \<Rightarrow> DynamicSecretPolicy \<Rightarrow> DynamicSecretPolicy \<Rightarrow> event list \<Rightarrow> bool" where
  "promotion_events L p base es \<longleftrightarrow>
     (\<exists>e. patched_events p (Some e) es) \<or>
     (\<exists>patches dels c e. es = patches @ dels @
         [EPatchStatus base (setCond L c (removeCond L Validating (advanceRevision p))) e] \<and>
         c_type c = Promoting \<and> c_status c = ConditionTrue \<and>
         patched_events p None patches \<and> list_all is_cleanup dels)"

lemma promotion_rejected: "patched_events p (Some e) es \<Longrightarrow> promotion_events L p base es"
  unfolding promotion_events_def by blast

lemma promotion_accepted:
  "patched_events p None es \<Longrightarrow> list_all is_cleanup dels \<Longrightarrow> 
   promotion_events L p base (es @ dels @
     [EPatchStatus base (setCond L (trueCond Promoting r m) (removeCond L Validating (advanceRevision p))) e])"
  unfolding promotion_events_def
  by (rule disjI2, rule exI [of _ es], rule exI [of _ dels], rule exI [of _ "trueCond Promoting r m"], rule exI [of _ e])
    (simp add: trueCond_def)

lemma promoteState_events:
  "spec (promoteState E p base) (\<lambda>r es. promotion_events (libs E) (setFailures 0 p) base es)"
  unfolding promoteState_def Let_def
  by (auto intro!: part_rules spec_mono [OF promoteTargetWorkload_events] promotion_accepted intro: promotion_rejected)

text \<open>A Rollout is patched directly: ignore rules, one patch, and only when it is accepted the status.\<close>

definition rollout_patch_events :: "Libs \<Rightarrow> DynamicSecretPolicy \<Rightarrow> DynamicSecretPolicy \<Rightarrow> event list \<Rightarrow> bool" where
  "rollout_patch_events L p base es \<longleftrightarrow>
     (\<exists>apps w e tail. es = apps @ EPatchWorkload (targetKind p) w (promoted w p (desiredSecretName p)) e # tail \<and>
        list_all is_app_update apps \<and> (e \<noteq> None \<longrightarrow> tail = []) \<and>
        (e = None \<longrightarrow> (\<exists>c r. c_type c = RolloutProgressing \<and> c_status c = ConditionTrue \<and>
            tail = [EPatchStatus base (setCond L c (removeCond L RevisionPrepared p)) r])))"

lemma rollout_patch_rejected:
  "list_all is_app_update apps \<Longrightarrow>
   rollout_patch_events L p base (apps @ [EPatchWorkload (targetKind p) w (promoted w p (desiredSecretName p)) (Some e)])"
  unfolding rollout_patch_events_def by (intro exI conjI) auto

lemma rollout_patch_accepted:
  assumes "list_all is_app_update apps"
  shows "rollout_patch_events L p base (apps @ [EPatchWorkload (targetKind p) w (promoted w p (desiredSecretName p)) None,
     EPatchStatus base (setCond L (trueCond RolloutProgressing rs m) (removeCond L RevisionPrepared p)) r])"
proof -
  let ?c = "trueCond RolloutProgressing rs m"
  have "c_type ?c = RolloutProgressing" "c_status ?c = ConditionTrue" by (simp_all add: trueCond_def)
  with assms show ?thesis unfolding rollout_patch_events_def by (intro exI conjI) (auto intro!: exI [of _ ?c])
qed

lemma rolloutPatchState_events:
  assumes "NewAdapter (targetKind p) = Inr A"
  shows "spec (rolloutPatchState E A w p base) (\<lambda>_. rollout_patch_events (libs E) p base)"
  unfolding rolloutPatchState_def
  by (auto intro!: part_rules spec_promote [OF assms] rollout_patch_rejected rollout_patch_accepted)

text \<open>The canary comes first, then its isolation, then the status; each only when the one before was created or
  is there already.\<close>

fun is_netpol_creation :: "event \<Rightarrow> bool" where
  "is_netpol_creation (ECreateNetworkPolicy n e) = True"
| "is_netpol_creation (ECreateCilium u e) = True"
| "is_netpol_creation _ = False"

fun in_place :: "event \<Rightarrow> bool" where
  "in_place (ECreateDeployment d e) \<longleftrightarrow> created_or_exists e = None"
| "in_place (ECreateNetworkPolicy n e) \<longleftrightarrow> created_or_exists e = None"
| "in_place (ECreateCilium u e) \<longleftrightarrow> created_or_exists e = None"
| "in_place _ \<longleftrightarrow> False"

definition canary_events :: "Libs \<Rightarrow> DynamicSecretPolicy \<Rightarrow> DynamicSecretPolicy \<Rightarrow> event list \<Rightarrow> bool" where
  "canary_events L p base es \<longleftrightarrow>
     es = [] \<or>
     (\<exists>d e rest. es = ECreateDeployment d e # rest \<and> w_replicas d = Some 1 \<and>
        (rest = [] \<or>
         in_place (ECreateDeployment d e) \<and>
           (\<exists>n rest'. rest = n # rest' \<and> is_netpol_creation n \<and>
              (rest' = [] \<or> in_place n \<and> (\<exists>c r. c_type c = CanaryProvisioning \<and> c_status c = ConditionTrue \<and>
                 rest' = [EPatchStatus base (setCond L c (removeCond L RevisionPrepared p)) r])))))"

lemma canary_events_status:
  "w_replicas d = Some 1 \<Longrightarrow> created_or_exists e = None \<Longrightarrow> is_netpol_creation n \<Longrightarrow> in_place n \<Longrightarrow>
   canary_events L p base [ECreateDeployment d e, n,
     EPatchStatus base (setCond L (trueCond CanaryProvisioning rs m) (removeCond L RevisionPrepared p)) r]"
  unfolding canary_events_def trueCond_def by force

lemma canary_events_short:
  "canary_events L p base []"
  "w_replicas d = Some 1 \<Longrightarrow> canary_events L p base [ECreateDeployment d e]"
  "w_replicas d = Some 1 \<Longrightarrow> created_or_exists e = None \<Longrightarrow> is_netpol_creation n \<Longrightarrow>
   canary_events L p base [ECreateDeployment d e, n]"
  unfolding canary_events_def by auto

lemma canaryPatchState_events:
  assumes "w_replicas c = Some 1"
  shows "spec (canaryPatchState E c p base) (\<lambda>_. canary_events (libs E) p base)"
  using assms unfolding canaryPatchState_def provisionNetworkPolicy_def action_defs
  by (auto intro!: part_rules simp: canary_events_short canary_events_status)

definition prepared_events :: "Libs \<Rightarrow> DynamicSecretPolicy \<Rightarrow> DynamicSecretPolicy \<Rightarrow> event list \<Rightarrow> bool" where
  "prepared_events L p base es \<longleftrightarrow>
     es = [] \<or> (if targetKind p = KindRollout then rollout_patch_events L p base es else canary_events L p base es)"

lemma revisionPreparedState_events:
  "spec (revisionPreparedState E p base) (\<lambda>_. prepared_events (libs E) p base)"
proof -
  have canary: "w_replicas c = Some 1" if "NewAdapter (targetKind p) = Inr A" "wa_BuildCanary A w p s = Some c" for A w s c
    using workload_adapter.canary_single_replica [OF adapter_of_kind] that by blast
  have kind: "wa_BuildCanary A w p s = None \<longleftrightarrow> targetKind p = KindRollout"
    if "NewAdapter (targetKind p) = Inr A" for A :: "'a WorkloadAdapter" and w s
    using workload_adapter.canary_none [OF adapter_of_kind [OF that]] .
  show ?thesis
    unfolding revisionPreparedState_def
    by (auto intro!: part_rules spec_fetch [of p] spec_mono [OF rolloutPatchState_events] spec_mono [OF canaryPatchState_events]
        intro: canary simp: kind prepared_events_def) (metis kind option.distinct(1))+
qed

section \<open>Rollouts, failures, the breaker\<close>

lemma rolloutHealthyState_events:
  "spec (rolloutHealthyState E p base) (\<lambda>_ es. \<exists>gcs c e. es = gcs @
     [EPatchStatus base (setCond (libs E) c (removeCond (libs E) RolloutProgressing (advanceRevision (setFailures 0 p)))) e] \<and>
     c_type c = Promoting \<and> c_status c = ConditionTrue \<and> list_all (gc_event (setFailures 0 p)) gcs)"
  unfolding rolloutHealthyState_def Let_def
  by (auto intro!: part_rules exI simp: trueCond_def)

text \<open>A counted failure: the counter goes up by one, and the status gets the false phase condition
  below the threshold and the breaker condition at it.\<close>

definition failure_patch :: "Libs \<Rightarrow> string \<Rightarrow> DynamicSecretPolicy \<Rightarrow> DynamicSecretPolicy \<Rightarrow> bool" where
  "failure_patch L phase p new \<longleftrightarrow>
     (\<exists>c. new = setCond L c (setFailures (failures p + 1) p) \<and>
        (if thresholdReached (setFailures (failures p + 1) p)
         then c_type c = CircuitBreakerTripped \<and> c_status c = ConditionTrue
         else c_type c = phase \<and> c_status c = ConditionFalse))"

fun is_metric_or_cleanup :: "event \<Rightarrow> bool" where
  "is_metric_or_cleanup (EMetric m ls) = well_labelled m ls"
| "is_metric_or_cleanup ev = is_cleanup ev"

lemma cleanup_metric_or_cleanup: "list_all is_cleanup es \<Longrightarrow> list_all is_metric_or_cleanup es"
proof -
  have "is_metric_or_cleanup e" if "is_cleanup e" for e using that by (cases e) auto
  then show "list_all is_cleanup es \<Longrightarrow> ?thesis" by (auto simp: list_all_iff)
qed

definition failure_events :: "Libs \<Rightarrow> string \<Rightarrow> DynamicSecretPolicy \<Rightarrow> DynamicSecretPolicy \<Rightarrow> event list \<Rightarrow> bool" where
  "failure_events L phase p base es \<longleftrightarrow>
     (\<exists>ms new e dels. es = ms @ EPatchStatus base new e # dels \<and> failure_patch L phase p new \<and>
        list_all is_metric_or_cleanup ms \<and> list_all is_metric_or_cleanup dels)"

lemma failure_eventsI:
  "failure_patch L phase p new \<Longrightarrow> list_all is_metric_or_cleanup ms \<Longrightarrow> list_all is_metric_or_cleanup dels \<Longrightarrow>
   failure_events L phase p base (ms @ EPatchStatus base new e # dels)"
  unfolding failure_events_def by blast

lemmas failure_events_one = failure_eventsI [where ms = "[m]" for m, simplified]
lemmas failure_events_two = failure_eventsI [where ms = "[m, n]" for m n, simplified]

lemma failure_patch_trip:
  "thresholdReached (setFailures (failures p + 1) p) \<Longrightarrow>
   failure_patch L phase p (setCond L (trippedCond m) (setFailures (failures p + 1) p))"
  unfolding failure_patch_def by (rule exI [of _ "trippedCond m"]) (simp add: trippedCond_def)

lemma failure_patch_false:
  "\<not> thresholdReached (setFailures (failures p + 1) p) \<Longrightarrow> c_type c = phase \<Longrightarrow> c_status c = ConditionFalse \<Longrightarrow>
   failure_patch L phase p (setCond L c (setFailures (failures p + 1) p))"
  unfolding failure_patch_def by (rule exI [of _ c]) simp

lemma rolloutDegradedState_events:
  "spec (rolloutDegradedState E p base) (\<lambda>_. failure_events (libs E) RolloutProgressing p base)"
  unfolding rolloutDegradedState_def Let_def
  by (auto intro!: part_rules failure_events_one failure_events_two failure_patch_trip failure_patch_false)

lemma validationFailedState_events:
  "spec (validationFailedState E p base e) (\<lambda>_. failure_events (libs E) Validating p base)"
  unfolding validationFailedState_def Let_def
  by (auto intro!: part_rules failure_events_one failure_events_two failure_patch_trip failure_patch_false
      simp: cleanup_metric_or_cleanup)

text \<open>A halted reconciliation counts a metric and, the first time, sets the condition and cleans up.\<close>

definition halt_events :: "Libs \<Rightarrow> DynamicSecretPolicy \<Rightarrow> DynamicSecretPolicy \<Rightarrow> event list \<Rightarrow> bool" where
  "halt_events L p base es \<longleftrightarrow>
     (\<exists>ns rest. es = EMetric ''dso_circuit_breakers_tripped_total'' [ns] # rest \<and>
        (if IsStatusConditionTrue L (conds p) CircuitBreakerTripped then rest = []
         else (\<exists>c e dels. rest = EPatchStatus base (setCond L c p) e # dels \<and> c_type c = CircuitBreakerTripped \<and>
            c_status c = ConditionTrue \<and> list_all is_cleanup dels)))"

lemma haltReconcile_events:
  "spec (haltReconcile E p base) (\<lambda>r es. r = Inr noRequeue \<and> halt_events (libs E) p base es)"
  unfolding haltReconcile_def
  by (auto intro!: part_rules exI simp: halt_events_def trippedCond_def)

section \<open>Drift and validation\<close>

fun is_callback :: "event \<Rightarrow> bool" where
  "is_callback (EMaterialized n r e) = True"
| "is_callback _ = False"

lemma driftState_events:
  "spec (driftState E R p base h) (\<lambda>_ es. es = [] \<and> h = CurrentRevision (p_status p) \<and> h \<noteq> [] \<or>
     (\<exists>m c e cb. es = m # EPatchStatus base (setCond (libs E) c (driftStatus (libs E) h p)) e # cb \<and> is_metric m \<and>
        c_type c = RevisionPrepared \<and> c_status c = ConditionTrue \<and> list_all is_callback cb \<and>
        (CurrentRevision (p_status p) = h \<longrightarrow> h = [])))"
  unfolding driftState_def onMaterialized_def
  by (auto intro!: part_rules) (auto intro!: exI simp: trueCond_def)

definition validating_events :: "'w env \<Rightarrow> DynamicSecretPolicy \<Rightarrow> DynamicSecretPolicy \<Rightarrow> event list \<Rightarrow> bool" where
  "validating_events E p base es \<longleftrightarrow>
     (\<exists>vs tail. es = vs @ tail \<and> list_all is_validation vs \<and>
        (tail = [] \<or> failure_events (libs E) Validating p base tail \<or>
         all_passed E p vs \<and> promotion_events (libs E) (setFailures 0 p) base tail))"

lemma validating_eventsI:
  "list_all is_validation vs \<Longrightarrow> validating_events E p base vs"
  "list_all is_validation vs \<Longrightarrow> failure_events (libs E) Validating p base tail \<Longrightarrow> validating_events E p base (vs @ tail)"
  "list_all is_validation vs \<Longrightarrow> all_passed E p vs \<Longrightarrow> promotion_events (libs E) (setFailures 0 p) base tail \<Longrightarrow>
   validating_events E p base (vs @ tail)"
  unfolding validating_events_def by auto

lemma validatingState_events: "spec (validatingState E R p base) (\<lambda>_. validating_events E p base)"
  unfolding validatingState_def
  by (auto intro!: part_rules spec_mono [OF reconcileValidationProbes_spec] spec_mono [OF promoteState_events]
      spec_mono [OF validationFailedState_events] intro: validating_eventsI)

end
