(* ===== verification/Dso_Machine.thy ===== *)
theory Dso_Machine
  imports Dso_Runs
begin

text \<open>
  The rollout state machine as an abstract specification: the status of a policy without the
  texts of its conditions, the steps it may take, and the proof that every status patch of the
  reconciler is such a step. The invariants of the reachable states are proved on the abstract
  machine by rule induction.
\<close>

section \<open>The abstract machine\<close>

record astatus =
  a_cur :: string
  a_des :: string
  a_fails :: int
  a_conds :: "string \<Rightarrow> ConditionStatus option"

definition abs_status :: "Libs \<Rightarrow> DynamicSecretPolicy \<Rightarrow> astatus" where
  "abs_status L p =
     \<lparr>a_cur = CurrentRevision (p_status p), a_des = DesiredRevision (p_status p),
      a_fails = sint (failures p),
      a_conds = (\<lambda>t. map_option c_status (FindStatusCondition L (conds p) t))\<rparr>"

definition a_open :: "int \<Rightarrow> astatus \<Rightarrow> bool" where
  "a_open th s \<longleftrightarrow> a_fails s \<ge> th \<or> a_conds s CircuitBreakerTripped = Some ConditionTrue"

definition a_rolling :: "astatus \<Rightarrow> bool" where
  "a_rolling s \<longleftrightarrow> a_des s \<noteq> '''' \<and> a_conds s RolledBack \<noteq> Some ConditionTrue"

definition a_validating :: "astatus \<Rightarrow> bool" where
  "a_validating s \<longleftrightarrow> a_rolling s \<and> a_conds s Validating \<noteq> None"

definition a_following :: "astatus \<Rightarrow> bool" where
  "a_following s \<longleftrightarrow> a_rolling s \<and> a_conds s Validating = None \<and> a_conds s RolloutProgressing \<noteq> None"

definition a_provisioned :: "astatus \<Rightarrow> bool" where
  "a_provisioned s \<longleftrightarrow> a_rolling s \<and> a_conds s Validating = None \<and> a_conds s RolloutProgressing = None \<and>
     a_conds s CanaryProvisioning \<noteq> None"

definition a_prepared :: "astatus \<Rightarrow> bool" where
  "a_prepared s \<longleftrightarrow> a_rolling s \<and> a_conds s Validating = None \<and> a_conds s RolloutProgressing = None \<and>
     a_conds s CanaryProvisioning = None \<and>
     (a_conds s RevisionPrepared \<noteq> None \<or> (\<forall>t. a_conds s t \<noteq> Some ConditionTrue))"

lemmas phase_defs = a_rolling_def a_validating_def a_following_def a_provisioned_def a_prepared_def

text \<open>\<open>th\<close> is the threshold of the breaker; \<open>ro\<close> tells whether the target is an Argo Rollout.\<close>

inductive astep :: "int \<Rightarrow> bool \<Rightarrow> astatus \<Rightarrow> astatus \<Rightarrow> bool" for th ro where
  drift: "a_des s = '''' \<or> a_open th s \<Longrightarrow> h \<noteq> '''' \<Longrightarrow> h \<noteq> a_cur s \<Longrightarrow> h \<noteq> a_des s \<Longrightarrow>
    astep th ro s (s\<lparr>a_des := h, a_fails := 0, a_conds := (a_conds s)(CircuitBreakerTripped := None,
      RolledBack := None, Promoting := None, Validating := None, CanaryProvisioning := None,
      RevisionPrepared := Some ConditionTrue)\<rparr>)"
| halt: "a_fails s \<ge> th \<Longrightarrow> a_conds s CircuitBreakerTripped \<noteq> Some ConditionTrue \<Longrightarrow>
    astep th ro s (s\<lparr>a_conds := (a_conds s)(CircuitBreakerTripped := Some ConditionTrue)\<rparr>)"
| provision: "\<not> a_open th s \<Longrightarrow> a_prepared s \<Longrightarrow> \<not> ro \<Longrightarrow>
    astep th ro s (s\<lparr>a_conds := (a_conds s)(RevisionPrepared := None, CanaryProvisioning := Some ConditionTrue)\<rparr>)"
| patch_rollout: "\<not> a_open th s \<Longrightarrow> a_prepared s \<Longrightarrow> ro \<Longrightarrow>
    astep th ro s (s\<lparr>a_conds := (a_conds s)(RevisionPrepared := None, RolloutProgressing := Some ConditionTrue)\<rparr>)"
| validate: "\<not> a_open th s \<Longrightarrow> a_provisioned s \<Longrightarrow>
    astep th ro s (s\<lparr>a_conds := (a_conds s)(CanaryProvisioning := None, Validating := Some ConditionTrue)\<rparr>)"
| probe_failed: "\<not> a_open th s \<Longrightarrow> a_validating s \<Longrightarrow> a_fails s + 1 < th \<Longrightarrow>
    astep th ro s (s\<lparr>a_fails := a_fails s + 1, a_conds := (a_conds s)(Validating := Some ConditionFalse)\<rparr>)"
| probe_trip: "\<not> a_open th s \<Longrightarrow> a_validating s \<Longrightarrow> a_fails s + 1 \<ge> th \<Longrightarrow>
    astep th ro s (s\<lparr>a_fails := a_fails s + 1, a_conds := (a_conds s)(CircuitBreakerTripped := Some ConditionTrue)\<rparr>)"
| promote: "\<not> a_open th s \<Longrightarrow> a_validating s \<Longrightarrow>
    astep th ro s (s\<lparr>a_cur := a_des s, a_des := '''', a_fails := 0,
      a_conds := (a_conds s)(Validating := None, Promoting := Some ConditionTrue)\<rparr>)"
| rollout_healthy: "\<not> a_open th s \<Longrightarrow> a_following s \<Longrightarrow>
    astep th ro s (s\<lparr>a_cur := a_des s, a_des := '''', a_fails := 0,
      a_conds := (a_conds s)(RolloutProgressing := None, Promoting := Some ConditionTrue)\<rparr>)"
| rollout_degraded: "\<not> a_open th s \<Longrightarrow> a_following s \<Longrightarrow> a_fails s + 1 < th \<Longrightarrow>
    astep th ro s (s\<lparr>a_fails := a_fails s + 1, a_conds := (a_conds s)(RolloutProgressing := Some ConditionFalse)\<rparr>)"
| rollout_trip: "\<not> a_open th s \<Longrightarrow> a_following s \<Longrightarrow> a_fails s + 1 \<ge> th \<Longrightarrow>
    astep th ro s (s\<lparr>a_fails := a_fails s + 1, a_conds := (a_conds s)(CircuitBreakerTripped := Some ConditionTrue)\<rparr>)"

definition a_init :: astatus where
  "a_init = \<lparr>a_cur = '''', a_des = '''', a_fails = 0, a_conds = (\<lambda>_. None)\<rparr>"

inductive areach :: "int \<Rightarrow> bool \<Rightarrow> astatus \<Rightarrow> bool" for th ro where
  init: "areach th ro a_init"
| step: "areach th ro s \<Longrightarrow> astep th ro s s' \<Longrightarrow> areach th ro s'"

section \<open>Invariants\<close>

text \<open>The counter stays between zero and the threshold, and at the threshold the breaker is open.\<close>

definition counter_inv :: "int \<Rightarrow> astatus \<Rightarrow> bool" where
  "counter_inv th s \<longleftrightarrow> 0 \<le> a_fails s \<and> a_fails s \<le> th \<and>
     (a_fails s = th \<longrightarrow> a_conds s CircuitBreakerTripped = Some ConditionTrue)"

lemma counter_inv_step: "astep th ro s s' \<Longrightarrow> 1 \<le> th \<Longrightarrow> counter_inv th s \<Longrightarrow> counter_inv th s'"
  by (induction rule: astep.induct) (auto simp: counter_inv_def a_open_def)

text \<open>Nothing ever rolls back, and a rotation never targets the revision that is already current.\<close>

definition target_inv :: "astatus \<Rightarrow> bool" where
  "target_inv s \<longleftrightarrow> a_conds s RolledBack = None \<and> (a_des s \<noteq> '''' \<longrightarrow> a_des s \<noteq> a_cur s)"

lemma target_inv_step: "astep th ro s s' \<Longrightarrow> target_inv s \<Longrightarrow> target_inv s'"
  by (induction rule: astep.induct) (auto simp: target_inv_def)

text \<open>For a target that is no Rollout, exactly one phase condition is present during a rotation,
  and none outside.\<close>

definition phase_inv :: "astatus \<Rightarrow> bool" where
  "phase_inv s \<longleftrightarrow> a_conds s RolloutProgressing = None \<and>
     length (filter (\<lambda>t. a_conds s t \<noteq> None) [RevisionPrepared, CanaryProvisioning, Validating]) =
       (if a_des s = [] then 0 else 1)"

lemma phase_inv_step: "astep th ro s s' \<Longrightarrow> \<not> ro \<Longrightarrow> phase_inv s \<Longrightarrow> phase_inv s'"
  by (induction rule: astep.induct) (auto simp: phase_inv_def phase_defs split: if_splits)

lemma areach_inv:
  assumes "areach th ro s" and "1 \<le> th"
  shows "counter_inv th s \<and> target_inv s \<and> (\<not> ro \<longrightarrow> phase_inv s)"
  using assms
proof (induction rule: areach.induct)
  case init
  then show ?case by (simp add: a_init_def counter_inv_def target_inv_def phase_inv_def)
next
  case (step s s')
  then show ?case using counter_inv_step target_inv_step phase_inv_step by blast
qed

section \<open>Refinement\<close>

text \<open>How the status updates of the reconciler look in the abstract machine.\<close>

lemma abs_removeCond:
  "meta_laws L \<Longrightarrow> abs_status L (removeCond L t p) = (abs_status L p)\<lparr>a_conds := (a_conds (abs_status L p))(t := None)\<rparr>"
  by (auto simp: abs_status_def removeCond_def Find_Remove)

lemma abs_setCond:
  "meta_laws L \<Longrightarrow> abs_status L (setCond L c p) =
     (abs_status L p)\<lparr>a_conds := (a_conds (abs_status L p))(c_type c := Some (c_status c))\<rparr>"
  by (auto simp: abs_status_def setCond_def Find_Set)

lemma abs_setFailures: "abs_status L (setFailures n p) = (abs_status L p)\<lparr>a_fails := sint n\<rparr>"
  by (simp add: abs_status_def setFailures_def)

lemma abs_setDesired: "abs_status L (setDesired r p) = (abs_status L p)\<lparr>a_des := r\<rparr>"
  by (simp add: abs_status_def setDesired_def)

lemma abs_advanceRevision:
  "abs_status L (advanceRevision p) = (abs_status L p)\<lparr>a_cur := a_des (abs_status L p), a_des := ''''\<rparr>"
  by (simp add: abs_status_def advanceRevision_def)

lemmas abs_updates = abs_removeCond abs_setCond abs_setFailures abs_setDesired abs_advanceRevision

lemma abs_fields [simp]:
  "a_cur (abs_status L p) = CurrentRevision (p_status p)"
  "a_des (abs_status L p) = DesiredRevision (p_status p)"
  "a_fails (abs_status L p) = sint (failures p)"
  by (simp_all add: abs_status_def)

lemma abs_conds: "a_conds (abs_status L p) t = map_option c_status (FindStatusCondition L (conds p) t)"
  by (simp add: abs_status_def)

lemma condition_true_abs:
  "meta_laws L \<Longrightarrow> IsStatusConditionTrue L (conds p) t \<longleftrightarrow> a_conds (abs_status L p) t = Some ConditionTrue"
  by (auto simp: abs_conds IsStatusConditionTrue_iff)

lemma breakerOpen_abs:
  "meta_laws L \<Longrightarrow> breakerOpen L p \<longleftrightarrow> a_open (sint (breakerThreshold p)) (abs_status L p)"
  by (simp add: breakerOpen_def a_open_def thresholdReached_def condition_true_abs)

text \<open>Counting a failure below the threshold does not wrap around.\<close>

lemma sint_Suc_below: "sint (x :: int32) < sint (y :: int32) \<Longrightarrow> sint (x + 1) = sint x + 1"
proof -
  assume "sint x < sint y"
  moreover have "- (2 ^ 31) \<le> sint x" "sint y < 2 ^ 31"
    using sint_greater_eq [of x] sint_less [of y] by simp_all
  ultimately have "signed_take_bit 31 (sint x + 1) = sint x + 1"
    by (intro signed_take_bit_int_eq_self) auto
  then show ?thesis by (simp add: signed_take_bit_add sint_word_ariths(1))
qed

text \<open>The phases of the abstract machine are those \<open>determineState\<close> reports. Condition types are never
  empty (the API validates them).\<close>

definition named_conditions :: "DynamicSecretPolicy \<Rightarrow> bool" where
  "named_conditions p \<longleftrightarrow> (\<forall>c \<in> set (conds p). c_type c \<noteq> '''')"

lemma determineState_fallback:
  assumes "meta_laws L" and "FindStatusCondition L (conds p) t = None" and "find P (conds p) = Some c"
  shows "c_type c \<noteq> t"
proof -
  from assms(3) have "c \<in> set (conds p)" by (auto simp: find_Some_iff)
  with assms(1,2) show ?thesis by (auto simp: FindStatusCondition_list find_None_iff)
qed

lemma determineState_drift:
  "meta_laws L \<Longrightarrow> named_conditions p \<Longrightarrow> determineState L p = '''' \<longleftrightarrow> DesiredRevision (p_status p) = ''''"
  by (auto simp: determineState_def named_conditions_def find_Some_iff split: option.splits if_splits)

lemma find_None_untrue:
  "meta_laws L \<Longrightarrow> find (\<lambda>c. c_status c = ConditionTrue) (conds p) = None \<Longrightarrow>
   a_conds (abs_status L p) t \<noteq> Some ConditionTrue"
  by (auto simp: abs_conds FindStatusCondition_list find_None_iff find_Some_iff)

lemma determineState_rolling:
  assumes "meta_laws L" and "determineState L p \<in> {Validating, RolloutProgressing, CanaryProvisioning, RevisionPrepared}"
  shows "a_rolling (abs_status L p)"
  using assms by (auto simp: determineState_def a_rolling_def condition_true_abs split: if_splits)

lemma determineState_phase:
  assumes "meta_laws L"
  shows "determineState L p = Validating \<Longrightarrow> a_validating (abs_status L p)"
    and "determineState L p = RolloutProgressing \<Longrightarrow> a_following (abs_status L p)"
    and "determineState L p = CanaryProvisioning \<Longrightarrow> a_provisioned (abs_status L p)"
    and "determineState L p = RevisionPrepared \<Longrightarrow> a_prepared (abs_status L p)"
proof -
  note fall = determineState_fallback [OF assms]
  note rolling = determineState_rolling [OF assms]
  show "determineState L p = Validating \<Longrightarrow> a_validating (abs_status L p)"
    using rolling fall [of p Validating] unfolding a_validating_def abs_conds
    by (auto simp: determineState_def split: if_splits option.splits)
  show "determineState L p = RolloutProgressing \<Longrightarrow> a_following (abs_status L p)"
    using rolling fall [of p RolloutProgressing] unfolding a_following_def abs_conds
    by (auto simp: determineState_def split: if_splits option.splits)
  show "determineState L p = CanaryProvisioning \<Longrightarrow> a_provisioned (abs_status L p)"
    using rolling fall [of p CanaryProvisioning] unfolding a_provisioned_def abs_conds
    by (auto simp: determineState_def split: if_splits option.splits)
  show "determineState L p = RevisionPrepared \<Longrightarrow> a_prepared (abs_status L p)"
    using rolling fall [of p RevisionPrepared] find_None_untrue [OF assms, of p] unfolding a_prepared_def abs_conds
    by (auto simp: determineState_def split: if_splits option.splits)
qed

text \<open>A status patch of a reconciliation of \<open>base\<close> refines the machine.\<close>

definition refines :: "Libs \<Rightarrow> DynamicSecretPolicy \<Rightarrow> event \<Rightarrow> bool" where
  "refines L base ev = (case ev of
     EPatchStatus old new e \<Rightarrow> old = base \<and> p_spec new = p_spec old \<and>
       astep (sint (breakerThreshold base)) (targetKind base = KindRollout) (abs_status L old) (abs_status L new)
   | _ \<Rightarrow> True)"

fun no_status :: "event \<Rightarrow> bool" where
  "no_status (EPatchStatus old new e) = False"
| "no_status _ = True"

lemma refines_other: "no_status ev \<Longrightarrow> refines L base ev"
  by (cases ev) (auto simp: refines_def)

lemma no_status_kinds:
  "is_metric ev \<Longrightarrow> no_status ev" "is_cleanup ev \<Longrightarrow> no_status ev" "is_app_update ev \<Longrightarrow> no_status ev"
  "gc_event p ev \<Longrightarrow> no_status ev" "is_validation ev \<Longrightarrow> no_status ev" "is_callback ev \<Longrightarrow> no_status ev"
  "is_metric_or_cleanup ev \<Longrightarrow> no_status ev" "is_netpol_creation ev \<Longrightarrow> no_status ev"
  "is_secret_creation ev \<Longrightarrow> no_status ev"
  by (cases ev; auto simp: gc_event_def)+

lemma refines_all: "list_all P es \<Longrightarrow> (\<And>ev. P ev \<Longrightarrow> no_status ev) \<Longrightarrow> list_all (refines L base) es"
  by (auto simp: list_all_iff intro: refines_other)

lemma refines_kinds:
  "list_all is_metric es \<Longrightarrow> list_all (refines L base) es"
  "list_all is_cleanup es \<Longrightarrow> list_all (refines L base) es"
  "list_all is_app_update es \<Longrightarrow> list_all (refines L base) es"
  "list_all (gc_event p) es \<Longrightarrow> list_all (refines L base) es"
  "list_all is_validation es \<Longrightarrow> list_all (refines L base) es"
  "list_all is_callback es \<Longrightarrow> list_all (refines L base) es"
  "list_all is_metric_or_cleanup es \<Longrightarrow> list_all (refines L base) es"
  by (erule refines_all, erule no_status_kinds)+

lemma breakerThreshold_frame [simp]:
  "breakerThreshold (setFailures n p) = breakerThreshold p" "failures (setFailures n p) = n"
  by (simp_all add: breakerThreshold_def setFailures_def)

lemma spec_frame [simp]:
  "p_spec (setCond L c p) = p_spec p" "p_spec (removeCond L t p) = p_spec p" "p_spec (setFailures n p) = p_spec p"
  "p_spec (setDesired h p) = p_spec p" "p_spec (advanceRevision p) = p_spec p"
  "p_spec (driftStatus L h p) = p_spec p" "p_spec (resetForDrift L h p) = p_spec p"
  by (simp_all add: setCond_def removeCond_def setFailures_def setDesired_def advanceRevision_def driftStatus_def resetForDrift_def)

lemma failure_patch_spec: "failure_patch L ph p new \<Longrightarrow> p_spec new = p_spec p"
  by (auto simp: failure_patch_def)

lemma refines_patch:
  "p_spec new = p_spec base \<Longrightarrow> astep (sint (breakerThreshold base)) (targetKind base = KindRollout) (abs_status L base) (abs_status L new) \<Longrightarrow>
   refines L base (EPatchStatus base new e)"
  by (simp add: refines_def)

lemma refines_failure:
  assumes "meta_laws L" and "\<not> breakerOpen L p" and "failure_patch L phase p new"
    and "phase = Validating \<and> a_validating (abs_status L p) \<or> phase = RolloutProgressing \<and> a_following (abs_status L p)"
  shows "astep (sint (breakerThreshold p)) ro (abs_status L p) (abs_status L new)"
proof -
  let ?th = "sint (breakerThreshold p)" and ?s = "abs_status L p"
  from assms(1,2) have closed: "\<not> a_open ?th ?s" by (simp add: breakerOpen_abs)
  then have suc: "sint (failures p + 1) = sint (failures p) + 1"
    by (intro sint_Suc_below [of _ "breakerThreshold p"]) (simp add: a_open_def)
  then have th: "thresholdReached (setFailures (failures p + 1) p) \<longleftrightarrow> a_fails ?s + 1 \<ge> ?th"
    by (simp add: thresholdReached_def)
  from assms(3) obtain c where new: "new = setCond L c (setFailures (failures p + 1) p)" and
    c: "if a_fails ?s + 1 \<ge> ?th then c_type c = CircuitBreakerTripped \<and> c_status c = ConditionTrue
        else c_type c = phase \<and> c_status c = ConditionFalse"
    unfolding failure_patch_def th by blast
  have abs: "abs_status L new = ?s\<lparr>a_fails := a_fails ?s + 1, a_conds := (a_conds ?s)(c_type c := Some (c_status c))\<rparr>"
    using suc by (simp add: new abs_updates assms(1))
  show ?thesis
    using c assms(4) closed probe_trip [of ?th ?s ro] probe_failed [of ?th ?s ro]
      rollout_trip [of ?th ?s ro] rollout_degraded [of ?th ?s ro]
    unfolding abs by (auto split: if_splits)
qed

lemma promotion_refines:
  assumes "meta_laws L" and "\<not> breakerOpen L base" and "a_validating (abs_status L base)"
    and "promotion_events L (setFailures 0 base) base es"
  shows "list_all (refines L base) es"
proof -
  let ?th = "sint (breakerThreshold base)"
  have patched: "list_all (refines L base) xs" if "patched_events p r xs" for p r xs
    using that unfolding patched_events_def
    by (auto simp: refines_other dest: refines_kinds)
  have step: "astep ?th ro (abs_status L base) (abs_status L (setCond L c (removeCond L Validating (advanceRevision (setFailures 0 base)))))"
    if "c_type c = Promoting" "c_status c = ConditionTrue" for ro c
  proof -
    have "abs_status L (setCond L c (removeCond L Validating (advanceRevision (setFailures 0 base)))) =
        (abs_status L base)\<lparr>a_cur := a_des (abs_status L base), a_des := [], a_fails := 0,
          a_conds := (a_conds (abs_status L base))(Validating := None, Promoting := Some ConditionTrue)\<rparr>"
      by (rule astatus.equality) (simp_all add: abs_updates assms(1) that)
    moreover from assms(1,2) have "\<not> a_open ?th (abs_status L base)" by (simp add: breakerOpen_abs)
    ultimately show ?thesis using promote [of ?th "abs_status L base" ro] assms(3) by metis
  qed
  show ?thesis
    using assms(4) unfolding promotion_events_def
    by (auto simp: patched dest: refines_kinds(2) intro!: refines_patch step)
qed

lemma healthy_refines:
  assumes "meta_laws L" and "\<not> breakerOpen L base" and "a_following (abs_status L base)"
    and "c_type c = Promoting" and "c_status c = ConditionTrue"
  shows "refines L base (EPatchStatus base (setCond L c (removeCond L RolloutProgressing (advanceRevision (setFailures 0 base)))) e)"
proof -
  from assms(1,2) have closed: "\<not> a_open (sint (breakerThreshold base)) (abs_status L base)" by (simp add: breakerOpen_abs)
  have eq: "abs_status L (setCond L c (removeCond L RolloutProgressing (advanceRevision (setFailures 0 base)))) =
      (abs_status L base)\<lparr>a_cur := a_des (abs_status L base), a_des := '''', a_fails := 0,
        a_conds := (a_conds (abs_status L base))(RolloutProgressing := None, Promoting := Some ConditionTrue)\<rparr>"
    by (rule astatus.equality) (simp_all add: abs_updates assms)
  show ?thesis by (rule refines_patch) (simp, unfold eq, rule rollout_healthy [OF closed assms(3)])
qed

lemma prepared_refines:
  assumes "meta_laws L" and "\<not> breakerOpen L base" and "a_prepared (abs_status L base)" and "prepared_events L base base es"
  shows "list_all (refines L base) es"
proof -
  from assms(1,2) have closed: "\<not> a_open (sint (breakerThreshold base)) (abs_status L base)" by (simp add: breakerOpen_abs)
  show ?thesis
    using assms(1,3,4) provision [OF closed assms(3)] patch_rollout [OF closed assms(3)]
    unfolding prepared_events_def rollout_patch_events_def canary_events_def
    by (auto split: if_splits dest: refines_kinds(3) intro!: refines_patch
        simp: abs_updates refines_other no_status_kinds)
qed

lemma provisioned_refines:
  assumes "meta_laws L" and "\<not> breakerOpen L base" and "a_provisioned (abs_status L base)"
    and "c_type c = Validating" and "c_status c = ConditionTrue"
  shows "refines L base (EPatchStatus base (setCond L c (removeCond L CanaryProvisioning base)) e)"
  using validate [of "sint (breakerThreshold base)" "abs_status L base"] assms
  by (simp add: refines_def abs_updates breakerOpen_abs)

lemma halt_refines:
  assumes "meta_laws L" and "breakerOpen L base" and "halt_events L base base es"
  shows "list_all (refines L base) es"
  using assms(3) halt [of "sint (breakerThreshold base)" "abs_status L base"] assms(1,2)
  unfolding halt_events_def
  by (auto simp: abs_updates breakerOpen_def thresholdReached_def condition_true_abs refines_other
      dest: refines_kinds(2) intro!: refines_patch split: if_splits)

text \<open>The start of a rotation, with or without a breaker to reset.\<close>

lemma abs_driftStatus:
  "meta_laws L \<Longrightarrow> abs_status L (driftStatus L h p) =
     (abs_status L p)\<lparr>a_des := h, a_fails := 0, a_conds := (a_conds (abs_status L p))(CircuitBreakerTripped := None,
       RolledBack := None, Promoting := None, Validating := None, CanaryProvisioning := None)\<rparr>"
  by (rule astatus.equality) (simp_all add: driftStatus_def abs_updates del: abs_fields)

lemma abs_resetForDrift:
  "meta_laws L \<Longrightarrow> abs_status L (resetForDrift L h p) =
     (abs_status L p)\<lparr>a_des := h, a_fails := 0, a_conds := (a_conds (abs_status L p))(CircuitBreakerTripped := None)\<rparr>"
  by (rule astatus.equality) (simp_all add: resetForDrift_def abs_updates del: abs_fields)

lemma drift_refines:
  assumes "meta_laws L" and "DesiredRevision (p_status base) = '''' \<or> breakerOpen L base" and "drifted base h"
    and "c_type c = RevisionPrepared" and "c_status c = ConditionTrue"
  shows "refines L base (EPatchStatus base (setCond L c (driftStatus L h (resetForDrift L h base))) e)"
proof -
  let ?th = "sint (breakerThreshold base)" and ?s = "abs_status L base"
  have guard: "a_des ?s = '''' \<or> a_open ?th ?s" using assms(1,2) by (simp add: breakerOpen_abs)
  have eq: "abs_status L (setCond L c (driftStatus L h (resetForDrift L h base))) =
      ?s\<lparr>a_des := h, a_fails := 0, a_conds := (a_conds ?s)(CircuitBreakerTripped := None,
        RolledBack := None, Promoting := None, Validating := None, CanaryProvisioning := None,
        RevisionPrepared := Some ConditionTrue)\<rparr>"
    by (rule astatus.equality)
      (simp_all add: abs_setCond abs_driftStatus abs_resetForDrift assms fun_eq_iff del: abs_fields)
  from assms(3) have "h \<noteq> ''''" "h \<noteq> a_cur ?s" "h \<noteq> a_des ?s" by (auto simp: drifted_def)
  from drift [OF guard this] show ?thesis by (intro refines_patch) (simp, unfold eq)
qed

lemma breakerThreshold_pos: "sint (breakerThreshold p) \<ge> 1"
  by (auto simp: breakerThreshold_def split: option.splits)

lemma reset_closes: "meta_laws L \<Longrightarrow> \<not> breakerOpen L (resetForDrift L h p)"
  using breakerThreshold_pos [of "resetForDrift L h p"]
  by (simp add: breakerOpen_abs a_open_def abs_resetForDrift del: abs_fields)

lemma dispatch_refines:
  assumes "meta_laws (libs E)" and "\<not> breakerOpen (libs E) base" and "determineState (libs E) base \<noteq> ''''"
  shows "emits_only (refines (libs E) base) (dispatch E R (determineState (libs E) base) base base h)"
proof -
  let ?L = "libs E"
  note phase = determineState_phase [OF assms(1), of base]
  have prep: "emits_only (refines ?L base) (revisionPreparedState E base base)" if "determineState ?L base = RevisionPrepared"
    by (rule spec_mono [OF revisionPreparedState_events]) (rule prepared_refines [OF assms(1,2) phase(4) [OF that]])
  have can: "emits_only (refines ?L base) (canaryProvisioningState E base base)" if "determineState ?L base = CanaryProvisioning"
    using provisioned_refines [OF assms(1,2) phase(3) [OF that]]
    unfolding canaryProvisioningState_def by (auto intro!: part_rules simp: trueCond_def)
  have fails: "list_all (refines ?L base) es"
    if "failure_events ?L ph base base es"
      "ph = Validating \<and> a_validating (abs_status ?L base) \<or> ph = RolloutProgressing \<and> a_following (abs_status ?L base)" for es ph
    using that(1) refines_failure [OF assms(1,2) _ that(2)] failure_patch_spec unfolding failure_events_def
    by (auto dest: refines_kinds(7) intro!: refines_patch)
  have roll: "emits_only (refines ?L base) (rolloutProgressingState E base base)" if "determineState ?L base = RolloutProgressing"
    unfolding rolloutProgressingState_def
    by (auto intro!: spec_rules spec_mono [OF rolloutHealthyState_events] spec_mono [OF rolloutDegradedState_events]
        healthy_refines [OF assms(1,2) phase(2) [OF that]]
        dest: refines_kinds(4) fails simp: phase(2) [OF that])
  have val: "emits_only (refines ?L base) (validatingState E R base base)" if "determineState ?L base = Validating"
  proof (rule spec_mono [OF validatingState_events])
    fix r es assume "validating_events E base base es"
    then obtain vs tail where es: "es = vs @ tail" and vs: "list_all is_validation vs"
      and tail: "tail = [] \<or> failure_events ?L Validating base base tail \<or> promotion_events ?L (setFailures 0 base) base tail"
      unfolding validating_events_def by blast
    from tail have "list_all (refines ?L base) tail"
      using fails [of Validating tail] promotion_refines [OF assms(1,2) phase(1) [OF that]] phase(1) [OF that] by auto
    with refines_kinds(5) [OF vs] show "list_all (refines ?L base) es" by (simp add: es)
  qed
  have rolled: "emits_only (refines ?L base) (rolledBackState E base)"
    unfolding rolledBackState_def by (auto intro!: part_rules dest: refines_kinds(2))
  show ?thesis
    using prep can roll val rolled assms(3) unfolding dispatch_def by (auto intro!: spec_ret)
qed

lemma continue_refines:
  assumes laws: "meta_laws (libs E)" and named: "named_conditions base"
    and checked: "determineState (libs E) base = '''' \<or> breakerOpen (libs E) base \<longleftrightarrow> h \<noteq> ''''"
  shows "emits_only (refines (libs E) base) (continueReconcile E R base h)"
proof (cases "drifted base h")
  case True
  then have "h \<noteq> ''''" by (simp add: drifted_def)
  with checked determineState_drift [OF laws named]
  have guard: "DesiredRevision (p_status base) = '''' \<or> breakerOpen (libs E) base" by blast
  have "emits_only (refines (libs E) base) (driftState E R (resetForDrift (libs E) h base) base h)"
    by (rule spec_mono [OF driftState_events])
      (use \<open>h \<noteq> []\<close> in \<open>auto intro!: drift_refines [OF laws guard True]
        simp: refines_other no_status_kinds dest: refines_kinds(6)\<close>)
  then show ?thesis
    using True reset_closes [OF laws] by (simp add: continueReconcile_def dispatch_def)
next
  case False
  show ?thesis
  proof (cases "breakerOpen (libs E) base")
    case True
    with False show ?thesis
      by (auto simp: continueReconcile_def intro!: spec_mono [OF haltReconcile_events] halt_refines [OF laws])
  next
    case closed: False
    show ?thesis
    proof (cases "determineState (libs E) base = ''''")
      case True
      with checked False determineState_drift [OF laws named]
      have "h \<noteq> ''''" "h = CurrentRevision (p_status base)" by (auto simp: drifted_def)
      with True False closed show ?thesis by (auto simp: continueReconcile_def dispatch_def driftState_def intro!: spec_ret)
    next
      case st: False
      from dispatch_refines [OF laws closed st] False closed show ?thesis by (simp add: continueReconcile_def)
    qed
  qed
qed

lemma reconcilePolicy_refines:
  assumes "meta_laws (libs E)" and "named_conditions base" and "sources_readonly E R"
  shows "emits_only (refines (libs E) base) (reconcilePolicy E R base)"
proof (cases "determineState (libs E) base = '''' \<or> breakerOpen (libs E) base")
  case True
  have mat: "spec (materializeSecretRevision E R base) (\<lambda>r es. list_all (refines (libs E) base) es \<and> r \<noteq> Inr [])"
    by (rule spec_mono [OF spec_conj [OF materialize_emits [OF assms(3)] materialize_nonempty [OF assms(3)]]])
      (auto elim!: refines_all dest: no_status_kinds)
  from True show ?thesis
    unfolding reconcilePolicy_def
    by (auto intro!: spec_bind spec_mono [OF mat] spec_case_sum spec_ret spec_mono [OF continue_refines [OF assms(1,2)]])
next
  case False
  with continue_refines [OF assms(1,2), of "''''"] show ?thesis by (simp add: reconcilePolicy_def)
qed

end
