(* ===== verification/Dso_System.thy ===== *)
theory Dso_System
  imports Dso_Machine
begin

text \<open>
  Whole reconciliations: when a workload may be patched, what an open breaker lets through, the
  statuses that a policy reaches by the reconciler's own patches, and the use of the metrics.
\<close>

section \<open>Workload patches\<close>

fun is_workload_patch :: "event \<Rightarrow> bool" where
  "is_workload_patch (EPatchWorkload k old new e) = True"
| "is_workload_patch _ = False"

lemma not_patch_kinds:
  "is_metric ev \<Longrightarrow> \<not> is_workload_patch ev" "is_cleanup ev \<Longrightarrow> \<not> is_workload_patch ev" "is_app_update ev \<Longrightarrow> \<not> is_workload_patch ev"
  "gc_event p ev \<Longrightarrow> \<not> is_workload_patch ev" "is_validation ev \<Longrightarrow> \<not> is_workload_patch ev" "is_callback ev \<Longrightarrow> \<not> is_workload_patch ev"
  "is_metric_or_cleanup ev \<Longrightarrow> \<not> is_workload_patch ev" "is_netpol_creation ev \<Longrightarrow> \<not> is_workload_patch ev"
  "is_secret_creation ev \<Longrightarrow> \<not> is_workload_patch ev"
  by (cases ev; auto simp: gc_event_def)+

abbreviation quiet :: "event list \<Rightarrow> bool" where
  "quiet es \<equiv> list_all (\<lambda>ev. \<not> is_workload_patch ev) es"

lemma quiet_all: "list_all P es \<Longrightarrow> (\<And>ev. P ev \<Longrightarrow> \<not> is_workload_patch ev) \<Longrightarrow> quiet es"
  by (auto simp: list_all_iff)

lemma quiet_kinds:
  "list_all is_cleanup es \<Longrightarrow> quiet es" "list_all is_app_update es \<Longrightarrow> quiet es" "list_all (gc_event p) es \<Longrightarrow> quiet es"
  "list_all is_validation es \<Longrightarrow> quiet es" "list_all is_callback es \<Longrightarrow> quiet es" "list_all is_metric_or_cleanup es \<Longrightarrow> quiet es"
  by (erule quiet_all, erule not_patch_kinds)+

text \<open>The failure counter has no influence on what is promoted.\<close>

lemma setFailures_reads [simp]:
  "CurrentRevision (p_status (setFailures k p)) = CurrentRevision (p_status p)"
  "DesiredRevision (p_status (setFailures k p)) = DesiredRevision (p_status p)"
  "targetVolumeName (setFailures k p) = targetVolumeName p" "targetEnvName (setFailures k p) = targetEnvName p"
  "targetContainerName (setFailures k p) = targetContainerName p" "vaultRefObjectName (setFailures k p) = vaultRefObjectName p"
  "managedPrefix n (setFailures k p) = managedPrefix n p"
  by (simp_all add: setFailures_def targetVolumeName_def targetEnvName_def targetContainerName_def managedPrefix_def vaultRefObjectName_def)

lemma mutate_parts_setFailures [simp]:
  "mutate_volumes n (setFailures k p) s vs = mutate_volumes n p s vs"
  "mutate_setEnv (setFailures k p) s c es = mutate_setEnv p s c es"
  "mutate_matchEnv n (setFailures k p) s = mutate_matchEnv n p s"
  "mutate_matchEnvFrom n (setFailures k p) s = mutate_matchEnvFrom n p s"
proof -
  have "mutate_setVolume (setFailures k p) s = mutate_setVolume p s" "mutate_matchVolume n (setFailures k p) s = mutate_matchVolume n p s"
    by (simp_all add: fun_eq_iff mutate_setVolume_def mutate_matchVolume_def mutate_volumeMatches_def split: option.splits)
  then show "mutate_volumes n (setFailures k p) s vs = mutate_volumes n p s vs" by (simp add: mutate_volumes_def)
  show "mutate_setEnv (setFailures k p) s c es = mutate_setEnv p s c es"
    by (simp add: mutate_setEnv_def mutate_secretEnvSource_def Let_def)
  show "mutate_matchEnv n (setFailures k p) s = mutate_matchEnv n p s" "mutate_matchEnvFrom n (setFailures k p) s = mutate_matchEnvFrom n p s"
    by (simp_all add: fun_eq_iff mutate_matchEnv_def mutate_envMatches_def mutate_matchEnvFrom_def mutate_envFromMatches_def split: option.splits)
qed

lemma mutate_setFailures [simp]: "MutatePodTemplateSpec tpl n (setFailures k p) s = MutatePodTemplateSpec tpl n p s"
proof -
  have "mutateContainer n (setFailures k p) s = mutateContainer n p s" by (simp add: fun_eq_iff mutateContainer_def)
  then show ?thesis by (simp add: MutatePodTemplateSpec_def)
qed

lemma promoted_setFailures [simp]:
  "promoted w (setFailures k p) s = promoted w p s" "desiredSecretName (setFailures k p) = desiredSecretName p"
  "targetKind (setFailures k p) = targetKind p" "all_passed E (setFailures k p) vs = all_passed E p vs"
proof -
  have meta: "p_meta (setFailures k p) = p_meta p" by (simp add: setFailures_def)
  show "promoted w (setFailures k p) s = promoted w p s" by (simp add: promoted_def)
  show name: "desiredSecretName (setFailures k p) = desiredSecretName p" by (simp add: desiredSecretName_def setFailures_def)
  show "targetKind (setFailures k p) = targetKind p" by (simp add: targetKind_def)
  have "passed E (setFailures k p) n v ev = passed E p n v ev" for n v ev by (cases ev) (simp_all add: meta)
  then have "passed E (setFailures k p) = passed E p" by (intro ext)
  then show "all_passed E (setFailures k p) vs = all_passed E p vs" by (simp add: all_passed_def name)
qed

text \<open>A patch is the promotion of the desired revision of the policy's target.\<close>

fun promotes :: "DynamicSecretPolicy \<Rightarrow> event \<Rightarrow> bool" where
  "promotes p (EPatchWorkload k old new e) = (k = targetKind p \<and> new = promoted old p (desiredSecretName p))"
| "promotes p _ = True"

lemma promotes_quiet: "quiet es \<Longrightarrow> list_all (promotes p) es"
proof -
  have "promotes p ev" if "\<not> is_workload_patch ev" for ev using that by (cases ev) auto
  then show "quiet es \<Longrightarrow> ?thesis" by (auto simp: list_all_iff)
qed

text \<open>A run justifies its workload patches: there is none; or the target is a Rollout and the revision was
  just prepared; or every probe passed before the first patch. Each patch promotes the desired revision.\<close>

definition justified :: "'w env \<Rightarrow> DynamicSecretPolicy \<Rightarrow> event list \<Rightarrow> bool" where
  "justified E p es \<longleftrightarrow>
     quiet es \<or>
     \<not> breakerOpen (libs E) p \<and> list_all (promotes p) es \<and>
     (determineState (libs E) p = RevisionPrepared \<and> targetKind p = KindRollout \<or>
      determineState (libs E) p = Validating \<and>
        (\<exists>vs tail. es = vs @ tail \<and> quiet vs \<and> list_all is_validation vs \<and> all_passed E p vs))"

lemma patched_promotes: "patched_events p r es \<Longrightarrow> list_all (promotes p) es"
  unfolding patched_events_def by (auto dest!: quiet_kinds intro: promotes_quiet)

lemma promotion_promotes: "promotion_events L (setFailures 0 p) base es \<Longrightarrow> list_all (promotes p) es"
proof -
  have "promotes (setFailures 0 p) = promotes p"
    by (rule ext, case_tac x) simp_all
  then show "promotion_events L (setFailures 0 p) base es \<Longrightarrow> ?thesis"
    unfolding promotion_events_def
    using patched_promotes [of "setFailures 0 p"] by (auto dest!: quiet_kinds(1) intro: promotes_quiet)
qed

lemma dispatch_justified:
  assumes "\<not> breakerOpen (libs E) base"
  shows "spec (dispatch E R (determineState (libs E) base) base base h) (\<lambda>_. justified E base)"
proof -
  let ?J = "justified E base"
  have quiet: "?J es" if "quiet es" for es using that by (simp add: justified_def)
  have fail: "quiet es" if "failure_events (libs E) ph p base es" for ph p es
    using that unfolding failure_events_def by (auto dest!: quiet_kinds(6))
  have prep: "spec (revisionPreparedState E base base) (\<lambda>_. ?J)" if "determineState (libs E) base = RevisionPrepared"
  proof (rule spec_mono [OF revisionPreparedState_events])
    fix r es assume "prepared_events (libs E) base base es"
    then consider "quiet es" | "targetKind base = KindRollout" "list_all (promotes base) es"
      unfolding prepared_events_def canary_events_def rollout_patch_events_def
      by (fastforce simp: not_patch_kinds dest!: quiet_kinds(2) dest: promotes_quiet split: if_splits)
    then show "?J es" using that assms by cases (auto simp: justified_def)
  qed
  have val: "spec (validatingState E R base base) (\<lambda>_. ?J)" if "determineState (libs E) base = Validating"
  proof (rule spec_mono [OF validatingState_events])
    fix r es assume "validating_events E base base es"
    then obtain vs tail where es: "es = vs @ tail" and vs: "list_all is_validation vs" and
      "tail = [] \<or> failure_events (libs E) Validating base base tail \<or>
       all_passed E base vs \<and> promotion_events (libs E) (setFailures 0 base) base tail"
      unfolding validating_events_def by blast
    then consider "quiet es" | "all_passed E base vs" "list_all (promotes base) tail"
      using fail promotion_promotes quiet_kinds(4) [OF vs] by fastforce
    then show "?J es"
    proof cases
      case 2
      with es vs quiet_kinds(4) [OF vs] promotes_quiet that assms show ?thesis unfolding justified_def by fastforce
    qed (rule quiet)
  qed
  have "spec (canaryProvisioningState E base base) (\<lambda>_. ?J)"
    unfolding canaryProvisioningState_def by (auto intro!: part_rules quiet)
  moreover have "spec (rolloutProgressingState E base base) (\<lambda>_. ?J)"
    unfolding rolloutProgressingState_def
    by (auto intro!: spec_rules quiet spec_mono [OF rolloutHealthyState_events] spec_mono [OF rolloutDegradedState_events]
        dest: fail quiet_kinds(3))
  moreover have "spec (rolledBackState E base) (\<lambda>_. ?J)"
    unfolding rolledBackState_def by (auto intro!: part_rules quiet dest: quiet_kinds(1))
  moreover have "spec (driftState E R base base h) (\<lambda>_. ?J)"
    by (rule spec_mono [OF driftState_events]) (auto intro!: quiet simp: not_patch_kinds dest: quiet_kinds(5))
  ultimately show ?thesis using prep val unfolding dispatch_def by (auto intro!: spec_ret quiet)
qed

lemma justified_after: "quiet ms \<Longrightarrow> justified E p es \<Longrightarrow> determineState (libs E) p = [] \<or> breakerOpen (libs E) p \<Longrightarrow> quiet (ms @ es)"
  unfolding justified_def by auto

lemma continue_justified: "spec (continueReconcile E R base h) (\<lambda>_. justified E base)"
proof -
  have quiet: "justified E base es" if "quiet es" for es using that by (simp add: justified_def)
  have "spec (haltReconcile E p base) (\<lambda>_. justified E base)" for p
    by (rule spec_mono [OF haltReconcile_events]) (auto simp: halt_events_def intro!: quiet dest: quiet_kinds(1) split: if_splits)
  moreover have "spec (driftState E R p base h) (\<lambda>_. justified E base)" for p
    by (rule spec_mono [OF driftState_events]) (auto intro!: quiet simp: not_patch_kinds dest: quiet_kinds(5))
  ultimately show ?thesis
    using dispatch_justified [of E base R h] unfolding continueReconcile_def by (auto simp: Let_def dispatch_def)
qed

lemma reconcilePolicy_justified:
  assumes "sources_readonly E R"
  shows "spec (reconcilePolicy E R base) (\<lambda>_. justified E base)"
proof -
  have mat: "spec (materializeSecretRevision E R base) (\<lambda>r es. quiet es)"
    by (rule emits_only_mono [OF materialize_emits [OF assms]]) (auto dest: not_patch_kinds)
  have quiet: "justified E base es" if "quiet es" for es using that by (simp add: justified_def)
  have "spec (State_Monad.bind (materializeSecretRevision E R base)
      (\<lambda>m. case m of Inl e \<Rightarrow> ret (Inl e) | Inr revision \<Rightarrow> continueReconcile E R base revision)) (\<lambda>_. justified E base)"
    if "determineState (libs E) base = [] \<or> breakerOpen (libs E) base"
    by (auto intro!: spec_bind spec_mono [OF mat] spec_case_sum spec_ret quiet spec_mono [OF continue_justified]
        dest: justified_after [OF _ _ that])
  then show ?thesis using continue_justified unfolding reconcilePolicy_def by (auto intro!: spec_if)
qed

section \<open>The open breaker\<close>

fun let_through :: "event \<Rightarrow> bool" where
  "let_through (EMetric m ls) = well_labelled m ls"
| "let_through (ECreateSecret s e) = True"
| "let_through (EPatchStatus old new e) = True"
| "let_through (EMaterialized n r e) = True"
| "let_through ev = is_cleanup ev"

lemma let_through_kinds:
  "is_metric ev \<Longrightarrow> let_through ev" "is_secret_creation ev \<Longrightarrow> let_through ev" "is_cleanup ev \<Longrightarrow> let_through ev"
  "is_callback ev \<Longrightarrow> let_through ev"
  by (cases ev; auto)+

lemma let_through_all: "list_all P es \<Longrightarrow> (\<And>ev. P ev \<Longrightarrow> let_through ev) \<Longrightarrow> list_all let_through es"
  by (auto simp: list_all_iff)

lemma let_through_lists:
  "list_all is_cleanup es \<Longrightarrow> list_all let_through es" "list_all is_callback es \<Longrightarrow> list_all let_through es"
  by (erule let_through_all, erule let_through_kinds)+

lemma reconcilePolicy_open:
  assumes "sources_readonly E R" and "breakerOpen (libs E) base"
  shows "emits_only let_through (reconcilePolicy E R base)"
proof -
  have mat: "emits_only let_through (materializeSecretRevision E R base)"
    by (rule emits_only_mono [OF materialize_emits [OF assms(1)]]) (auto dest: let_through_kinds)
  have hlt: "emits_only let_through (haltReconcile E p base)" for p
    by (rule spec_mono [OF haltReconcile_events]) (auto simp: halt_events_def dest: let_through_lists split: if_splits)
  have dr: "emits_only let_through (driftState E R p base h)" for p h
    by (rule spec_mono [OF driftState_events]) (auto simp: let_through_kinds dest: let_through_lists)
  have "emits_only let_through (continueReconcile E R base h)" for h
    using hlt dr assms(2) by (auto simp: continueReconcile_def dispatch_def Let_def)
  then show ?thesis
    using assms(2) unfolding reconcilePolicy_def
    by (auto intro!: emits_only_bind [OF mat] spec_case_sum spec_ret)
qed

section \<open>Reached statuses\<close>

text \<open>The statuses a policy goes through when the server accepts the reconciler's patches, one after the
  other, in any environment state, with an unchanged specification.\<close>

inductive reached :: "'w env \<Rightarrow> 'w reconciler \<Rightarrow> DynamicSecretPolicy \<Rightarrow> DynamicSecretPolicy \<Rightarrow> bool" for E R p0 where
  fresh: "reached E R p0 p0"
| patched: "reached E R p0 p \<Longrightarrow> EPatchStatus p q e \<in> set (events_of (reconcilePolicy E R p) s) \<Longrightarrow> reached E R p0 q"

definition fresh_policy :: "DynamicSecretPolicy \<Rightarrow> bool" where
  "fresh_policy p \<longleftrightarrow> p_status p = \<lparr>CurrentRevision = '''', DesiredRevision = '''', ConsecutiveFailures = 0, Conditions = []\<rparr>"

lemma named_abs: "meta_laws L \<Longrightarrow> named_conditions p \<longleftrightarrow> a_conds (abs_status L p) '''' = None"
  by (auto simp: named_conditions_def abs_conds FindStatusCondition_list find_None_iff)

lemma astep_unnamed: "astep th ro s s' \<Longrightarrow> a_conds s '''' = None \<Longrightarrow> a_conds s' '''' = None"
  by (induction rule: astep.induct) auto

lemma abs_fresh: "meta_laws L \<Longrightarrow> fresh_policy p \<Longrightarrow> abs_status L p = a_init"
  by (simp add: fresh_policy_def abs_status_def a_init_def FindStatusCondition_list fun_eq_iff)

lemma breakerThreshold_spec: "p_spec q = p_spec p \<Longrightarrow> breakerThreshold q = breakerThreshold p"
  by (simp add: breakerThreshold_def)

lemma targetKind_spec: "p_spec q = p_spec p \<Longrightarrow> targetKind q = targetKind p"
  by (simp add: targetKind_def)

lemma reached_areach:
  assumes "meta_laws (libs E)" and "sources_readonly E R" and "fresh_policy p0" and "reached E R p0 p"
  shows "p_spec p = p_spec p0 \<and> named_conditions p \<and>
    areach (sint (breakerThreshold p0)) (targetKind p0 = KindRollout) (abs_status (libs E) p)"
  using assms(4)
proof (induction rule: reached.induct)
  case fresh
  from assms(1,3) show ?case
    by (auto simp: abs_fresh named_abs a_init_def intro: areach.init [unfolded a_init_def])
next
  case (patched p q e s)
  then have named: "named_conditions p" and sp: "p_spec p = p_spec p0" by blast+
  from spec_events [OF reconcilePolicy_refines [OF assms(1) named assms(2)]] patched(2)
  have "refines (libs E) p (EPatchStatus p q e)" by (auto simp: list_all_iff)
  then have q: "p_spec q = p_spec p" and st: "astep (sint (breakerThreshold p0)) (targetKind p0 = KindRollout)
      (abs_status (libs E) p) (abs_status (libs E) q)"
    using breakerThreshold_spec [OF sp] targetKind_spec [OF sp] by (simp_all add: refines_def)
  with patched(3) sp named astep_unnamed [OF st] show ?case
    by (auto simp: named_abs [OF assms(1)] intro: areach.step)
qed

lemma reached_inv:
  assumes "meta_laws (libs E)" and "sources_readonly E R" and "fresh_policy p0" and "reached E R p0 p"
  shows "counter_inv (sint (breakerThreshold p0)) (abs_status (libs E) p)" and "target_inv (abs_status (libs E) p)"
    and "targetKind p0 \<noteq> KindRollout \<Longrightarrow> phase_inv (abs_status (libs E) p)"
  using areach_inv [OF conjunct2 [OF conjunct2 [OF reached_areach [OF assms]]] breakerThreshold_pos] by blast+

section \<open>Metrics\<close>

lemma metric_ok_kinds:
  "is_metric ev \<Longrightarrow> metric_ok ev" "is_cleanup ev \<Longrightarrow> metric_ok ev" "is_app_update ev \<Longrightarrow> metric_ok ev"
  "gc_event p ev \<Longrightarrow> metric_ok ev" "is_validation ev \<Longrightarrow> metric_ok ev" "is_callback ev \<Longrightarrow> metric_ok ev"
  "is_metric_or_cleanup ev \<Longrightarrow> metric_ok ev" "is_netpol_creation ev \<Longrightarrow> metric_ok ev"
  "is_secret_creation ev \<Longrightarrow> metric_ok ev"
  by (cases ev; auto simp: gc_event_def)+

lemma metric_ok_all: "list_all P es \<Longrightarrow> (\<And>ev. P ev \<Longrightarrow> metric_ok ev) \<Longrightarrow> list_all metric_ok es"
  by (auto simp: list_all_iff)

lemma metric_ok_lists:
  "list_all is_cleanup es \<Longrightarrow> list_all metric_ok es" "list_all is_app_update es \<Longrightarrow> list_all metric_ok es"
  "list_all (gc_event p) es \<Longrightarrow> list_all metric_ok es" "list_all is_validation es \<Longrightarrow> list_all metric_ok es"
  "list_all is_callback es \<Longrightarrow> list_all metric_ok es" "list_all is_metric_or_cleanup es \<Longrightarrow> list_all metric_ok es"
  by (erule metric_ok_all, erule metric_ok_kinds)+

lemma shapes_metric_ok:
  "failure_events L ph p base es \<Longrightarrow> list_all metric_ok es"
  "promotion_events L p base es \<Longrightarrow> list_all metric_ok es"
  "prepared_events L p base es \<Longrightarrow> list_all metric_ok es"
  "halt_events L p base es \<Longrightarrow> list_all metric_ok es"
  unfolding failure_events_def promotion_events_def patched_events_def prepared_events_def rollout_patch_events_def canary_events_def
    halt_events_def
  by (auto dest!: metric_ok_lists simp: metric_ok_kinds split: if_splits)

lemma driftState_metrics: "emits_only metric_ok (driftState E R p base h)"
  by (rule spec_mono [OF driftState_events]) (auto dest!: metric_ok_lists simp: metric_ok_kinds)

lemma dispatch_metrics: "emits_only metric_ok (dispatch E R st p base h)"
proof -
  have "emits_only metric_ok (revisionPreparedState E p base)"
    by (rule spec_mono [OF revisionPreparedState_events]) (rule shapes_metric_ok)
  moreover have "emits_only metric_ok (canaryProvisioningState E p base)"
    unfolding canaryProvisioningState_def by (auto intro!: part_rules)
  moreover have "emits_only metric_ok (rolloutProgressingState E p base)"
    unfolding rolloutProgressingState_def
    by (auto intro!: spec_rules spec_mono [OF rolloutHealthyState_events] spec_mono [OF rolloutDegradedState_events]
        dest: shapes_metric_ok metric_ok_lists)
  moreover have "emits_only metric_ok (validatingState E R p base)"
    by (rule spec_mono [OF validatingState_events]) (auto simp: validating_events_def dest: shapes_metric_ok metric_ok_lists)
  moreover have "emits_only metric_ok (rolledBackState E p)"
    unfolding rolledBackState_def by (auto intro!: part_rules dest: metric_ok_lists)
  ultimately show ?thesis using driftState_metrics unfolding dispatch_def by (auto intro!: spec_ret)
qed

lemma reconcilePolicy_metrics:
  assumes "sources_readonly E R"
  shows "emits_only metric_ok (reconcilePolicy E R base)"
proof -
  have "emits_only metric_ok (haltReconcile E p base)" for p
    by (rule spec_mono [OF haltReconcile_events]) (auto dest: shapes_metric_ok)
  then have "emits_only metric_ok (continueReconcile E R base h)" for h
    using dispatch_metrics unfolding continueReconcile_def Let_def by (auto intro!: spec_if)
  moreover have "emits_only metric_ok (materializeSecretRevision E R base)"
    by (rule emits_only_mono [OF materialize_emits [OF assms]]) (auto dest: metric_ok_kinds)
  ultimately show ?thesis unfolding reconcilePolicy_def by (auto intro!: spec_if emits_only_bind spec_case_sum spec_ret)
qed

end
