(* ===== verification/Dso_Progress.thy ===== *)
theory Dso_Progress
  imports Dso_System
begin

text \<open>
  Progress: in a cooperative cluster a drift is followed by a promotion after a fixed number of
  reconciliations, whatever the state of the environment at each of them.
\<close>

section \<open>Cooperation\<close>

text \<open>The cluster cooperates with a policy: the target is there, creations are accepted or find the object,
  patches are accepted, and objects can be owned. Deletions may fail.\<close>

definition cooperative :: "'w env \<Rightarrow> DynamicSecretPolicy \<Rightarrow> bool" where
  "cooperative E p \<longleftrightarrow>
     (\<forall>w. \<exists>x w'. cl_getWorkload (client E) (targetKind p) (pol_namespace p) (target_name p) w = (Inr x, w')) \<and>
     (\<forall>d w. created_or_exists (fst (cl_createDeployment (client E) d w)) = None) \<and>
     (\<forall>n w. created_or_exists (fst (cl_createNetworkPolicy (client E) n w)) = None) \<and>
     (\<forall>u w. created_or_exists (fst (cl_createCilium (client E) u w)) = None) \<and>
     (\<forall>k a b w. fst (cl_patchWorkload (client E) k a b w) = None) \<and>
     (\<forall>a b w. \<exists>q. fst (cl_patchStatus (client E) a b w) = Inr q) \<and>
     (\<forall>q m. \<exists>m'. SetControllerReference (libs E) q m = Inr m')"

text \<open>The same policy at another time: status and resource version may have changed.\<close>

abbreviation same_policy :: "DynamicSecretPolicy \<Rightarrow> DynamicSecretPolicy \<Rightarrow> bool" where
  "same_policy p q \<equiv> p_spec q = p_spec p \<and> pol_name q = pol_name p \<and> pol_namespace q = pol_namespace p"

text \<open>The environment delivers the revision \<open>h\<close>: the source has it, its secret can be stored, and every probe
  of the policy passes against it.\<close>

definition delivers :: "'w env \<Rightarrow> 'w reconciler \<Rightarrow> DynamicSecretPolicy \<Rightarrow> string \<Rightarrow> bool" where
  "delivers E R p h \<longleftrightarrow>
     spec (materializeSecretRevision E R p) (\<lambda>r es. r = Inr h) \<and>
     (\<forall>q. same_policy p q \<and> DesiredRevision (p_status q) = h \<longrightarrow>
        spec (reconcileValidationProbes E R q) (\<lambda>r es. r = Inr noRequeue))"

text \<open>Argo reports the target Rollout as healthy in its observed generation.\<close>

definition rollout_healthy :: "'w env \<Rightarrow> DynamicSecretPolicy \<Rightarrow> bool" where
  "rollout_healthy E p \<longleftrightarrow>
     (\<forall>w x w'. cl_getWorkload (client E) KindRollout (pol_namespace p) (target_name p) w = (Inr x, w') \<longrightarrow>
        w_observedGeneration x = FormatInt (om_generation (w_meta x)) \<and> w_phase x = ''Healthy'')"

text \<open>Sample policies: never reconciled, without probes, with a Deployment and with a Rollout as its target.\<close>

definition unprobed_sample :: "string \<Rightarrow> DynamicSecretPolicy" where
  "unprobed_sample kind = sample_policy\<lparr>
     p_spec := sample_spec\<lparr>spec_ValidationProbes := [], spec_WorkloadSelector := \<lparr>ws_Kind = kind, ws_Name = ''web''\<rparr>\<rparr>,
     p_status := \<lparr>CurrentRevision = '''', DesiredRevision = '''', ConsecutiveFailures = 0, Conditions = []\<rparr>\<rparr>"

definition sample_revision :: string where
  "sample_revision = revisionHash \<lparr>sp_Data = [(''db'', ''v'')], sp_Version = ''1''\<rparr>"

text \<open>One reconciliation that asks to be repeated and whose status patch was accepted.\<close>

definition patches_to :: "DynamicSecretPolicy \<Rightarrow> (DynamicSecretPolicy \<Rightarrow> bool) \<Rightarrow> err + result \<Rightarrow> event list \<Rightarrow> bool" where
  "patches_to p Q r es \<longleftrightarrow> r = Inr requeueNow \<and> (\<exists>q. EPatchStatus p q None \<in> set es \<and> Q q)"

text \<open>After exactly so many reconciliations, each on the status the one before left and in an arbitrary
  state of the environment, the revision is the current one and no rotation is under way.\<close>

primrec promoted_after :: "nat \<Rightarrow> 'w env \<Rightarrow> 'w reconciler \<Rightarrow> string \<Rightarrow> DynamicSecretPolicy \<Rightarrow> bool" where
  "promoted_after 0 E R h p \<longleftrightarrow> CurrentRevision (p_status p) = h \<and> DesiredRevision (p_status p) = ''''"
| "promoted_after (Suc n) E R h p \<longleftrightarrow> spec (reconcilePolicy E R p) (patches_to p (promoted_after n E R h))"

section \<open>Phases\<close>

definition phase_types :: "string list" where
  "phase_types = [RolledBack, CircuitBreakerTripped, Validating, RolloutProgressing, CanaryProvisioning, RevisionPrepared]"

text \<open>The rotation to \<open>h\<close> of the policy \<open>p0\<close> is in the phase of the given condition and in no other.\<close>

definition in_phase :: "Libs \<Rightarrow> DynamicSecretPolicy \<Rightarrow> string \<Rightarrow> string \<Rightarrow> DynamicSecretPolicy \<Rightarrow> bool" where
  "in_phase L p0 h t p \<longleftrightarrow>
     same_policy p0 p \<and> DesiredRevision (p_status p) = h \<and> failures p = 0 \<and>
     list_all (\<lambda>x. FindStatusCondition L (conds p) x \<noteq> None \<longleftrightarrow> x = t) phase_types"

lemma in_phase_find:
  "in_phase L p0 h t p \<Longrightarrow> x \<in> set phase_types \<Longrightarrow> FindStatusCondition L (conds p) x = None \<longleftrightarrow> x \<noteq> t"
  by (auto simp: in_phase_def list_all_iff)

lemma in_phase_state:
  assumes "meta_laws L" and "in_phase L p0 h t p" and "h \<noteq> ''''"
    and "t \<in> {RevisionPrepared, CanaryProvisioning, Validating, RolloutProgressing}"
  shows "determineState L p = t" and "\<not> breakerOpen L p"
proof -
  have f: "FindStatusCondition L (conds p) RolledBack = None \<longleftrightarrow> RolledBack \<noteq> t"
    "FindStatusCondition L (conds p) CircuitBreakerTripped = None \<longleftrightarrow> CircuitBreakerTripped \<noteq> t"
    "FindStatusCondition L (conds p) Validating = None \<longleftrightarrow> Validating \<noteq> t"
    "FindStatusCondition L (conds p) RolloutProgressing = None \<longleftrightarrow> RolloutProgressing \<noteq> t"
    "FindStatusCondition L (conds p) CanaryProvisioning = None \<longleftrightarrow> CanaryProvisioning \<noteq> t"
    "FindStatusCondition L (conds p) RevisionPrepared = None \<longleftrightarrow> RevisionPrepared \<noteq> t"
    by (rule in_phase_find [OF assms(2)], simp add: phase_types_def)+
  have p: "DesiredRevision (p_status p) = h" "failures p = 0" using assms(2) by (simp_all add: in_phase_def)
  from assms(4) consider "t = RevisionPrepared" | "t = CanaryProvisioning" | "t = Validating" | "t = RolloutProgressing"
    unfolding insert_iff empty_iff by argo
  then show "determineState L p = t"
    using f p(1) assms(3) by cases (simp_all add: determineState_def IsStatusConditionTrue_iff [OF assms(1)])
  from f(2) assms(4) have "FindStatusCondition L (conds p) CircuitBreakerTripped = None" by auto
  then show "\<not> breakerOpen L p"
    using p(2) breakerThreshold_pos [of p]
    by (simp add: breakerOpen_def thresholdReached_def IsStatusConditionTrue_iff [OF assms(1)])
qed

lemma in_phase_dispatch:
  assumes "meta_laws (libs E)" and "in_phase (libs E) p0 h t p" and "h \<noteq> ''''"
    and "t \<in> {RevisionPrepared, CanaryProvisioning, Validating, RolloutProgressing}"
  shows "reconcilePolicy E R p = dispatch E R t p p ''''"
proof -
  have "t \<noteq> ''''" using assms(4) by auto
  with in_phase_state [OF assms] show ?thesis by (simp add: reconcilePolicy_def continueReconcile_def drifted_def)
qed

text \<open>Leaving one phase for the next.\<close>

lemma in_phase_next:
  assumes "meta_laws L" and "in_phase L p0 h t p" and "c_type c = t'" and "t' \<noteq> t"
  shows "in_phase L p0 h t' (setCond L c (removeCond L t p))"
  using assms(2-4) in_phase_find [OF assms(2)]
  by (simp add: in_phase_def list_all_iff setCond_def removeCond_def Find_Set [OF assms(1)] Find_Remove [OF assms(1)])

section \<open>Accepted calls\<close>

lemma spec_updateStatus_ok:
  assumes "cooperative E p0" and "\<And>q. Q (None, q) [EPatchStatus base (setCond (libs E) c p) None]"
  shows "spec (updateStatus E p base c) Q"
proof -
  have "\<exists>x. r = Inr x" if "cl_patchStatus (client E) base q w = (r, w')" for q r w w'
    using assms(1) that unfolding cooperative_def by (metis fst_conv)
  then have "spec (patchStatus E base q) (\<lambda>r es. (\<exists>x. r = Inr x) \<and> es = [EPatchStatus base q None])" for q
    unfolding patchStatus_def by (intro spec_call_reply) (metis err_of_simps(2))
  note patch = spec_mono [OF this]
  show ?thesis unfolding updateStatus_def Let_def by (auto intro!: spec_bind patch spec_ret assms(2))
qed

lemma spec_query_ok: "\<forall>w. \<exists>x w'. f w = (Inr x, w') \<Longrightarrow> (\<And>x. Q (Inr x) []) \<Longrightarrow> spec (query f) Q"
  by (rule spec_query_reply) (metis prod.inject)

lemma spec_owned_ok:
  assumes "cooperative E p0" and "\<And>m'. spec (g m') Q"
  shows "spec (case SetControllerReference (libs E) q m of Inl e \<Rightarrow> f e | Inr m' \<Rightarrow> g m') Q"
proof -
  from assms(1) obtain m' where "SetControllerReference (libs E) q m = Inr m'" unfolding cooperative_def by blast
  with assms(2) show ?thesis by simp
qed

lemma spec_fetch_ok:
  assumes "NewAdapter k = Inr A" and "k \<noteq> []" and "\<forall>w. \<exists>x w'. cl_getWorkload (client E) k ns n w = (Inr x, w')" and "\<And>x. Q (Inr x) []"
  shows "spec (wa_Fetch A E ns n) Q"
  using assms
  by (auto simp: NewAdapter_def DeploymentAdapter_def StatefulSetAdapter_def DaemonSetAdapter_def RolloutAdapter_def
      intro!: spec_bind spec_query_ok spec_ret split: if_splits)

lemma spec_promote_ok:
  assumes "cooperative E p0" and "NewAdapter k = Inr A" and "\<And>es. Q None es"
  shows "spec (wa_Promote A E w q s) Q"
proof -
  have "spec (patchWorkload E k' a b) (\<lambda>r es. r = None)" for k' a b
    unfolding patchWorkload_def using assms(1) by (intro spec_call_reply) (metis cooperative_def fst_conv)
  note patch = spec_mono [OF this]
  from assms(2,3) show ?thesis
    by (auto simp: NewAdapter_def DeploymentAdapter_def StatefulSetAdapter_def DaemonSetAdapter_def RolloutAdapter_def
        intro!: spec_bind patch spec_ret split: if_splits)
qed

lemma spec_provision_ok:
  assumes "cooperative E p0" and "\<And>n es. Q (Inr n) es"
  shows "spec (provisionNetworkPolicy E p) Q"
proof -
  have c: "spec (createCilium E u) (\<lambda>r es. created_or_exists r = None)" for u
    unfolding createCilium_def using assms(1) by (intro spec_call_reply) (metis cooperative_def fst_conv)
  have n: "spec (createNetworkPolicy E u) (\<lambda>r es. created_or_exists r = None)" for u
    unfolding createNetworkPolicy_def using assms(1) by (intro spec_call_reply) (metis cooperative_def fst_conv)
  show ?thesis
    unfolding provisionNetworkPolicy_def
    by (auto intro!: spec_bind BuildNetworkPolicy_silent [THEN spec_silent] BuildCilium_silent [THEN spec_silent]
        spec_owned_ok [OF assms(1)] spec_mono [OF c] spec_mono [OF n] spec_ret assms(2))
qed

section \<open>One reconciliation per phase\<close>

lemma patched_step:
  assumes "cooperative E p0" and "Q (setCond (libs E) (trueCond t r m) q)"
  shows "spec (State_Monad.bind (updateStatus E q p (trueCond t r m))
      (\<lambda>u. case fst u of None \<Rightarrow> ret (Inr requeueNow) | Some e \<Rightarrow> ret (Inl e))) (\<lambda>x es. patches_to p Q x (xs @ es))"
  by (rule spec_bind, rule spec_updateStatus_ok [OF assms(1)]) (auto intro!: spec_ret exI assms(2) simp: patches_to_def)

lemma prepared_step:
  fixes E :: "'w env"
  assumes "meta_laws (libs E)" and "cooperative E p0" and "in_phase (libs E) p0 h RevisionPrepared p"
    and "targetKind p0 \<in> {KindDeployment, KindStatefulSet, KindDaemonSet}"
  shows "spec (revisionPreparedState E p p) (patches_to p (in_phase (libs E) p0 h CanaryProvisioning))"
proof -
  have same: "targetKind p = targetKind p0" "pol_namespace p = pol_namespace p0" "target_name p = target_name p0"
    using assms(3) by (auto simp: in_phase_def intro: targetKind_spec)
  have get: "\<forall>w. \<exists>x w'. cl_getWorkload (client E) (targetKind p0) (pol_namespace p0) (target_name p0) w = (Inr x, w')"
    using assms(2) by (simp add: cooperative_def)
  have create: "spec (createDeployment E d) (\<lambda>r es. created_or_exists r = None)" for d
    unfolding createDeployment_def using assms(2) by (intro spec_call_reply) (metis cooperative_def fst_conv)
  have next_phase: "in_phase (libs E) p0 h CanaryProvisioning (setCond (libs E) (trueCond CanaryProvisioning r m) (removeCond (libs E) RevisionPrepared p))" for r m
    by (rule in_phase_next [OF assms(1,3)]) (simp_all add: trueCond_def)
  have canary: "spec (canaryPatchState E d p p) (\<lambda>x es. patches_to p (in_phase (libs E) p0 h CanaryProvisioning) x es)" for d
    unfolding canaryPatchState_def
    by (auto intro!: spec_owned_ok [OF assms(2)] spec_bind [where m = "createDeployment E _"] spec_mono [OF create]
        spec_bind [where m = "provisionNetworkPolicy E _"] spec_provision_ok [OF assms(2)] patched_step [OF assms(2)] next_phase
        simp: append_assoc [symmetric] simp del: append_assoc)
  from assms(4) obtain A :: "'w WorkloadAdapter" where A: "NewAdapter (targetKind p0) = Inr A" "\<And>w s. \<exists>d. wa_BuildCanary A w p s = Some d"
    by (auto simp: NewAdapter_def DeploymentAdapter_def StatefulSetAdapter_def DaemonSetAdapter_def)
  have "spec (case wa_BuildCanary A w p s of None \<Rightarrow> f | Some d \<Rightarrow> canaryPatchState E d p p)
      (patches_to p (in_phase (libs E) p0 h CanaryProvisioning))" for w s f
    using A(2) [of w s] canary by auto
  then show ?thesis
    unfolding revisionPreparedState_def same A(1) sum.case
    by (auto intro!: spec_bind spec_fetch_ok [OF A(1) targetKind_nonempty get])
qed

lemma provisioning_step:
  assumes "meta_laws (libs E)" and "cooperative E p0" and "in_phase (libs E) p0 h CanaryProvisioning p"
  shows "spec (canaryProvisioningState E p p) (patches_to p (in_phase (libs E) p0 h Validating))"
  unfolding canaryProvisioningState_def
  by (rule patched_step [OF assms(2), where xs = "[]", simplified], rule in_phase_next [OF assms(1,3)]) (simp_all add: trueCond_def)

lemma promote_ok:
  fixes E :: "'w env" and A :: "'w WorkloadAdapter"
  assumes "cooperative E p0" and "targetKind p = targetKind p0" and "pol_namespace p = pol_namespace p0" and "target_name p = target_name p0"
    and "NewAdapter (targetKind p0) = Inr A"
  shows "spec (promoteTargetWorkload E p) (\<lambda>r es. r = None)"
proof -
  have get: "\<forall>w. \<exists>x w'. cl_getWorkload (client E) (targetKind p0) (pol_namespace p0) (target_name p0) w = (Inr x, w')"
    using assms(1) by (simp add: cooperative_def)
  show ?thesis
    unfolding promoteTargetWorkload_def assms(2-5) sum.case
    by (auto intro!: spec_bind spec_fetch_ok [OF assms(5) targetKind_nonempty get] argo_emits [THEN spec_emits_only] spec_promote_ok [OF assms(1,5)]
        gc_emits [THEN spec_emits_only] spec_ret)
qed

text \<open>The end of a rotation to \<open>h\<close>: it is the current revision, and nothing is left of the rotation.\<close>

definition settled :: "Libs \<Rightarrow> DynamicSecretPolicy \<Rightarrow> string \<Rightarrow> DynamicSecretPolicy \<Rightarrow> bool" where
  "settled L p0 h p \<longleftrightarrow> same_policy p0 p \<and> CurrentRevision (p_status p) = h \<and> DesiredRevision (p_status p) = '''' \<and> failures p = 0 \<and>
     FindStatusCondition L (conds p) CircuitBreakerTripped = None"

lemma settled_after: "settled L p0 h p \<Longrightarrow> promoted_after 0 E R h p"
  by (simp add: settled_def)

lemma in_phase_promoted:
  assumes "meta_laws L" and "in_phase L p0 h t p" and "c_type c = Promoting" and "t \<noteq> CircuitBreakerTripped"
  shows "settled L p0 h (setCond L c (removeCond L t (advanceRevision (setFailures 0 p))))"
  using assms(2-4) in_phase_find [OF assms(2), of CircuitBreakerTripped]
  by (simp add: settled_def in_phase_def phase_types_def setCond_def removeCond_def advanceRevision_def setFailures_def
      Find_Set [OF assms(1)] Find_Remove [OF assms(1)])

lemma patches_to_mono: "patches_to p Q r es \<Longrightarrow> (\<And>q. Q q \<Longrightarrow> Q' q) \<Longrightarrow> patches_to p Q' r es"
  by (auto simp: patches_to_def)

text \<open>A validation without a failure either leaves the rotation waiting or ends it.\<close>

lemma validation_step:
  fixes E :: "'w env" and A :: "'w WorkloadAdapter"
  assumes "meta_laws (libs E)" and "cooperative E p0" and "in_phase (libs E) p0 h Validating p"
    and "NewAdapter (targetKind p0) = Inr A" and "spec (reconcileValidationProbes E R p) (\<lambda>r es. \<exists>x. r = Inr x \<and> P x es)"
  shows "spec (validatingState E R p p)
    (\<lambda>r es. (\<exists>x. r = Inr x \<and> pending x \<and> P x es) \<or> patches_to p (settled (libs E) p0 h) r es)"
proof -
  let ?p = "setFailures 0 p"
  have same: "targetKind ?p = targetKind p0" "pol_namespace ?p = pol_namespace p0" "target_name ?p = target_name p0"
    using assms(3) by (auto simp: in_phase_def setFailures_def targetKind_def)
  have fin: "settled (libs E) p0 h (setCond (libs E) (trueCond Promoting r m) (removeCond (libs E) Validating (advanceRevision ?p)))" for r m
    by (rule in_phase_promoted [OF assms(1,3)]) (simp_all add: trueCond_def)
  have "spec (promoteState E p p) (\<lambda>x es. patches_to p (settled (libs E) p0 h) x (xs @ es))" for xs
    unfolding promoteState_def Let_def
    by (auto intro!: spec_bind [where m = "promoteTargetWorkload E _"] spec_mono [OF promote_ok [OF assms(2) same assms(4)]]
        spec_bind [where m = "CleanupCanaryResources E _"] cleanup_emits [THEN spec_emits_only] patched_step [OF assms(2)] fin
        simp: append_assoc [symmetric] simp del: append_assoc)
  note promote = spec_mono [OF this]
  show ?thesis
    unfolding validatingState_def
    by (rule spec_bind, rule spec_mono [OF assms(5)]) (auto intro!: spec_if spec_ret promote)
qed

lemma validating_step:
  fixes E :: "'w env" and A :: "'w WorkloadAdapter"
  assumes "meta_laws (libs E)" and "cooperative E p0" and "in_phase (libs E) p0 h Validating p"
    and "NewAdapter (targetKind p0) = Inr A" and "spec (reconcileValidationProbes E R p) (\<lambda>r es. r = Inr noRequeue)"
  shows "spec (validatingState E R p p) (patches_to p (promoted_after 0 E R h))"
proof -
  from assms(5) have "spec (reconcileValidationProbes E R p) (\<lambda>r es. \<exists>x. r = Inr x \<and> x = noRequeue)" by simp
  from validation_step [OF assms(1-4) this] show ?thesis
    by (rule spec_mono) (auto simp: pending_def noRequeue_def elim: patches_to_mono simp del: promoted_after.simps intro: settled_after)
qed

text \<open>A Rollout is validated by Argo: its own progressive delivery takes the place of the canary and the probes.\<close>

lemma rollout_prepared_step:
  fixes E :: "'w env"
  assumes "meta_laws (libs E)" and "cooperative E p0" and "in_phase (libs E) p0 h RevisionPrepared p" and "targetKind p0 = KindRollout"
  shows "spec (revisionPreparedState E p p) (patches_to p (in_phase (libs E) p0 h RolloutProgressing))"
proof -
  have same: "targetKind p = targetKind p0" "pol_namespace p = pol_namespace p0" "target_name p = target_name p0"
    using assms(3) by (auto simp: in_phase_def intro: targetKind_spec)
  have A: "NewAdapter (targetKind p0) = Inr RolloutAdapter" using assms(4) by (simp add: NewAdapter_def)
  have get: "\<forall>w. \<exists>x w'. cl_getWorkload (client E) (targetKind p0) (pol_namespace p0) (target_name p0) w = (Inr x, w')"
    using assms(2) by (simp add: cooperative_def)
  have next_phase: "in_phase (libs E) p0 h RolloutProgressing (setCond (libs E) (trueCond RolloutProgressing r m) (removeCond (libs E) RevisionPrepared p))" for r m
    by (rule in_phase_next [OF assms(1,3)]) (simp_all add: trueCond_def)
  have "spec (rolloutPatchState E RolloutAdapter w p p) (patches_to p (in_phase (libs E) p0 h RolloutProgressing))" for w
    unfolding rolloutPatchState_def
    by (auto intro!: spec_bind [where m = "ReconcileArgoCDIgnoreDifferences E _ _"] argo_emits [THEN spec_emits_only]
        spec_bind [where m = "wa_Promote _ E _ _ _"] spec_promote_ok [OF assms(2) A] patched_step [OF assms(2)] next_phase
        simp: append_assoc [symmetric] simp del: append_assoc)
  moreover have "wa_BuildCanary (RolloutAdapter :: 'w WorkloadAdapter) w p s = None" for w s by (simp add: RolloutAdapter_def)
  ultimately show ?thesis
    unfolding revisionPreparedState_def same A sum.case
    by (auto intro!: spec_bind spec_fetch_ok [OF A targetKind_nonempty get])
qed

lemma rollout_healthy_step:
  assumes "cooperative E p0" and "in_phase (libs E) p0 h RolloutProgressing p" and "targetKind p0 = KindRollout" and "rollout_healthy E p0"
  shows "spec (rolloutProgressingState E p p) (patches_to p (promoted_after 0 E R h))"
proof -
  have same: "pol_namespace p = pol_namespace p0" "target_name p = target_name p0" using assms(2) by (auto simp: in_phase_def)
  have get: "spec (query (cl_getWorkload (client E) KindRollout (pol_namespace p0) (target_name p0)))
      (\<lambda>r es. es = [] \<and> (\<exists>x. r = Inr x \<and> w_observedGeneration x = FormatInt (om_generation (w_meta x)) \<and> w_phase x = ''Healthy''))"
  proof (rule spec_query_reply)
    fix r w w' assume "cl_getWorkload (client E) KindRollout (pol_namespace p0) (target_name p0) w = (r, w')"
    with assms(1,3,4) show "[] = [] \<and> (\<exists>x. r = Inr x \<and> w_observedGeneration x = FormatInt (om_generation (w_meta x)) \<and> w_phase x = ''Healthy'')"
      unfolding cooperative_def rollout_healthy_def by (metis prod.inject)
  qed
  have fin: "promoted_after 0 E R h (setCond (libs E) c (removeCond (libs E) RolloutProgressing (advanceRevision (setFailures 0 p))))" for c
    using assms(2) by (simp add: in_phase_def setCond_def removeCond_def advanceRevision_def setFailures_def)
  have "spec (rolloutHealthyState E p p) (patches_to p (promoted_after 0 E R h))"
    unfolding rolloutHealthyState_def Let_def
    by (auto intro!: spec_bind [where m = "gcOldSecretRevisions E _ _"] gc_emits [THEN spec_emits_only] patched_step [OF assms(1)] fin
        simp del: promoted_after.simps)
  then show ?thesis
    unfolding rolloutProgressingState_def same by (auto intro!: spec_bind spec_mono [OF get])
qed

section \<open>The start of a rotation\<close>

lemma in_phase_drift:
  assumes "meta_laws L" and "FindStatusCondition L (conds p) RolloutProgressing = None" and "c_type c = RevisionPrepared"
  shows "in_phase L p h RevisionPrepared (setCond L c (driftStatus L h (resetForDrift L h p)))"
  using assms
  by (simp add: in_phase_def phase_types_def driftStatus_def resetForDrift_def setDesired_def setFailures_def setCond_def removeCond_def
      Find_Set [OF assms(1)] Find_Remove [OF assms(1)])

lemma drift_step:
  assumes "meta_laws (libs E)" and "cooperative E p" and "FindStatusCondition (libs E) (conds p) RolloutProgressing = None"
    and "drifted p h"
  shows "spec (driftState E R (resetForDrift (libs E) h p) p h) (\<lambda>x es. patches_to p (in_phase (libs E) p h RevisionPrepared) x (xs @ es))"
proof -
  have in_phase: "in_phase (libs E) p h RevisionPrepared
      (setCond (libs E) (trueCond RevisionPrepared r m) (driftStatus (libs E) h (resetForDrift (libs E) h p)))" for r m
    by (rule in_phase_drift [OF assms(1,3)]) (simp add: trueCond_def)
  have "CurrentRevision (p_status (resetForDrift (libs E) h p)) \<noteq> h"
    using assms(4) by (simp add: drifted_def resetForDrift_def removeCond_def setDesired_def setFailures_def)
  with in_phase show ?thesis
    unfolding driftState_def countMetric_def onMaterialized_def
    by (auto intro!: spec_bind spec_emit spec_updateStatus_ok [OF assms(2)] spec_call spec_ret exI simp: patches_to_def split: option.splits)
qed

lemma rotation_step:
  assumes "meta_laws (libs E)" and "cooperative E p" and "FindStatusCondition (libs E) (conds p) RolloutProgressing = None"
    and "drifted p h" and "DesiredRevision (p_status p) = '''' \<or> breakerOpen (libs E) p"
    and "spec (materializeSecretRevision E R p) (\<lambda>r es. r = Inr h)"
  shows "spec (reconcilePolicy E R p) (patches_to p (in_phase (libs E) p h RevisionPrepared))"
proof -
  have start: "determineState (libs E) p = '''' \<or> breakerOpen (libs E) p" using assms(5) by (auto simp: determineState_def)
  have "continueReconcile E R p h = driftState E R (resetForDrift (libs E) h p) p h"
    using assms(4) reset_closes [OF assms(1)] by (simp add: continueReconcile_def dispatch_def)
  with drift_step [OF assms(1-4)] start show ?thesis
    unfolding reconcilePolicy_def by (auto intro!: spec_bind spec_mono [OF assms(6)])
qed

section \<open>A whole rotation\<close>

lemma promoted_chain:
  assumes "\<And>q. Q q \<Longrightarrow> promoted_after n E R h q" and "spec (reconcilePolicy E R p) (patches_to p Q)"
  shows "promoted_after (Suc n) E R h p"
  unfolding promoted_after.simps by (rule spec_mono [OF assms(2)]) (use assms(1) in \<open>auto simp: patches_to_def\<close>)

lemma format_zero: "FormatInt 0 = ''0''"
  by code_simp

lemma sample_cooperative: "cooperative sample_world p"
  by (simp add: cooperative_def created_or_exists_def sample_defs list_libs_def)

lemma unprobed_facts:
  "FindStatusCondition (libs sample_world) (conds (unprobed_sample k)) RolloutProgressing = None"
  "drifted (unprobed_sample k) sample_revision" "DesiredRevision (p_status (unprobed_sample k)) = ''''"
  "targetKind (unprobed_sample KindDeployment) = KindDeployment" "targetKind (unprobed_sample KindRollout) = KindRollout"
  using revisionHash_length [of "\<lparr>sp_Data = [(''db'', ''v'')], sp_Version = ''1''\<rparr>"]
  by (auto simp: unprobed_sample_def sample_revision_def drifted_def targetKind_def find_condition_def list_libs_def sample_world_def)

lemma unprobed_materialize:
  "spec (materializeSecretRevision sample_world sample_reconciler (unprobed_sample k)) (\<lambda>r es. r = Inr sample_revision)"
proof -
  have "result_of (materializeSecretRevision sample_world sample_reconciler (unprobed_sample k)) s = Inr sample_revision" for s
    by (simp add: result_of_def materializeSecretRevision_def activeRegistry_def sample_reconciler_def Registry_Get_def sample_revision_def
        GetResolvedSource_def unprobed_sample_def createSecret_def call_def list_libs_def Let_def sample_defs)
  then show ?thesis by (auto intro: spec_mono [OF spec_result [OF materialize_emits [OF sample_readonly]]])
qed



text \<open>A Rollout target is promoted after exactly three reconciliations once Argo reports the patched Rollout
  healthy: prepared, patched and progressing, promoted.\<close>

theorem rollout_completes:
  assumes "meta_laws (libs E)" and "cooperative E p" and "FindStatusCondition (libs E) (conds p) RolloutProgressing = None"
    and "drifted p h" and "DesiredRevision (p_status p) = '''' \<or> breakerOpen (libs E) p"
    and "targetKind p = KindRollout" and "rollout_healthy E p" and "spec (materializeSecretRevision E R p) (\<lambda>r es. r = Inr h)"
  shows "promoted_after 3 E R h p"
proof -
  let ?in = "in_phase (libs E) p h"
  from assms(4) have h: "h \<noteq> ''''" by (simp add: drifted_def)
  have v: "promoted_after (Suc 0) E R h q" if q: "?in RolloutProgressing q" for q
    by (rule promoted_chain) (use rollout_healthy_step [OF assms(2) q assms(6,7)] in \<open>simp_all add: in_phase_dispatch [OF assms(1) q h] dispatch_def del: promoted_after.simps\<close>)
  have r: "promoted_after (Suc (Suc 0)) E R h q" if q: "?in RevisionPrepared q" for q
    by (rule promoted_chain [OF v]) (use rollout_prepared_step [OF assms(1,2) q assms(6)] in \<open>simp_all add: in_phase_dispatch [OF assms(1) q h] dispatch_def\<close>)
  from promoted_chain [OF r rotation_step [OF assms(1-5,8)]] show ?thesis by (simp add: eval_nat_numeral del: promoted_after.simps)
qed

theorem rollout_completes_witness:
  "promoted_after 3 sample_world sample_reconciler sample_revision (unprobed_sample KindRollout)"
  by (rule rollout_completes [OF sample_laws sample_cooperative unprobed_facts(1,2) disjI1 [OF unprobed_facts(3)] unprobed_facts(5) _ unprobed_materialize])
    (simp add: rollout_healthy_def format_zero sample_defs)

section \<open>Reached phases\<close>

lemma patched_reached:
  assumes "spec (reconcilePolicy E R p) (patches_to p Q)" and "reached E R p0 p"
  shows "\<exists>q. reached E R p0 q \<and> Q q"
proof -
  from spec_events [OF assms(1), of undefined] obtain q
    where "EPatchStatus p q None \<in> set (events_of (reconcilePolicy E R p) undefined)" "Q q" by (auto simp: patches_to_def)
  with assms(2) show ?thesis by (blast intro: reached.patched)
qed

text \<open>The sample policy reaches the validation of its first revision.\<close>

lemma sample_validating:
  "\<exists>q. reached sample_world sample_reconciler (unprobed_sample KindDeployment) q \<and>
     in_phase (libs sample_world) (unprobed_sample KindDeployment) sample_revision Validating q"
proof -
  let ?E = sample_world and ?p = "unprobed_sample KindDeployment"
  have h: "sample_revision \<noteq> ''''" using unprobed_facts(2) by (simp add: drifted_def)
  note dispatched = in_phase_dispatch [OF sample_laws _ h]
  from patched_reached [OF rotation_step [OF sample_laws sample_cooperative unprobed_facts(1,2) disjI1 [OF unprobed_facts(3)]
        unprobed_materialize] reached.fresh]
  obtain q1 where q1: "reached ?E sample_reconciler ?p q1" "in_phase (libs ?E) ?p sample_revision RevisionPrepared q1" by blast
  have "spec (reconcilePolicy ?E sample_reconciler q1) (patches_to q1 (in_phase (libs ?E) ?p sample_revision CanaryProvisioning))"
    using prepared_step [OF sample_laws sample_cooperative q1(2)] by (simp add: dispatched [OF q1(2)] dispatch_def unprobed_facts)
  from patched_reached [OF this q1(1)]
  obtain q2 where q2: "reached ?E sample_reconciler ?p q2" "in_phase (libs ?E) ?p sample_revision CanaryProvisioning q2" by blast
  have "spec (reconcilePolicy ?E sample_reconciler q2) (patches_to q2 (in_phase (libs ?E) ?p sample_revision Validating))"
    using provisioning_step [OF sample_laws sample_cooperative q2(2)] by (simp add: dispatched [OF q2(2)] dispatch_def)
  from patched_reached [OF this q2(1)] show ?thesis .
qed

end
