(* ===== verification/Dso_Trips.thy ===== *)
theory Dso_Trips
  imports Dso_Progress
begin

text \<open>
  The other end of a rotation: in a cooperative cluster a revision whose validation keeps failing
  opens the circuit breaker after a fixed number of reconciliations, and the workload is not
  patched on the way.
\<close>

section \<open>Failing validations\<close>

text \<open>The source has the revision \<open>h\<close>, its secret can be stored, and its validation always fails.\<close>

definition rejects :: "'w env \<Rightarrow> 'w reconciler \<Rightarrow> DynamicSecretPolicy \<Rightarrow> string \<Rightarrow> bool" where
  "rejects E R p h \<longleftrightarrow>
     spec (materializeSecretRevision E R p) (\<lambda>r es. r = Inr h) \<and>
     (\<forall>q. same_policy p q \<and> DesiredRevision (p_status q) = h \<longrightarrow>
        spec (reconcileValidationProbes E R q) (\<lambda>r es. \<exists>e. r = Inl e))"

text \<open>After exactly so many reconciliations, each on the status the one before left and in an
  arbitrary state of the environment, the breaker is open. None of them patches a workload; all
  but the last are repeated, at once or after an error.\<close>

primrec tripped_after :: "nat \<Rightarrow> 'w env \<Rightarrow> 'w reconciler \<Rightarrow> DynamicSecretPolicy \<Rightarrow> bool" where
  "tripped_after 0 E R p \<longleftrightarrow> breakerOpen (libs E) p"
| "tripped_after (Suc n) E R p \<longleftrightarrow> spec (reconcilePolicy E R p) (\<lambda>r es. quiet es \<and>
     (if n = 0 then r = Inr noRequeue else r = Inr requeueNow \<or> (\<exists>e. r = Inl e)) \<and>
     (\<exists>q. EPatchStatus p q None \<in> set es \<and> (breakerOpen (libs E) q \<longleftrightarrow> n = 0) \<and> tripped_after n E R q))"

text \<open>The validation of \<open>h\<close> for the policy \<open>p0\<close> has failed \<open>n\<close> times.\<close>

definition failed_times :: "Libs \<Rightarrow> DynamicSecretPolicy \<Rightarrow> string \<Rightarrow> nat \<Rightarrow> DynamicSecretPolicy \<Rightarrow> bool" where
  "failed_times L p0 h n p \<longleftrightarrow>
     same_policy p0 p \<and> DesiredRevision (p_status p) = h \<and> sint (failures p) = int n \<and>
     list_all (\<lambda>x. FindStatusCondition L (conds p) x \<noteq> None \<longleftrightarrow> x = Validating) phase_types"

definition threshold :: "DynamicSecretPolicy \<Rightarrow> nat" where
  "threshold p = nat (sint (breakerThreshold p))"

text \<open>A sample policy whose only probe is a Job probe without a Job, which fails every time.\<close>

definition rejected_sample :: DynamicSecretPolicy where
  "rejected_sample = sample_policy\<lparr>
     p_spec := sample_spec\<lparr>spec_ValidationProbes := [\<lparr>vp_Type = ProbeTypeJob, vp_Endpoint = '''', vp_QueryTimeout = 0,
         vp_Credentials = None, vp_Job = None\<rparr>],
       spec_WorkloadSelector := \<lparr>ws_Kind = KindDeployment, ws_Name = ''web''\<rparr>\<rparr>,
     p_status := \<lparr>CurrentRevision = '''', DesiredRevision = '''', ConsecutiveFailures = 0, Conditions = []\<rparr>\<rparr>"

section \<open>Lemmas\<close>

lemma threshold_spec: "p_spec p = p_spec q \<Longrightarrow> threshold p = threshold q"
  by (simp add: threshold_def breakerThreshold_def)

lemma failed_zero: "in_phase L p0 h Validating p \<Longrightarrow> failed_times L p0 h 0 p"
  by (simp add: failed_times_def in_phase_def)

lemma failed_state:
  assumes "meta_laws L" and "failed_times L p0 h n p" and "h \<noteq> ''''" and "n < threshold p0"
  shows "determineState L p = Validating" and "\<not> breakerOpen L p"
proof -
  have f: "FindStatusCondition L (conds p) RolledBack = None" "FindStatusCondition L (conds p) CircuitBreakerTripped = None"
    "FindStatusCondition L (conds p) Validating \<noteq> None"
    using assms(2) by (auto simp: failed_times_def phase_types_def)
  then show "determineState L p = Validating"
    using assms(2,3) by (simp add: determineState_def failed_times_def IsStatusConditionTrue_iff [OF assms(1)])
  have "threshold p = threshold p0" "sint (failures p) = int n"
    using assms(2) by (auto simp: failed_times_def intro: threshold_spec)
  with assms(4) f(2) show "\<not> breakerOpen L p"
    by (simp add: breakerOpen_def thresholdReached_def threshold_def IsStatusConditionTrue_iff [OF assms(1)])
qed

lemma failed_next:
  assumes "meta_laws L" and "failed_times L p0 h n p" and "n < threshold p0" and "c_type c = Validating"
  shows "failed_times L p0 h (Suc n) (setCond L c (setFailures (failures p + 1) p))"
proof -
  have "threshold p = threshold p0" "sint (failures p) = int n"
    using assms(2) by (auto simp: failed_times_def intro: threshold_spec)
  with assms(3) have "sint (failures p + 1) = int (Suc n)"
    using sint_Suc_below [of "failures p" "breakerThreshold p"] by (simp add: threshold_def)
  with assms(2,4) show ?thesis
    by (simp add: failed_times_def setCond_def setFailures_def list_all_iff Find_Set [OF assms(1)])
qed

text \<open>One more failure: the breaker opens at the threshold, below it the validation is repeated.\<close>

lemma failed_reached:
  assumes "failed_times L p0 h n p" and "n < threshold p0"
  shows "thresholdReached (setFailures (failures p + 1) p) \<longleftrightarrow> Suc n = threshold p0"
proof -
  have "threshold p = threshold p0" "sint (failures p) = int n"
    using assms(1) by (auto simp: failed_times_def intro: threshold_spec)
  with assms(2) sint_Suc_below [of "failures p" "breakerThreshold p"] show ?thesis
    by (auto simp: thresholdReached_def threshold_def)
qed

lemma failed_step:
  assumes "meta_laws (libs E)" and "cooperative E p0" and "failed_times (libs E) p0 h n p" and "n < threshold p0"
  shows "spec (validationFailedState E p p e) (\<lambda>r es. quiet es \<and>
    (if Suc n = threshold p0 then r = Inr noRequeue else r = Inl e) \<and>
    (\<exists>q. EPatchStatus p q None \<in> set es \<and>
       (if Suc n = threshold p0 then breakerOpen (libs E) q else failed_times (libs E) p0 h (Suc n) q)))"
proof (cases "Suc n = threshold p0")
  case True
  with failed_reached [OF assms(3,4)] have "thresholdReached (setFailures (failures p + 1) p)" by simp
  moreover from this have "breakerOpen (libs E) (setCond (libs E) c (setFailures (failures p + 1) p))" for c
    by (simp add: breakerOpen_def thresholdReached_def setCond_def setFailures_def breakerThreshold_def)
  ultimately show ?thesis
    unfolding validationFailedState_def countMetric_def Let_def
    by (auto intro!: spec_bind spec_emit spec_updateStatus_ok [OF assms(2)] cleanup_emits [THEN spec_emits_only] spec_ret
        simp: True dest: quiet_kinds(1))
next
  case False
  with failed_reached [OF assms(3,4)] have "\<not> thresholdReached (setFailures (failures p + 1) p)" by simp
  with False failed_next [OF assms(1,3,4)] show ?thesis
    unfolding validationFailedState_def countMetric_def Let_def
    by (auto intro!: spec_bind spec_emit spec_updateStatus_ok [OF assms(2)] spec_ret)
qed

lemma failed_reconcile:
  assumes "meta_laws (libs E)" and "cooperative E p0" and "failed_times (libs E) p0 h n p" and "n < threshold p0"
    and "h \<noteq> ''''" and "spec (reconcileValidationProbes E R p) (\<lambda>r es. \<exists>e. r = Inl e)"
  shows "spec (reconcilePolicy E R p) (\<lambda>r es. quiet es \<and>
    (if Suc n = threshold p0 then r = Inr noRequeue else (\<exists>e. r = Inl e)) \<and>
    (\<exists>q. EPatchStatus p q None \<in> set es \<and>
       (if Suc n = threshold p0 then breakerOpen (libs E) q else failed_times (libs E) p0 h (Suc n) q)))"
proof -
  note st = failed_state [OF assms(1,3,5,4)]
  have "reconcilePolicy E R p = validatingState E R p p"
    using st by (simp add: reconcilePolicy_def continueReconcile_def drifted_def dispatch_def)
  moreover have v: "spec (reconcileValidationProbes E R p) (\<lambda>r es. quiet es \<and> (\<exists>e. r = Inl e))"
    by (rule spec_mono [OF spec_conj [OF assms(6) reconcileValidationProbes_spec]]) (auto dest: quiet_kinds(4))
  ultimately show ?thesis
    unfolding validatingState_def
    by (auto intro!: spec_bind spec_mono [OF v] spec_mono [OF failed_step [OF assms(1-4)]] split: if_splits) blast+
qed

lemma failed_trips:
  assumes "meta_laws (libs E)" and "cooperative E p0" and "h \<noteq> ''''" and "rejects E R p0 h"
  shows "failed_times (libs E) p0 h n p \<Longrightarrow> n < threshold p0 \<Longrightarrow> tripped_after (threshold p0 - n) E R p"
proof (induction "threshold p0 - n" arbitrary: n p)
  case (Suc k)
  have "spec (reconcileValidationProbes E R p) (\<lambda>r es. \<exists>e. r = Inl e)"
    using assms(4) Suc.prems(1) by (simp add: rejects_def failed_times_def)
  note step = failed_reconcile [OF assms(1,2) Suc.prems assms(3) this]
  have k: "threshold p0 - n = Suc k" "Suc n = threshold p0 \<longleftrightarrow> k = 0" using Suc.hyps(2) by auto
  have "tripped_after k E R q \<and> \<not> breakerOpen (libs E) q" if "k \<noteq> 0" "failed_times (libs E) p0 h (Suc n) q" for q
  proof -
    have "Suc n < threshold p0" "k = threshold p0 - Suc n" using k that(1) by auto
    with Suc.hyps(1) [OF this(2) that(2)] failed_state(2) [OF assms(1) that(2) assms(3)] show ?thesis by simp
  qed
  then show ?case
    unfolding k(1) tripped_after.simps
    by (intro spec_mono [OF step [unfolded k(2)]]) (auto split: if_splits)
qed simp

text \<open>The steps before the validation.\<close>

lemma tripped_chain:
  assumes "spec (reconcilePolicy E R p) (patches_to p Q)" and "spec (reconcilePolicy E R p) (\<lambda>_. quiet)"
    and "\<And>q. Q q \<Longrightarrow> \<not> breakerOpen (libs E) q \<and> tripped_after (Suc n) E R q"
  shows "tripped_after (Suc (Suc n)) E R p"
  unfolding tripped_after.simps(2) [of "Suc n"]
  by (rule spec_mono [OF spec_conj [OF assms(1,2)]]) (use assms(3) in \<open>auto simp: patches_to_def simp del: tripped_after.simps\<close>)

lemma phase_quiet:
  assumes "sources_readonly E R" and "determineState (libs E) p \<noteq> Validating \<or> breakerOpen (libs E) p" and "targetKind p \<noteq> KindRollout"
  shows "spec (reconcilePolicy E R p) (\<lambda>_. quiet)"
  by (rule spec_mono [OF reconcilePolicy_justified [OF assms(1)]]) (use assms(2,3) in \<open>auto simp: justified_def\<close>)

section \<open>Properties\<close>

text \<open>C6: in a cooperative cluster whose source has a new revision that never passes its validation, a
  policy with a canary that is in sync, or whose breaker is open, has its breaker open again after exactly
  three reconciliations (prepared, provisioning, validating) and as many failed validations as its threshold; the
  workload is never patched, and only the last reconciliation is not repeated.\<close>

theorem rejected_revision_trips:
  assumes "meta_laws (libs E)" and "sources_readonly E R" and "cooperative E p"
    and "FindStatusCondition (libs E) (conds p) RolloutProgressing = None"
    and "drifted p h" and "DesiredRevision (p_status p) = '''' \<or> breakerOpen (libs E) p"
    and "targetKind p \<in> {KindDeployment, KindStatefulSet, KindDaemonSet}" and "rejects E R p h"
  shows "tripped_after (3 + threshold p) E R p"
proof -
  let ?in = "in_phase (libs E) p h"
  from assms(5) have h: "h \<noteq> ''''" by (simp add: drifted_def)
  have kind: "targetKind q \<noteq> KindRollout" if "p_spec q = p_spec p" for q
    using assms(7) targetKind_spec [OF that] by auto
  obtain T where T: "threshold p = Suc T"
    using breakerThreshold_pos [of p] by (cases "threshold p") (auto simp: threshold_def)
  have v: "\<not> breakerOpen (libs E) q \<and> tripped_after (Suc T) E R q" if q: "?in Validating q" for q
    using failed_trips [OF assms(1,3) h assms(8) failed_zero [OF q]] in_phase_state(2) [OF assms(1) q h] T by simp
  have step: "\<not> breakerOpen (libs E) q \<and> tripped_after (Suc (Suc n)) E R q"
    if "?in t q" "t \<in> {RevisionPrepared, CanaryProvisioning}" "spec (dispatch E R t q q '''') (patches_to q Q)"
      "\<And>q. Q q \<Longrightarrow> \<not> breakerOpen (libs E) q \<and> tripped_after (Suc n) E R q" for t q Q n
  proof -
    have t: "t \<in> {RevisionPrepared, CanaryProvisioning, Validating, RolloutProgressing}" "t \<noteq> Validating" using that(2) by auto
    note st = in_phase_state [OF assms(1) that(1) h t(1)]
    have "spec (reconcilePolicy E R q) (\<lambda>_. quiet)"
      using st(1) t(2) that(1) kind [of q] by (intro phase_quiet [OF assms(2)]) (simp_all add: in_phase_def)
    from tripped_chain [OF _ this that(4)] that(3) st(2) show ?thesis
      by (simp add: in_phase_dispatch [OF assms(1) that(1) h t(1)] del: tripped_after.simps)
  qed
  have c: "\<not> breakerOpen (libs E) q \<and> tripped_after (Suc (Suc T)) E R q" if q: "?in CanaryProvisioning q" for q
    by (rule step [OF q _ _ v]) (use provisioning_step [OF assms(1,3) q] in \<open>simp_all add: dispatch_def\<close>)
  have r: "\<not> breakerOpen (libs E) q \<and> tripped_after (Suc (Suc (Suc T))) E R q" if q: "?in RevisionPrepared q" for q
    by (rule step [OF q _ _ c]) (use prepared_step [OF assms(1,3) q assms(7)] in \<open>simp_all add: dispatch_def\<close>)
  have "spec (materializeSecretRevision E R p) (\<lambda>r es. r = Inr h)" using assms(8) by (simp add: rejects_def)
  note start = rotation_step [OF assms(1,3,4,5,6) this]
  have "spec (reconcilePolicy E R p) (\<lambda>_. quiet)"
    by (rule phase_quiet [OF assms(2)]) (use assms(6) kind in \<open>auto simp: determineState_def\<close>)
  from tripped_chain [OF start this r] show ?thesis by (simp add: T eval_nat_numeral del: tripped_after.simps)
qed

lemma rejected_facts:
  "drifted rejected_sample sample_revision" "DesiredRevision (p_status rejected_sample) = ''''"
  "targetKind rejected_sample = KindDeployment" "threshold rejected_sample = 2"
  "FindStatusCondition (libs sample_world) (conds rejected_sample) RolloutProgressing = None"
  using revisionHash_length [of "\<lparr>sp_Data = [(''db'', ''v'')], sp_Version = ''1''\<rparr>"]
  by (auto simp: rejected_sample_def sample_revision_def drifted_def targetKind_def threshold_def breakerThreshold_def
      find_condition_def list_libs_def sample_defs)

lemma rejected_probes: "vp_Type v = ProbeTypeJob \<Longrightarrow> vp_Job v = None \<Longrightarrow> spec_ValidationProbes (p_spec q) = [v] \<Longrightarrow>
    spec (reconcileValidationProbes E R q) (\<lambda>r es. \<exists>e. r = Inl e)"
  unfolding reconcileValidationProbes_def Let_def
  by (auto simp: runJobProbe_def intro!: spec_rules)

theorem rejected_revision_trips_witness:
  "tripped_after 5 sample_world sample_reconciler rejected_sample"
proof -
  have "result_of (materializeSecretRevision sample_world sample_reconciler rejected_sample) s = Inr sample_revision" for s
    by (simp add: result_of_def materializeSecretRevision_def activeRegistry_def sample_reconciler_def Registry_Get_def sample_revision_def
        GetResolvedSource_def rejected_sample_def createSecret_def call_def list_libs_def Let_def sample_defs)
  then have "rejects sample_world sample_reconciler rejected_sample sample_revision"
    unfolding rejects_def
    by (auto intro: spec_mono [OF spec_result [OF materialize_emits [OF sample_readonly]]]
        intro!: rejected_probes [OF _ _ trans [OF arg_cong [where f = spec_ValidationProbes]]] simp: rejected_sample_def)
  from rejected_revision_trips [OF sample_laws sample_readonly sample_cooperative rejected_facts(5,1) disjI1 [OF rejected_facts(2)] _ this] rejected_facts
  show ?thesis by (simp add: eval_nat_numeral del: tripped_after.simps)
qed

end
