(* ===== verification/Dso_Stale.thy ===== *)
theory Dso_Stale
  imports Dso_Progress
begin

text \<open>
  Status patches and stale reads. The reconciler reads a policy from the cache of its manager and
  writes its status as a JSON merge patch against that read (\<^verbatim>\<open>client.MergeFrom\<close>, without an
  optimistic lock), so a patch that was computed from an old status is applied to the stored one.
  A merge patch carries the fields in which the two statuses differ; a list is replaced as a
  whole. The server's application of a patch is a parameter, \<open>merge_laws\<close> states what it does to the
  status. Here the policy is read from anywhere in its history, and its owner may edit it at any time.
\<close>

section \<open>The stored policy\<close>

text \<open>\<open>merge base new stored\<close> is the stored policy after the patch from \<open>base\<close> to \<open>new\<close>. The patch goes to the
  status subresource, which leaves the specification and the identity of the object alone.\<close>

type_synonym merge = "DynamicSecretPolicy \<Rightarrow> DynamicSecretPolicy \<Rightarrow> DynamicSecretPolicy \<Rightarrow> DynamicSecretPolicy"

definition merge_field :: "(DynamicSecretPolicyStatus \<Rightarrow> 'a) \<Rightarrow> DynamicSecretPolicy \<Rightarrow> DynamicSecretPolicy \<Rightarrow> DynamicSecretPolicy \<Rightarrow> 'a" where
  "merge_field f base new stored =
     (if f (p_status new) = f (p_status base) then f (p_status stored) else f (p_status new))"

definition merge_laws :: "merge \<Rightarrow> bool" where
  "merge_laws merge \<longleftrightarrow> (\<forall>base new stored.
     same_policy stored (merge base new stored) \<and>
     CurrentRevision (p_status (merge base new stored)) = merge_field CurrentRevision base new stored \<and>
     DesiredRevision (p_status (merge base new stored)) = merge_field DesiredRevision base new stored \<and>
     ConsecutiveFailures (p_status (merge base new stored)) = merge_field ConsecutiveFailures base new stored \<and>
     Conditions (p_status (merge base new stored)) = merge_field Conditions base new stored)"

text \<open>A server that changes nothing but the status.\<close>

definition mergeStatus :: merge where
  "mergeStatus base new stored = stored\<lparr>p_status :=
     \<lparr>CurrentRevision = merge_field CurrentRevision base new stored,
      DesiredRevision = merge_field DesiredRevision base new stored,
      ConsecutiveFailures = merge_field ConsecutiveFailures base new stored,
      Conditions = merge_field Conditions base new stored\<rparr>\<rparr>"

text \<open>The stored policies of a run, the latest first: every reconciliation reads one of them, old or new,
  in any state of the environment, and its patch is applied to the latest. Between two of them the
  owner may change the specification and the metadata; the status is a subresource that such an update
  does not touch.\<close>

inductive history :: "'w env \<Rightarrow> 'w reconciler \<Rightarrow> merge \<Rightarrow> DynamicSecretPolicy \<Rightarrow> DynamicSecretPolicy list \<Rightarrow> bool" for E R merge p0 where
  created: "history E R merge p0 [p0]"
| patched: "history E R merge p0 (stored # older) \<Longrightarrow> base \<in> set (stored # older) \<Longrightarrow>
    EPatchStatus base new None \<in> set (events_of (reconcilePolicy E R base) s) \<Longrightarrow>
    history E R merge p0 (merge base new stored # stored # older)"
| edited: "history E R merge p0 (stored # older) \<Longrightarrow> p_status p = p_status stored \<Longrightarrow> history E R merge p0 (p # stored # older)"

text \<open>What each field of a status satisfies on its own, whatever the others are and whatever the specification
  is by now; the counter is bounded by the threshold of some specification of the history.\<close>

definition fields_ok :: "Libs \<Rightarrow> DynamicSecretPolicy list \<Rightarrow> DynamicSecretPolicy \<Rightarrow> bool" where
  "fields_ok L hs p \<longleftrightarrow> named_conditions p \<and> FindStatusCondition L (conds p) RolledBack = None \<and>
     0 \<le> sint (failures p) \<and> (\<exists>q \<in> set hs. sint (failures p) \<le> sint (breakerThreshold q)) \<and>
     (CurrentRevision (p_status p) \<noteq> [] \<longrightarrow> (\<exists>q \<in> set hs. DesiredRevision (p_status q) = CurrentRevision (p_status p)))"

section \<open>Lemmas\<close>

text \<open>A patch that is applied to the status it was computed from gives the new status.\<close>

lemma merge_fresh:
  assumes "p_spec new = p_spec base" and "p_meta new = p_meta base"
  shows "mergeStatus base new base = new"
  using assms by (cases new; cases base; cases "p_status new"; cases "p_status base") (auto simp: mergeStatus_def merge_field_def)

lemma mergeStatus_laws: "merge_laws mergeStatus"
  by (simp add: merge_laws_def mergeStatus_def)

lemma astep_fields:
  "astep th ro s s' \<Longrightarrow> 1 \<le> th \<Longrightarrow> 0 \<le> a_fails s \<Longrightarrow> a_conds s RolledBack = None \<Longrightarrow>
   0 \<le> a_fails s' \<and> (a_fails s' \<le> th \<or> a_fails s' = a_fails s) \<and> a_conds s' RolledBack = None \<and>
   (a_cur s' = a_cur s \<or> a_cur s' = a_des s)"
  by (induction rule: astep.induct) (auto simp: a_open_def)

lemma fields_ok_mono: "fields_ok L hs p \<Longrightarrow> set hs \<subseteq> set hs' \<Longrightarrow> fields_ok L hs' p"
  unfolding fields_ok_def by blast

lemma fields_ok_status: "fields_ok L hs p \<Longrightarrow> p_status q = p_status p \<Longrightarrow> fields_ok L hs q"
  by (simp add: fields_ok_def named_conditions_def)

text \<open>A patch that was computed from some status of the history.\<close>

lemma patch_fields:
  assumes "meta_laws (libs E)" and "sources_readonly E R" and "fields_ok (libs E) hs base" and "base \<in> set hs"
    and "EPatchStatus base new e \<in> set (events_of (reconcilePolicy E R base) s)"
  shows "fields_ok (libs E) hs new"
proof -
  have named: "named_conditions base" using assms(3) by (simp add: fields_ok_def)
  from spec_events [OF reconcilePolicy_refines [OF assms(1) named assms(2)]] assms(5)
  have "refines (libs E) base (EPatchStatus base new e)" by (auto simp: list_all_iff)
  then have st: "astep (sint (breakerThreshold base)) (targetKind base = KindRollout)
      (abs_status (libs E) base) (abs_status (libs E) new)" by (simp add: refines_def)
  have "named_conditions new" using astep_unnamed [OF st] named by (simp add: named_abs [OF assms(1)])
  with astep_fields [OF st breakerThreshold_pos] assms(3,4) show ?thesis by (auto simp: fields_ok_def abs_conds)
qed

lemma merge_ok:
  assumes "merge_laws merge" and "fields_ok L hs stored" and "fields_ok L hs new"
  shows "fields_ok L hs (merge base new stored)"
  using assms by (auto simp: fields_ok_def merge_laws_def merge_field_def named_conditions_def)

lemma history_inv:
  assumes "meta_laws (libs E)" and "sources_readonly E R" and "merge_laws merge" and "fresh_policy p0"
    and "history E R merge p0 hs" and "p \<in> set hs"
  shows "fields_ok (libs E) hs p"
  using assms(5,6)
proof (induction arbitrary: p rule: history.induct)
  case created
  have "0 \<le> sint (breakerThreshold p0)" using breakerThreshold_pos [of p0] by simp
  with assms(1,4) created show ?case
    by (simp add: fields_ok_def fresh_policy_def named_conditions_def FindStatusCondition_list)
next
  case (patched stored older base new s)
  let ?hs = "stored # older"
  have "fields_ok (libs E) ?hs new" by (rule patch_fields [OF assms(1,2) patched.IH [OF patched(2)] patched(2,3)])
  then have "fields_ok (libs E) ?hs (merge base new stored)" using patched.IH by (intro merge_ok [OF assms(3)]) simp_all
  with patched have "fields_ok (libs E) ?hs p" by auto
  then show ?case by (rule fields_ok_mono) auto
next
  case (edited stored older p')
  have "fields_ok (libs E) (stored # older) p'" using edited by (intro fields_ok_status [OF edited.IH]) simp_all
  with edited have "fields_ok (libs E) (stored # older) p" by auto
  then show ?case by (rule fields_ok_mono) auto
qed

section \<open>Properties\<close>

text \<open>C8: stale reads are safe. However old the status is that a reconciliation reads, though its patch is
  merged into a newer one without a lock, and whatever the owner edits in between: in every stored status the
  failure counter lies between zero and the threshold of a specification the policy has had, nothing is
  rolled back, and a current revision is one that the policy was rotating to before.\<close>

theorem stale_reads_safe:
  assumes "meta_laws (libs E)" and "sources_readonly E R" and "merge_laws merge" and "fresh_policy p0"
    and "history E R merge p0 hs" and "p \<in> set hs"
  shows "0 \<le> sint (failures p) \<and> (\<exists>q \<in> set hs. sint (failures p) \<le> sint (breakerThreshold q)) \<and>
    FindStatusCondition (libs E) (conds p) RolledBack = None \<and>
    (CurrentRevision (p_status p) \<noteq> '''' \<longrightarrow> (\<exists>q \<in> set hs. DesiredRevision (p_status q) = CurrentRevision (p_status p)))"
  using history_inv [OF assms] by (auto simp: fields_ok_def)

text \<open>The sample policy, reconciled from its first status, edited, and reconciled from its first status again.\<close>

theorem stale_reads_safe_witness:
  "\<exists>new hs. history sample_world sample_reconciler mergeStatus (unprobed_sample KindDeployment)
       (mergeStatus (unprobed_sample KindDeployment) new (hd hs) # hs) \<and> length hs = 3 \<and>
     targetKind (hd hs) = KindRollout \<and> DesiredRevision (p_status (hd hs)) = sample_revision \<and>
     0 \<le> sint (failures (mergeStatus (unprobed_sample KindDeployment) new (hd hs)))"
proof -
  let ?E = sample_world and ?p = "unprobed_sample KindDeployment"
  have h: "sample_revision \<noteq> []" using unprobed_facts(2) by (simp add: drifted_def)
  from spec_events [OF rotation_step [OF sample_laws sample_cooperative unprobed_facts(1,2) disjI1 [OF unprobed_facts(3)]
        unprobed_materialize], of KindDeployment undefined]
  obtain q where ev: "EPatchStatus ?p q None \<in> set (events_of (reconcilePolicy ?E sample_reconciler ?p) undefined)"
    and q: "in_phase (libs ?E) ?p sample_revision RevisionPrepared q" by (auto simp: patches_to_def)
  note run = history.created [of ?E sample_reconciler mergeStatus ?p]
  let ?m = "mergeStatus ?p q ?p"
  let ?e = "(unprobed_sample KindRollout)\<lparr>p_status := p_status ?m\<rparr>"
  let ?n = "mergeStatus ?p q ?e"
  have "history ?E sample_reconciler mergeStatus ?p [?e, ?m, ?p]"
    using history.edited [OF history.patched [OF run _ ev], of ?e] by simp
  from history.patched [OF this _ ev] have hs: "history ?E sample_reconciler mergeStatus ?p [?n, ?e, ?m, ?p]" by simp
  have fresh: "fresh_policy ?p" by (simp add: fresh_policy_def unprobed_sample_def)
  have des: "DesiredRevision (p_status ?e) = sample_revision"
    using q h unprobed_facts(3) by (simp add: mergeStatus_def merge_field_def in_phase_def)
  have kind: "targetKind ?e = KindRollout" using targetKind_spec [of ?e "unprobed_sample KindRollout"] unprobed_facts(5) by simp
  from stale_reads_safe [OF sample_laws sample_readonly mergeStatus_laws fresh hs, of ?n] hs des kind show ?thesis
    by (intro exI [of _ q] exI [of _ "[?e, ?m, ?p]"]) simp
qed

end
