(* ===== verification/Dso_Interleave.thy ===== *)
theory Dso_Interleave
  imports Dso_Stale
begin

text \<open>
  Rotations in a running operator. The workers of the manager reconcile many policies
  (\<^verbatim>\<open>MaxConcurrentReconciles\<close>), the queue never runs two reconciliations of one policy at a time, and between
  two of them the cluster changes. Here the policy is the one that the API server stores: every
  accepted status patch of the trace is merged into it, \<^verbatim>\<open>Reconcile\<close> reads it back, and the
  reconciliations of the policy are interleaved with those of others, with moves of the environment, and
  with validations that are still pending.
\<close>

section \<open>The store\<close>

definition key_of :: "DynamicSecretPolicy \<Rightarrow> string \<times> string" where
  "key_of p = (pol_namespace p, pol_name p)"

text \<open>What an event does to a stored policy.\<close>

fun apply_status :: "merge \<Rightarrow> event \<Rightarrow> DynamicSecretPolicy \<Rightarrow> DynamicSecretPolicy" where
  "apply_status merge (EPatchStatus base new None) p = (if key_of base = key_of p then merge base new p else p)"
| "apply_status merge _ p = p"

definition stored :: "merge \<Rightarrow> DynamicSecretPolicy \<Rightarrow> event list \<Rightarrow> DynamicSecretPolicy" where
  "stored merge p es = fold (apply_status merge) es p"

text \<open>The server replies with the stored policy.\<close>

definition reads_stored :: "'w env \<Rightarrow> merge \<Rightarrow> DynamicSecretPolicy \<Rightarrow> ('w, event) sys \<Rightarrow> bool" where
  "reads_stored E merge p s \<longleftrightarrow>
     fst (cl_getPolicy (client E) (pol_namespace p) (pol_name p) (world s)) = Inr (stored merge p (trace s))"

text \<open>The server replies to a request for another policy with a policy of that name, or with an error.\<close>

definition reads_named :: "'w env \<Rightarrow> string \<Rightarrow> string \<Rightarrow> ('w, event) sys \<Rightarrow> bool" where
  "reads_named E ns name s \<longleftrightarrow>
     (case fst (cl_getPolicy (client E) ns name (world s)) of Inl _ \<Rightarrow> True | Inr q \<Rightarrow> key_of q = (ns, name))"

section \<open>Interleavings\<close>

text \<open>The reconciliation asks to be repeated after some seconds.\<close>

definition waiting :: "err + result \<Rightarrow> bool" where
  "waiting r \<longleftrightarrow> (case r of Inl _ \<Rightarrow> False | Inr x \<Rightarrow> RequeueAfter x > 0)"

text \<open>The policy \<open>p\<close> has been reconciled \<open>n\<close> times, the reconciliations that had to wait not counted, and the
  system is in the given state.\<close>

inductive run :: "'w env \<Rightarrow> 'w reconciler \<Rightarrow> merge \<Rightarrow> DynamicSecretPolicy \<Rightarrow> nat \<Rightarrow> ('w, event) sys \<Rightarrow> bool" for E R merge p where
  start: "trace s = [] \<Longrightarrow> run E R merge p 0 s"
| turn: "run E R merge p n s \<Longrightarrow> reads_stored E merge p s \<Longrightarrow>
    run_state (Reconcile E R (pol_namespace p) (pol_name p)) s = (r, s') \<Longrightarrow> \<not> waiting r \<Longrightarrow> run E R merge p (Suc n) s'"
| wait: "run E R merge p n s \<Longrightarrow> reads_stored E merge p s \<Longrightarrow>
    run_state (Reconcile E R (pol_namespace p) (pol_name p)) s = (r, s') \<Longrightarrow> waiting r \<Longrightarrow> run E R merge p n s'"
| other: "run E R merge p n s \<Longrightarrow> (ns, name) \<noteq> key_of p \<Longrightarrow> reads_named E ns name s \<Longrightarrow>
    run_state (Reconcile E R ns name) s = (r, s') \<Longrightarrow> run E R merge p n s'"
| moved: "run E R merge p n s \<Longrightarrow> run E R merge p n (s\<lparr>world := w\<rparr>)"

section \<open>Stages\<close>

text \<open>The phases of a rotation, by the kind of its target.\<close>

definition stages :: "DynamicSecretPolicy \<Rightarrow> string list" where
  "stages p = (if targetKind p = KindRollout then [RevisionPrepared, RolloutProgressing]
               else [RevisionPrepared, CanaryProvisioning, Validating])"

definition at_stage :: "Libs \<Rightarrow> DynamicSecretPolicy \<Rightarrow> string \<Rightarrow> nat \<Rightarrow> DynamicSecretPolicy \<Rightarrow> bool" where
  "at_stage L p h n q \<longleftrightarrow>
     (if n = 0 then q = p
      else if n \<le> length (stages p) then in_phase L p h (stages p ! (n - 1)) q
      else settled L p h q)"

text \<open>The revision \<open>h\<close> can be obtained: the source has it, its validation never fails (it may be pending), and
  Argo never reports the Rollout as degraded.\<close>

definition obtainable :: "'w env \<Rightarrow> 'w reconciler \<Rightarrow> DynamicSecretPolicy \<Rightarrow> string \<Rightarrow> bool" where
  "obtainable E R p h \<longleftrightarrow>
     (\<forall>q. same_policy p q \<longrightarrow> spec (materializeSecretRevision E R q) (\<lambda>r es. r = Inr h)) \<and>
     (\<forall>q. same_policy p q \<and> DesiredRevision (p_status q) = h \<longrightarrow> spec (reconcileValidationProbes E R q) (\<lambda>r es. \<not> isl r)) \<and>
     (\<forall>w x w'. cl_getWorkload (client E) KindRollout (pol_namespace p) (target_name p) w = (Inr x, w') \<longrightarrow> w_phase x \<noteq> ''Degraded'')"

text \<open>At most one status patch, from the given base.\<close>

definition status_once :: "DynamicSecretPolicy \<Rightarrow> event list \<Rightarrow> bool" where
  "status_once base es \<longleftrightarrow> (case filter (\<lambda>ev. \<not> no_status ev) es of
     [] \<Rightarrow> True | [EPatchStatus old new e] \<Rightarrow> old = base | _ \<Rightarrow> False)"

section \<open>One status patch\<close>

lemma quiet_filter [simp]: "list_all no_status es \<Longrightarrow> filter (\<lambda>ev. \<not> no_status ev) es = []"
  by (auto simp: list_all_iff)

lemma no_status_all: "list_all P es \<Longrightarrow> (\<And>ev. P ev \<Longrightarrow> no_status ev) \<Longrightarrow> list_all no_status es"
  by (auto simp: list_all_iff)

lemma no_status_lists:
  "list_all is_cleanup es \<Longrightarrow> list_all no_status es" "list_all is_app_update es \<Longrightarrow> list_all no_status es"
  "list_all (gc_event p) es \<Longrightarrow> list_all no_status es" "list_all is_validation es \<Longrightarrow> list_all no_status es"
  "list_all is_callback es \<Longrightarrow> list_all no_status es" "list_all is_metric_or_cleanup es \<Longrightarrow> list_all no_status es"
  by (erule no_status_all, erule no_status_kinds)+

lemma status_once_quiet: "list_all no_status es \<Longrightarrow> status_once base es"
  by (simp add: status_once_def)

lemma status_once_prefix: "list_all no_status xs \<Longrightarrow> status_once base (xs @ es) = status_once base es"
  by (simp add: status_once_def)

lemma status_once_one: "status_once base [EPatchStatus base new e]"
  by (simp add: status_once_def)

lemma patched_no_status: "patched_events p r es \<Longrightarrow> list_all no_status es"
  unfolding patched_events_def by (auto dest!: no_status_lists)

lemma shapes_once:
  "failure_events L ph p base es \<Longrightarrow> status_once base es"
  "promotion_events L p base es \<Longrightarrow> status_once base es"
  "prepared_events L p base es \<Longrightarrow> status_once base es"
  "halt_events L p base es \<Longrightarrow> status_once base es"
  unfolding failure_events_def promotion_events_def prepared_events_def rollout_patch_events_def canary_events_def halt_events_def
  by (auto dest!: no_status_lists patched_no_status simp: status_once_def no_status_kinds split: if_splits)

lemma driftState_once: "spec (driftState E R p base h) (\<lambda>_. status_once base)"
  by (rule spec_mono [OF driftState_events]) (auto dest!: no_status_lists simp: status_once_def no_status_kinds)

lemma dispatch_once: "spec (dispatch E R st p base h) (\<lambda>_. status_once base)"
proof -
  have "spec (revisionPreparedState E p base) (\<lambda>_. status_once base)"
    by (rule spec_mono [OF revisionPreparedState_events]) (rule shapes_once)
  moreover have "spec (canaryProvisioningState E p base) (\<lambda>_. status_once base)"
    unfolding canaryProvisioningState_def by (auto intro!: part_rules simp: status_once_def)
  moreover have "spec (rolloutProgressingState E p base) (\<lambda>_. status_once base)"
    unfolding rolloutProgressingState_def
    by (auto intro!: spec_rules spec_mono [OF rolloutHealthyState_events] spec_mono [OF rolloutDegradedState_events]
        intro: status_once_quiet dest: shapes_once dest!: no_status_lists simp: status_once_prefix status_once_one)
  moreover have "spec (validatingState E R p base) (\<lambda>_. status_once base)"
    by (rule spec_mono [OF validatingState_events])
      (auto simp: validating_events_def status_once_prefix dest!: no_status_lists intro: shapes_once status_once_quiet)
  moreover have "spec (rolledBackState E p) (\<lambda>_. status_once base)"
    unfolding rolledBackState_def by (auto intro!: part_rules status_once_quiet dest: no_status_lists)
  ultimately show ?thesis using driftState_once unfolding dispatch_def by (auto intro!: spec_ret simp: status_once_def)
qed

lemma reconcilePolicy_once:
  assumes "sources_readonly E R"
  shows "spec (reconcilePolicy E R base) (\<lambda>_. status_once base)"
proof -
  have "spec (haltReconcile E p base) (\<lambda>_. status_once base)" for p
    by (rule spec_mono [OF haltReconcile_events]) (auto dest: shapes_once)
  then have "spec (continueReconcile E R base h) (\<lambda>_. status_once base)" for h
    using dispatch_once unfolding continueReconcile_def Let_def by (auto intro!: spec_if)
  note continue = spec_mono [OF this]
  have "emits_only no_status (materializeSecretRevision E R base)"
    by (rule emits_only_mono [OF materialize_emits [OF assms]]) (auto dest: no_status_kinds)
  note materialize = spec_mono [OF this]
  show ?thesis
    unfolding reconcilePolicy_def
    by (auto intro!: spec_if spec_bind spec_case_sum spec_ret materialize continue simp: status_once_prefix status_once_quiet)
qed

section \<open>Stored policies\<close>

lemma stored_append: "stored merge p (es @ fs) = stored merge (stored merge p es) fs"
  by (simp add: stored_def)

lemma apply_no_status: "no_status ev \<Longrightarrow> apply_status merge ev p = p"
  by (cases ev) auto

lemma stored_status: "stored merge p es = stored merge p (filter (\<lambda>ev. \<not> no_status ev) es)"
  unfolding stored_def by (induction es arbitrary: p) (auto simp: apply_no_status)

lemma stored_quiet: "list_all no_status es \<Longrightarrow> stored merge p es = p"
  by (subst stored_status) (simp add: stored_def)

lemma status_once_cases:
  assumes "status_once base es"
  obtains "filter (\<lambda>ev. \<not> no_status ev) es = []" | new e where "filter (\<lambda>ev. \<not> no_status ev) es = [EPatchStatus base new e]"
  using assms unfolding status_once_def by (auto split: list.splits event.splits)

lemma stored_once:
  assumes "status_once base es" and "EPatchStatus base new None \<in> set es" and "key_of base = key_of p"
  shows "stored merge p es = merge base new p"
proof -
  from assms(2) have "EPatchStatus base new None \<in> set (filter (\<lambda>ev. \<not> no_status ev) es)" by simp
  with assms(1) have "filter (\<lambda>ev. \<not> no_status ev) es = [EPatchStatus base new None]" by (elim status_once_cases) auto
  with assms(3) show ?thesis by (subst stored_status) (simp add: stored_def)
qed

text \<open>A reconciliation of another policy leaves the stored policy alone.\<close>

lemma stored_other:
  assumes "status_once base es" and "key_of base \<noteq> key_of p"
  shows "stored merge p es = p"
proof -
  have "apply_status merge (EPatchStatus base new e) p = p" for new e using assms(2) by (cases e) auto
  with assms(1) show ?thesis by (subst stored_status) (auto simp: stored_def elim: status_once_cases)
qed

lemma Reconcile_reply:
  assumes "run_state (Reconcile E R ns name) s = (r, s')"
  shows "case fst (cl_getPolicy (client E) ns name (world s)) of
      Inl e \<Rightarrow> trace s' = trace s
    | Inr q \<Rightarrow> (\<exists>w. run_state (reconcilePolicy E R q) (s\<lparr>world := w\<rparr>) = (r, s'))"
  using assms by (auto simp: Reconcile_def query_def split: prod.splits sum.splits)

text \<open>What a reconciliation of a fetched policy does, by its triple.\<close>

lemma Reconcile_spec:
  assumes "run_state (Reconcile E R ns name) s = (r, s')" and "fst (cl_getPolicy (client E) ns name (world s)) = Inr q"
    and "spec (reconcilePolicy E R q) Q"
  obtains es where "trace s' = trace s @ es" and "Q r es"
proof -
  from Reconcile_reply [OF assms(1)] assms(2) obtain w where "run_state (reconcilePolicy E R q) (s\<lparr>world := w\<rparr>) = (r, s')" by auto
  from specD [OF assms(3) this] that show ?thesis by auto
qed

section \<open>The delay of a pending validation\<close>

definition delays :: "result \<Rightarrow> bool" where
  "delays x \<longleftrightarrow> x = noRequeue \<or> x = requeueAfter 2"

lemma resolve_delays: "spec (resolveCanaryProbeEndpoint E R p v) (\<lambda>r es. \<forall>x. r = Inr x \<longrightarrow> delays (snd x))"
  unfolding resolveCanaryProbeEndpoint_def awaitCanary_def Let_def
  by (auto intro!: spec_rules simp: delays_def split: prod.splits)

lemma runJobProbe_delays: "spec (runJobProbe E R p n v) (\<lambda>r es. \<forall>x. r = Inr (Some x) \<longrightarrow> delays x)"
  unfolding runJobProbe_def Let_def createJob_def deleteJob_def observeProbe_def
  by (auto intro!: spec_rules spec_mono [OF EvaluateJobStatus_spec] simp: delays_def split: ProbeJobState.splits)

lemma runNetworkProbe_delays: "spec (runNetworkProbe E R p d v) (\<lambda>r es. \<forall>x. r = Inr (Some x) \<longrightarrow> delays x)"
  unfolding runNetworkProbe_def observeProbe_def
  by (auto intro!: spec_bind spec_emit spec_ret spec_if spec_case_option spec_mono [OF resolve_delays] spec_mono [OF runProbe_connects]
      split: prod.splits sum.splits)

lemma runProbes_delays: "spec (runProbes E R p n d vs) (\<lambda>r es. \<forall>x. r = Inr x \<longrightarrow> delays x)"
proof (induction vs)
  case Nil
  show ?case by (auto intro!: spec_ret simp: delays_def)
next
  case (Cons v vs)
  show ?case
    by (auto intro!: spec_bind spec_if spec_mono [OF runJobProbe_delays] spec_mono [OF runNetworkProbe_delays]
        spec_case_sum spec_case_option spec_ret spec_mono [OF Cons.IH])
qed

lemma validation_delays: "spec (reconcileValidationProbes E R p) (\<lambda>r es. \<forall>x. r = Inr x \<longrightarrow> delays x)"
  unfolding reconcileValidationProbes_def Let_def
  by (auto intro!: spec_rules spec_mono [OF runProbes_delays] simp: delays_def)

section \<open>From stage to stage\<close>

text \<open>What one reconciliation does in a stage: it waits and leaves the status alone, or it moves on.\<close>

definition moves :: "DynamicSecretPolicy \<Rightarrow> (DynamicSecretPolicy \<Rightarrow> bool) \<Rightarrow> err + result \<Rightarrow> event list \<Rightarrow> bool" where
  "moves q Q r es \<longleftrightarrow>
     waiting r \<and> list_all no_status es \<or>
     patches_to q Q r es \<or>
     \<not> waiting r \<and> list_all no_status es \<and> Q q"

lemma patches_moves: "patches_to q Q r es \<Longrightarrow> moves q Q r es"
  by (simp add: moves_def)

lemma rollout_step:
  assumes "meta_laws (libs E)" and "cooperative E p0" and "in_phase (libs E) p0 h RolloutProgressing p" and "targetKind p0 = KindRollout"
    and "\<forall>w x w'. cl_getWorkload (client E) KindRollout (pol_namespace p0) (target_name p0) w = (Inr x, w') \<longrightarrow> w_phase x \<noteq> ''Degraded''"
  shows "spec (rolloutProgressingState E p p) (moves p (settled (libs E) p0 h))"
proof -
  have same: "pol_namespace p = pol_namespace p0" "target_name p = target_name p0" using assms(3) by (auto simp: in_phase_def)
  have get: "spec (query (cl_getWorkload (client E) KindRollout (pol_namespace p0) (target_name p0)))
      (\<lambda>r es. es = [] \<and> (\<exists>x. r = Inr x \<and> w_phase x \<noteq> ''Degraded''))"
  proof (rule spec_query_reply)
    fix r w w' assume "cl_getWorkload (client E) KindRollout (pol_namespace p0) (target_name p0) w = (r, w')"
    with assms(2,4,5) show "[] = [] \<and> (\<exists>x. r = Inr x \<and> w_phase x \<noteq> ''Degraded'')"
      unfolding cooperative_def by (metis prod.inject)
  qed
  have fin: "settled (libs E) p0 h (setCond (libs E) (trueCond Promoting r m) (removeCond (libs E) RolloutProgressing (advanceRevision (setFailures 0 p))))" for r m
    by (rule in_phase_promoted [OF assms(1,3)]) (simp_all add: trueCond_def)
  have "spec (rolloutHealthyState E p p) (patches_to p (settled (libs E) p0 h))"
    unfolding rolloutHealthyState_def Let_def
    by (auto intro!: spec_bind [where m = "gcOldSecretRevisions E _ _"] gc_emits [THEN spec_emits_only] patched_step [OF assms(2)] fin)
  note healthy = spec_mono [OF this]
  show ?thesis
    unfolding rolloutProgressingState_def same
    by (rule spec_bind, rule spec_mono [OF get])
      (auto intro!: spec_if spec_ret healthy patches_moves simp: moves_def waiting_def requeueAfter_def)
qed

lemma not_isl_Inr: "\<not> isl r \<longleftrightarrow> (\<exists>x. r = Inr x)"
  by (cases r) auto

lemma waiting_step:
  fixes E :: "'w env" and A :: "'w WorkloadAdapter"
  assumes "meta_laws (libs E)" and "cooperative E p0" and "in_phase (libs E) p0 h Validating p"
    and "NewAdapter (targetKind p0) = Inr A" and "spec (reconcileValidationProbes E R p) (\<lambda>r es. \<not> isl r)"
  shows "spec (validatingState E R p p) (moves p (settled (libs E) p0 h))"
proof -
  have "spec (reconcileValidationProbes E R p) (\<lambda>r es. \<exists>x. r = Inr x \<and> delays x \<and> list_all no_status es)"
    by (rule spec_mono [OF spec_conj [OF assms(5) spec_conj [OF validation_delays reconcileValidationProbes_spec]]])
      (auto simp: not_isl_Inr dest!: no_status_lists)
  from validation_step [OF assms(1-4) this] show ?thesis
    by (rule spec_mono) (auto simp: moves_def waiting_def delays_def result_defs)
qed

lemma settled_step:
  assumes "meta_laws (libs E)" and "settled (libs E) p0 h p" and "h \<noteq> ''''"
    and "sources_readonly E R" and "spec (materializeSecretRevision E R p) (\<lambda>r es. r = Inr h)"
  shows "spec (reconcilePolicy E R p) (moves p (settled (libs E) p0 h))"
proof -
  from assms(1,2) have closed: "\<not> breakerOpen (libs E) p"
    using breakerThreshold_pos [of p] by (simp add: settled_def breakerOpen_def thresholdReached_def IsStatusConditionTrue_iff)
  have quiet: "emits_only no_status (materializeSecretRevision E R p)"
    by (rule emits_only_mono [OF materialize_emits [OF assms(4)]]) (auto dest: no_status_kinds)
  have "continueReconcile E R p h = ret (Inr noRequeue)"
    using assms(2,3) closed by (simp add: settled_def continueReconcile_def drifted_def determineState_def dispatch_def driftState_def)
  moreover have "determineState (libs E) p = ''''" using assms(2) by (simp add: settled_def determineState_def)
  ultimately show ?thesis
    unfolding reconcilePolicy_def using assms(2)
    by (auto intro!: spec_bind spec_mono [OF spec_conj [OF assms(5) quiet]] spec_ret simp: moves_def waiting_def noRequeue_def)
qed

lemma moves_mono: "spec m (moves q Q) \<Longrightarrow> (\<And>x. Q x \<Longrightarrow> Q' x) \<Longrightarrow> spec m (moves q Q')"
  by (erule spec_mono) (auto simp: moves_def patches_to_def)

lemma patches_move: "spec m (patches_to q Q) \<Longrightarrow> (\<And>x. Q x \<Longrightarrow> Q' x) \<Longrightarrow> spec m (moves q Q')"
  by (erule spec_mono) (auto simp: moves_def patches_to_def)

lemma rollout_moves:
  assumes "meta_laws (libs E)" and "cooperative E p" and "h \<noteq> ''''" and "obtainable E R p h" and "targetKind p = KindRollout"
    and "in_phase (libs E) p h (stages p ! n) q" and "n < length (stages p)"
  shows "spec (reconcilePolicy E R q) (moves q (at_stage (libs E) p h (Suc (Suc n))))"
proof -
  let ?in = "in_phase (libs E) p h"
  note dispatched = in_phase_dispatch [OF assms(1) _ assms(3), where R = R]
  from assms(5,7) consider "n = 0" | "n = 1" by (auto simp: stages_def less_Suc_eq)
  then show ?thesis
  proof cases
    case 1
    with assms(5,6) have q: "?in RevisionPrepared q" by (simp add: stages_def)
    have "spec (reconcilePolicy E R q) (patches_to q (?in RolloutProgressing))"
      using rollout_prepared_step [OF assms(1,2) q assms(5)] by (simp add: dispatched [OF q] dispatch_def)
    then show ?thesis by (rule patches_move) (use 1 assms(5) in \<open>simp add: at_stage_def stages_def\<close>)
  next
    case 2
    with assms(5,6) have q: "?in RolloutProgressing q" by (simp add: stages_def)
    have "spec (reconcilePolicy E R q) (moves q (settled (libs E) p h))"
      using rollout_step [OF assms(1,2) q assms(5)] assms(4) by (simp add: dispatched [OF q] dispatch_def obtainable_def)
    then show ?thesis by (rule moves_mono) (use 2 assms(5) in \<open>simp add: at_stage_def stages_def\<close>)
  qed
qed

lemma canary_moves:
  fixes E :: "'w env"
  assumes "meta_laws (libs E)" and "cooperative E p" and "h \<noteq> ''''" and "obtainable E R p h"
    and "targetKind p \<in> {KindDeployment, KindStatefulSet, KindDaemonSet}"
    and "in_phase (libs E) p h (stages p ! n) q" and "n < length (stages p)"
  shows "spec (reconcilePolicy E R q) (moves q (at_stage (libs E) p h (Suc (Suc n))))"
proof -
  let ?in = "in_phase (libs E) p h"
  note dispatched = in_phase_dispatch [OF assms(1) _ assms(3), where R = R]
  from assms(5) have st: "stages p = [RevisionPrepared, CanaryProvisioning, Validating]" by (auto simp: stages_def)
  from assms(5) obtain A :: "'w WorkloadAdapter" where A: "NewAdapter (targetKind p) = Inr A" by (auto simp: NewAdapter_def)
  from st assms(7) consider "n = 0" | "n = 1" | "n = 2" by (auto simp: less_Suc_eq numeral_2_eq_2)
  then show ?thesis
  proof cases
    case 1
    with st assms(6) have q: "?in RevisionPrepared q" by simp
    have "spec (reconcilePolicy E R q) (patches_to q (?in CanaryProvisioning))"
      using prepared_step [OF assms(1,2) q assms(5)] by (simp add: dispatched [OF q] dispatch_def)
    then show ?thesis by (rule patches_move) (use 1 st in \<open>simp add: at_stage_def\<close>)
  next
    case 2
    with st assms(6) have q: "?in CanaryProvisioning q" by simp
    have "spec (reconcilePolicy E R q) (patches_to q (?in Validating))"
      using provisioning_step [OF assms(1,2) q] by (simp add: dispatched [OF q] dispatch_def)
    then show ?thesis by (rule patches_move) (use 2 st in \<open>simp add: at_stage_def numeral_2_eq_2\<close>)
  next
    case 3
    with st assms(6) have q: "?in Validating q" by (simp add: numeral_2_eq_2)
    from assms(4) q have "spec (reconcileValidationProbes E R q) (\<lambda>r es. \<not> isl r)" by (simp add: obtainable_def in_phase_def)
    from waiting_step [OF assms(1,2) q A this]
    have "spec (reconcilePolicy E R q) (moves q (settled (libs E) p h))" by (simp add: dispatched [OF q] dispatch_def)
    then show ?thesis by (rule moves_mono) (use 3 st in \<open>simp add: at_stage_def\<close>)
  qed
qed

section \<open>The invariant of a run\<close>

text \<open>The hypotheses of a rotation.\<close>

definition rotation_due :: "'w env \<Rightarrow> 'w reconciler \<Rightarrow> DynamicSecretPolicy \<Rightarrow> string \<Rightarrow> bool" where
  "rotation_due E R p h \<longleftrightarrow>
     targetKind p \<in> {KindDeployment, KindStatefulSet, KindDaemonSet, KindRollout} \<and>
     drifted p h \<and> (DesiredRevision (p_status p) = '''' \<or> breakerOpen (libs E) p) \<and>
     FindStatusCondition (libs E) (conds p) RolloutProgressing = None \<and> obtainable E R p h"

lemma stage_moves:
  assumes "meta_laws (libs E)" and "sources_readonly E R" and "cooperative E p" and "rotation_due E R p h"
    and "at_stage (libs E) p h n q"
  shows "spec (reconcilePolicy E R q) (moves q (at_stage (libs E) p h (Suc n)))"
proof -
  have due: "drifted p h" "obtainable E R p h" using assms(4) by (simp_all add: rotation_due_def)
  then have h: "h \<noteq> ''''" by (simp add: drifted_def)
  consider "n = 0" | m where "n = Suc m" "m < length (stages p)" | "n > length (stages p)"
    by (metis Suc_le_eq not0_implies_Suc not_less)
  then show ?thesis
  proof cases
    case 1
    with assms(5) have q: "q = p" by (simp add: at_stage_def)
    have "spec (materializeSecretRevision E R p) (\<lambda>r es. r = Inr h)" using due(2) by (simp add: obtainable_def)
    with assms(4) have "spec (reconcilePolicy E R p) (patches_to p (in_phase (libs E) p h RevisionPrepared))"
      by (intro rotation_step [OF assms(1,3)]) (simp_all add: rotation_due_def)
    then show ?thesis unfolding q by (rule patches_move) (use 1 in \<open>simp add: at_stage_def stages_def\<close>)
  next
    case 2
    with assms(5) have q: "in_phase (libs E) p h (stages p ! m) q" by (simp add: at_stage_def)
    show ?thesis
    proof (cases "targetKind p = KindRollout")
      case True
      from rollout_moves [OF assms(1,3) h due(2) True q 2(2)] 2 show ?thesis by simp
    next
      case False
      with assms(4) have "targetKind p \<in> {KindDeployment, KindStatefulSet, KindDaemonSet}" by (auto simp: rotation_due_def)
      from canary_moves [OF assms(1,3) h due(2) this q 2(2)] 2 show ?thesis by simp
    qed
  next
    case 3
    then have q: "settled (libs E) p h q" using assms(5) by (simp add: at_stage_def)
    then have "spec (materializeSecretRevision E R q) (\<lambda>r es. r = Inr h)" using due(2) by (simp add: obtainable_def settled_def)
    from settled_step [OF assms(1) q h assms(2) this] show ?thesis by (rule moves_mono) (use 3 in \<open>simp add: at_stage_def\<close>)
  qed
qed

lemma at_stage_same: "at_stage L p h n q \<Longrightarrow> same_policy p q"
  by (auto simp: at_stage_def in_phase_def settled_def split: if_splits)

lemma at_stage_merge:
  assumes "merge_laws merge" and "at_stage L p h (Suc n) new" and "same_policy p base"
  shows "at_stage L p h (Suc n) (merge base new base)"
  using assms
  by (auto simp: at_stage_def in_phase_def settled_def merge_laws_def merge_field_def split: if_splits)

text \<open>A reconciliation of the stored policy moves the stored policy on.\<close>

lemma stored_moves:
  assumes "merge_laws merge" and "same_policy p q" and "status_once q es" and "moves q (at_stage L p h (Suc n)) r es"
    and "at_stage L p h n q"
  shows "at_stage L p h (if waiting r then n else Suc n) (stored merge q es)"
proof (cases "list_all no_status es")
  case True
  from True have "EPatchStatus q x None \<notin> set es" for x by (auto simp: list_all_iff)
  with assms(4,5) True show ?thesis by (auto simp: moves_def patches_to_def stored_quiet)
next
  case False
  with assms(4) obtain new where new: "EPatchStatus q new None \<in> set es" "at_stage L p h (Suc n) new" and "r = Inr requeueNow"
    by (auto simp: moves_def patches_to_def)
  then have "\<not> waiting r" by (simp add: waiting_def requeueNow_def)
  then show ?thesis using stored_once [OF assms(3) new(1) refl] at_stage_merge [OF assms(1) new(2) assms(2)] by simp
qed

text \<open>One step of a run in a given stage: a reconciliation of the policy, and one of another policy.\<close>

lemma own_step:
  assumes "meta_laws (libs E)" and "sources_readonly E R" and "merge_laws merge" and "cooperative E p" and "rotation_due E R p h"
    and "at_stage (libs E) p h n (stored merge p (trace s))" and "reads_stored E merge p s"
    and "run_state (Reconcile E R (pol_namespace p) (pol_name p)) s = (r, s')"
  shows "at_stage (libs E) p h (if waiting r then n else Suc n) (stored merge p (trace s'))"
proof -
  let ?q = "stored merge p (trace s)"
  from assms(7) have get: "fst (cl_getPolicy (client E) (pol_namespace p) (pol_name p) (world s)) = Inr ?q" by (simp add: reads_stored_def)
  from Reconcile_spec [OF assms(8) get spec_conj [OF reconcilePolicy_once [OF assms(2)] stage_moves [OF assms(1,2,4-6)]]]
  obtain es where es: "trace s' = trace s @ es" "status_once ?q es" "moves ?q (at_stage (libs E) p h (Suc n)) r es" by blast
  from stored_moves [OF assms(3) at_stage_same [OF assms(6)] es(2,3) assms(6)] es(1) show ?thesis by (simp add: stored_append)
qed

lemma other_step:
  assumes "sources_readonly E R" and "key_of (stored merge p (trace s)) = key_of p" and "(ns, name) \<noteq> key_of p"
    and "reads_named E ns name s" and "run_state (Reconcile E R ns name) s = (r, s')"
  shows "stored merge p (trace s') = stored merge p (trace s)"
proof (cases "fst (cl_getPolicy (client E) ns name (world s))")
  case (Inl e)
  with Reconcile_reply [OF assms(5)] show ?thesis by simp
next
  case (Inr q)
  from Reconcile_spec [OF assms(5) Inr reconcilePolicy_once [OF assms(1)]]
  obtain es where es: "trace s' = trace s @ es" "status_once q es" .
  from assms(2-4) Inr have "key_of q \<noteq> key_of (stored merge p (trace s))" by (simp add: reads_named_def)
  from stored_other [OF es(2) this] es(1) show ?thesis by (simp add: stored_append)
qed

lemma run_stage:
  assumes "meta_laws (libs E)" and "sources_readonly E R" and "merge_laws merge" and "cooperative E p" and "rotation_due E R p h"
    and "run E R merge p n s"
  shows "at_stage (libs E) p h n (stored merge p (trace s))"
  using assms(6)
proof (induction rule: run.induct)
  case (start s)
  then show ?case by (simp add: stored_def at_stage_def)
next
  case (turn n s r s')
  from own_step [OF assms(1-5) turn.IH turn(2,3)] turn(4) show ?case by simp
next
  case (wait n s r s')
  from own_step [OF assms(1-5) wait.IH wait(2,3)] wait(4) show ?case by simp
next
  case (other n s ns name r s')
  from at_stage_same [OF other.IH] have "key_of (stored merge p (trace s)) = key_of p" by (simp add: key_of_def)
  from other_step [OF assms(2) this other(2-4)] other.IH show ?case by simp
next
  case (moved n s w)
  then show ?case by simp
qed

section \<open>Properties\<close>

text \<open>C4: a rotation completes in a running operator, if the cluster cooperates: the target is found, every creation of
  a canary or network policy, every patch of the workload and of the status is accepted, ownership can be set, a
  reconciliation reads the stored policy, the source keeps the new revision \<open>h\<close>, the validation of \<open>h\<close> may be
  pending but never fails, a Rollout is never degraded, and the policy starts in sync or with an open breaker and
  without a \<^verbatim>\<open>RolloutProgressing\<close> condition. Under these conditions, however the
  reconciliations of the policy are interleaved with those of other policies and with other changes of the
  cluster, and however often the validation is still pending: after \<open>n\<close> reconciliations that did not have to wait the stored policy is in the \<open>n\<close>-th stage of its
  rotation, and after four of them (three for a Rollout) the new revision is the current one, for good.\<close>

theorem interleaved_rotation:
  assumes "meta_laws (libs E)" and "sources_readonly E R" and "merge_laws merge" and "cooperative E p" and "rotation_due E R p h"
    and "run E R merge p n s"
  shows "at_stage (libs E) p h n (stored merge p (trace s)) \<and>
    (4 \<le> n \<or> targetKind p = KindRollout \<and> 3 \<le> n \<longrightarrow>
      CurrentRevision (p_status (stored merge p (trace s))) = h \<and> DesiredRevision (p_status (stored merge p (trace s))) = '''')"
  using run_stage [OF assms] by (auto simp: at_stage_def stages_def settled_def split: if_splits)

text \<open>A cluster whose state is the stored policy.\<close>

definition store_world :: "DynamicSecretPolicy env" where
  "store_world = \<lparr>client = sample_client\<lparr>cl_getPolicy := (\<lambda>ns n w. (if key_of w = (ns, n) then Inr w else Inl (StatusErr NotFound), w))\<rparr>,
     libs = list_libs, net = sample_net, wire = sample_wire\<rparr>"

definition store_reconciler :: "DynamicSecretPolicy reconciler" where
  "store_reconciler = \<lparr>rc_SecretFetcher = None,
     rc_ProviderRegistry = Some [SourceTypeAzureKeyVault \<mapsto> (\<lambda>E p. ret (Inr \<lparr>sp_Data = [(''db'', ''v'')], sp_Version = ''1''\<rparr>))],
     rc_KubeClient = False, rc_ProbeRunner = None, rc_OnSecretMaterialized = None\<rparr>"

lemma store_laws: "meta_laws (libs store_world)"
  using sample_laws by (simp add: store_world_def sample_world_def)

lemma store_readonly: "sources_readonly store_world store_reconciler"
  by (auto simp: sources_readonly_def activeRegistry_def registry_readonly_def store_reconciler_def intro!: spec_ret split: if_splits)

lemma store_cooperative: "cooperative store_world p"
  by (simp add: cooperative_def created_or_exists_def store_world_def sample_defs list_libs_def)

lemma store_materialize:
  assumes "same_policy (unprobed_sample k) q"
  shows "spec (materializeSecretRevision store_world store_reconciler q) (\<lambda>r es. r = Inr sample_revision)"
proof -
  have "result_of (materializeSecretRevision store_world store_reconciler q) s = Inr sample_revision" for s
    using assms
    by (simp add: result_of_def materializeSecretRevision_def activeRegistry_def store_reconciler_def Registry_Get_def sample_revision_def
        GetResolvedSource_def unprobed_sample_def createSecret_def call_def list_libs_def Let_def store_world_def sample_defs)
  then show ?thesis by (auto intro: spec_mono [OF spec_result [OF materialize_emits [OF store_readonly]]])
qed

lemma store_due: "rotation_due store_world store_reconciler (unprobed_sample KindDeployment) sample_revision"
proof -
  have "spec (reconcileValidationProbes store_world store_reconciler q) (\<lambda>r es. \<not> isl r)"
    if "same_policy (unprobed_sample KindDeployment) q" for q
    using that by (auto simp: reconcileValidationProbes_def unprobed_sample_def intro!: spec_ret)
  moreover have "w_phase x \<noteq> ''Degraded''" if "cl_getWorkload (client store_world) k ns n w = (Inr x, w')" for k ns n w x w'
    using that by (auto simp: store_world_def sample_defs)
  ultimately have "obtainable store_world store_reconciler (unprobed_sample KindDeployment) sample_revision"
    using store_materialize by (auto simp: obtainable_def)
  with unprobed_facts show ?thesis by (simp add: rotation_due_def store_world_def sample_world_def)
qed

text \<open>Without probes no reconciliation of the sample policy has to wait.\<close>

lemma store_no_wait:
  assumes "at_stage (libs store_world) (unprobed_sample KindDeployment) sample_revision n q" and "n < 4"
  shows "spec (reconcilePolicy store_world store_reconciler q) (\<lambda>r es. \<not> waiting r)"
proof -
  let ?E = store_world and ?p = "unprobed_sample KindDeployment"
  let ?in = "in_phase (libs ?E) ?p sample_revision"
  have h: "sample_revision \<noteq> ''''" using unprobed_facts(2) by (simp add: drifted_def)
  have kind: "targetKind ?p \<in> {KindDeployment, KindStatefulSet, KindDaemonSet}" by (simp add: unprobed_facts)
  then obtain A :: "DynamicSecretPolicy WorkloadAdapter" where A: "NewAdapter (targetKind ?p) = Inr A" by (auto simp: NewAdapter_def)
  note dispatched = in_phase_dispatch [OF store_laws _ h]
  have go: "spec (reconcilePolicy ?E store_reconciler q) (\<lambda>r es. \<not> waiting r)"
    if "spec (reconcilePolicy ?E store_reconciler q) (patches_to q Q)" for Q
    by (rule spec_mono [OF that]) (auto simp: patches_to_def waiting_def requeueNow_def)
  from assms consider "q = ?p" | "?in RevisionPrepared q" | "?in CanaryProvisioning q" | "?in Validating q"
    by (auto simp: at_stage_def stages_def unprobed_facts eval_nat_numeral less_Suc_eq)
  then show ?thesis
  proof cases
    case 1
    have "FindStatusCondition (libs ?E) (conds ?p) RolloutProgressing = None"
      using unprobed_facts(1) by (simp add: store_world_def sample_world_def)
    from rotation_step [OF store_laws store_cooperative this unprobed_facts(2) disjI1 [OF unprobed_facts(3)]
        store_materialize [where k = KindDeployment]]
    show ?thesis using 1 by (intro go) simp
  next
    case 2
    with prepared_step [OF store_laws store_cooperative 2 kind] show ?thesis by (intro go) (simp add: dispatched dispatch_def)
  next
    case 3
    with provisioning_step [OF store_laws store_cooperative 3] show ?thesis by (intro go) (simp add: dispatched dispatch_def)
  next
    case 4
    then have "spec (reconcileValidationProbes ?E store_reconciler q) (\<lambda>r es. r = Inr noRequeue)"
      by (auto simp: in_phase_def unprobed_sample_def reconcileValidationProbes_def intro!: spec_ret)
    with validating_step [OF store_laws store_cooperative 4 A] 4 show ?thesis
      by (intro go) (simp add: dispatched dispatch_def del: promoted_after.simps)
  qed
qed

lemma store_run:
  "n \<le> 4 \<Longrightarrow> \<exists>s. run store_world store_reconciler mergeStatus (unprobed_sample KindDeployment) n s"
proof (induction n)
  case 0
  have "run store_world store_reconciler mergeStatus (unprobed_sample KindDeployment) 0 \<lparr>world = unprobed_sample KindDeployment, trace = []\<rparr>"
    by (rule run.start) simp
  then show ?case by blast
next
  case (Suc n)
  let ?E = store_world and ?R = store_reconciler and ?p = "unprobed_sample KindDeployment"
  from Suc obtain s where s: "run ?E ?R mergeStatus ?p n s" by auto
  let ?q = "stored mergeStatus ?p (trace s)"
  note st = run_stage [OF store_laws store_readonly mergeStatus_laws store_cooperative store_due s]
  let ?s = "s\<lparr>world := ?q\<rparr>"
  have get: "fst (cl_getPolicy (client ?E) (pol_namespace ?p) (pol_name ?p) (world ?s)) = Inr ?q"
    using at_stage_same [OF st] by (simp add: store_world_def key_of_def)
  obtain r s' where step: "run_state (Reconcile ?E ?R (pol_namespace ?p) (pol_name ?p)) ?s = (r, s')" by fastforce
  from Reconcile_spec [OF step get store_no_wait [OF st]] Suc(2) have "\<not> waiting r" by auto
  moreover have "reads_stored ?E mergeStatus ?p ?s" using get by (simp add: reads_stored_def)
  ultimately show ?case using run.turn [OF run.moved [OF s] _ step] by blast
qed

theorem interleaved_rotation_witness:
  "\<exists>s. run store_world store_reconciler mergeStatus (unprobed_sample KindDeployment) 4 s \<and>
     CurrentRevision (p_status (stored mergeStatus (unprobed_sample KindDeployment) (trace s))) = sample_revision"
proof -
  from store_run [of 4] obtain s where s: "run store_world store_reconciler mergeStatus (unprobed_sample KindDeployment) 4 s" by auto
  from interleaved_rotation [OF store_laws store_readonly mergeStatus_laws store_cooperative store_due s] s show ?thesis by auto
qed

end
