(* ===== verification/Dso_Events.thy ===== *)
theory Dso_Events
  imports Dso_Types
begin

text \<open>
  Rotation events (\<^verbatim>\<open>internal/events/router.go\<close>): the message body is decoded into a struct and
  the name of the secret is taken from its data or from its subject path. The syntax of JSON is the
  parameter \<open>members\<close> (the members of the top-level object in document order, none for \<^verbatim>\<open>null\<close>, an error
  for anything else); how \<^verbatim>\<open>encoding/json\<close> fills the struct from them is written out: names match
  up to case, a later member overrides an earlier one, \<^verbatim>\<open>null\<close> leaves a field alone, and a value of
  another type leaves it alone and makes the first such error the result.
\<close>

section \<open>Decoding\<close>

record EventData =
  ed_Subject :: string
  ed_EventType :: string
  ed_ObjectName :: string
  ed_ObjectType :: string
  ed_Version :: string
  ed_PolicyName :: string
  ed_Namespace :: string

definition zero_event :: EventData where
  "zero_event = \<lparr>ed_Subject = '''', ed_EventType = '''', ed_ObjectName = '''', ed_ObjectType = '''',
     ed_Version = '''', ed_PolicyName = '''', ed_Namespace = ''''\<rparr>"

text \<open>The struct being filled and the first type error so far.\<close>

type_synonym decoding = "EventData \<times> err option"

fun json_kind :: "json \<Rightarrow> string" where
  "json_kind JNull = ''null''"
| "json_kind (JBool b) = ''bool''"
| "json_kind (JNum n) = ''number''"
| "json_kind (JStr s) = ''string''"
| "json_kind (JArr vs) = ''array''"
| "json_kind (JObj kvs) = ''object''"

definition typeError :: "string \<Rightarrow> string \<Rightarrow> json \<Rightarrow> decoding \<Rightarrow> decoding" where
  "typeError field goType v d =
     (fst d, case snd d of
        Some e \<Rightarrow> Some e
      | None \<Rightarrow> Some (Errorf ''json: cannot unmarshal %s into Go struct field %s of type %s'' [json_kind v, field, goType] None))"

definition setString ::
  "string \<Rightarrow> ((string \<Rightarrow> string) \<Rightarrow> EventData \<Rightarrow> EventData) \<Rightarrow> json \<Rightarrow> decoding \<Rightarrow> decoding" where
  "setString field upd v d =
     (case v of
        JStr s \<Rightarrow> (upd (\<lambda>_. s) (fst d), snd d)
      | JNull \<Rightarrow> d
      | _ \<Rightarrow> typeError field ''string'' v d)"

definition decodeDataMember :: "string \<times> json \<Rightarrow> decoding \<Rightarrow> decoding" where
  "decodeDataMember kv d =
     (let (k, v) = kv in
      if EqualFold k ''ObjectName'' then setString ''data.ObjectName'' ed_ObjectName_update v d
      else if EqualFold k ''ObjectType'' then setString ''data.ObjectType'' ed_ObjectType_update v d
      else if EqualFold k ''Version'' then setString ''data.Version'' ed_Version_update v d
      else d)"

definition decodeData :: "json \<Rightarrow> decoding \<Rightarrow> decoding" where
  "decodeData v d =
     (case v of
        JObj kvs \<Rightarrow> fold decodeDataMember kvs d
      | JNull \<Rightarrow> d
      | _ \<Rightarrow> typeError ''data'' ''struct'' v d)"

definition decodeMember :: "string \<times> json \<Rightarrow> decoding \<Rightarrow> decoding" where
  "decodeMember kv d =
     (let (k, v) = kv in
      if EqualFold k ''subject'' then setString ''subject'' ed_Subject_update v d
      else if EqualFold k ''eventType'' then setString ''eventType'' ed_EventType_update v d
      else if EqualFold k ''data'' then decodeData v d
      else if EqualFold k ''policyName'' then setString ''policyName'' ed_PolicyName_update v d
      else if EqualFold k ''namespace'' then setString ''namespace'' ed_Namespace_update v d
      else d)"

definition unmarshalEvent :: "(bytes \<Rightarrow> err + (string \<times> json) list) \<Rightarrow> bytes \<Rightarrow> err + EventData" where
  "unmarshalEvent members body =
     (case members body of
        Inl e \<Rightarrow> Inl e
      | Inr kvs \<Rightarrow>
          (case fold decodeMember kvs (zero_event, None) of
             (d, None) \<Rightarrow> Inr d
           | (d, Some e) \<Rightarrow> Inl e))"

section \<open>Routing\<close>

record EventPayload =
  ev_ObjectName :: string
  ev_PolicyName :: string
  ev_Namespace :: string

text \<open>The part after the first \<^verbatim>\<open>secrets\<close> of a path that has a successor.\<close>

fun secretInPath :: "string list \<Rightarrow> string" where
  "secretInPath [] = ''''"
| "secretInPath [x] = ''''"
| "secretInPath (x # y # xs) = (if x = ''secrets'' then y else secretInPath (y # xs))"

definition targetObjectName :: "EventData \<Rightarrow> string" where
  "targetObjectName d =
     (if ed_ObjectName d = '''' \<and> ed_Subject d \<noteq> '''' then secretInPath (Split (ed_Subject d) (CHR ''/''))
      else ed_ObjectName d)"

definition ParseRotationEventPayload :: "(bytes \<Rightarrow> err + (string \<times> json) list) \<Rightarrow> bytes \<Rightarrow> err + EventPayload" where
  "ParseRotationEventPayload members body =
     (case unmarshalEvent members body of
        Inl e \<Rightarrow> Inl (Errorf ''failed to unmarshal rotation event payload: %w'' [] (Some e))
      | Inr d \<Rightarrow> Inr \<lparr>ev_ObjectName = targetObjectName d, ev_PolicyName = ed_PolicyName d, ev_Namespace = ed_Namespace d\<rparr>)"

definition ParseRotationEvent :: "(bytes \<Rightarrow> err + (string \<times> json) list) \<Rightarrow> bytes \<Rightarrow> err + string \<times> string" where
  "ParseRotationEvent members body =
     (case ParseRotationEventPayload members body of
        Inl e \<Rightarrow> Inl e
      | Inr pl \<Rightarrow> Inr (ev_ObjectName pl, ev_PolicyName pl))"

section \<open>Samples\<close>

definition sample_event :: "bytes \<Rightarrow> err + (string \<times> json) list" where
  "sample_event body = Inr [(''subject'', JStr ''/subscriptions/1/vaults/kv/secrets/db-password/42''), (''data'', JObj [(''Version'', JStr ''42'')])]"

section \<open>Lemmas\<close>

lemma secretInPath_first:
  "''secrets'' \<notin> set xs \<Longrightarrow> secretInPath (xs @ ''secrets'' # name # ys) = name"
proof (induction xs rule: secretInPath.induct)
  case (2 x)
  then show ?case by (cases name) auto
qed auto

lemma Split_nonempty [simp]: "Split xs c \<noteq> []"
  by (induction xs) (auto split: list.splits)

lemma Split_append: "Split (xs @ c # ys) c = Split xs c @ Split ys c"
proof (induction xs)
  case (Cons x xs)
  then show ?case by (cases "Split xs c") (auto split: list.splits)
qed simp

lemma Split_single: "c \<notin> set xs \<Longrightarrow> Split xs c = [xs]"
  by (induction xs) auto

text \<open>A type error, once found, stays; a field keeps the last string written to it.\<close>

lemma typeError_snd [simp]: "snd (typeError f g v d) \<noteq> None" "fst (typeError f g v d) = fst d"
  by (auto simp: typeError_def split: option.splits)

lemma setString_err: "snd d \<noteq> None \<Longrightarrow> snd (setString f upd v d) = snd d"
  by (auto simp: setString_def typeError_def split: json.splits option.splits)

lemma fold_keeps_err:
  assumes "\<And>kv d. snd d \<noteq> None \<Longrightarrow> snd (f kv d) = snd d"
  shows "snd d \<noteq> None \<Longrightarrow> snd (fold f kvs d) = snd d"
  using assms by (induction kvs arbitrary: d) auto

lemma decodeDataMember_err: "snd d \<noteq> None \<Longrightarrow> snd (decodeDataMember kv d) = snd d"
  by (auto simp: decodeDataMember_def setString_err split: prod.splits)

lemma decodeData_err: "snd d \<noteq> None \<Longrightarrow> snd (decodeData v d) = snd d"
  by (cases v) (auto simp: decodeData_def typeError_def fold_keeps_err decodeDataMember_err)

lemma decodeMember_err: "snd d \<noteq> None \<Longrightarrow> snd (decodeMember kv d) = snd d"
  by (auto simp: decodeMember_def setString_err decodeData_err split: prod.splits)

lemma unmarshal_type_error:
  assumes "members body = Inr (xs @ kv # ys)" and "\<And>d. snd (decodeMember kv d) \<noteq> None"
  shows "\<exists>e. unmarshalEvent members body = Inl e"
proof -
  have "snd (fold decodeMember (xs @ kv # ys) (zero_event, None)) \<noteq> None"
    using fold_keeps_err [of decodeMember, OF decodeMember_err] assms(2) by simp
  then show ?thesis using assms(1) by (auto simp: unmarshalEvent_def split: prod.splits option.splits)
qed

section \<open>Properties\<close>

text \<open>An event that carries no object name is routed by its subject: the object is the path element after
  the first \<^verbatim>\<open>secrets\<close>, whatever the path before it and whether or not a version follows.\<close>

theorem subject_names_object:
  assumes "unmarshalEvent members body = Inr d" and "ed_ObjectName d = ''''"
    and "ed_Subject d = base @ ''/secrets/'' @ name @ rest" and "''secrets'' \<notin> set (Split base (CHR ''/''))"
    and "CHR ''/'' \<notin> set name" and "rest = '''' \<or> hd rest = CHR ''/''"
  shows "map_sum id ev_ObjectName (ParseRotationEventPayload members body) = Inr name"
proof -
  have rest: "\<exists>ps. Split (name @ rest) (CHR ''/'') = name # ps"
    using assms(5,6) Split_append [of name "CHR ''/''"] by (cases rest) (auto simp: Split_single)
  have "Split (ed_Subject d) (CHR ''/'') = Split base (CHR ''/'') @ ''secrets'' # Split (name @ rest) (CHR ''/'')"
    using Split_append [of base "CHR ''/''" "''secrets'' @ CHR ''/'' # name @ rest"]
      Split_append [of "''secrets''" "CHR ''/''" "name @ rest"] by (simp add: assms(3))
  with rest secretInPath_first [OF assms(4)] have "secretInPath (Split (ed_Subject d) (CHR ''/'')) = name" by auto
  then show ?thesis using assms(1-3) by (simp add: ParseRotationEventPayload_def targetObjectName_def)
qed

theorem subject_names_object_witness:
  "map_sum id ev_ObjectName (ParseRotationEventPayload sample_event ''{}'') = Inr ''db-password''"
proof (rule subject_names_object [where base = "''/subscriptions/1/vaults/kv''" and rest = "''/42''"])
  show "unmarshalEvent sample_event ''{}'' =
      Inr (zero_event\<lparr>ed_Subject := ''/subscriptions/1/vaults/kv/secrets/db-password/42'', ed_Version := ''42''\<rparr>)"
    by (simp add: unmarshalEvent_def sample_event_def decodeMember_def decodeData_def decodeDataMember_def setString_def zero_event_def go_defs)
qed (simp_all add: zero_event_def)

end
