(* ===== verification/Dso_Bus.thy ===== *)
theory Dso_Bus
  imports Dso_Events Dso_Sample Dso_Telemetry
begin

text \<open>
  The Service Bus listener (\<^verbatim>\<open>internal/azure/servicebus.go\<close>), the contract of an event handler
  (\<^verbatim>\<open>internal/events/ingester.go\<close>) and the handler the manager installs (\<^verbatim>\<open>cmd/main.go\<close>). A message is
  delivered to the handler together with its settlement function; the handler sends one event per
  matching policy into the channel of the controller and then settles the message. The SDK, the
  channel and the context are parameters. Sends, settlements and metrics are recorded in the trace.
\<close>

section \<open>Events and parameters\<close>

text \<open>The outcome of a send into the buffered channel: taken, still full after two seconds, or the
  context was cancelled before.\<close>

datatype send_result = Sent | ChannelFull | SendCanceled err

datatype bus_event =
    BSend string string send_result
  | BComplete string "err option"
  | BAbandon string "err option"
  | BCloseReceiver
  | BCloseClient
  | BMetric string "string list"

text \<open>A property of a message is a string or a value of another type.\<close>

datatype any = AString string | AOther

record ReceivedMessage =
  rm_MessageID :: string
  rm_Body :: bytes
  rm_ApplicationProperties :: "string \<rightharpoonup> any"

record 'w Receiver =
  rv_ReceiveMessages :: "int \<Rightarrow> 'w \<Rightarrow> (err + ReceivedMessage list) \<times> 'w"
  rv_CompleteMessage :: "ReceivedMessage \<Rightarrow> 'w \<Rightarrow> err option \<times> 'w"
  rv_AbandonMessage :: "ReceivedMessage \<Rightarrow> 'w \<Rightarrow> err option \<times> 'w"
  rv_Close :: "'w \<Rightarrow> err option \<times> 'w"

text \<open>The context of \<^verbatim>\<open>Start\<close>: whether it is done; whether it is done before a back-off of two seconds
  has passed; and whether an error is a cancellation. The SDK constructors take the namespace and the
  credential.\<close>

record 'w Context =
  ctx_Done :: "'w \<Rightarrow> bool \<times> 'w"
  ctx_Backoff :: "'w \<Rightarrow> bool \<times> 'w"
  ctx_isCanceled :: "err \<Rightarrow> bool"

record ('w, 'c) BusSDK =
  az_NewClient :: "string \<Rightarrow> 'c \<Rightarrow> err option"
  az_NewReceiverForQueue :: "string \<Rightarrow> 'c \<Rightarrow> string \<Rightarrow> err + 'w Receiver"
  az_CloseClient :: "'w \<Rightarrow> err option \<times> 'w"

section \<open>Trace context carrier\<close>

definition carrier_Get :: "(string \<rightharpoonup> any) \<Rightarrow> string \<Rightarrow> string" where
  "carrier_Get c key = (case c key of Some (AString v) \<Rightarrow> v | _ \<Rightarrow> '''')"

definition carrier_Set :: "(string \<rightharpoonup> any) \<Rightarrow> string \<Rightarrow> string \<Rightarrow> (string \<rightharpoonup> any)" where
  "carrier_Set c key v = c(key \<mapsto> AString v)"

definition carrier_Keys :: "(string \<rightharpoonup> any) \<Rightarrow> string set" where
  "carrier_Keys c = dom c"

section \<open>The listener\<close>

type_synonym ('w, 'a) bus = "('w, bus_event, 'a) eff"
type_synonym 'w AckFunc = "('w, err option) bus"
type_synonym 'w EventHandler = "bytes \<Rightarrow> 'w AckFunc \<Rightarrow> ('w, err option) bus"

record ('w, 'c) ServiceBusListener =
  sb_Namespace :: string
  sb_QueueName :: string
  sb_Cred :: 'c
  sb_MaxMessages :: int
  sb_handler :: "'w EventHandler option"
  sb_customReceiver :: "'w Receiver option"

definition NewServiceBusListener :: "string \<Rightarrow> string \<Rightarrow> 'c option \<Rightarrow> err + ('w, 'c) ServiceBusListener" where
  "NewServiceBusListener ns queueName cred =
     (if ns = '''' then Inl (Errorf ''service bus namespace must be specified'' [] None)
      else if queueName = '''' then Inl (Errorf ''service bus queue name must be specified'' [] None)
      else case cred of
        None \<Rightarrow> Inl (Errorf ''token credential must not be nil'' [] None)
      | Some c \<Rightarrow> Inr \<lparr>sb_Namespace = ns, sb_QueueName = queueName, sb_Cred = c, sb_MaxMessages = 10,
                      sb_handler = None, sb_customReceiver = None\<rparr>)"

definition SetEventHandler :: "'w EventHandler \<Rightarrow> ('w, 'c) ServiceBusListener \<Rightarrow> ('w, 'c) ServiceBusListener" where
  "SetEventHandler h l = l\<lparr>sb_handler := Some h\<rparr>"

definition NeedLeaderElection :: "('w, 'c) ServiceBusListener \<Rightarrow> bool" where
  "NeedLeaderElection l = True"

abbreviation messages_metric :: "string \<Rightarrow> bus_event" where
  "messages_metric status \<equiv> BMetric ''dso_servicebus_messages_total'' [status]"

definition ackFunc :: "'w Receiver \<Rightarrow> ReceivedMessage \<Rightarrow> 'w AckFunc" where
  "ackFunc receiver msg = do {
     r \<leftarrow> call (rv_CompleteMessage receiver msg) (BComplete (rm_MessageID msg));
     case r of
       Some e \<Rightarrow> do { emit (messages_metric ''nack''); ret (Some e) }
     | None \<Rightarrow> do { emit (messages_metric ''ack''); ret None }
   }"

text \<open>One message of a batch.\<close>

definition deliver :: "('w, 'c) ServiceBusListener \<Rightarrow> 'w Receiver \<Rightarrow> ReceivedMessage \<Rightarrow> ('w, unit) bus" where
  "deliver l receiver msg =
     (case sb_handler l of
        None \<Rightarrow> ret ()
      | Some handler \<Rightarrow> do {
          r \<leftarrow> handler (rm_Body msg) (ackFunc receiver msg);
          case r of
            None \<Rightarrow> ret ()
          | Some e \<Rightarrow> do {
              emit (messages_metric ''nack'');
              _ \<leftarrow> call (rv_AbandonMessage receiver msg) (BAbandon (rm_MessageID msg));
              ret ()
            }
        })"

definition maxMessages :: "('w, 'c) ServiceBusListener \<Rightarrow> int" where
  "maxMessages l = (if sb_MaxMessages l \<le> 0 then 10 else sb_MaxMessages l)"

text \<open>One turn of the receive loop: whether it returns.\<close>

definition receiveOnce :: "('w, 'c) ServiceBusListener \<Rightarrow> 'w Context \<Rightarrow> 'w Receiver \<Rightarrow> ('w, bool) bus" where
  "receiveOnce l X receiver = do {
     done \<leftarrow> query (ctx_Done X);
     if done then ret True
     else do {
       r \<leftarrow> query (rv_ReceiveMessages receiver (maxMessages l));
       case r of
         Inl e \<Rightarrow>
           if ctx_isCanceled X e then ret True
           else do {
             done' \<leftarrow> query (ctx_Done X);
             if done' then ret True else query (ctx_Backoff X)
           }
       | Inr messages \<Rightarrow> do {
           for_each messages (deliver l receiver);
           ret False
         }
     }
   }"

text \<open>The loop has no end of its own; \<open>False\<close> means that it still runs after the given turns.\<close>

fun receiveLoop :: "nat \<Rightarrow> ('w, 'c) ServiceBusListener \<Rightarrow> 'w Context \<Rightarrow> 'w Receiver \<Rightarrow> ('w, bool) bus" where
  "receiveLoop 0 l X receiver = ret False"
| "receiveLoop (Suc n) l X receiver = do {
     stop \<leftarrow> receiveOnce l X receiver;
     if stop then ret True else receiveLoop n l X receiver
   }"

text \<open>\<^verbatim>\<open>Start\<close>: the result is \<open>None\<close> while it runs; when it returns, the receiver is closed, then the
  client.\<close>

definition serve :: "nat \<Rightarrow> ('w, 'c) ServiceBusListener \<Rightarrow> 'w Context \<Rightarrow> 'w Receiver \<Rightarrow> ('w, err option option) bus" where
  "serve n l X receiver = do {
     stopped \<leftarrow> receiveLoop n l X receiver;
     if stopped then do {
       _ \<leftarrow> call (rv_Close receiver) (\<lambda>_. BCloseReceiver);
       ret (Some None)
     } else ret None
   }"

definition closeClient :: "('w, 'c) BusSDK \<Rightarrow> ('w, unit) bus" where
  "closeClient S = do { _ \<leftarrow> call (az_CloseClient S) (\<lambda>_. BCloseClient); ret () }"

definition Start :: "nat \<Rightarrow> ('w, 'c) BusSDK \<Rightarrow> 'w Context \<Rightarrow> ('w, 'c) ServiceBusListener \<Rightarrow> ('w, err option option) bus" where
  "Start n S X l =
     (case sb_customReceiver l of
        Some receiver \<Rightarrow> serve n l X receiver
      | None \<Rightarrow>
          (case az_NewClient S (sb_Namespace l) (sb_Cred l) of
             Some e \<Rightarrow> ret (Some (Some (Errorf ''failed to create azservicebus client: %w'' [] (Some e))))
           | None \<Rightarrow>
               (case az_NewReceiverForQueue S (sb_Namespace l) (sb_Cred l) (sb_QueueName l) of
                  Inl e \<Rightarrow> do {
                    closeClient S;
                    ret (Some (Some (Errorf ''failed to create queue receiver: %w'' [] (Some e))))
                  }
                | Inr receiver \<Rightarrow> do {
                    r \<leftarrow> serve n l X receiver;
                    if r = None then ret None else do { closeClient S; ret r }
                  })))"

section \<open>The handler of the manager\<close>

definition eventMatches :: "EventPayload \<Rightarrow> DynamicSecretPolicy \<Rightarrow> bool" where
  "eventMatches pl p \<longleftrightarrow>
     ev_ObjectName pl = '''' \<or> GetVaultObjectName (p_spec p) = ev_ObjectName pl \<or> pol_name p = ev_PolicyName pl"

type_synonym 'w Channel = "string \<Rightarrow> string \<Rightarrow> 'w \<Rightarrow> send_result \<times> 'w"

fun enqueueMatching :: "'w Channel \<Rightarrow> EventPayload \<Rightarrow> DynamicSecretPolicy list \<Rightarrow> ('w, err option) bus" where
  "enqueueMatching ch pl [] = ret None"
| "enqueueMatching ch pl (p # ps) =
     (if eventMatches pl p then do {
        r \<leftarrow> call (ch (pol_namespace p) (pol_name p)) (BSend (pol_namespace p) (pol_name p));
        case r of
          Sent \<Rightarrow> enqueueMatching ch pl ps
        | ChannelFull \<Rightarrow> ret (Some (Errorf ''controller event channel at capacity'' [] None))
        | SendCanceled e \<Rightarrow> ret (Some e)
      } else enqueueMatching ch pl ps)"

definition handleRotationEvent ::
  "'w env \<Rightarrow> (bytes \<Rightarrow> err + (string \<times> json) list) \<Rightarrow> 'w Channel \<Rightarrow> 'w EventHandler" where
  "handleRotationEvent E members ch body ack =
     (case ParseRotationEventPayload members body of
        Inl e \<Rightarrow> ret (Some e)
      | Inr pl \<Rightarrow> do {
          l \<leftarrow> query (cl_listPolicies (client E) (if ev_Namespace pl \<noteq> '''' then Some (ev_Namespace pl) else None));
          case l of
            Inl e \<Rightarrow> ret (Some e)
          | Inr policies \<Rightarrow> do {
              r \<leftarrow> enqueueMatching ch pl policies;
              case r of
                Some e \<Rightarrow> ret (Some e)
              | None \<Rightarrow> ack
            }
        })"

section \<open>Settlement and samples\<close>

fun is_send :: "bus_event \<Rightarrow> bool" where
  "is_send (BSend ns n r) = True"
| "is_send _ = False"

fun bus_metric_ok :: "bus_event \<Rightarrow> bool" where
  "bus_metric_ok (BMetric m ls) = well_labelled m ls"
| "bus_metric_ok _ = True"

text \<open>How a message ends: completed, or given back, after a failed completion or without one.\<close>

definition completed :: "string \<Rightarrow> bus_event list \<Rightarrow> bool" where
  "completed i es \<longleftrightarrow> es = [BComplete i None, messages_metric ''ack'']"

definition abandoned :: "string \<Rightarrow> bus_event list \<Rightarrow> bool" where
  "abandoned i es \<longleftrightarrow> (\<exists>r. es = [messages_metric ''nack'', BAbandon i r] \<or>
     (\<exists>e. es = [BComplete i (Some e), messages_metric ''nack'', messages_metric ''nack'', BAbandon i r]))"

text \<open>A message is settled when it is completed after all it asks for was sent, or abandoned.\<close>

definition settled :: "(bytes \<Rightarrow> bus_event list \<Rightarrow> bool) \<Rightarrow> ReceivedMessage \<Rightarrow> bus_event list \<Rightarrow> bool" where
  "settled sent msg es \<longleftrightarrow>
     (\<exists>pre post. es = pre @ post \<and> list_all is_send pre \<and>
        (abandoned (rm_MessageID msg) post \<or> completed (rm_MessageID msg) post \<and> sent (rm_Body msg) pre))"

text \<open>All events of a body: one for every policy of the listing, in the named namespace or in all, that the
  event matches, each taken by the channel.\<close>

definition sends_for :: "EventPayload \<Rightarrow> DynamicSecretPolicy list \<Rightarrow> bus_event list" where
  "sends_for pl ps = map (\<lambda>p. BSend (pol_namespace p) (pol_name p) Sent) (filter (eventMatches pl) ps)"

definition all_sent :: "'w env \<Rightarrow> (bytes \<Rightarrow> err + (string \<times> json) list) \<Rightarrow> bytes \<Rightarrow> bus_event list \<Rightarrow> bool" where
  "all_sent E members body es \<longleftrightarrow>
     (\<exists>pl ps w w'. ParseRotationEventPayload members body = Inr pl \<and>
        cl_listPolicies (client E) (if ev_Namespace pl \<noteq> '''' then Some (ev_Namespace pl) else None) w = (Inr ps, w') \<and>
        es = sends_for pl ps)"

text \<open>The state before each turn while the loop runs.\<close>

definition after_turns ::
  "nat \<Rightarrow> ('w, 'c) ServiceBusListener \<Rightarrow> 'w Context \<Rightarrow> 'w Receiver \<Rightarrow> ('w, bus_event) sys \<Rightarrow> ('w, bus_event) sys" where
  "after_turns n l X receiver s = ((\<lambda>t. snd (run_state (receiveOnce l X receiver) t)) ^^ n) s"

text \<open>A context that is done before the third turn, and a queue that is always empty.\<close>

definition idle_receiver :: "nat Receiver" where
  "idle_receiver = \<lparr>rv_ReceiveMessages = (\<lambda>n w. (Inr [], Suc w)), rv_CompleteMessage = (\<lambda>m w. (None, w)),
     rv_AbandonMessage = (\<lambda>m w. (None, w)), rv_Close = (\<lambda>w. (None, w))\<rparr>"

definition idle_listener :: "(nat, unit) ServiceBusListener" where
  "idle_listener = \<lparr>sb_Namespace = ''ns'', sb_QueueName = ''q'', sb_Cred = (), sb_MaxMessages = 10, sb_handler = None, sb_customReceiver = None\<rparr>"

definition idle_sdk :: "(nat, unit) BusSDK" where
  "idle_sdk = \<lparr>az_NewClient = (\<lambda>ns c. None), az_NewReceiverForQueue = (\<lambda>ns c q. Inr idle_receiver), az_CloseClient = (\<lambda>w. (None, w))\<rparr>"

definition third_turn :: "nat Context" where
  "third_turn = \<lparr>ctx_Done = (\<lambda>w. (w = 2, w)), ctx_Backoff = (\<lambda>w. (False, w)), ctx_isCanceled = (\<lambda>e. False)\<rparr>"

section \<open>The contract of a handler\<close>

lemma settledI:
  "list_all is_send pre \<Longrightarrow> sent (rm_Body msg) pre \<Longrightarrow>
   settled sent msg (pre @ [BComplete (rm_MessageID msg) None, messages_metric ''ack''])"
  "list_all is_send pre \<Longrightarrow> settled sent msg (pre @ [messages_metric ''nack'', BAbandon (rm_MessageID msg) r])"
  "list_all is_send pre \<Longrightarrow> settled sent msg (pre @
     [BComplete (rm_MessageID msg) (Some e), messages_metric ''nack'', messages_metric ''nack'', BAbandon (rm_MessageID msg) r])"
  unfolding settled_def completed_def abandoned_def by blast+

lemma settled_metrics: "settled sent msg es \<Longrightarrow> list_all bus_metric_ok es"
proof -
  have "list_all bus_metric_ok pre" if "list_all is_send pre" for pre
    using that by (rule list.pred_mono_strong) (metis bus_metric_ok.simps(2) is_send.elims(2))
  then show "settled sent msg es \<Longrightarrow> ?thesis" unfolding settled_def abandoned_def completed_def by auto
qed

lemma ackFunc_spec:
  "spec (ackFunc receiver msg) (\<lambda>r es. r = None \<and> completed (rm_MessageID msg) es \<or>
     (\<exists>e. r = Some e \<and> es = [BComplete (rm_MessageID msg) (Some e), messages_metric ''nack'']))"
  unfolding ackFunc_def by (auto intro!: spec_rules simp: completed_def)

text \<open>What the listener relies on: a handler sends, then either fails, or runs the settlement function as
  its last action, after it sent all that the body asks for, and answers with its result.\<close>

locale event_handler =
  fixes h :: "'w EventHandler" and sent :: "bytes \<Rightarrow> bus_event list \<Rightarrow> bool"
  assumes settles_last:
    "spec ack A \<Longrightarrow> spec (h body ack) (\<lambda>r es. \<exists>pre post. es = pre @ post \<and> list_all is_send pre \<and>
       (post = [] \<and> r \<noteq> None \<or> A r post \<and> sent body pre))"
begin

lemma deliver_settles: "spec (deliver (SetEventHandler h l) receiver msg) (\<lambda>_ es. settled sent msg es)"
  unfolding deliver_def SetEventHandler_def
  by (auto intro!: spec_bind spec_mono [OF settles_last [OF ackFunc_spec]] spec_rules settledI simp: completed_def)

lemma batch_settles:
  "spec (for_each msgs (deliver (SetEventHandler h l) receiver))
     (\<lambda>_ es. \<exists>ess. es = concat ess \<and> list_all2 (settled sent) msgs ess)"
proof (induction msgs)
  case Nil
  then show ?case by (simp add: spec_ret)
next
  case (Cons msg msgs)
  have "spec (for_each (msg # msgs) (deliver (SetEventHandler h l) receiver))
      (\<lambda>_ es. \<exists>xs ess. es = xs @ concat ess \<and> settled sent msg xs \<and> list_all2 (settled sent) msgs ess)"
    by (simp, rule spec_bind, rule spec_mono [OF deliver_settles], rule spec_mono [OF Cons.IH]) blast
  then show ?case
  proof (rule spec_mono)
    fix r es
    assume "\<exists>xs ess. es = xs @ concat ess \<and> settled sent msg xs \<and> list_all2 (settled sent) msgs ess"
    then obtain xs ess where "es = concat (xs # ess)" "list_all2 (settled sent) (msg # msgs) (xs # ess)" by auto
    then show "\<exists>ess. es = concat ess \<and> list_all2 (settled sent) (msg # msgs) ess" by blast
  qed
qed

end

section \<open>The handler keeps the contract\<close>

lemma enqueueMatching_spec:
  "spec (enqueueMatching ch pl ps) (\<lambda>r es. list_all is_send es \<and> (r = None \<longrightarrow> es = sends_for pl ps))"
proof (induction ps)
  case Nil
  then show ?case by (simp add: sends_for_def spec_ret)
next
  case (Cons p ps)
  have "spec (case r of Sent \<Rightarrow> enqueueMatching ch pl ps
        | ChannelFull \<Rightarrow> ret (Some (Errorf ''controller event channel at capacity'' [] None)) | SendCanceled e \<Rightarrow> ret (Some e))
      (\<lambda>x es'. list_all is_send ([BSend (pol_namespace p) (pol_name p) r] @ es') \<and>
         (x = None \<longrightarrow> [BSend (pol_namespace p) (pol_name p) r] @ es' = BSend (pol_namespace p) (pol_name p) Sent # sends_for pl ps))" for r
    by (cases r) (auto intro!: spec_ret spec_mono [OF Cons.IH])
  then show ?case using Cons.IH by (auto simp: sends_for_def intro!: spec_bind spec_call)
qed

lemma handleRotationEvent_settles_last:
  assumes "spec ack A"
  shows "spec (handleRotationEvent E members ch body ack) (\<lambda>r es. \<exists>pre post. es = pre @ post \<and> list_all is_send pre \<and>
     (post = [] \<and> r \<noteq> None \<or> A r post \<and> all_sent E members body pre))"
proof (cases "ParseRotationEventPayload members body")
  case (Inl e)
  then show ?thesis by (auto simp: handleRotationEvent_def intro!: spec_ret)
next
  case (Inr pl)
  have enq: "spec (State_Monad.bind (enqueueMatching ch pl ps) (\<lambda>r. case r of None \<Rightarrow> ack | Some e \<Rightarrow> ret (Some e)))
      (\<lambda>r es. \<exists>pre post. es = pre @ post \<and> list_all is_send pre \<and> (post = [] \<and> r \<noteq> None \<or> A r post \<and> all_sent E members body pre))"
    if "cl_listPolicies (client E) (if ev_Namespace pl \<noteq> '''' then Some (ev_Namespace pl) else None) w = (Inr ps, w')" for ps w w'
  proof -
    have "all_sent E members body (sends_for pl ps)" unfolding all_sent_def using Inr that by blast
    then show ?thesis
      by (intro spec_bind spec_mono [OF enqueueMatching_spec]) (auto intro!: spec_case_option spec_ret spec_mono [OF assms])
  qed
  show ?thesis unfolding handleRotationEvent_def Inr sum.case
    by (rule spec_bind, rule spec_query_reply) (auto intro!: spec_ret enq simp del: not_None_eq split: sum.splits)
qed

interpretation rotation: event_handler "handleRotationEvent E members ch" "all_sent E members" for E members ch
  by unfold_locales (rule handleRotationEvent_settles_last)

section \<open>The receive loop\<close>

lemma receiveLoop_stops:
  assumes "fst (ctx_Done X (world (after_turns k l X receiver s)))" and "k < n"
  shows "result_of (receiveLoop n l X receiver) s"
  using assms
proof (induction n arbitrary: k s)
  case (Suc n)
  show ?case
  proof (cases "result_of (receiveOnce l X receiver) s")
    case True
    then show ?thesis by (simp add: result_of_def split_beta)
  next
    case False
    have "k \<noteq> 0"
    proof
      assume "k = 0"
      with Suc.prems(1) have "result_of (receiveOnce l X receiver) s"
        by (simp add: after_turns_def result_of_def receiveOnce_def query_def split_beta)
      with False show False by simp
    qed
    then obtain j where k: "k = Suc j" by (cases k) auto
    let ?t = "snd (run_state (receiveOnce l X receiver) s)"
    have "fst (ctx_Done X (world (after_turns j l X receiver ?t)))"
      using Suc.prems(1) by (simp add: k after_turns_def funpow_Suc_right del: funpow.simps)
    with Suc.IH [of j ?t] Suc.prems(2) False k show ?thesis by (simp add: result_of_def split_beta)
  qed
qed simp

lemma serve_stops:
  assumes "result_of (receiveLoop n l X receiver) s"
  shows "result_of (serve n l X receiver) s = Some None" and "suffix [BCloseReceiver] (trace (snd (run_state (serve n l X receiver) s)))"
  using assms by (auto simp: serve_def result_of_def call_def suffix_def split_beta)

section \<open>Properties\<close>

text \<open>C12: every message of a batch is settled, in the order of the batch and exactly once: it is completed,
  after an event was sent for every policy of the listing that it matches and each was taken by the
  channel, or it is abandoned for redelivery, and never completed before its events were sent.\<close>

theorem batch_settled:
  "spec (for_each msgs (deliver (SetEventHandler (handleRotationEvent E members ch) l) receiver))
     (\<lambda>_ es. \<exists>ess. es = concat ess \<and> list_all2 (settled (all_sent E members)) msgs ess)"
  by (rule rotation.batch_settles)

text \<open>C32: the listener stops: when the context is found done before some turn of the receive loop, \<^verbatim>\<open>Start\<close>
  returns without error, whatever the handler does, and its last actions close the receiver and the
  client.\<close>

theorem listener_stops:
  assumes "sb_customReceiver l = None" and "az_NewClient S (sb_Namespace l) (sb_Cred l) = None"
    and "az_NewReceiverForQueue S (sb_Namespace l) (sb_Cred l) (sb_QueueName l) = Inr receiver"
    and "fst (ctx_Done X (world (after_turns k l X receiver s)))" and "k < n"
  shows "result_of (Start n S X l) s = Some None \<and>
    suffix [BCloseReceiver, BCloseClient] (trace (snd (run_state (Start n S X l) s)))"
proof -
  note stop = serve_stops [OF receiveLoop_stops [OF assms(4,5)]]
  then obtain es where "trace (snd (run_state (serve n l X receiver) s)) = es @ [BCloseReceiver]" by (auto simp: suffix_def)
  with stop(1) assms(1-3) show ?thesis
    by (auto simp: Start_def closeClient_def result_of_def call_def suffix_def split_beta)
qed

theorem listener_stops_witness:
  "result_of (Start 3 idle_sdk third_turn idle_listener) \<lparr>world = 0, trace = []\<rparr> = Some None"
proof (rule conjunct1 [OF listener_stops])
  show "fst (ctx_Done third_turn (world (after_turns 2 idle_listener third_turn idle_receiver \<lparr>world = 0, trace = []\<rparr>)))"
    by (simp add: after_turns_def numeral_2_eq_2 receiveOnce_def third_turn_def idle_receiver_def query_def)
qed (simp_all add: idle_listener_def idle_sdk_def)

text \<open>An event that names only a policy does not reach that policy alone: its empty object name matches
  every policy of the listing.\<close>

theorem policy_event_matches_all:
  assumes "members body = Inr [(''policyName'', JStr n)]"
  shows "\<exists>pl. ParseRotationEventPayload members body = Inr pl \<and> ev_PolicyName pl = n \<and> eventMatches pl p"
  using assms
  by (simp add: ParseRotationEventPayload_def unmarshalEvent_def decodeMember_def setString_def targetObjectName_def zero_event_def
      eventMatches_def go_defs)

theorem policy_event_matches_all_witness:
  "\<exists>pl. ParseRotationEventPayload (\<lambda>_. Inr [(''policyName'', JStr ''other'')]) ''{}'' = Inr pl \<and> ev_PolicyName pl = ''other'' \<and>
     eventMatches pl sample_policy"
  by (rule policy_event_matches_all) simp

end
