(* ===== verification/Dso_Main.thy ===== *)
theory Dso_Main
  imports Dso_Bus Dso_Materialize
begin

text \<open>
  Start of the operator: the credential (\<^verbatim>\<open>internal/azure/auth.go\<close>), the choice of mode and provider,
  the secret cache, the wiring of reconciler and listener (\<^verbatim>\<open>cmd/main.go\<close>), and the watches of the
  controller (\<open>SetupWithManager\<close>). Environment variables, file access, the SDK constructors and the steps
  of the manager are parameters; an error of \<open>startOperator\<close> is \<^verbatim>\<open>os.Exit(1)\<close>. The parsed command line is
  a parameter, \<open>defaultFlags\<close> is what it starts from; the options of the logger are left out.
\<close>

section \<open>Credential\<close>

datatype stat_result = StatOk | StatNotExist | StatFailed err

abbreviation EnvAzureFederatedTokenFile :: string where "EnvAzureFederatedTokenFile \<equiv> ''AZURE_FEDERATED_TOKEN_FILE''"
abbreviation EnvAzureClientID :: string where "EnvAzureClientID \<equiv> ''AZURE_CLIENT_ID''"
abbreviation EnvAzureTenantID :: string where "EnvAzureTenantID \<equiv> ''AZURE_TENANT_ID''"

definition NewAzureCredential :: "(string \<Rightarrow> string) \<Rightarrow> (string \<Rightarrow> stat_result) \<Rightarrow> err + 'c \<Rightarrow> err + 'c" where
  "NewAzureCredential getenv stat newCredential =
     (let tokenFile = getenv EnvAzureFederatedTokenFile in
      if tokenFile = '''' then Inl (Errorf
        ''required environment variable %s is not set: Azure Workload Identity is mandatory for zero-trust passwordless authentication''
        [EnvAzureFederatedTokenFile] None)
      else if getenv EnvAzureClientID = '''' then Inl (Errorf
        ''required environment variable %s is not set: managed identity client ID is required'' [EnvAzureClientID] None)
      else if getenv EnvAzureTenantID = '''' then Inl (Errorf
        ''required environment variable %s is not set: directory tenant ID is required'' [EnvAzureTenantID] None)
      else case stat tokenFile of
        StatNotExist \<Rightarrow> Inl (Errorf ''federated token file %q specified in %s does not exist'' [tokenFile, EnvAzureFederatedTokenFile] None)
      | StatFailed e \<Rightarrow> Inl (Errorf ''failed to access federated token file %q: %w'' [tokenFile] (Some e))
      | StatOk \<Rightarrow>
          (case newCredential of
             Inl e \<Rightarrow> Inl (Errorf ''failed to create Azure Workload Identity credential: %w'' [] (Some e))
           | Inr cred \<Rightarrow> Inr cred))"

text \<open>A fetcher is the \<^verbatim>\<open>azsecrets\<close> client of its credential.\<close>

definition NewKeyVaultFetcher :: "('c \<Rightarrow> 'w AzSecrets) \<Rightarrow> 'c option \<Rightarrow> err + 'w SecretFetcher" where
  "NewKeyVaultFetcher azFor cred =
     (case cred of
        None \<Rightarrow> Inl (Errorf ''token credential must not be nil'' [] None)
      | Some c \<Rightarrow> Inr (AzureKeyVaultFetcher_GetSecret (azFor c)))"

section \<open>Mode and provider\<close>

record Flags =
  fl_mode :: string
  fl_provider :: string
  fl_eventBufferSize :: int
  fl_maxConcurrentReconciles :: int
  fl_watchNamespaces :: string
  fl_metricsAddr :: string
  fl_probeAddr :: string
  fl_leaderElection :: bool
  fl_secureMetrics :: bool
  fl_syncPeriod :: int

text \<open>Durations are numbers of nanoseconds.\<close>

abbreviation Minute :: int where "Minute \<equiv> 60000000000"

definition defaultFlags :: Flags where
  "defaultFlags = \<lparr>fl_mode = ''event-driven'', fl_provider = ''azure'', fl_eventBufferSize = 1000, fl_maxConcurrentReconciles = 5,
     fl_watchNamespaces = '''', fl_metricsAddr = '':8080'', fl_probeAddr = '':8081'', fl_leaderElection = True,
     fl_secureMetrics = False, fl_syncPeriod = 5 * Minute\<rparr>"

definition syntheticFetcher :: "'w SecretFetcher" where
  "syntheticFetcher vaultURI secretName version =
     (let v = (if version = '''' then ''v1'' else version) in
      ret (Inr \<lparr>az_Value = ''synthetic-e2e-secret-content'', az_Version = v,
                az_ID = vaultURI @ ''/secrets/'' @ secretName @ ''/'' @ v\<rparr>))"

definition effectiveMode :: "(string \<Rightarrow> string) \<Rightarrow> Flags \<Rightarrow> string" where
  "effectiveMode getenv fl = ToLower (TrimSpace (if getenv ''DSO_MODE'' \<noteq> '''' then getenv ''DSO_MODE'' else fl_mode fl))"

definition effectiveProvider :: "(string \<Rightarrow> string) \<Rightarrow> Flags \<Rightarrow> string" where
  "effectiveProvider getenv fl =
     (if effectiveMode getenv fl = ''eso'' then ''''
      else ToLower (TrimSpace (if getenv ''DSO_PROVIDER'' \<noteq> '''' then getenv ''DSO_PROVIDER'' else fl_provider fl)))"

text \<open>What startup reads: environment variables, the token file, the credential and the clients it gives.\<close>

record ('w, 'c) Cloud =
  cd_getenv :: "string \<Rightarrow> string"
  cd_stat :: "string \<Rightarrow> stat_result"
  cd_newCredential :: "err + 'c"
  cd_azFor :: "'c \<Rightarrow> 'w AzSecrets"

definition azureSetup :: "('w, 'c) Cloud \<Rightarrow> err + ('w SecretFetcher option \<times> ('w, 'c) ServiceBusListener option)" where
  "azureSetup K =
     (case NewAzureCredential (cd_getenv K) (cd_stat K) (cd_newCredential K) of
        Inl e \<Rightarrow> Inl e
      | Inr cred \<Rightarrow>
          (case NewKeyVaultFetcher (cd_azFor K) (Some cred) of
             Inl e \<Rightarrow> Inl e
           | Inr kvFetcher \<Rightarrow>
               (let sbNamespace = cd_getenv K ''SERVICEBUS_NAMESPACE''; sbQueue = cd_getenv K ''SERVICEBUS_QUEUE_NAME'' in
                if sbNamespace \<noteq> '''' \<and> sbQueue \<noteq> '''' then
                  (case NewServiceBusListener sbNamespace sbQueue (Some cred) of
                     Inl e \<Rightarrow> Inl e
                   | Inr l \<Rightarrow> Inr (Some kvFetcher, Some l))
                else Inr (Some kvFetcher, None))))"

definition cloudSetup ::
  "('w, 'c) Cloud \<Rightarrow> Flags \<Rightarrow> err + ('w SecretFetcher option \<times> ('w, 'c) ServiceBusListener option)" where
  "cloudSetup K fl =
     (if cd_getenv K ''E2E_SYNTHETIC_MODE'' = ''true'' then Inr (Some syntheticFetcher, None)
      else if effectiveMode (cd_getenv K) fl = ''eso'' then Inr (None, None)
      else if effectiveProvider (cd_getenv K) fl = ''azure'' then azureSetup K
      else Inr (None, None))"

section \<open>The manager\<close>

text \<open>The label requirement of the secret cache.\<close>

definition secretCacheSelects :: "labels \<Rightarrow> bool" where
  "secretCacheSelects ls \<longleftrightarrow> (case ls LabelManaged of None \<Rightarrow> False | Some v \<Rightarrow> v \<in> {ManagedValueTrue, ManagedValueWatch})"

text \<open>The namespaces the cache is restricted to; the empty set means no restriction.\<close>

definition defaultNamespaces :: "string \<Rightarrow> string set" where
  "defaultNamespaces watchNamespaces = set (filter (\<lambda>ns. ns \<noteq> '''') (map TrimSpace (Split watchNamespaces (CHR '',''))))"

text \<open>The API groups of the scheme: those of client-go (one entry for all), then the three that are added.\<close>

definition GroupVersion :: "string \<times> string" where
  "GroupVersion = (''dso.quantumsys.dev'', ''v1alpha1'')"

datatype SchemePart = ClientGoScheme | GroupScheme "string \<times> string" "string list" | ArgoRolloutsScheme | ArgoCDScheme

definition scheme :: "SchemePart list" where
  "scheme = [ClientGoScheme, GroupScheme GroupVersion [''DynamicSecretPolicy'', ''DynamicSecretPolicyList''],
     ArgoRolloutsScheme, ArgoCDScheme]"

record ManagerOptions =
  mo_scheme :: "SchemePart list"
  mo_syncPeriod :: int
  mo_namespaces :: "string set"
  mo_secretSelector :: "labels \<Rightarrow> bool"
  mo_metricsAddr :: string
  mo_secureMetrics :: bool
  mo_probeAddr :: string
  mo_leaderElection :: bool
  mo_leaderElectionID :: string

definition managerOptions :: "Flags \<Rightarrow> ManagerOptions" where
  "managerOptions fl =
     \<lparr>mo_scheme = scheme, mo_syncPeriod = fl_syncPeriod fl, mo_namespaces = defaultNamespaces (fl_watchNamespaces fl),
      mo_secretSelector = secretCacheSelects, mo_metricsAddr = fl_metricsAddr fl, mo_secureMetrics = fl_secureMetrics fl,
      mo_probeAddr = fl_probeAddr fl, mo_leaderElection = fl_leaderElection fl,
      mo_leaderElectionID = ''81b37f41.quantumsys.dev''\<rparr>"

definition eventBuffer :: "int \<Rightarrow> int" where
  "eventBuffer n = (if n \<le> 0 then 1000 else n)"

text \<open>The reconciler of the manager. The clientset for logs is stored in an interface even when its
  creation failed, so the field is never empty.\<close>

definition managerReconciler :: "'w Reader \<Rightarrow> 'w SecretFetcher option \<Rightarrow> 'w reconciler" where
  "managerReconciler apiReader fetcher =
     \<lparr>rc_SecretFetcher = fetcher, rc_ProviderRegistry = Some (SetupDefaultRegistry (Some apiReader) fetcher),
      rc_KubeClient = True, rc_ProbeRunner = None, rc_OnSecretMaterialized = None\<rparr>"

datatype Watch = For string | Owns string | WatchSecrets | WatchRollouts | WatchChannel

text \<open>\<open>SetupWithManager\<close>: the discovery reply is an error of the client, an error of the request, or the
  kinds of \<^verbatim>\<open>argoproj.io/v1alpha1\<close>.\<close>

definition rolloutInstalled :: "err + (err + string list) \<Rightarrow> bool" where
  "rolloutInstalled discovery = (case discovery of Inr (Inr kinds) \<Rightarrow> ''Rollout'' \<in> set kinds | _ \<Rightarrow> False)"

definition controllerWatches :: "err + (err + string list) \<Rightarrow> bool \<Rightarrow> Watch list" where
  "controllerWatches discovery eventsChannel =
     [For ''DynamicSecretPolicy'', Owns ''Secret'', Owns ''NetworkPolicy'', Owns ''Deployment'', Owns ''StatefulSet'',
      Owns ''DaemonSet'', Owns ''Job'', WatchSecrets] @
     (if rolloutInstalled discovery then [WatchRollouts] else []) @
     (if eventsChannel then [WatchChannel] else [])"

definition workerCount :: "int \<Rightarrow> int option" where
  "workerCount maxConcurrentReconciles = (if maxConcurrentReconciles > 0 then Some maxConcurrentReconciles else None)"

text \<open>The steps of the manager that may fail, in the order in which they are taken.\<close>

record Steps =
  st_NewRequirement :: "err option"
  st_NewManager :: "ManagerOptions \<Rightarrow> err option"
  st_Complete :: "err option"
  st_AddIngester :: "err option"
  st_AddHealthz :: "err option"
  st_AddReadyz :: "err option"

record ('w, 'c) Operator =
  op_reconciler :: "'w reconciler"
  op_listener :: "('w, 'c) ServiceBusListener option"
  op_options :: ManagerOptions
  op_buffer :: int
  op_watches :: "Watch list"
  op_workers :: "int option"

definition andThen :: "err option \<Rightarrow> err + 'a \<Rightarrow> err + 'a" where
  "andThen step next = (case step of Some e \<Rightarrow> Inl e | None \<Rightarrow> next)"

definition startOperator ::
  "('w, 'c) Cloud \<Rightarrow> Steps \<Rightarrow> err + (err + string list) \<Rightarrow> 'w Reader \<Rightarrow> 'w EventHandler \<Rightarrow> Flags \<Rightarrow> err + ('w, 'c) Operator" where
  "startOperator K st discovery apiReader handler fl =
     (case cloudSetup K fl of
        Inl e \<Rightarrow> Inl e
      | Inr (fetcher, listener) \<Rightarrow>
          andThen (st_NewRequirement st) (andThen (st_NewManager st (managerOptions fl)) (andThen (st_Complete st)
            (andThen (case listener of None \<Rightarrow> None | Some _ \<Rightarrow> st_AddIngester st)
              (andThen (st_AddHealthz st) (andThen (st_AddReadyz st)
                (Inr \<lparr>op_reconciler = managerReconciler apiReader fetcher,
                      op_listener = map_option (SetEventHandler handler) listener,
                      op_options = managerOptions fl,
                      op_buffer = eventBuffer (fl_eventBufferSize fl),
                      op_watches = controllerWatches discovery True,
                      op_workers = workerCount (fl_maxConcurrentReconciles fl)\<rparr>)))))))"

text \<open>The exit code of \<^verbatim>\<open>main\<close>: the started manager runs until it is told to stop, or fails.\<close>

definition mainExit ::
  "('w, 'c) Cloud \<Rightarrow> Steps \<Rightarrow> err + (err + string list) \<Rightarrow> 'w Reader \<Rightarrow> 'w EventHandler \<Rightarrow> (('w, 'c) Operator \<Rightarrow> err option) \<Rightarrow>
    Flags \<Rightarrow> int" where
  "mainExit K st discovery apiReader handler mgrStart fl =
     (case startOperator K st discovery apiReader handler fl of
        Inl e \<Rightarrow> 1
      | Inr op \<Rightarrow> (case mgrStart op of Some e \<Rightarrow> 1 | None \<Rightarrow> 0))"

section \<open>Samples\<close>

definition sample_cloud :: "(unit, unit) Cloud" where
  "sample_cloud = \<lparr>cd_getenv = (\<lambda>x. if x = ''DSO_MODE'' then ''ESO '' else ''''), cd_stat = (\<lambda>f. StatNotExist),
     cd_newCredential = Inr (), cd_azFor = (\<lambda>c. \<lparr>azs_newClient = (\<lambda>u. None), azs_getSecret = (\<lambda>u n v w. (Inr (Some ''x'', None), w))\<rparr>)\<rparr>"

definition sample_flags :: Flags where
  "sample_flags = defaultFlags\<lparr>fl_eventBufferSize := 0, fl_watchNamespaces := ''prod, ,stage''\<rparr>"

definition sample_steps :: Steps where
  "sample_steps = \<lparr>st_NewRequirement = None, st_NewManager = (\<lambda>_. None), st_Complete = None, st_AddIngester = None, st_AddHealthz = None, st_AddReadyz = None\<rparr>"

definition azure_cloud :: "(unit, unit) Cloud" where
  "azure_cloud = sample_cloud\<lparr>cd_getenv := (\<lambda>x. if x = ''DSO_MODE'' \<or> x = ''DSO_PROVIDER'' then '''' else ''set''), cd_stat := (\<lambda>f. StatOk)\<rparr>"

section \<open>Lemmas\<close>

lemma andThen_Inr: "andThen step next = Inr x \<longleftrightarrow> step = None \<and> next = Inr x"
  by (auto simp: andThen_def split: option.splits)

lemma syntheticFetcher_readonly: "emits_only is_metric (syntheticFetcher u n v)"
  by (simp add: syntheticFetcher_def Let_def spec_ret)

lemma azureSetup_Inr:
  assumes "azureSetup K = Inr (fetcher, listener)"
  obtains cred where "NewAzureCredential (cd_getenv K) (cd_stat K) (cd_newCredential K) = Inr cred"
    and "fetcher = Some (AzureKeyVaultFetcher_GetSecret (cd_azFor K cred))"
  using assms by (auto simp: azureSetup_def NewKeyVaultFetcher_def Let_def split: sum.splits if_splits)

lemma cloudSetup_readonly:
  assumes "cloudSetup K fl = Inr (fetcher, listener)" and "fetcher = Some f"
  shows "emits_only is_metric (f u n v)"
proof -
  from assms consider "f = syntheticFetcher" | "azureSetup K = Inr (Some f, listener)"
    by (auto simp: cloudSetup_def split: if_splits)
  then show ?thesis
  proof cases
    case 1
    then show ?thesis by (simp add: syntheticFetcher_readonly)
  next
    case 2
    then show ?thesis by (rule azureSetup_Inr) (simp add: GetSecret_readonly)
  qed
qed

lemma startOperator_Inr:
  assumes "startOperator K st discovery apiReader handler fl = Inr op"
  obtains fetcher listener where "cloudSetup K fl = Inr (fetcher, listener)"
    and "op_reconciler op = managerReconciler apiReader fetcher" and "op_listener op = map_option (SetEventHandler handler) listener"
  using assms by (auto simp: startOperator_def andThen_Inr split: sum.splits)

lemma startOperator_readonly:
  assumes "startOperator K st discovery apiReader handler fl = Inr op"
  shows "sources_readonly E (op_reconciler op)"
proof -
  from assms obtain fetcher listener where c: "cloudSetup K fl = Inr (fetcher, listener)"
    and r: "op_reconciler op = managerReconciler apiReader fetcher" by (rule startOperator_Inr)
  have "registry_readonly (SetupDefaultRegistry (Some apiReader) fetcher)"
    by (rule SetupDefaultRegistry_readonly) (rule cloudSetup_readonly [OF c])
  then show ?thesis by (simp add: sources_readonly_def activeRegistry_def r managerReconciler_def)
qed

section \<open>Properties\<close>

text \<open>C31: however the operator is started, when it starts at all the secret sources of its reconciler are
  read-only, apart from metrics: the assumption on the sources under which the reconciler's properties
  hold is met by every configuration.\<close>

theorem started_sources_readonly:
  assumes "startOperator K st discovery apiReader handler fl = Inr op"
  shows "sources_readonly E (op_reconciler op)"
  by (rule startOperator_readonly [OF assms])

lemma sample_cloud_eso: "cloudSetup sample_cloud sample_flags = Inr (None, None)"
proof -
  have "effectiveMode (cd_getenv sample_cloud) sample_flags = ''eso''" by code_simp
  then show ?thesis by (simp add: cloudSetup_def sample_cloud_def)
qed

theorem started_sources_readonly_witness:
  "\<exists>op. startOperator sample_cloud sample_steps (Inr (Inr [])) (cl_getSecret sample_client) (\<lambda>b a. a) sample_flags = Inr op \<and>
     sources_readonly sample_world (op_reconciler op)"
proof -
  obtain op where op: "startOperator sample_cloud sample_steps (Inr (Inr [])) (cl_getSecret sample_client) (\<lambda>b a. a) sample_flags = Inr op"
    by (simp add: startOperator_def sample_cloud_eso sample_steps_def andThen_def)
  with started_sources_readonly [OF op, of sample_world] show ?thesis by blast
qed

text \<open>An operator of the Azure provider never starts without workload identity: it exits unless the three
  variables are set, the token file is accessible and the credential could be created, and a Service Bus
  listener exists only with that credential.\<close>

theorem azure_fails_fast:
  assumes "startOperator K st discovery apiReader handler fl = Inr op"
    and "cd_getenv K ''E2E_SYNTHETIC_MODE'' \<noteq> ''true''" and "effectiveProvider (cd_getenv K) fl = ''azure''"
  shows "cd_getenv K EnvAzureFederatedTokenFile \<noteq> '''' \<and> cd_getenv K EnvAzureClientID \<noteq> '''' \<and> cd_getenv K EnvAzureTenantID \<noteq> '''' \<and>
    cd_stat K (cd_getenv K EnvAzureFederatedTokenFile) = StatOk \<and>
    (\<exists>cred. cd_newCredential K = Inr cred \<and> (\<forall>l. op_listener op = Some l \<longrightarrow> sb_Cred l = cred \<and> sb_handler l = Some handler))"
proof -
  from assms(1) obtain fetcher listener where c: "cloudSetup K fl = Inr (fetcher, listener)"
    and l: "op_listener op = map_option (SetEventHandler handler) listener" by (rule startOperator_Inr)
  from c assms(2,3) have a: "azureSetup K = Inr (fetcher, listener)"
    by (auto simp: cloudSetup_def effectiveProvider_def split: if_splits)
  then obtain cred where n: "NewAzureCredential (cd_getenv K) (cd_stat K) (cd_newCredential K) = Inr cred" by (rule azureSetup_Inr)
  with a have "sb_Cred x = cred" if "listener = Some x" for x
    using that by (auto simp: azureSetup_def NewKeyVaultFetcher_def NewServiceBusListener_def Let_def split: if_splits)
  with n l show ?thesis
    by (auto simp: NewAzureCredential_def Let_def SetEventHandler_def split: if_splits stat_result.splits sum.splits)
qed

theorem azure_fails_fast_witness:
  "\<exists>op. startOperator azure_cloud sample_steps (Inr (Inr [])) (cl_getSecret sample_client) (\<lambda>b a. a) sample_flags = Inr op \<and>
     cd_stat azure_cloud ''set'' = StatOk"
proof -
  have p: "effectiveProvider (cd_getenv azure_cloud) sample_flags = ''azure''" "cd_getenv azure_cloud ''E2E_SYNTHETIC_MODE'' \<noteq> ''true''"
    by (simp_all add: effectiveProvider_def effectiveMode_def azure_cloud_def sample_flags_def defaultFlags_def go_defs)
  then have "cloudSetup azure_cloud sample_flags = azureSetup azure_cloud"
    by (simp add: cloudSetup_def effectiveMode_def effectiveProvider_def azure_cloud_def sample_flags_def defaultFlags_def go_defs)
  then obtain op where op: "startOperator azure_cloud sample_steps (Inr (Inr [])) (cl_getSecret sample_client) (\<lambda>b a. a) sample_flags = Inr op"
    by (simp add: startOperator_def azureSetup_def NewAzureCredential_def NewKeyVaultFetcher_def NewServiceBusListener_def azure_cloud_def
        sample_cloud_def sample_steps_def andThen_def Let_def)
  have "cd_getenv azure_cloud EnvAzureFederatedTokenFile = ''set''" by (simp add: azure_cloud_def)
  with azure_fails_fast [OF op p(2,1)] op show ?thesis by metis
qed

text \<open>The secret cache holds the revisions the reconciler creates, so the cached client finds the revision
  it has just stored; a source secret is watched only if its owner labelled it.\<close>

theorem cache_holds_revisions:
  "secretCacheSelects (om_labels (s_meta (revisionSecretOf E p payload))) \<and>
   (secretCacheSelects ls \<longleftrightarrow> ls LabelManaged = Some ManagedValueTrue \<or> ls LabelManaged = Some ManagedValueWatch)"
  by (auto simp: secretCacheSelects_def revisionSecretOf_def revisionLabels_def Let_def split: option.splits)

end
