(* ===== verification/Dso_Admission.thy ===== *)
theory Dso_Admission
  imports Dso_System Dso_Main
begin

text \<open>
  Admission of a policy: the validation and defaulting markers of \<^verbatim>\<open>dynamicsecretpolicy_types.go\<close>,
  which the API server enforces before the operator sees an object.

  A manifest is the submitted object: a field that is left out is \<open>None\<close>. Defaults are filled in
  wherever the surrounding object is present, then the rules are checked, and the result is
  decoded into the Go structs, where an absent field has its zero value. The schema of the Job
  template is that of \<^verbatim>\<open>batch/v1\<close> and not part of it.
\<close>

section \<open>Manifests\<close>

record AzureKeyVaultManifest =
  azm_keyVaultURI :: "string option"
  azm_objectName :: "string option"
  azm_objectType :: "string option"

record K8sSecretManifest =
  k8m_name :: "string option"

record AWSSecretsManagerManifest =
  awm_secretID :: "string option"
  awm_region :: "string option"

record GCPSecretManagerManifest =
  gcm_secretID :: "string option"

record VaultManifest =
  vam_path :: "string option"

record SourceManifest =
  srm_type :: "string option"
  srm_parseJSON :: "bool option"
  srm_azureKeyVault :: "AzureKeyVaultManifest option"
  srm_k8sSecret :: "K8sSecretManifest option"
  srm_awsSecretsManager :: "AWSSecretsManagerManifest option"
  srm_gcpSecretManager :: "GCPSecretManagerManifest option"
  srm_vault :: "VaultManifest option"

record NetworkPolicyManifest =
  npm_provider :: "string option"

record VaultRefManifest =
  vrm_keyVaultURI :: "string option"
  vrm_objectName :: "string option"
  vrm_objectType :: "string option"

record WorkloadSelectorManifest =
  wsm_kind :: "string option"
  wsm_name :: "string option"

record CanaryStrategyManifest =
  csm_timeoutSeconds :: "int32 option"

record JobProbeManifest =
  jpm_timeoutSeconds :: "int32 option"
  jpm_jobTemplate :: "JobSpec option"

record ProbeManifest =
  prm_type :: "string option"
  prm_endpoint :: "string option"
  prm_queryTimeout :: "int32 option"
  prm_credentials :: "ProbeCredentials option"
  prm_job :: "JobProbeManifest option"

record RollbackManifest =
  rbm_autoRollback :: "bool option"
  rbm_circuitBreakerThreshold :: "int32 option"

record SpecManifest =
  spm_source :: "SourceManifest option"
  spm_vaultRef :: "VaultRefManifest option"
  spm_networkPolicy :: "NetworkPolicyManifest option"
  spm_workloadSelector :: "WorkloadSelectorManifest option"
  spm_canaryStrategy :: "CanaryStrategyManifest option"
  spm_validationProbes :: "ProbeManifest list"
  spm_rollbackConfig :: "RollbackManifest option"
  spm_targetRef :: "TargetRef option"

text \<open>The \<open>spec\<close> of a policy is tagged \<^verbatim>\<open>omitempty\<close> and carries no marker: it may be left out.\<close>

record PolicyManifest =
  pom_meta :: ObjectMeta
  pom_spec :: "SpecManifest option"

section \<open>Defaults\<close>

definition default_to :: "'a \<Rightarrow> 'a option \<Rightarrow> 'a option" where
  "default_to d x = (case x of None \<Rightarrow> Some d | Some v \<Rightarrow> Some v)"

definition default_AzureKeyVaultSource :: "AzureKeyVaultManifest \<Rightarrow> AzureKeyVaultManifest" where
  "default_AzureKeyVaultSource a = a\<lparr>azm_objectType := default_to VaultObjectTypeSecret (azm_objectType a)\<rparr>"

definition default_SecretSource :: "SourceManifest \<Rightarrow> SourceManifest" where
  "default_SecretSource s = s\<lparr>srm_parseJSON := default_to False (srm_parseJSON s),
     srm_azureKeyVault := map_option default_AzureKeyVaultSource (srm_azureKeyVault s)\<rparr>"

definition default_NetworkPolicySpec :: "NetworkPolicyManifest \<Rightarrow> NetworkPolicyManifest" where
  "default_NetworkPolicySpec n = n\<lparr>npm_provider := default_to NetworkPolicyProviderStandard (npm_provider n)\<rparr>"

definition default_WorkloadSelector :: "WorkloadSelectorManifest \<Rightarrow> WorkloadSelectorManifest" where
  "default_WorkloadSelector w = w\<lparr>wsm_kind := default_to KindDeployment (wsm_kind w)\<rparr>"

definition default_CanaryStrategy :: "CanaryStrategyManifest \<Rightarrow> CanaryStrategyManifest" where
  "default_CanaryStrategy c = c\<lparr>csm_timeoutSeconds := default_to 30 (csm_timeoutSeconds c)\<rparr>"

definition default_JobProbeSpec :: "JobProbeManifest \<Rightarrow> JobProbeManifest" where
  "default_JobProbeSpec j = j\<lparr>jpm_timeoutSeconds := default_to 60 (jpm_timeoutSeconds j)\<rparr>"

definition default_ValidationProbe :: "ProbeManifest \<Rightarrow> ProbeManifest" where
  "default_ValidationProbe v = v\<lparr>prm_job := map_option default_JobProbeSpec (prm_job v)\<rparr>"

definition default_RollbackConfig :: "RollbackManifest \<Rightarrow> RollbackManifest" where
  "default_RollbackConfig r = r\<lparr>rbm_autoRollback := default_to True (rbm_autoRollback r),
     rbm_circuitBreakerThreshold := default_to 3 (rbm_circuitBreakerThreshold r)\<rparr>"

definition default_spec :: "SpecManifest \<Rightarrow> SpecManifest" where
  "default_spec s = s\<lparr>
     spm_source := map_option default_SecretSource (spm_source s),
     spm_networkPolicy := map_option default_NetworkPolicySpec (spm_networkPolicy s),
     spm_workloadSelector := map_option default_WorkloadSelector (spm_workloadSelector s),
     spm_canaryStrategy := map_option default_CanaryStrategy (spm_canaryStrategy s),
     spm_validationProbes := map default_ValidationProbe (spm_validationProbes s),
     spm_rollbackConfig := map_option default_RollbackConfig (spm_rollbackConfig s)\<rparr>"

section \<open>Rules\<close>

text \<open>\<^verbatim>\<open>validation:Required\<close> and \<^verbatim>\<open>validation:Optional\<close> with the rule of the field.\<close>

definition required :: "('a \<Rightarrow> bool) \<Rightarrow> 'a option \<Rightarrow> bool" where
  "required P x = (case x of None \<Rightarrow> False | Some v \<Rightarrow> P v)"

definition optional :: "('a \<Rightarrow> bool) \<Rightarrow> 'a option \<Rightarrow> bool" where
  "optional P x = (case x of None \<Rightarrow> True | Some v \<Rightarrow> P v)"

definition non_empty :: "string \<Rightarrow> bool" where
  "non_empty s \<longleftrightarrow> s \<noteq> []"

definition at_least_one :: "int32 \<Rightarrow> bool" where
  "at_least_one n \<longleftrightarrow> sint n \<ge> 1"

definition VaultObjectType_enum :: "string \<Rightarrow> bool" where
  "VaultObjectType_enum t \<longleftrightarrow> t \<in> set [VaultObjectTypeSecret, VaultObjectTypeCertificate, VaultObjectTypeKey]"

definition ProbeType_enum :: "string \<Rightarrow> bool" where
  "ProbeType_enum t \<longleftrightarrow> t \<in> set [ProbeTypeTLS, ProbeTypePostgreSQL, ProbeTypeMySQL, ProbeTypeHTTP, ProbeTypeJob]"

definition SourceType_enum :: "string \<Rightarrow> bool" where
  "SourceType_enum t \<longleftrightarrow> t \<in> set [SourceTypeAzureKeyVault, SourceTypeK8sSecret, SourceTypeAWSSecretsManager,
     SourceTypeGCPSecretManager, SourceTypeVault]"

definition NetworkPolicyProvider_enum :: "string \<Rightarrow> bool" where
  "NetworkPolicyProvider_enum t \<longleftrightarrow> t \<in> set [NetworkPolicyProviderStandard, NetworkPolicyProviderCilium]"

definition kind_enum :: "string \<Rightarrow> bool" where
  "kind_enum t \<longleftrightarrow> t \<in> set [KindDeployment, KindStatefulSet, KindDaemonSet, KindRollout]"

text \<open>The pattern of a vault URI, \<^verbatim>\<open>^https://[a-zA-Z0-9-]+\.(?:vault\.azure\.net|...)(?:/|$)?\<close>: the
  class does not contain the dot, so the label is the longest run of its characters; the last
  group is optional and \<^verbatim>\<open>matches\<close> looks for a match anywhere, so whatever follows is accepted.\<close>

definition label_char :: "char \<Rightarrow> bool" where
  "label_char c \<longleftrightarrow> is_upper c \<or> is_lower c \<or> is_digit c \<or> c = CHR ''-''"

definition vault_uri :: "string \<Rightarrow> bool" where
  "vault_uri s \<longleftrightarrow> HasPrefix s ''https://'' \<and>
     (let r = drop 8 s; t = dropWhile label_char r in
      takeWhile label_char r \<noteq> [] \<and>
      list_ex (HasPrefix t) [''.vault.azure.net'', ''.vault.azure.cn'', ''.vault.usgovcloudapi.net''])"

definition valid_AzureKeyVaultSource :: "AzureKeyVaultManifest \<Rightarrow> bool" where
  "valid_AzureKeyVaultSource a \<longleftrightarrow>
     required (\<lambda>u. non_empty u \<and> vault_uri u) (azm_keyVaultURI a) \<and> required non_empty (azm_objectName a) \<and>
     optional VaultObjectType_enum (azm_objectType a)"

definition valid_K8sSecretSource :: "K8sSecretManifest \<Rightarrow> bool" where
  "valid_K8sSecretSource k \<longleftrightarrow> required non_empty (k8m_name k)"

definition valid_AWSSecretsManagerSource :: "AWSSecretsManagerManifest \<Rightarrow> bool" where
  "valid_AWSSecretsManagerSource a \<longleftrightarrow> required non_empty (awm_secretID a)"

definition valid_GCPSecretManagerSource :: "GCPSecretManagerManifest \<Rightarrow> bool" where
  "valid_GCPSecretManagerSource g \<longleftrightarrow> required non_empty (gcm_secretID g)"

definition valid_VaultSource :: "VaultManifest \<Rightarrow> bool" where
  "valid_VaultSource v \<longleftrightarrow> required non_empty (vam_path v)"

definition valid_SecretSource :: "SourceManifest \<Rightarrow> bool" where
  "valid_SecretSource s \<longleftrightarrow>
     required SourceType_enum (srm_type s) \<and>
     optional valid_AzureKeyVaultSource (srm_azureKeyVault s) \<and> optional valid_K8sSecretSource (srm_k8sSecret s) \<and>
     optional valid_AWSSecretsManagerSource (srm_awsSecretsManager s) \<and>
     optional valid_GCPSecretManagerSource (srm_gcpSecretManager s) \<and> optional valid_VaultSource (srm_vault s) \<and>
     (srm_type s \<noteq> Some SourceTypeAzureKeyVault \<or> srm_azureKeyVault s \<noteq> None) \<and>
     (srm_type s \<noteq> Some SourceTypeK8sSecret \<or> srm_k8sSecret s \<noteq> None) \<and>
     (srm_type s \<noteq> Some SourceTypeAWSSecretsManager \<or> srm_awsSecretsManager s \<noteq> None) \<and>
     (srm_type s \<noteq> Some SourceTypeGCPSecretManager \<or> srm_gcpSecretManager s \<noteq> None) \<and>
     (srm_type s \<noteq> Some SourceTypeVault \<or> srm_vault s \<noteq> None)"

definition valid_NetworkPolicySpec :: "NetworkPolicyManifest \<Rightarrow> bool" where
  "valid_NetworkPolicySpec n \<longleftrightarrow> optional NetworkPolicyProvider_enum (npm_provider n)"

definition valid_VaultReference :: "VaultRefManifest \<Rightarrow> bool" where
  "valid_VaultReference v \<longleftrightarrow>
     required (\<lambda>u. non_empty u \<and> vault_uri u) (vrm_keyVaultURI v) \<and> required non_empty (vrm_objectName v) \<and>
     required VaultObjectType_enum (vrm_objectType v)"

definition valid_WorkloadSelector :: "WorkloadSelectorManifest \<Rightarrow> bool" where
  "valid_WorkloadSelector w \<longleftrightarrow> required kind_enum (wsm_kind w) \<and> required non_empty (wsm_name w)"

definition valid_CanaryStrategy :: "CanaryStrategyManifest \<Rightarrow> bool" where
  "valid_CanaryStrategy c \<longleftrightarrow> required at_least_one (csm_timeoutSeconds c)"

definition valid_JobProbeSpec :: "JobProbeManifest \<Rightarrow> bool" where
  "valid_JobProbeSpec j \<longleftrightarrow> optional at_least_one (jpm_timeoutSeconds j) \<and> jpm_jobTemplate j \<noteq> None"

definition valid_ValidationProbe :: "ProbeManifest \<Rightarrow> bool" where
  "valid_ValidationProbe v \<longleftrightarrow>
     required ProbeType_enum (prm_type v) \<and> optional at_least_one (prm_queryTimeout v) \<and>
     optional valid_JobProbeSpec (prm_job v) \<and> (prm_type v \<noteq> Some ProbeTypeJob \<or> prm_job v \<noteq> None)"

definition valid_RollbackConfig :: "RollbackManifest \<Rightarrow> bool" where
  "valid_RollbackConfig r \<longleftrightarrow> optional at_least_one (rbm_circuitBreakerThreshold r)"

definition valid_spec :: "SpecManifest \<Rightarrow> bool" where
  "valid_spec s \<longleftrightarrow>
     (spm_source s \<noteq> None \<or> spm_vaultRef s \<noteq> None) \<and>
     optional valid_SecretSource (spm_source s) \<and> optional valid_VaultReference (spm_vaultRef s) \<and>
     optional valid_NetworkPolicySpec (spm_networkPolicy s) \<and> required valid_WorkloadSelector (spm_workloadSelector s) \<and>
     optional valid_CanaryStrategy (spm_canaryStrategy s) \<and> list_all valid_ValidationProbe (spm_validationProbes s) \<and>
     optional valid_RollbackConfig (spm_rollbackConfig s)"

section \<open>Decoding\<close>

text \<open>An absent field has the zero value of its Go type.\<close>

definition or_zero :: "'a \<Rightarrow> 'a option \<Rightarrow> 'a" where
  "or_zero z x = (case x of None \<Rightarrow> z | Some v \<Rightarrow> v)"

abbreviation text_of :: "string option \<Rightarrow> string" where
  "text_of \<equiv> or_zero ''''"

definition decode_source :: "SourceManifest \<Rightarrow> SecretSource" where
  "decode_source s =
     \<lparr>src_Type = text_of (srm_type s), src_ParseJSON = or_zero False (srm_parseJSON s),
      src_AzureKeyVault = map_option (\<lambda>a. \<lparr>akv_KeyVaultURI = text_of (azm_keyVaultURI a),
        akv_ObjectName = text_of (azm_objectName a), akv_ObjectType = text_of (azm_objectType a)\<rparr>) (srm_azureKeyVault s),
      src_K8sSecret = map_option (\<lambda>k. \<lparr>k8s_Name = text_of (k8m_name k)\<rparr>) (srm_k8sSecret s),
      src_AWSSecretsManager = map_option (\<lambda>a. \<lparr>aws_SecretID = text_of (awm_secretID a), aws_Region = text_of (awm_region a)\<rparr>)
        (srm_awsSecretsManager s),
      src_GCPSecretManager = map_option (\<lambda>g. \<lparr>gcp_SecretID = text_of (gcm_secretID g)\<rparr>) (srm_gcpSecretManager s),
      src_Vault = map_option (\<lambda>v. \<lparr>vault_Path = text_of (vam_path v)\<rparr>) (srm_vault s)\<rparr>"

definition zero_VaultReference :: VaultReference where
  "zero_VaultReference = \<lparr>vr_KeyVaultURI = '''', vr_ObjectName = '''', vr_ObjectType = ''''\<rparr>"

definition zero_JobSpec :: JobSpec where
  "zero_JobSpec = \<lparr>js_template = \<lparr>pt_labels = Map.empty, pt_annotations = Map.empty,
     pt_spec = \<lparr>ps_volumes = [], ps_containers = [], ps_initContainers = [], ps_rest = ''''\<rparr>\<rparr>,
     js_backoffLimit = None, js_rest = ''''\<rparr>"

definition decode_probe :: "ProbeManifest \<Rightarrow> ValidationProbe" where
  "decode_probe v =
     \<lparr>vp_Type = text_of (prm_type v), vp_Endpoint = text_of (prm_endpoint v), vp_QueryTimeout = or_zero 0 (prm_queryTimeout v),
      vp_Credentials = prm_credentials v,
      vp_Job = map_option (\<lambda>j. \<lparr>jp_TimeoutSeconds = jpm_timeoutSeconds j,
        jp_JobTemplate = or_zero zero_JobSpec (jpm_jobTemplate j)\<rparr>) (prm_job v)\<rparr>"

definition decode_spec :: "SpecManifest \<Rightarrow> DynamicSecretPolicySpec" where
  "decode_spec s =
     \<lparr>spec_Source = map_option decode_source (spm_source s),
      spec_VaultRef = (case spm_vaultRef s of
          None \<Rightarrow> zero_VaultReference
        | Some v \<Rightarrow> \<lparr>vr_KeyVaultURI = text_of (vrm_keyVaultURI v), vr_ObjectName = text_of (vrm_objectName v),
            vr_ObjectType = text_of (vrm_objectType v)\<rparr>),
      spec_NetworkPolicy = map_option (\<lambda>n. \<lparr>np_Provider = text_of (npm_provider n)\<rparr>) (spm_networkPolicy s),
      spec_WorkloadSelector = (case spm_workloadSelector s of
          None \<Rightarrow> \<lparr>ws_Kind = '''', ws_Name = ''''\<rparr>
        | Some w \<Rightarrow> \<lparr>ws_Kind = text_of (wsm_kind w), ws_Name = text_of (wsm_name w)\<rparr>),
      spec_CanaryStrategy = map_option (\<lambda>c. \<lparr>canary_TimeoutSeconds = or_zero 0 (csm_timeoutSeconds c)\<rparr>) (spm_canaryStrategy s),
      spec_ValidationProbes = map decode_probe (spm_validationProbes s),
      spec_RollbackConfig = map_option (\<lambda>r. \<lparr>rb_AutoRollback = or_zero False (rbm_autoRollback r),
        rb_CircuitBreakerThreshold = or_zero 0 (rbm_circuitBreakerThreshold r)\<rparr>) (spm_rollbackConfig s),
      spec_TargetRef = spm_targetRef s\<rparr>"

definition zero_spec :: DynamicSecretPolicySpec where
  "zero_spec = \<lparr>spec_Source = None, spec_VaultRef = zero_VaultReference, spec_NetworkPolicy = None,
     spec_WorkloadSelector = \<lparr>ws_Kind = '''', ws_Name = ''''\<rparr>, spec_CanaryStrategy = None, spec_ValidationProbes = [],
     spec_RollbackConfig = None, spec_TargetRef = None\<rparr>"

text \<open>A created policy as the operator sees it, or a rejection.\<close>

definition admit :: "PolicyManifest \<Rightarrow> DynamicSecretPolicy option" where
  "admit m =
     (let policy = (\<lambda>s. \<lparr>p_meta = pom_meta m, p_spec = s,
         p_status = \<lparr>CurrentRevision = '''', DesiredRevision = '''', ConsecutiveFailures = 0, Conditions = []\<rparr>\<rparr>)
      in case pom_spec m of
           None \<Rightarrow> Some (policy zero_spec)
         | Some s \<Rightarrow> (let d = default_spec s in if valid_spec d then Some (policy (decode_spec d)) else None))"

text \<open>A sample manifest: one source, one Job probe, an empty rollback configuration.\<close>

definition sample_manifest :: PolicyManifest where
  "sample_manifest =
     \<lparr>pom_meta = empty_meta\<lparr>om_name := ''db''\<rparr>,
      pom_spec = Some \<lparr>
        spm_source = Some \<lparr>srm_type = Some SourceTypeK8sSecret, srm_parseJSON = None, srm_azureKeyVault = None,
          srm_k8sSecret = Some \<lparr>k8m_name = Some ''db-password''\<rparr>, srm_awsSecretsManager = None,
          srm_gcpSecretManager = None, srm_vault = None\<rparr>,
        spm_vaultRef = None, spm_networkPolicy = None,
        spm_workloadSelector = Some \<lparr>wsm_kind = None, wsm_name = Some ''web''\<rparr>,
        spm_canaryStrategy = None,
        spm_validationProbes = [\<lparr>prm_type = Some ProbeTypeJob, prm_endpoint = None, prm_queryTimeout = None,
          prm_credentials = None, prm_job = Some \<lparr>jpm_timeoutSeconds = None, jpm_jobTemplate = Some zero_JobSpec\<rparr>\<rparr>],
        spm_rollbackConfig = Some \<lparr>rbm_autoRollback = None, rbm_circuitBreakerThreshold = None\<rparr>,
        spm_targetRef = None\<rparr>\<rparr>"

section \<open>Lemmas\<close>

lemma required_simps [simp]: "required P (Some x) = P x" "required P None = False"
  by (simp_all add: required_def)

lemma optional_simps [simp]: "optional P (Some x) = P x" "optional P None = True"
  by (simp_all add: optional_def)

lemma or_zero_simps [simp]: "or_zero z (Some x) = x" "or_zero z None = z"
  by (simp_all add: or_zero_def)

lemma default_to_Some [simp]: "default_to d x = Some (or_zero d x)"
  by (simp add: default_to_def or_zero_def split: option.splits)

lemmas default_defs = default_spec_def default_SecretSource_def default_AzureKeyVaultSource_def default_NetworkPolicySpec_def
  default_WorkloadSelector_def default_CanaryStrategy_def default_JobProbeSpec_def default_ValidationProbe_def default_RollbackConfig_def

lemma requiredE: "required P x \<Longrightarrow> (\<And>v. x = Some v \<Longrightarrow> P v \<Longrightarrow> Q) \<Longrightarrow> Q"
  by (cases x) simp_all

lemma optionalD: "optional P x \<Longrightarrow> x = Some v \<Longrightarrow> P v"
  by simp

text \<open>A valid source names its object in the block of its type, and its type has a provider.\<close>

lemma valid_source_object:
  assumes "valid_SecretSource s"
  shows "\<exists>n. source_object_name (decode_source s) = Some n \<and> n \<noteq> []"
proof -
  have ne: "required non_empty x \<Longrightarrow> text_of x \<noteq> []" for x by (cases x) (simp_all add: non_empty_def)
  note defs = source_object_name_def decode_source_def valid_AzureKeyVaultSource_def valid_K8sSecretSource_def
    valid_AWSSecretsManagerSource_def valid_GCPSecretManagerSource_def valid_VaultSource_def
  from assms consider
      a where "srm_type s = Some SourceTypeAzureKeyVault" "srm_azureKeyVault s = Some a" "valid_AzureKeyVaultSource a"
    | k where "srm_type s = Some SourceTypeK8sSecret" "srm_k8sSecret s = Some k" "valid_K8sSecretSource k"
    | w where "srm_type s = Some SourceTypeAWSSecretsManager" "srm_awsSecretsManager s = Some w" "valid_AWSSecretsManagerSource w"
    | g where "srm_type s = Some SourceTypeGCPSecretManager" "srm_gcpSecretManager s = Some g" "valid_GCPSecretManagerSource g"
    | v where "srm_type s = Some SourceTypeVault" "srm_vault s = Some v" "valid_VaultSource v"
    unfolding valid_SecretSource_def SourceType_enum_def by (auto elim!: requiredE)
  then show ?thesis by cases (simp_all add: defs ne)
qed

lemma provider_of_type:
  fixes r :: "'w Reader" and f :: "'w SecretFetcher"
  assumes "SourceType_enum t"
  shows "\<exists>pr. Registry_Get (SetupDefaultRegistry (Some r) (Some f)) t = Inr pr"
  using assms
  by (auto simp: SourceType_enum_def Registry_Get_def SetupDefaultRegistry_def Register_def NewRegistry_def Let_def)

lemma valid_source_type: "valid_SecretSource s \<Longrightarrow> SourceType_enum (src_Type (decode_source s))"
  by (auto simp: valid_SecretSource_def decode_source_def elim!: requiredE)

text \<open>The resolved source of a valid specification, from its source or from the legacy reference.\<close>

lemma valid_resolved:
  assumes "valid_spec s"
  shows "SourceType_enum (src_Type (GetResolvedSource (decode_spec s))) \<and>
    (\<exists>n. source_object_name (GetResolvedSource (decode_spec s)) = Some n \<and> n \<noteq> '''')"
proof (cases "spm_source s")
  case (Some src)
  with assms have "valid_SecretSource src" by (simp add: valid_spec_def)
  with valid_source_type valid_source_object Some show ?thesis
    by (simp add: GetResolvedSource_def decode_spec_def)
next
  case None
  with assms obtain v where v: "spm_vaultRef s = Some v" "valid_VaultReference v" by (auto simp: valid_spec_def)
  with None show ?thesis
    by (auto simp: valid_VaultReference_def non_empty_def GetResolvedSource_def decode_spec_def zero_source_def
        source_object_name_def SourceType_enum_def Let_def elim!: requiredE)
qed

lemma valid_probe:
  assumes "valid_ValidationProbe v"
  shows "if vp_Type (decode_probe v) = ProbeTypeJob then vp_Job (decode_probe v) \<noteq> None
    else \<exists>x :: 'w ProbeExecutor. NewProbeExecutor (vp_Type (decode_probe v)) = Inr (Some x)"
  using assms
  by (auto simp: valid_ValidationProbe_def ProbeType_enum_def decode_probe_def NewProbeExecutor_def elim!: requiredE)

lemma valid_kind: "kind_enum k \<Longrightarrow> \<exists>A :: 'w WorkloadAdapter. NewAdapter k = Inr A"
  by (auto simp: kind_enum_def NewAdapter_def)

section \<open>Properties\<close>

text \<open>C15: a policy that was admitted with a specification is configured: the operator starts from a fresh
  status; its target kind has an adapter and its target a name; every network probe has an executor
  and every Job probe its Job; its source, also the legacy one, has a provider in the default registry
  and names a non-empty object; a rollback configuration, with or without a threshold, decides the
  threshold of the breaker, and a canary strategy a positive timeout.\<close>

theorem admitted_policy_configured:
  fixes r :: "'w Reader" and f :: "'w SecretFetcher"
  assumes "admit m = Some p" and "pom_spec m \<noteq> None"
  shows "fresh_policy p \<and>
    (\<exists>A :: 'w WorkloadAdapter. NewAdapter (targetKind p) = Inr A) \<and> target_name p \<noteq> '''' \<and>
    list_all (\<lambda>v. if vp_Type v = ProbeTypeJob then vp_Job v \<noteq> None
      else \<exists>x :: 'w ProbeExecutor. NewProbeExecutor (vp_Type v) = Inr (Some x)) (spec_ValidationProbes (p_spec p)) \<and>
    (\<exists>pr. Registry_Get (SetupDefaultRegistry (Some r) (Some f)) (src_Type (GetResolvedSource (p_spec p))) = Inr pr) \<and>
    (\<exists>n. source_object_name (GetResolvedSource (p_spec p)) = Some n \<and> n \<noteq> '''' \<and> GetVaultObjectName (p_spec p) = n) \<and>
    (\<forall>rb. spec_RollbackConfig (p_spec p) = Some rb \<longrightarrow> breakerThreshold p = rb_CircuitBreakerThreshold rb) \<and>
    (\<forall>c. spec_CanaryStrategy (p_spec p) = Some c \<longrightarrow> sint (canary_TimeoutSeconds c) \<ge> 1)"
proof -
  from assms(2) obtain s where s: "pom_spec m = Some s" by blast
  let ?d = "default_spec s"
  from assms(1) s have v: "valid_spec ?d" and p: "p_spec p = decode_spec ?d" and fresh: "fresh_policy p"
    by (auto simp: admit_def Let_def fresh_policy_def split: if_splits)
  obtain w where w: "spm_workloadSelector ?d = Some w" "valid_WorkloadSelector w"
    using v by (auto simp: valid_spec_def elim: requiredE)
  then obtain k n where kn: "wsm_kind w = Some k" "kind_enum k" "wsm_name w = Some n" "n \<noteq> ''''"
    by (auto simp: valid_WorkloadSelector_def non_empty_def elim!: requiredE)
  have sel: "spec_WorkloadSelector (p_spec p) = \<lparr>ws_Kind = k, ws_Name = n\<rparr>"
    using w(1) kn by (simp add: p decode_spec_def)
  have kind: "targetKind p = k" using kn(2) by (auto simp: targetKind_def sel kind_enum_def)
  have probes: "list_all (\<lambda>v. if vp_Type v = ProbeTypeJob then vp_Job v \<noteq> None
      else \<exists>x :: 'w ProbeExecutor. NewProbeExecutor (vp_Type v) = Inr (Some x)) (spec_ValidationProbes (p_spec p))"
    (is "list_all ?ok _")
  proof -
    have "list_all valid_ValidationProbe (spm_validationProbes ?d)" using v by (simp add: valid_spec_def)
    moreover have "?ok (decode_probe x)" if "valid_ValidationProbe x" for x using valid_probe [OF that] .
    ultimately have "list_all (\<lambda>x. ?ok (decode_probe x)) (spm_validationProbes ?d)" by (simp only: list_all_iff) blast
    then show ?thesis by (simp only: p decode_spec_def list.pred_map comp_def DynamicSecretPolicySpec.select_convs)
  qed
  have rb: "\<forall>rb. spec_RollbackConfig (p_spec p) = Some rb \<longrightarrow> breakerThreshold p = rb_CircuitBreakerThreshold rb"
    using v by (auto simp: p decode_spec_def default_defs valid_spec_def valid_RollbackConfig_def at_least_one_def breakerThreshold_def)
  have cs: "\<forall>c. spec_CanaryStrategy (p_spec p) = Some c \<longrightarrow> sint (canary_TimeoutSeconds c) \<ge> 1"
    using v by (auto simp: p decode_spec_def default_defs valid_spec_def valid_CanaryStrategy_def at_least_one_def)
  from valid_resolved [OF v] provider_of_type [of _ r f] valid_kind [OF kn(2)] fresh kn(4) probes rb cs show ?thesis
    by (auto simp: p [symmetric] kind sel GetVaultObjectName_def)
qed

theorem admitted_policy_configured_witness:
  "\<exists>p. admit sample_manifest = Some p \<and> targetKind p = KindDeployment \<and> breakerThreshold p = 3 \<and>
     GetVaultObjectName (p_spec p) = ''db-password'' \<and> fresh_policy p"
proof -
  obtain p where p: "admit sample_manifest = Some p" "targetKind p = KindDeployment"
    "GetVaultObjectName (p_spec p) = ''db-password''"
    "spec_RollbackConfig (p_spec p) = Some \<lparr>rb_AutoRollback = True, rb_CircuitBreakerThreshold = 3\<rparr>"
    by (simp add: admit_def sample_manifest_def default_defs valid_spec_def
        valid_SecretSource_def SourceType_enum_def valid_K8sSecretSource_def non_empty_def valid_WorkloadSelector_def kind_enum_def
        valid_ValidationProbe_def ProbeType_enum_def valid_JobProbeSpec_def at_least_one_def valid_RollbackConfig_def
        decode_spec_def decode_source_def targetKind_def GetVaultObjectName_def GetResolvedSource_def source_object_name_def)
  have "pom_spec sample_manifest \<noteq> None" by (simp add: sample_manifest_def)
  from admitted_policy_configured [OF p(1) this] p show ?thesis by auto
qed

text \<open>C39: two gaps of the admission. The pattern for the vault URI has no end: every continuation of an accepted
  URI is accepted, also one that makes it another host. And the specification may be left out: such a
  policy is admitted, without a source, although one of \<^verbatim>\<open>spec.source\<close> and \<^verbatim>\<open>spec.vaultRef\<close> is required, and
  no provider is found for it.\<close>

theorem admission_gaps:
  fixes reg :: "'w Registry"
  assumes "vault_uri u" and "pom_spec m = None" and "reg '''' = None"
  shows "vault_uri (u @ rest) \<and>
    (\<exists>p e. admit m = Some p \<and> Registry_Get reg (src_Type (GetResolvedSource (p_spec p))) = Inl e)"
proof -
  let ?r = "drop 8 u"
  have u: "HasPrefix u ''https://''" "takeWhile label_char ?r \<noteq> []"
    and t: "list_ex (HasPrefix (dropWhile label_char ?r)) [''.vault.azure.net'', ''.vault.azure.cn'', ''.vault.usgovcloudapi.net'']"
    using assms(1) by (simp_all add: vault_uri_def Let_def)
  from u(1) have d: "8 - length u = 0" by (auto simp: prefix_def)
  have "dropWhile label_char ?r \<noteq> []" using t by (auto simp del: dropWhile_eq_Nil_conv)
  then obtain x where x: "x \<in> set ?r" "\<not> label_char x" by (metis dropWhile_eq_Nil_conv)
  have "list_ex (HasPrefix (dropWhile label_char ?r @ rest)) [''.vault.azure.net'', ''.vault.azure.cn'', ''.vault.usgovcloudapi.net'']"
    using t by (auto simp: prefix_def)
  then have "vault_uri (u @ rest)"
    using u x by (simp add: vault_uri_def d [simplified] Let_def dropWhile_append1 takeWhile_append1 prefix_prefix)
  moreover have "\<exists>p e. admit m = Some p \<and> Registry_Get reg (src_Type (GetResolvedSource (p_spec p))) = Inl e"
    using assms(2,3) by (simp add: admit_def zero_spec_def zero_VaultReference_def GetResolvedSource_def zero_source_def Registry_Get_def)
  ultimately show ?thesis by simp
qed

theorem admission_gaps_witness:
  "vault_uri ''https://kv.vault.azure.net.example.org/'' \<and>
   (\<exists>p e. admit \<lparr>pom_meta = empty_meta, pom_spec = None\<rparr> = Some p \<and>
      Registry_Get (NewRegistry :: unit Registry) (src_Type (GetResolvedSource (p_spec p))) = Inl e)"
proof -
  have "vault_uri ''https://kv.vault.azure.net''" by code_simp
  from admission_gaps [OF this, of "\<lparr>pom_meta = empty_meta, pom_spec = None\<rparr>" "NewRegistry :: unit Registry" "''.example.org/''"]
  show ?thesis by (simp add: NewRegistry_def)
qed

end
