(* ===== verification/Dso_DeepCopy.thy ===== *)
theory Dso_DeepCopy
  imports Dso_Types
begin

text \<open>
  The generated deep copies (\<^verbatim>\<open>api/v1alpha1/zz_generated.deepcopy.go\<close>) over an explicit store.

  Everywhere else in the development a policy is a value. Here it is what it is in the running
  process: structs whose pointers and slices are addresses of a store, so that two structs can
  share a cell. A cell holds the pointee of one Go type; a slice is the address of its backing
  array. \<open>new\<close> and \<open>make\<close> hand out the next address. A \<open>DeepCopyInto\<close> runs on the struct it
  receives and returns the struct that is written to \<open>out\<close>; a \<open>DeepCopy\<close> maps an address to
  the address of the copy.

  The structs of the Kubernetes libraries (\<^verbatim>\<open>ObjectMeta\<close>, \<^verbatim>\<open>ListMeta\<close>, \<^verbatim>\<open>JobTemplateSpec\<close>,
  \<^verbatim>\<open>Condition\<close>) are values of a type parameter, with their own \<open>DeepCopyInto\<close> in the record
  \<open>library\<close>; that those are deep copies is the hypothesis \<open>library_ok\<close>.

  Each reader maps a struct in a store to the value the other theories work on. The locale
  \<open>deep_copier\<close> is the contract of a copy: it changes no allocated cell, and the copy reads the
  same value from the freshly allocated cells alone. It is closed under pairs, pointers, slices
  and struct fields, which gives it for every type of the API group.
\<close>

section \<open>The store\<close>

type_synonym addr = nat

text \<open>The structs that hold pointers or slices, as they lie in memory.\<close>

record mSecretSource =
  ms_Type :: string
  ms_ParseJSON :: bool
  ms_AzureKeyVault :: "addr option"
  ms_K8sSecret :: "addr option"
  ms_AWSSecretsManager :: "addr option"
  ms_GCPSecretManager :: "addr option"
  ms_Vault :: "addr option"

record 'l mJobProbeSpec =
  mj_TimeoutSeconds :: "addr option"
  mj_JobTemplate :: 'l

record mValidationProbe =
  mv_Type :: string
  mv_Endpoint :: string
  mv_QueryTimeout :: int32
  mv_Credentials :: "addr option"
  mv_Job :: "addr option"

record mSpec =
  msp_Source :: "addr option"
  msp_VaultRef :: VaultReference
  msp_NetworkPolicy :: "addr option"
  msp_WorkloadSelector :: WorkloadSelector
  msp_CanaryStrategy :: "addr option"
  msp_ValidationProbes :: "addr option"
  msp_RollbackConfig :: "addr option"
  msp_TargetRef :: "addr option"

record mStatus =
  mst_CurrentRevision :: string
  mst_DesiredRevision :: string
  mst_ConsecutiveFailures :: int32
  mst_Conditions :: "addr option"

record TypeMeta =
  tm_Kind :: string
  tm_APIVersion :: string

record 'l mPolicy =
  mp_TypeMeta :: TypeMeta
  mp_ObjectMeta :: 'l
  mp_Spec :: mSpec
  mp_Status :: mStatus

record 'l mPolicyList =
  ml_TypeMeta :: TypeMeta
  ml_ListMeta :: 'l
  ml_Items :: "addr option"

text \<open>A cell: the pointee of a pointer, or the backing array of a slice. \<open>CLib\<close> is what the
  library structs point to.\<close>

datatype 'l cell =
    is_CAws: CAws (un_CAws: AWSSecretsManagerSource)
  | is_CAzure: CAzure (un_CAzure: AzureKeyVaultSource)
  | is_CCanary: CCanary (un_CCanary: CanaryStrategy)
  | is_CPolicy: CPolicy (un_CPolicy: "'l mPolicy")
  | is_CPolicyList: CPolicyList (un_CPolicyList: "'l mPolicyList")
  | is_CSpec: CSpec (un_CSpec: mSpec)
  | is_CStatus: CStatus (un_CStatus: mStatus)
  | is_CGcp: CGcp (un_CGcp: GCPSecretManagerSource)
  | is_CJob: CJob (un_CJob: "'l mJobProbeSpec")
  | is_CK8s: CK8s (un_CK8s: K8sSecretSource)
  | is_CNetPol: CNetPol (un_CNetPol: NetworkPolicySpec)
  | is_CCreds: CCreds (un_CCreds: ProbeCredentials)
  | is_CRollback: CRollback (un_CRollback: RollbackConfig)
  | is_CSource: CSource (un_CSource: mSecretSource)
  | is_CTarget: CTarget (un_CTarget: TargetRef)
  | is_CProbe: CProbe (un_CProbe: mValidationProbe)
  | is_CVaultRef: CVaultRef (un_CVaultRef: VaultReference)
  | is_CVault: CVault (un_CVault: VaultSource)
  | is_CSelector: CSelector (un_CSelector: WorkloadSelector)
  | is_CInt32: CInt32 (un_CInt32: int32)
  | is_CProbes: CProbes (un_CProbes: "mValidationProbe list")
  | is_CConditions: CConditions (un_CConditions: "'l list")
  | is_CItems: CItems (un_CItems: "'l mPolicy list")
  | is_CLib: CLib (un_CLib: 'l)

type_synonym 'l heap = "addr \<rightharpoonup> 'l cell"

record 'l memory =
  cells :: "'l heap"
  next_addr :: addr

type_synonym ('l, 'a) mem = "('l memory, 'a) state"

text \<open>The projection to the pointee type: a pointer of a typed program leads to a cell of its type.\<close>

definition as_type :: "('c \<Rightarrow> bool) \<Rightarrow> ('c \<Rightarrow> 's) \<Rightarrow> 'c \<Rightarrow> 's option" where
  "as_type d u c = (if d c then Some (u c) else None)"

definition load :: "('l cell \<Rightarrow> 's option) \<Rightarrow> addr \<Rightarrow> ('l, 's option) mem" where
  "load ty a = State (\<lambda>m. (Option.bind (cells m a) ty, m))"

definition new_cell :: "('l, addr) mem" where
  "new_cell = State (\<lambda>m. (next_addr m, m\<lparr>next_addr := Suc (next_addr m)\<rparr>))"

definition store :: "addr \<Rightarrow> 'l cell \<Rightarrow> ('l, unit) mem" where
  "store a c = State (\<lambda>m. ((), m\<lparr>cells := (cells m)(a \<mapsto> c)\<rparr>))"

text \<open>The copy of what a pointer leads to: nil stays nil, otherwise \<^verbatim>\<open>*out = new(T)\<close> followed by
  \<^verbatim>\<open>(*in).DeepCopyInto(*out)\<close> (\<^verbatim>\<open>**out = **in\<close> where the pointee is flat). Every \<open>DeepCopy\<close> has
  this body too.\<close>

definition copyPtr :: "('l cell \<Rightarrow> 's option) \<Rightarrow> ('s \<Rightarrow> 'l cell) \<Rightarrow> ('s \<Rightarrow> ('l, 's) mem) \<Rightarrow>
    addr option \<Rightarrow> ('l, addr option) mem" where
  "copyPtr ty mk cp p =
     (case p of
        None \<Rightarrow> State_Monad.return None
      | Some a \<Rightarrow> do {
          s \<leftarrow> load ty a;
          case s of
            None \<Rightarrow> State_Monad.return None
          | Some x \<Rightarrow> do {
              b \<leftarrow> new_cell;
              y \<leftarrow> cp x;
              store b (mk y);
              State_Monad.return (Some b)
            }
        })"

text \<open>The copy of a slice: nil stays nil, otherwise \<^verbatim>\<open>*out = make([]T, len(*in))\<close> and the loop
  copies the elements in order.\<close>

primrec copyElems :: "('s \<Rightarrow> ('l, 's) mem) \<Rightarrow> 's list \<Rightarrow> ('l, 's list) mem" where
  "copyElems cp [] = State_Monad.return []"
| "copyElems cp (x # xs) = do {
     y \<leftarrow> cp x;
     ys \<leftarrow> copyElems cp xs;
     State_Monad.return (y # ys)
   }"

definition copySlice :: "('l cell \<Rightarrow> 's list option) \<Rightarrow> ('s list \<Rightarrow> 'l cell) \<Rightarrow> ('s \<Rightarrow> ('l, 's) mem) \<Rightarrow>
    addr option \<Rightarrow> ('l, addr option) mem" where
  "copySlice ty mk cp = copyPtr ty mk (copyElems cp)"

section \<open>The generated functions\<close>

text \<open>\<^verbatim>\<open>*out = *in\<close> is the whole body for a struct without pointers.\<close>

definition AWSSecretsManagerSource_DeepCopyInto ::
    "AWSSecretsManagerSource \<Rightarrow> ('l, AWSSecretsManagerSource) mem" where
  "AWSSecretsManagerSource_DeepCopyInto x = State_Monad.return x"

definition AWSSecretsManagerSource_DeepCopy :: "addr option \<Rightarrow> ('l, addr option) mem" where
  "AWSSecretsManagerSource_DeepCopy =
     copyPtr (as_type is_CAws un_CAws) CAws AWSSecretsManagerSource_DeepCopyInto"

definition AzureKeyVaultSource_DeepCopyInto :: "AzureKeyVaultSource \<Rightarrow> ('l, AzureKeyVaultSource) mem" where
  "AzureKeyVaultSource_DeepCopyInto x = State_Monad.return x"

definition AzureKeyVaultSource_DeepCopy :: "addr option \<Rightarrow> ('l, addr option) mem" where
  "AzureKeyVaultSource_DeepCopy = copyPtr (as_type is_CAzure un_CAzure) CAzure AzureKeyVaultSource_DeepCopyInto"

definition CanaryStrategy_DeepCopyInto :: "CanaryStrategy \<Rightarrow> ('l, CanaryStrategy) mem" where
  "CanaryStrategy_DeepCopyInto x = State_Monad.return x"

definition CanaryStrategy_DeepCopy :: "addr option \<Rightarrow> ('l, addr option) mem" where
  "CanaryStrategy_DeepCopy = copyPtr (as_type is_CCanary un_CCanary) CCanary CanaryStrategy_DeepCopyInto"

definition GCPSecretManagerSource_DeepCopyInto :: "GCPSecretManagerSource \<Rightarrow> ('l, GCPSecretManagerSource) mem" where
  "GCPSecretManagerSource_DeepCopyInto x = State_Monad.return x"

definition GCPSecretManagerSource_DeepCopy :: "addr option \<Rightarrow> ('l, addr option) mem" where
  "GCPSecretManagerSource_DeepCopy = copyPtr (as_type is_CGcp un_CGcp) CGcp GCPSecretManagerSource_DeepCopyInto"

definition K8sSecretSource_DeepCopyInto :: "K8sSecretSource \<Rightarrow> ('l, K8sSecretSource) mem" where
  "K8sSecretSource_DeepCopyInto x = State_Monad.return x"

definition K8sSecretSource_DeepCopy :: "addr option \<Rightarrow> ('l, addr option) mem" where
  "K8sSecretSource_DeepCopy = copyPtr (as_type is_CK8s un_CK8s) CK8s K8sSecretSource_DeepCopyInto"

definition NetworkPolicySpec_DeepCopyInto :: "NetworkPolicySpec \<Rightarrow> ('l, NetworkPolicySpec) mem" where
  "NetworkPolicySpec_DeepCopyInto x = State_Monad.return x"

definition NetworkPolicySpec_DeepCopy :: "addr option \<Rightarrow> ('l, addr option) mem" where
  "NetworkPolicySpec_DeepCopy = copyPtr (as_type is_CNetPol un_CNetPol) CNetPol NetworkPolicySpec_DeepCopyInto"

definition ProbeCredentials_DeepCopyInto :: "ProbeCredentials \<Rightarrow> ('l, ProbeCredentials) mem" where
  "ProbeCredentials_DeepCopyInto x = State_Monad.return x"

definition ProbeCredentials_DeepCopy :: "addr option \<Rightarrow> ('l, addr option) mem" where
  "ProbeCredentials_DeepCopy = copyPtr (as_type is_CCreds un_CCreds) CCreds ProbeCredentials_DeepCopyInto"

definition RollbackConfig_DeepCopyInto :: "RollbackConfig \<Rightarrow> ('l, RollbackConfig) mem" where
  "RollbackConfig_DeepCopyInto x = State_Monad.return x"

definition RollbackConfig_DeepCopy :: "addr option \<Rightarrow> ('l, addr option) mem" where
  "RollbackConfig_DeepCopy = copyPtr (as_type is_CRollback un_CRollback) CRollback RollbackConfig_DeepCopyInto"

definition TargetRef_DeepCopyInto :: "TargetRef \<Rightarrow> ('l, TargetRef) mem" where
  "TargetRef_DeepCopyInto x = State_Monad.return x"

definition TargetRef_DeepCopy :: "addr option \<Rightarrow> ('l, addr option) mem" where
  "TargetRef_DeepCopy = copyPtr (as_type is_CTarget un_CTarget) CTarget TargetRef_DeepCopyInto"

definition VaultReference_DeepCopyInto :: "VaultReference \<Rightarrow> ('l, VaultReference) mem" where
  "VaultReference_DeepCopyInto x = State_Monad.return x"

definition VaultReference_DeepCopy :: "addr option \<Rightarrow> ('l, addr option) mem" where
  "VaultReference_DeepCopy = copyPtr (as_type is_CVaultRef un_CVaultRef) CVaultRef VaultReference_DeepCopyInto"

definition VaultSource_DeepCopyInto :: "VaultSource \<Rightarrow> ('l, VaultSource) mem" where
  "VaultSource_DeepCopyInto x = State_Monad.return x"

definition VaultSource_DeepCopy :: "addr option \<Rightarrow> ('l, addr option) mem" where
  "VaultSource_DeepCopy = copyPtr (as_type is_CVault un_CVault) CVault VaultSource_DeepCopyInto"

definition WorkloadSelector_DeepCopyInto :: "WorkloadSelector \<Rightarrow> ('l, WorkloadSelector) mem" where
  "WorkloadSelector_DeepCopyInto x = State_Monad.return x"

definition WorkloadSelector_DeepCopy :: "addr option \<Rightarrow> ('l, addr option) mem" where
  "WorkloadSelector_DeepCopy = copyPtr (as_type is_CSelector un_CSelector) CSelector WorkloadSelector_DeepCopyInto"

definition SecretSource_DeepCopyInto :: "mSecretSource \<Rightarrow> ('l, mSecretSource) mem" where
  "SecretSource_DeepCopyInto x = do {
     az \<leftarrow> copyPtr (as_type is_CAzure un_CAzure) CAzure State_Monad.return (ms_AzureKeyVault x);
     k8 \<leftarrow> copyPtr (as_type is_CK8s un_CK8s) CK8s State_Monad.return (ms_K8sSecret x);
     aw \<leftarrow> copyPtr (as_type is_CAws un_CAws) CAws State_Monad.return (ms_AWSSecretsManager x);
     gc \<leftarrow> copyPtr (as_type is_CGcp un_CGcp) CGcp State_Monad.return (ms_GCPSecretManager x);
     va \<leftarrow> copyPtr (as_type is_CVault un_CVault) CVault State_Monad.return (ms_Vault x);
     State_Monad.return (x\<lparr>ms_AzureKeyVault := az, ms_K8sSecret := k8, ms_AWSSecretsManager := aw,
       ms_GCPSecretManager := gc, ms_Vault := va\<rparr>)
   }"

definition SecretSource_DeepCopy :: "addr option \<Rightarrow> ('l, addr option) mem" where
  "SecretSource_DeepCopy = copyPtr (as_type is_CSource un_CSource) CSource SecretSource_DeepCopyInto"

text \<open>The \<open>DeepCopyInto\<close> of the library structs, each with what the struct means in a store.\<close>

record 'l library =
  ObjectMeta_DeepCopyInto :: "'l \<Rightarrow> ('l, 'l) mem"
  ListMeta_DeepCopyInto :: "'l \<Rightarrow> ('l, 'l) mem"
  JobTemplateSpec_DeepCopyInto :: "'l \<Rightarrow> ('l, 'l) mem"
  Condition_DeepCopyInto :: "'l \<Rightarrow> ('l, 'l) mem"
  readObjectMeta :: "'l heap \<Rightarrow> 'l \<Rightarrow> ObjectMeta option"
  readListMeta :: "'l heap \<Rightarrow> 'l \<Rightarrow> string option"
  readJobTemplateSpec :: "'l heap \<Rightarrow> 'l \<Rightarrow> JobSpec option"
  readCondition :: "'l heap \<Rightarrow> 'l \<Rightarrow> Condition option"

definition JobProbeSpec_DeepCopyInto :: "'l library \<Rightarrow> 'l mJobProbeSpec \<Rightarrow> ('l, 'l mJobProbeSpec) mem" where
  "JobProbeSpec_DeepCopyInto L x = do {
     t \<leftarrow> copyPtr (as_type is_CInt32 un_CInt32) CInt32 State_Monad.return (mj_TimeoutSeconds x);
     j \<leftarrow> JobTemplateSpec_DeepCopyInto L (mj_JobTemplate x);
     State_Monad.return (x\<lparr>mj_TimeoutSeconds := t, mj_JobTemplate := j\<rparr>)
   }"

definition JobProbeSpec_DeepCopy :: "'l library \<Rightarrow> addr option \<Rightarrow> ('l, addr option) mem" where
  "JobProbeSpec_DeepCopy L = copyPtr (as_type is_CJob un_CJob) CJob (JobProbeSpec_DeepCopyInto L)"

definition ValidationProbe_DeepCopyInto :: "'l library \<Rightarrow> mValidationProbe \<Rightarrow> ('l, mValidationProbe) mem" where
  "ValidationProbe_DeepCopyInto L x = do {
     c \<leftarrow> copyPtr (as_type is_CCreds un_CCreds) CCreds State_Monad.return (mv_Credentials x);
     j \<leftarrow> copyPtr (as_type is_CJob un_CJob) CJob (JobProbeSpec_DeepCopyInto L) (mv_Job x);
     State_Monad.return (x\<lparr>mv_Credentials := c, mv_Job := j\<rparr>)
   }"

definition ValidationProbe_DeepCopy :: "'l library \<Rightarrow> addr option \<Rightarrow> ('l, addr option) mem" where
  "ValidationProbe_DeepCopy L = copyPtr (as_type is_CProbe un_CProbe) CProbe (ValidationProbe_DeepCopyInto L)"

definition DynamicSecretPolicySpec_DeepCopyInto :: "'l library \<Rightarrow> mSpec \<Rightarrow> ('l, mSpec) mem" where
  "DynamicSecretPolicySpec_DeepCopyInto L x = do {
     so \<leftarrow> copyPtr (as_type is_CSource un_CSource) CSource SecretSource_DeepCopyInto (msp_Source x);
     np \<leftarrow> copyPtr (as_type is_CNetPol un_CNetPol) CNetPol State_Monad.return (msp_NetworkPolicy x);
     cs \<leftarrow> copyPtr (as_type is_CCanary un_CCanary) CCanary State_Monad.return (msp_CanaryStrategy x);
     vp \<leftarrow> copySlice (as_type is_CProbes un_CProbes) CProbes (ValidationProbe_DeepCopyInto L)
             (msp_ValidationProbes x);
     rb \<leftarrow> copyPtr (as_type is_CRollback un_CRollback) CRollback State_Monad.return (msp_RollbackConfig x);
     tr \<leftarrow> copyPtr (as_type is_CTarget un_CTarget) CTarget State_Monad.return (msp_TargetRef x);
     State_Monad.return (x\<lparr>msp_Source := so, msp_NetworkPolicy := np, msp_CanaryStrategy := cs,
       msp_ValidationProbes := vp, msp_RollbackConfig := rb, msp_TargetRef := tr\<rparr>)
   }"

definition DynamicSecretPolicySpec_DeepCopy :: "'l library \<Rightarrow> addr option \<Rightarrow> ('l, addr option) mem" where
  "DynamicSecretPolicySpec_DeepCopy L =
     copyPtr (as_type is_CSpec un_CSpec) CSpec (DynamicSecretPolicySpec_DeepCopyInto L)"

definition DynamicSecretPolicyStatus_DeepCopyInto :: "'l library \<Rightarrow> mStatus \<Rightarrow> ('l, mStatus) mem" where
  "DynamicSecretPolicyStatus_DeepCopyInto L x = do {
     cs \<leftarrow> copySlice (as_type is_CConditions un_CConditions) CConditions (Condition_DeepCopyInto L)
             (mst_Conditions x);
     State_Monad.return (x\<lparr>mst_Conditions := cs\<rparr>)
   }"

definition DynamicSecretPolicyStatus_DeepCopy :: "'l library \<Rightarrow> addr option \<Rightarrow> ('l, addr option) mem" where
  "DynamicSecretPolicyStatus_DeepCopy L =
     copyPtr (as_type is_CStatus un_CStatus) CStatus (DynamicSecretPolicyStatus_DeepCopyInto L)"

definition DynamicSecretPolicy_DeepCopyInto :: "'l library \<Rightarrow> 'l mPolicy \<Rightarrow> ('l, 'l mPolicy) mem" where
  "DynamicSecretPolicy_DeepCopyInto L x = do {
     om \<leftarrow> ObjectMeta_DeepCopyInto L (mp_ObjectMeta x);
     sp \<leftarrow> DynamicSecretPolicySpec_DeepCopyInto L (mp_Spec x);
     st \<leftarrow> DynamicSecretPolicyStatus_DeepCopyInto L (mp_Status x);
     State_Monad.return (x\<lparr>mp_ObjectMeta := om, mp_Spec := sp, mp_Status := st\<rparr>)
   }"

definition DynamicSecretPolicy_DeepCopy :: "'l library \<Rightarrow> addr option \<Rightarrow> ('l, addr option) mem" where
  "DynamicSecretPolicy_DeepCopy L =
     copyPtr (as_type is_CPolicy un_CPolicy) CPolicy (DynamicSecretPolicy_DeepCopyInto L)"

text \<open>\<open>DeepCopyObject\<close> returns the copy as a \<^verbatim>\<open>runtime.Object\<close>, and an untyped nil for nil.\<close>

datatype runtime_Object = ObjPolicy addr | ObjPolicyList addr

definition DynamicSecretPolicy_DeepCopyObject :: "'l library \<Rightarrow> addr option \<Rightarrow> ('l, runtime_Object option) mem" where
  "DynamicSecretPolicy_DeepCopyObject L p = do {
     c \<leftarrow> DynamicSecretPolicy_DeepCopy L p;
     State_Monad.return (case c of Some a \<Rightarrow> Some (ObjPolicy a) | None \<Rightarrow> None)
   }"

definition DynamicSecretPolicyList_DeepCopyInto :: "'l library \<Rightarrow> 'l mPolicyList \<Rightarrow> ('l, 'l mPolicyList) mem" where
  "DynamicSecretPolicyList_DeepCopyInto L x = do {
     lm \<leftarrow> ListMeta_DeepCopyInto L (ml_ListMeta x);
     it \<leftarrow> copySlice (as_type is_CItems un_CItems) CItems (DynamicSecretPolicy_DeepCopyInto L) (ml_Items x);
     State_Monad.return (x\<lparr>ml_ListMeta := lm, ml_Items := it\<rparr>)
   }"

definition DynamicSecretPolicyList_DeepCopy :: "'l library \<Rightarrow> addr option \<Rightarrow> ('l, addr option) mem" where
  "DynamicSecretPolicyList_DeepCopy L =
     copyPtr (as_type is_CPolicyList un_CPolicyList) CPolicyList (DynamicSecretPolicyList_DeepCopyInto L)"

definition DynamicSecretPolicyList_DeepCopyObject :: "'l library \<Rightarrow> addr option \<Rightarrow> ('l, runtime_Object option) mem" where
  "DynamicSecretPolicyList_DeepCopyObject L p = do {
     c \<leftarrow> DynamicSecretPolicyList_DeepCopy L p;
     State_Monad.return (case c of Some a \<Rightarrow> Some (ObjPolicyList a) | None \<Rightarrow> None)
   }"

section \<open>What a struct means in a store\<close>

definition readPtr :: "('l cell \<Rightarrow> 's option) \<Rightarrow> ('l heap \<Rightarrow> 's \<Rightarrow> 'v option) \<Rightarrow>
    'l heap \<Rightarrow> addr option \<Rightarrow> 'v option option" where
  "readPtr ty rd h p =
     (case p of
        None \<Rightarrow> Some None
      | Some a \<Rightarrow> do { c \<leftarrow> h a; s \<leftarrow> ty c; v \<leftarrow> rd h s; Some (Some v) })"

definition readAll :: "('l heap \<Rightarrow> 's \<Rightarrow> 'v option) \<Rightarrow> 'l heap \<Rightarrow> 's list \<Rightarrow> 'v list option" where
  "readAll rd h xs = those (map (rd h) xs)"

text \<open>A nil slice and an empty slice are the same list.\<close>

definition readSlice :: "('l cell \<Rightarrow> 's list option) \<Rightarrow> ('l heap \<Rightarrow> 's \<Rightarrow> 'v option) \<Rightarrow>
    'l heap \<Rightarrow> addr option \<Rightarrow> 'v list option" where
  "readSlice ty rd h p =
     map_option (case_option [] id) (readPtr ty (readAll rd) h p)"

definition readFlat :: "'l heap \<Rightarrow> 's \<Rightarrow> 's option" where
  "readFlat h x = Some x"

definition readSource :: "'l heap \<Rightarrow> mSecretSource \<Rightarrow> SecretSource option" where
  "readSource h x = do {
     az \<leftarrow> readPtr (as_type is_CAzure un_CAzure) readFlat h (ms_AzureKeyVault x);
     k8 \<leftarrow> readPtr (as_type is_CK8s un_CK8s) readFlat h (ms_K8sSecret x);
     aw \<leftarrow> readPtr (as_type is_CAws un_CAws) readFlat h (ms_AWSSecretsManager x);
     gc \<leftarrow> readPtr (as_type is_CGcp un_CGcp) readFlat h (ms_GCPSecretManager x);
     va \<leftarrow> readPtr (as_type is_CVault un_CVault) readFlat h (ms_Vault x);
     Some \<lparr>src_Type = ms_Type x, src_ParseJSON = ms_ParseJSON x, src_AzureKeyVault = az, src_K8sSecret = k8,
       src_AWSSecretsManager = aw, src_GCPSecretManager = gc, src_Vault = va\<rparr>
   }"

definition readJob :: "'l library \<Rightarrow> 'l heap \<Rightarrow> 'l mJobProbeSpec \<Rightarrow> JobProbeSpec option" where
  "readJob L h x = do {
     t \<leftarrow> readPtr (as_type is_CInt32 un_CInt32) readFlat h (mj_TimeoutSeconds x);
     j \<leftarrow> readJobTemplateSpec L h (mj_JobTemplate x);
     Some \<lparr>jp_TimeoutSeconds = t, jp_JobTemplate = j\<rparr>
   }"

definition readProbe :: "'l library \<Rightarrow> 'l heap \<Rightarrow> mValidationProbe \<Rightarrow> ValidationProbe option" where
  "readProbe L h x = do {
     c \<leftarrow> readPtr (as_type is_CCreds un_CCreds) readFlat h (mv_Credentials x);
     j \<leftarrow> readPtr (as_type is_CJob un_CJob) (readJob L) h (mv_Job x);
     Some \<lparr>vp_Type = mv_Type x, vp_Endpoint = mv_Endpoint x, vp_QueryTimeout = mv_QueryTimeout x,
       vp_Credentials = c, vp_Job = j\<rparr>
   }"

definition readSpec :: "'l library \<Rightarrow> 'l heap \<Rightarrow> mSpec \<Rightarrow> DynamicSecretPolicySpec option" where
  "readSpec L h x = do {
     so \<leftarrow> readPtr (as_type is_CSource un_CSource) readSource h (msp_Source x);
     np \<leftarrow> readPtr (as_type is_CNetPol un_CNetPol) readFlat h (msp_NetworkPolicy x);
     cs \<leftarrow> readPtr (as_type is_CCanary un_CCanary) readFlat h (msp_CanaryStrategy x);
     vp \<leftarrow> readSlice (as_type is_CProbes un_CProbes) (readProbe L) h (msp_ValidationProbes x);
     rb \<leftarrow> readPtr (as_type is_CRollback un_CRollback) readFlat h (msp_RollbackConfig x);
     tr \<leftarrow> readPtr (as_type is_CTarget un_CTarget) readFlat h (msp_TargetRef x);
     Some \<lparr>spec_Source = so, spec_VaultRef = msp_VaultRef x, spec_NetworkPolicy = np,
       spec_WorkloadSelector = msp_WorkloadSelector x, spec_CanaryStrategy = cs, spec_ValidationProbes = vp,
       spec_RollbackConfig = rb, spec_TargetRef = tr\<rparr>
   }"

definition readStatus :: "'l library \<Rightarrow> 'l heap \<Rightarrow> mStatus \<Rightarrow> DynamicSecretPolicyStatus option" where
  "readStatus L h x = do {
     cs \<leftarrow> readSlice (as_type is_CConditions un_CConditions) (readCondition L) h (mst_Conditions x);
     Some \<lparr>CurrentRevision = mst_CurrentRevision x, DesiredRevision = mst_DesiredRevision x,
       ConsecutiveFailures = mst_ConsecutiveFailures x, Conditions = cs\<rparr>
   }"

definition readPolicy :: "'l library \<Rightarrow> 'l heap \<Rightarrow> 'l mPolicy \<Rightarrow> (TypeMeta \<times> DynamicSecretPolicy) option" where
  "readPolicy L h x = do {
     om \<leftarrow> readObjectMeta L h (mp_ObjectMeta x);
     sp \<leftarrow> readSpec L h (mp_Spec x);
     st \<leftarrow> readStatus L h (mp_Status x);
     Some (mp_TypeMeta x, \<lparr>p_meta = om, p_spec = sp, p_status = st\<rparr>)
   }"

definition readPolicyList :: "'l library \<Rightarrow> 'l heap \<Rightarrow> 'l mPolicyList \<Rightarrow>
    (TypeMeta \<times> string \<times> (TypeMeta \<times> DynamicSecretPolicy) list) option" where
  "readPolicyList L h x = do {
     lm \<leftarrow> readListMeta L h (ml_ListMeta x);
     it \<leftarrow> readSlice (as_type is_CItems un_CItems) (readPolicy L) h (ml_Items x);
     Some (ml_TypeMeta x, lm, it)
   }"

abbreviation policy_at :: "'l library \<Rightarrow> 'l heap \<Rightarrow> addr option \<Rightarrow> (TypeMeta \<times> DynamicSecretPolicy) option option" where
  "policy_at L \<equiv> readPtr (as_type is_CPolicy un_CPolicy) (readPolicy L)"

text \<open>Two fields of a struct, read and copied one after the other.\<close>

definition readPair :: "('l heap \<Rightarrow> 's \<Rightarrow> 'v option) \<Rightarrow> ('l heap \<Rightarrow> 't \<Rightarrow> 'u option) \<Rightarrow>
    'l heap \<Rightarrow> 's \<times> 't \<Rightarrow> ('v \<times> 'u) option" where
  "readPair rd1 rd2 h p = do { v \<leftarrow> rd1 h (fst p); u \<leftarrow> rd2 h (snd p); Some (v, u) }"

definition copyPair :: "('s \<Rightarrow> ('l, 's) mem) \<Rightarrow> ('t \<Rightarrow> ('l, 't) mem) \<Rightarrow> 's \<times> 't \<Rightarrow> ('l, 's \<times> 't) mem" where
  "copyPair cp1 cp2 p = do { y \<leftarrow> cp1 (fst p); z \<leftarrow> cp2 (snd p); State_Monad.return (y, z) }"

section \<open>The contract of a deep copy\<close>

text \<open>Nothing lies at an address that has not been handed out.\<close>

definition alloc_ok :: "'l memory \<Rightarrow> bool" where
  "alloc_ok m \<longleftrightarrow> dom (cells m) \<subseteq> {..<next_addr m}"

text \<open>\<open>m'\<close> is \<open>m\<close> with more cells: no allocated cell has changed.\<close>

definition mem_extends :: "'l memory \<Rightarrow> 'l memory \<Rightarrow> bool" where
  "mem_extends m m' \<longleftrightarrow> alloc_ok m' \<and> next_addr m \<le> next_addr m' \<and>
     (\<forall>a < next_addr m. cells m' a = cells m a)"

abbreviation fresh_cells :: "'l memory \<Rightarrow> 'l memory \<Rightarrow> 'l heap" where
  "fresh_cells m m' \<equiv> cells m' |` {next_addr m..}"

locale deep_copier =
  fixes rd :: "'l heap \<Rightarrow> 's \<Rightarrow> 'v option"
    and cp :: "'s \<Rightarrow> ('l, 's) mem"
  assumes reads_more: "rd h x = Some v \<Longrightarrow> h \<subseteq>\<^sub>m h' \<Longrightarrow> rd h' x = Some v"
    and copies: "alloc_ok m \<Longrightarrow> rd (cells m) x = Some v \<Longrightarrow> run_state (cp x) m = (y, m') \<Longrightarrow>
      mem_extends m m' \<and> rd (fresh_cells m m') y = Some v"

text \<open>The library's own copies are deep copies.\<close>

definition library_ok :: "'l library \<Rightarrow> bool" where
  "library_ok L \<longleftrightarrow>
     deep_copier (readObjectMeta L) (ObjectMeta_DeepCopyInto L) \<and>
     deep_copier (readListMeta L) (ListMeta_DeepCopyInto L) \<and>
     deep_copier (readJobTemplateSpec L) (JobTemplateSpec_DeepCopyInto L) \<and>
     deep_copier (readCondition L) (Condition_DeepCopyInto L)"

text \<open>A library for the examples: the labels of an \<^verbatim>\<open>ObjectMeta\<close> are a map of their own, which its
  \<open>DeepCopyInto\<close> copies; the other structs are flat.\<close>

datatype lib_value = VMeta ObjectMeta | VLabels labels | VList string | VJob JobSpec | VCond Condition

record lib_struct =
  lib_value :: lib_value
  lib_labels :: "addr option"

definition lib_map :: "lib_struct cell \<Rightarrow> labels option" where
  "lib_map c = (case c of CLib x \<Rightarrow> (case lib_value x of VLabels l \<Rightarrow> Some l | _ \<Rightarrow> None) | _ \<Rightarrow> None)"

definition lib_map_cell :: "labels \<Rightarrow> lib_struct cell" where
  "lib_map_cell l = CLib \<lparr>lib_value = VLabels l, lib_labels = None\<rparr>"

definition sample_library :: "lib_struct library" where
  "sample_library =
     \<lparr>ObjectMeta_DeepCopyInto = (\<lambda>x. do {
        l \<leftarrow> copyPtr lib_map lib_map_cell State_Monad.return (lib_labels x);
        State_Monad.return (x\<lparr>lib_labels := l\<rparr>) }),
      ListMeta_DeepCopyInto = State_Monad.return,
      JobTemplateSpec_DeepCopyInto = State_Monad.return,
      Condition_DeepCopyInto = State_Monad.return,
      readObjectMeta = (\<lambda>h x. do {
        l \<leftarrow> readPtr lib_map readFlat h (lib_labels x);
        case lib_value x of
          VMeta m \<Rightarrow> Some (m\<lparr>om_labels := case_option Map.empty id l\<rparr>)
        | _ \<Rightarrow> None }),
      readListMeta = (\<lambda>h x. case lib_value x of VList s \<Rightarrow> Some s | _ \<Rightarrow> None),
      readJobTemplateSpec = (\<lambda>h x. case lib_value x of VJob j \<Rightarrow> Some j | _ \<Rightarrow> None),
      readCondition = (\<lambda>h x. case lib_value x of VCond c \<Rightarrow> Some c | _ \<Rightarrow> None)\<rparr>"

text \<open>A policy in a store: the struct at address 3, its labels, its source and its conditions in
  cells of their own.\<close>

definition sample_cells :: "lib_struct heap" where
  "sample_cells = Map.empty
     (0 \<mapsto> lib_map_cell [''app'' \<mapsto> ''web''],
      1 \<mapsto> CSource \<lparr>ms_Type = SourceTypeK8sSecret, ms_ParseJSON = False, ms_AzureKeyVault = None,
              ms_K8sSecret = Some 4, ms_AWSSecretsManager = None, ms_GCPSecretManager = None, ms_Vault = None\<rparr>,
      2 \<mapsto> CConditions [\<lparr>lib_value = VCond \<lparr>c_type = ''Ready'', c_status = ConditionTrue, c_reason = ''Promoted'',
              c_message = (''ready'', [], None)\<rparr>, lib_labels = None\<rparr>],
      3 \<mapsto> CPolicy \<lparr>mp_TypeMeta = \<lparr>tm_Kind = ''DynamicSecretPolicy'', tm_APIVersion = ''dso.quantumsys.dev/v1alpha1''\<rparr>,
              mp_ObjectMeta = \<lparr>lib_value = VMeta (empty_meta\<lparr>om_name := ''db''\<rparr>), lib_labels = Some 0\<rparr>,
              mp_Spec = \<lparr>msp_Source = Some 1, msp_VaultRef = \<lparr>vr_KeyVaultURI = '''', vr_ObjectName = '''', vr_ObjectType = ''''\<rparr>,
                msp_NetworkPolicy = None, msp_WorkloadSelector = \<lparr>ws_Kind = ''Deployment'', ws_Name = ''web''\<rparr>,
                msp_CanaryStrategy = None, msp_ValidationProbes = None, msp_RollbackConfig = None, msp_TargetRef = None\<rparr>,
              mp_Status = \<lparr>mst_CurrentRevision = ''1'', mst_DesiredRevision = ''2'', mst_ConsecutiveFailures = 0,
                mst_Conditions = Some 2\<rparr>\<rparr>,
      4 \<mapsto> CK8s \<lparr>k8s_Name = ''db-password''\<rparr>)"

definition sample_memory :: "lib_struct memory" where
  "sample_memory = \<lparr>cells = sample_cells, next_addr = 5\<rparr>"

definition sample_copied :: "TypeMeta \<times> DynamicSecretPolicy" where
  "sample_copied =
     (\<lparr>tm_Kind = ''DynamicSecretPolicy'', tm_APIVersion = ''dso.quantumsys.dev/v1alpha1''\<rparr>,
      \<lparr>p_meta = empty_meta\<lparr>om_name := ''db'', om_labels := [''app'' \<mapsto> ''web'']\<rparr>,
       p_spec = \<lparr>spec_Source = Some (zero_source\<lparr>src_Type := SourceTypeK8sSecret,
           src_K8sSecret := Some \<lparr>k8s_Name = ''db-password''\<rparr>\<rparr>),
         spec_VaultRef = \<lparr>vr_KeyVaultURI = '''', vr_ObjectName = '''', vr_ObjectType = ''''\<rparr>,
         spec_NetworkPolicy = None, spec_WorkloadSelector = \<lparr>ws_Kind = ''Deployment'', ws_Name = ''web''\<rparr>,
         spec_CanaryStrategy = None, spec_ValidationProbes = [], spec_RollbackConfig = None, spec_TargetRef = None\<rparr>,
       p_status = \<lparr>CurrentRevision = ''1'', DesiredRevision = ''2'', ConsecutiveFailures = 0,
         Conditions = [\<lparr>c_type = ''Ready'', c_status = ConditionTrue, c_reason = ''Promoted'', c_message = (''ready'', [], None)\<rparr>]\<rparr>\<rparr>)"

lemma alloc_None: "alloc_ok m \<Longrightarrow> next_addr m \<le> a \<Longrightarrow> cells m a = None"
  by (force simp: alloc_ok_def dom_def)

lemma mem_extends_refl: "alloc_ok m \<Longrightarrow> mem_extends m m"
  by (simp add: mem_extends_def)

lemma mem_extends_trans: "mem_extends m0 m1 \<Longrightarrow> mem_extends m1 m2 \<Longrightarrow> mem_extends m0 m2"
  by (simp add: mem_extends_def)

lemma mem_extends_ok: "mem_extends m m' \<Longrightarrow> alloc_ok m'"
  by (simp add: mem_extends_def)

lemma mem_extends_le:
  assumes "alloc_ok m" "\<And>a. a < next_addr m \<Longrightarrow> h a = cells m a"
  shows "cells m \<subseteq>\<^sub>m h"
  unfolding map_le_def using assms(2) alloc_None [OF assms(1)] by (metis domIff not_le)

text \<open>The fresh cells of two extensions, one after the other.\<close>

lemma fresh_first: "mem_extends m0 m1 \<Longrightarrow> mem_extends m1 m2 \<Longrightarrow> fresh_cells m0 m1 \<subseteq>\<^sub>m fresh_cells m0 m2"
  unfolding map_le_def using alloc_None [of m1]
  by (auto simp: mem_extends_def restrict_map_def split: if_splits) (metis not_le option.distinct(1))

lemma fresh_second: "mem_extends m0 m1 \<Longrightarrow> fresh_cells m1 m2 \<subseteq>\<^sub>m fresh_cells m0 m2"
  by (auto simp: mem_extends_def map_le_def restrict_map_def split: if_splits)

context deep_copier
begin

text \<open>What a client of the copy relies on: the original reads the same value whatever is written
  to the fresh cells, and the copy reads it whatever is written to the old ones.\<close>

lemma original_kept:
  assumes "alloc_ok m" "rd (cells m) x = Some v" "run_state (cp x) m = (y, m')"
    and "\<And>a. a < next_addr m \<Longrightarrow> h a = cells m' a"
  shows "rd h x = Some v"
proof (rule reads_more [OF assms(2)])
  show "cells m \<subseteq>\<^sub>m h"
    using copies [OF assms(1,2,3)] assms(4) by (intro mem_extends_le [OF assms(1)]) (simp add: mem_extends_def)
qed

lemma copy_kept:
  assumes "alloc_ok m" "rd (cells m) x = Some v" "run_state (cp x) m = (y, m')"
    and "\<And>a. next_addr m \<le> a \<Longrightarrow> h a = cells m' a"
  shows "rd h y = Some v"
proof (rule reads_more)
  show "rd (fresh_cells m m') y = Some v" using copies [OF assms(1,2,3)] by simp
  show "fresh_cells m m' \<subseteq>\<^sub>m h"
    using assms(4) by (auto simp: map_le_def restrict_map_def split: if_splits)
qed

lemma reads_extended:
  "alloc_ok m \<Longrightarrow> mem_extends m m' \<Longrightarrow> rd (cells m) x = Some v \<Longrightarrow> rd (cells m') x = Some v"
  by (rule reads_more) (auto simp: mem_extends_def intro: mem_extends_le)

end

subsection \<open>Combinators\<close>

lemma run_bind_pair:
  "run_state (State_Monad.bind c f) m = (case run_state c m of (y, m') \<Rightarrow> run_state (f y) m')"
  by (simp add: State_Monad.bind_def split_def)

lemma run_return: "run_state (State_Monad.return x) m = (x, m)"
  by (simp add: State_Monad.return_def)

lemma copier_flat: "deep_copier readFlat State_Monad.return"
  by unfold_locales (simp_all add: readFlat_def run_return mem_extends_refl)

lemma readPair_Some:
  "readPair rd1 rd2 h p = Some (v, u) \<longleftrightarrow> rd1 h (fst p) = Some v \<and> rd2 h (snd p) = Some u"
  by (auto simp: readPair_def bind_eq_Some_conv)

lemma copier_pair:
  assumes c1: "deep_copier rd1 cp1" and c2: "deep_copier rd2 cp2"
  shows "deep_copier (readPair rd1 rd2) (copyPair cp1 cp2)"
proof
  fix h h' p v
  assume r: "readPair rd1 rd2 h p = Some v" and le: "h \<subseteq>\<^sub>m h'"
  obtain v1 v2 where v: "v = (v1, v2)" "rd1 h (fst p) = Some v1" "rd2 h (snd p) = Some v2"
    using r by (cases v) (simp add: readPair_Some)
  show "readPair rd1 rd2 h' p = Some v"
    using deep_copier.reads_more [OF c1 v(2) le] deep_copier.reads_more [OF c2 v(3) le]
    by (simp add: readPair_Some v(1))
next
  fix m p v y m'
  assume ok: "alloc_ok m" and r: "readPair rd1 rd2 (cells m) p = Some v"
    and run: "run_state (copyPair cp1 cp2 p) m = (y, m')"
  obtain v1 v2 where v: "v = (v1, v2)" "rd1 (cells m) (fst p) = Some v1" "rd2 (cells m) (snd p) = Some v2"
    using r by (cases v) (simp add: readPair_Some)
  obtain y1 m1 where s1: "run_state (cp1 (fst p)) m = (y1, m1)" by fastforce
  obtain y2 where s2: "run_state (cp2 (snd p)) m1 = (y2, m')" and y: "y = (y1, y2)"
    using run by (auto simp: copyPair_def run_bind_pair s1 run_return split: prod.splits)
  note k1 = deep_copier.copies [OF c1 ok v(2) s1]
  have "rd2 (cells m1) (snd p) = Some v2"
    using deep_copier.reads_extended [OF c2 ok _ v(3)] k1 by simp
  note k2 = deep_copier.copies [OF c2 mem_extends_ok this s2]
  have "rd1 (fresh_cells m m') y1 = Some v1" "rd2 (fresh_cells m m') y2 = Some v2"
    using deep_copier.reads_more [OF c1 _ fresh_first] deep_copier.reads_more [OF c2 _ fresh_second] k1 k2
    by blast+
  then show "mem_extends m m' \<and> readPair rd1 rd2 (fresh_cells m m') y = Some v"
    using mem_extends_trans k1 k2 by (simp add: readPair_Some y v(1)) blast
qed

text \<open>A struct whose fields \<open>f\<close> are copied and written back by \<open>g\<close>, the others assigned.\<close>

lemma copier_struct:
  assumes c: "deep_copier rd cp"
    and rd': "\<And>h x. rd' h x = Option.bind (rd h (f x)) (k x)"
    and cp': "\<And>x. cp' x = do { y \<leftarrow> cp (f x); State_Monad.return (g x y) }"
    and fg: "\<And>x y. f (g x y) = y" and kg: "\<And>x y. k (g x y) = k x"
  shows "deep_copier rd' cp'"
proof
  fix h h' x v
  assume "rd' h x = Some v" and le: "h \<subseteq>\<^sub>m h'"
  then obtain u where u: "rd h (f x) = Some u" "k x u = Some v" by (auto simp: rd' bind_eq_Some_conv)
  show "rd' h' x = Some v"
    using deep_copier.reads_more [OF c u(1) le] by (simp add: rd' u(2))
next
  fix m x v y m'
  assume ok: "alloc_ok m" and r: "rd' (cells m) x = Some v" and run: "run_state (cp' x) m = (y, m')"
  obtain u where u: "rd (cells m) (f x) = Some u" "k x u = Some v" using r by (auto simp: rd' bind_eq_Some_conv)
  obtain z where z: "run_state (cp (f x)) m = (z, m')" "y = g x z"
    using run by (auto simp: cp' run_bind_pair run_return split: prod.splits)
  show "mem_extends m m' \<and> rd' (fresh_cells m m') y = Some v"
    using deep_copier.copies [OF c ok u(1) z(1)] by (simp add: rd' z(2) fg kg u(2))
qed

text \<open>A list of structs, copied element by element.\<close>

lemma readAll_simps [simp]:
  "readAll rd h [] = Some []"
  "readAll rd h (x # xs) = Some vs \<longleftrightarrow> (\<exists>w ws. vs = w # ws \<and> rd h x = Some w \<and> readAll rd h xs = Some ws)"
  by (auto simp: readAll_def split: option.splits)

lemma readAll_more:
  assumes "deep_copier rd cp" "h \<subseteq>\<^sub>m h'"
  shows "readAll rd h xs = Some vs \<Longrightarrow> readAll rd h' xs = Some vs"
  by (induction xs arbitrary: vs) (auto intro: deep_copier.reads_more [OF assms(1) _ assms(2)])

lemma copyElems_copies:
  assumes c: "deep_copier rd cp"
  shows "alloc_ok m \<Longrightarrow> readAll rd (cells m) xs = Some vs \<Longrightarrow> run_state (copyElems cp xs) m = (ys, m') \<Longrightarrow>
    mem_extends m m' \<and> readAll rd (fresh_cells m m') ys = Some vs"
proof (induction xs arbitrary: m vs ys)
  case Nil
  then show ?case by (auto simp: run_return mem_extends_refl)
next
  case (Cons x xs)
  obtain w ws where v: "vs = w # ws" "rd (cells m) x = Some w" "readAll rd (cells m) xs = Some ws"
    using Cons.prems(2) by auto
  obtain y m1 where s1: "run_state (cp x) m = (y, m1)" by fastforce
  obtain zs where s2: "run_state (copyElems cp xs) m1 = (zs, m')" and ys: "ys = y # zs"
    using Cons.prems(3) by (auto simp: run_bind_pair s1 run_return split: prod.splits)
  note k1 = deep_copier.copies [OF c Cons.prems(1) v(2) s1]
  have "cells m \<subseteq>\<^sub>m cells m1"
    using k1 by (intro mem_extends_le [OF Cons.prems(1)]) (simp add: mem_extends_def)
  from readAll_more [OF c this v(3)] have k2: "mem_extends m1 m' \<and> readAll rd (fresh_cells m1 m') zs = Some ws"
    using Cons.IH k1 s2 mem_extends_ok by blast
  have "rd (fresh_cells m m') y = Some w" "readAll rd (fresh_cells m m') zs = Some ws"
    using deep_copier.reads_more [OF c _ fresh_first] readAll_more [OF c fresh_second] k1 k2 by blast+
  then show ?case using mem_extends_trans k1 k2 by (simp add: ys v(1)) blast
qed

lemma copier_elems: "deep_copier rd cp \<Longrightarrow> deep_copier (readAll rd) (copyElems cp)"
  using readAll_more copyElems_copies by unfold_locales blast+

text \<open>What a pointer leads to.\<close>

lemma copyPtr_run:
  assumes "cells m a = Some c" "ty c = Some x" "run_state (copyPtr ty mk cp (Some a)) m = (q, m')"
  obtains y m2 where "run_state (cp x) (m\<lparr>next_addr := Suc (next_addr m)\<rparr>) = (y, m2)"
    "m' = m2\<lparr>cells := (cells m2)(next_addr m \<mapsto> mk y)\<rparr>" "q = Some (next_addr m)"
  using assms
  by (auto simp: copyPtr_def load_def new_cell_def store_def run_bind_pair run_return split: prod.splits)

lemma copier_ptr:
  assumes c: "deep_copier rd cp" and ty: "\<And>s. ty (mk s) = Some s"
  shows "deep_copier (readPtr ty rd) (copyPtr ty mk cp)"
proof
  fix h h' p v
  assume "readPtr ty rd h p = Some v" and le: "h \<subseteq>\<^sub>m h'"
  then show "readPtr ty rd h' p = Some v"
    using deep_copier.reads_more [OF c _ le] le
    by (auto simp: readPtr_def bind_eq_Some_conv map_le_def dom_def split: option.splits)
next
  fix m p v q m'
  assume ok: "alloc_ok m" and r: "readPtr ty rd (cells m) p = Some v"
    and run: "run_state (copyPtr ty mk cp p) m = (q, m')"
  show "mem_extends m m' \<and> readPtr ty rd (fresh_cells m m') q = Some v"
  proof (cases p)
    case None
    then show ?thesis using r run ok by (auto simp: readPtr_def copyPtr_def run_return mem_extends_refl)
  next
    case (Some a)
    obtain cl x w where a: "cells m a = Some cl" "ty cl = Some x" "rd (cells m) x = Some w" and v: "v = Some w"
      using r Some by (auto simp: readPtr_def bind_eq_Some_conv)
    let ?m1 = "m\<lparr>next_addr := Suc (next_addr m)\<rparr>"
    obtain y m2 where y: "run_state (cp x) ?m1 = (y, m2)"
      and m': "m' = m2\<lparr>cells := (cells m2)(next_addr m \<mapsto> mk y)\<rparr>" and q: "q = Some (next_addr m)"
      using copyPtr_run [where ty = ty, OF a(1,2)] run Some by blast
    have ok1: "alloc_ok ?m1" using ok by (auto simp: alloc_ok_def)
    have k: "mem_extends ?m1 m2 \<and> rd (fresh_cells ?m1 m2) y = Some w"
      by (rule deep_copier.copies [OF c ok1 _ y]) (simp add: a(3))
    have "fresh_cells ?m1 m2 \<subseteq>\<^sub>m fresh_cells m m'"
      by (auto simp: m' map_le_def restrict_map_def split: if_splits)
    then have "rd (fresh_cells m m') y = Some w"
      by (rule deep_copier.reads_more [OF c conjunct2 [OF k]])
    then have "readPtr ty rd (fresh_cells m m') q = Some v"
      by (simp add: readPtr_def q v ty m' restrict_map_def)
    moreover have "mem_extends m m'"
      using k by (auto simp: mem_extends_def m' alloc_ok_def)
    ultimately show ?thesis by simp
  qed
qed

lemma copier_slice:
  assumes "deep_copier rd cp" and "\<And>s. ty (mk s) = Some s"
  shows "deep_copier (readSlice ty rd) (copySlice ty mk cp)"
  by (rule copier_struct [OF copier_ptr [OF copier_elems [OF assms(1)] assms(2)],
        where f = id and g = "\<lambda>x y. y" and k = "\<lambda>_ v. Some (case_option [] id v)"])
    (simp_all add: readSlice_def copySlice_def map_conv_bind_option comp_def)

lemma copier_ptr_flat:
  "(\<And>s. ty (mk s) = Some s) \<Longrightarrow> deep_copier (readPtr ty readFlat) (copyPtr ty mk State_Monad.return)"
  by (rule copier_ptr [OF copier_flat])

lemma as_type_cell [simp]:
  "as_type is_CAws un_CAws (CAws x0) = Some x0"
  "as_type is_CAzure un_CAzure (CAzure x1) = Some x1"
  "as_type is_CCanary un_CCanary (CCanary x2) = Some x2"
  "as_type is_CPolicy un_CPolicy (CPolicy x3) = Some x3"
  "as_type is_CPolicyList un_CPolicyList (CPolicyList x4) = Some x4"
  "as_type is_CSpec un_CSpec (CSpec x5) = Some x5"
  "as_type is_CStatus un_CStatus (CStatus x6) = Some x6"
  "as_type is_CGcp un_CGcp (CGcp x7) = Some x7"
  "as_type is_CJob un_CJob (CJob x8) = Some x8"
  "as_type is_CK8s un_CK8s (CK8s x9) = Some x9"
  "as_type is_CNetPol un_CNetPol (CNetPol x10) = Some x10"
  "as_type is_CCreds un_CCreds (CCreds x11) = Some x11"
  "as_type is_CRollback un_CRollback (CRollback x12) = Some x12"
  "as_type is_CSource un_CSource (CSource x13) = Some x13"
  "as_type is_CTarget un_CTarget (CTarget x14) = Some x14"
  "as_type is_CProbe un_CProbe (CProbe x15) = Some x15"
  "as_type is_CVaultRef un_CVaultRef (CVaultRef x16) = Some x16"
  "as_type is_CVault un_CVault (CVault x17) = Some x17"
  "as_type is_CSelector un_CSelector (CSelector x18) = Some x18"
  "as_type is_CInt32 un_CInt32 (CInt32 x19) = Some x19"
  "as_type is_CProbes un_CProbes (CProbes x20) = Some x20"
  "as_type is_CConditions un_CConditions (CConditions x21) = Some x21"
  "as_type is_CItems un_CItems (CItems x22) = Some x22"
  by (simp_all add: as_type_def)

lemmas struct_defs = readPair_def copyPair_def

subsection \<open>The types of the API group\<close>

lemma copier_Source: "deep_copier readSource SecretSource_DeepCopyInto"
  by (rule copier_struct [OF
        copier_pair [OF copier_ptr_flat [where ty = "as_type is_CAzure un_CAzure" and mk = CAzure]
        copier_pair [OF copier_ptr_flat [where ty = "as_type is_CK8s un_CK8s" and mk = CK8s]
        copier_pair [OF copier_ptr_flat [where ty = "as_type is_CAws un_CAws" and mk = CAws]
        copier_pair [OF copier_ptr_flat [where ty = "as_type is_CGcp un_CGcp" and mk = CGcp]
                        copier_ptr_flat [where ty = "as_type is_CVault un_CVault" and mk = CVault]]]]],
        where f = "\<lambda>x. (ms_AzureKeyVault x, ms_K8sSecret x, ms_AWSSecretsManager x,
            ms_GCPSecretManager x, ms_Vault x)"
          and g = "\<lambda>x (az, k8, aw, gc, va). x\<lparr>ms_AzureKeyVault := az, ms_K8sSecret := k8,
            ms_AWSSecretsManager := aw, ms_GCPSecretManager := gc, ms_Vault := va\<rparr>"
          and k = "\<lambda>x (az, k8, aw, gc, va). Some \<lparr>src_Type = ms_Type x, src_ParseJSON = ms_ParseJSON x,
            src_AzureKeyVault = az, src_K8sSecret = k8, src_AWSSecretsManager = aw,
            src_GCPSecretManager = gc, src_Vault = va\<rparr>"])
    (simp_all add: struct_defs readSource_def SecretSource_DeepCopyInto_def split: prod.splits)

interpretation source_copy: deep_copier readSource SecretSource_DeepCopyInto
  by (rule copier_Source)


text \<open>The types above it hold library structs, so their copies are deep under \<open>library_ok\<close>.\<close>

lemma copier_Job:
  assumes "library_ok L"
  shows "deep_copier (readJob L) (JobProbeSpec_DeepCopyInto L)"
proof -
  have j: "deep_copier (readJobTemplateSpec L) (JobTemplateSpec_DeepCopyInto L)"
    using assms by (simp add: library_ok_def)
  show ?thesis
    by (rule copier_struct [OF
          copier_pair [OF copier_ptr_flat [where ty = "as_type is_CInt32 un_CInt32" and mk = CInt32] j],
          where f = "\<lambda>x. (mj_TimeoutSeconds x, mj_JobTemplate x)"
            and g = "\<lambda>x (t, j). x\<lparr>mj_TimeoutSeconds := t, mj_JobTemplate := j\<rparr>"
            and k = "\<lambda>x (t, j). Some \<lparr>jp_TimeoutSeconds = t, jp_JobTemplate = j\<rparr>"])
      (simp_all add: struct_defs readJob_def JobProbeSpec_DeepCopyInto_def split: prod.splits)
qed

lemma copier_Probe:
  assumes "library_ok L"
  shows "deep_copier (readProbe L) (ValidationProbe_DeepCopyInto L)"
  by (rule copier_struct [OF
        copier_pair [OF copier_ptr_flat [where ty = "as_type is_CCreds un_CCreds" and mk = CCreds]
          copier_ptr [OF copier_Job [OF assms], where ty = "as_type is_CJob un_CJob" and mk = CJob]],
        where f = "\<lambda>x. (mv_Credentials x, mv_Job x)"
          and g = "\<lambda>x (c, j). x\<lparr>mv_Credentials := c, mv_Job := j\<rparr>"
          and k = "\<lambda>x (c, j). Some \<lparr>vp_Type = mv_Type x, vp_Endpoint = mv_Endpoint x,
            vp_QueryTimeout = mv_QueryTimeout x, vp_Credentials = c, vp_Job = j\<rparr>"])
    (simp_all add: struct_defs readProbe_def ValidationProbe_DeepCopyInto_def split: prod.splits)

lemma copier_Spec:
  assumes "library_ok L"
  shows "deep_copier (readSpec L) (DynamicSecretPolicySpec_DeepCopyInto L)"
  by (rule copier_struct [OF
        copier_pair [OF copier_ptr [OF copier_Source,
                          where ty = "as_type is_CSource un_CSource" and mk = CSource]
        copier_pair [OF copier_ptr_flat [where ty = "as_type is_CNetPol un_CNetPol" and mk = CNetPol]
        copier_pair [OF copier_ptr_flat [where ty = "as_type is_CCanary un_CCanary" and mk = CCanary]
        copier_pair [OF copier_slice [OF copier_Probe [OF assms],
                          where ty = "as_type is_CProbes un_CProbes" and mk = CProbes]
        copier_pair [OF copier_ptr_flat [where ty = "as_type is_CRollback un_CRollback" and mk = CRollback]
                        copier_ptr_flat [where ty = "as_type is_CTarget un_CTarget" and mk = CTarget]]]]]],
        where f = "\<lambda>x. (msp_Source x, msp_NetworkPolicy x, msp_CanaryStrategy x, msp_ValidationProbes x,
            msp_RollbackConfig x, msp_TargetRef x)"
          and g = "\<lambda>x (so, np, cs, vp, rb, tr). x\<lparr>msp_Source := so, msp_NetworkPolicy := np,
            msp_CanaryStrategy := cs, msp_ValidationProbes := vp, msp_RollbackConfig := rb, msp_TargetRef := tr\<rparr>"
          and k = "\<lambda>x (so, np, cs, vp, rb, tr). Some \<lparr>spec_Source = so, spec_VaultRef = msp_VaultRef x,
            spec_NetworkPolicy = np, spec_WorkloadSelector = msp_WorkloadSelector x, spec_CanaryStrategy = cs,
            spec_ValidationProbes = vp, spec_RollbackConfig = rb, spec_TargetRef = tr\<rparr>"])
    (simp_all add: struct_defs readSpec_def DynamicSecretPolicySpec_DeepCopyInto_def split: prod.splits)

lemma copier_Status:
  assumes "library_ok L"
  shows "deep_copier (readStatus L) (DynamicSecretPolicyStatus_DeepCopyInto L)"
proof -
  have c: "deep_copier (readCondition L) (Condition_DeepCopyInto L)"
    using assms by (simp add: library_ok_def)
  show ?thesis
    by (rule copier_struct [OF
          copier_slice [OF c, where ty = "as_type is_CConditions un_CConditions" and mk = CConditions],
          where f = mst_Conditions and g = "\<lambda>x cs. x\<lparr>mst_Conditions := cs\<rparr>"
            and k = "\<lambda>x cs. Some \<lparr>CurrentRevision = mst_CurrentRevision x, DesiredRevision = mst_DesiredRevision x,
              ConsecutiveFailures = mst_ConsecutiveFailures x, Conditions = cs\<rparr>"])
      (simp_all add: struct_defs readStatus_def DynamicSecretPolicyStatus_DeepCopyInto_def)
qed

lemma copier_Policy:
  assumes "library_ok L"
  shows "deep_copier (readPolicy L) (DynamicSecretPolicy_DeepCopyInto L)"
proof -
  have m: "deep_copier (readObjectMeta L) (ObjectMeta_DeepCopyInto L)"
    using assms by (simp add: library_ok_def)
  show ?thesis
    by (rule copier_struct [OF copier_pair [OF m copier_pair [OF copier_Spec [OF assms] copier_Status [OF assms]]],
          where f = "\<lambda>x. (mp_ObjectMeta x, mp_Spec x, mp_Status x)"
            and g = "\<lambda>x (om, sp, st). x\<lparr>mp_ObjectMeta := om, mp_Spec := sp, mp_Status := st\<rparr>"
            and k = "\<lambda>x (om, sp, st). Some (mp_TypeMeta x, \<lparr>p_meta = om, p_spec = sp, p_status = st\<rparr>)"])
      (simp_all add: struct_defs readPolicy_def DynamicSecretPolicy_DeepCopyInto_def split: prod.splits)
qed

lemma copier_PolicyList:
  assumes "library_ok L"
  shows "deep_copier (readPolicyList L) (DynamicSecretPolicyList_DeepCopyInto L)"
proof -
  have m: "deep_copier (readListMeta L) (ListMeta_DeepCopyInto L)"
    using assms by (simp add: library_ok_def)
  show ?thesis
    by (rule copier_struct [OF copier_pair [OF m
            copier_slice [OF copier_Policy [OF assms], where ty = "as_type is_CItems un_CItems" and mk = CItems]],
          where f = "\<lambda>x. (ml_ListMeta x, ml_Items x)"
            and g = "\<lambda>x (lm, it). x\<lparr>ml_ListMeta := lm, ml_Items := it\<rparr>"
            and k = "\<lambda>x (lm, it). Some (ml_TypeMeta x, lm, it)"])
      (simp_all add: struct_defs readPolicyList_def DynamicSecretPolicyList_DeepCopyInto_def split: prod.splits)
qed

text \<open>The copy of a pointer to a policy, and of a pointer to a list.\<close>

lemma copier_DeepCopy:
  assumes "library_ok L"
  shows "deep_copier (policy_at L) (DynamicSecretPolicy_DeepCopy L)"
  unfolding DynamicSecretPolicy_DeepCopy_def
  by (rule copier_ptr [OF copier_Policy [OF assms]]) simp

lemma copier_List_DeepCopy:
  assumes "library_ok L"
  shows "deep_copier (readPtr (as_type is_CPolicyList un_CPolicyList) (readPolicyList L))
    (DynamicSecretPolicyList_DeepCopy L)"
  unfolding DynamicSecretPolicyList_DeepCopy_def
  by (rule copier_ptr [OF copier_PolicyList [OF assms]]) simp

lemma sample_library_ok: "library_ok sample_library"
proof -
  have "deep_copier (readPtr lib_map readFlat) (copyPtr lib_map lib_map_cell State_Monad.return)"
    by (rule copier_ptr_flat) (simp add: lib_map_def lib_map_cell_def)
  then have "deep_copier (readObjectMeta sample_library) (ObjectMeta_DeepCopyInto sample_library)"
    by (rule copier_struct [where f = lib_labels and g = "\<lambda>x l. x\<lparr>lib_labels := l\<rparr>"
          and k = "\<lambda>x l. case lib_value x of VMeta m \<Rightarrow> Some (m\<lparr>om_labels := case_option Map.empty id l\<rparr>) | _ \<Rightarrow> None"])
      (simp_all add: sample_library_def)
  then show ?thesis
    by (simp add: library_ok_def sample_library_def)
      (intro conjI; unfold_locales; simp add: run_return mem_extends_refl)
qed

lemma sample_memory_ok:
  "alloc_ok sample_memory"
  "policy_at sample_library (cells sample_memory) (Some 3) = Some (Some sample_copied)"
   apply (simp add: alloc_ok_def sample_memory_def sample_cells_def)
  apply (simp add: sample_memory_def sample_cells_def sample_copied_def readPtr_def readSlice_def readAll_def
      readPolicy_def readSpec_def readStatus_def readSource_def readFlat_def sample_library_def lib_map_def
      lib_map_cell_def zero_source_def as_type_def empty_meta_def)
  done

section \<open>Properties\<close>

text \<open>C14: the reconciler keeps a deep copy of the policy as the base of its status patch, and the Job
  probe works on a deep copy of it, so neither may share memory with the original. The copy of
  a policy is nil exactly for nil and otherwise lies at a fresh address; original and copy read
  the value the original had; and the two are apart: whatever is written afterwards to the cells
  that existed before the copy, the copy still reads that value, and whatever is written to the
  cells allocated by the copy or later, the original does.\<close>

theorem DeepCopy_isolates:
  assumes "library_ok L" and "alloc_ok m" and "policy_at L (cells m) p = Some v"
    and "run_state (DynamicSecretPolicy_DeepCopy L p) m = (q, m')"
  shows "(q = None \<longleftrightarrow> p = None) \<and> (\<forall>b. q = Some b \<longrightarrow> next_addr m \<le> b) \<and>
    policy_at L (cells m') p = Some v \<and> policy_at L (cells m') q = Some v \<and>
    (\<forall>h. (\<forall>a. next_addr m \<le> a \<longrightarrow> h a = cells m' a) \<longrightarrow> policy_at L h q = Some v) \<and>
    (\<forall>h. (\<forall>a. a < next_addr m \<longrightarrow> h a = cells m' a) \<longrightarrow> policy_at L h p = Some v)"
proof -
  note c = copier_DeepCopy [OF assms(1)]
  have o: "policy_at L h p = Some v" if "\<forall>a. a < next_addr m \<longrightarrow> h a = cells m' a" for h
    using deep_copier.original_kept [OF c assms(2-4)] that by blast
  have k: "policy_at L h q = Some v" if "\<forall>a. next_addr m \<le> a \<longrightarrow> h a = cells m' a" for h
    using deep_copier.copy_kept [OF c assms(2-4)] that by blast
  have "(q = None \<longleftrightarrow> p = None) \<and> (\<forall>b. q = Some b \<longrightarrow> next_addr m \<le> b)"
    using deep_copier.copies [OF c assms(2-4)] assms(3)
    by (cases p; cases q) (auto simp: readPtr_def bind_eq_Some_conv restrict_map_def split: if_splits)
  with o [of "cells m'"] k [of "cells m'"] o k show ?thesis by simp
qed

text \<open>Emptying the original's conditions in place leaves the copy as it was.\<close>

theorem DeepCopy_isolates_witness:
  "policy_at sample_library
     ((cells (snd (run_state (DynamicSecretPolicy_DeepCopy sample_library (Some 3)) sample_memory)))
        (2 \<mapsto> CConditions []))
     (fst (run_state (DynamicSecretPolicy_DeepCopy sample_library (Some 3)) sample_memory))
   = Some (Some sample_copied)"
  using DeepCopy_isolates [OF sample_library_ok sample_memory_ok surjective_pairing]
  by (simp add: sample_memory_def)

end
