(* ===== verification/Spec2Isabelle.thy ===== *)
theory Spec2Isabelle
  imports Dso_Trips Dso_Interleave Dso_Admission Dso_DeepCopy
begin

text \<open>
  \<^bold>\<open>The dynamic secret operator.\<close> The operator (\<^verbatim>\<open>src/\<close>, Go) watches policies of the custom resource
  \<^verbatim>\<open>DynamicSecretPolicy\<close>. When the secret behind a policy changes, it stores the new revision as a Secret
  of its own, starts a one-replica canary of the target workload with that revision behind a network
  policy, probes it, and promotes the revision by patching the pod template of the workload; failures are
  counted and a circuit breaker stops after a threshold. Argo Rollouts are patched directly and followed.
  Rotation events come from a Service Bus queue, changes of source Secrets from a watch. This
  development models the Go code function by function and proves what makes it correct.

  \<^bold>\<open>Style of the model.\<close> Pure functions are HOL functions. A handler is a computation of the state monad
  over an environment state of arbitrary type and a trace (\<open>Dso_Effects\<close>). All that is not the
  operator's code is a parameter that takes the environment state and returns any reply and any next
  state: the client of the API server, the condition helpers of Kubernetes with their documented laws
  \<open>meta_laws\<close>, network, clock, databases (\<open>Dso_Env\<close>), and the Service Bus SDK. Each call that
  changes something outside the process appends an event with the reply, so the trace has every attempt and
  whether it was accepted. \<open>spec m Q\<close> says that for every environment and every behaviour of it the run
  of \<open>m\<close> returns a result and appends events with \<open>Q\<close>; it includes that the run returns. Errors are
  values (\<open>err + 'a\<close>, \<open>err option\<close>) that keep format, operands and the wrapped error. Failure counters and
  thresholds are 32-bit words. Go maps are partial maps, or association lists where the order of an iteration
  matters.

  \<^bold>\<open>Components.\<close>
  \<^item> \<open>Dso_Prelude\<close>, \<open>Dso_Effects\<close>, \<open>Dso_Env\<close>, \<open>Dso_Sample\<close>: Go's strings, numbers and errors; computations
    and their rules; the environment; a concrete policy and cluster for the witnesses.
  \<^item> \<open>Dso_Types\<close>: \<^verbatim>\<open>api/v1alpha1/dynamicsecretpolicy_types.go\<close> and the Kubernetes objects.
  \<^item> \<open>Dso_Admission\<close>: the validation and defaulting markers of the same file, as the admission of a manifest.
  \<^item> \<open>Dso_DeepCopy\<close>: \<^verbatim>\<open>api/v1alpha1/zz_generated.deepcopy.go\<close> over a store with addresses. The locale
    \<open>deep_copier\<close> is the contract of a copy; it is closed under pointers, slices and struct fields.
  \<^item> \<open>Dso_Telemetry\<close>: \<^verbatim>\<open>pkg/telemetry\<close>: the collectors and their labels, the propagators of the tracer.
  \<^item> \<open>Dso_Sha256\<close>: \<^verbatim>\<open>crypto/sha256\<close> on words, as the revision hash uses it.
  \<^item> \<open>Dso_Source\<close>: \<^verbatim>\<open>internal/azure/keyvault.go\<close>, \<^verbatim>\<open>internal/source/provider.go\<close> and the revision hash. The
    locale \<open>secret_provider\<close> is interpreted for the three kinds of provider.
  \<^item> \<open>Dso_Canary\<close>, \<open>Dso_Netpol\<close>: \<^verbatim>\<open>internal/canary\<close>: the canary Deployment, its cleanup, both network policies.
  \<^item> \<open>Dso_Workload\<close>: \<^verbatim>\<open>internal/workload\<close>: \<open>MutatePodTemplateSpec\<close> and the adapters; the locale
    \<open>workload_adapter\<close> is the contract of the Go interface, interpreted for all four.
  \<^item> \<open>Dso_Argo\<close>: \<^verbatim>\<open>internal/integration/argocd.go\<close>: ignore rules of the Argo CD application.
  \<^item> \<open>Dso_Sanitize\<close>, \<open>Dso_Jobs\<close>, \<open>Dso_Probes\<close>: \<^verbatim>\<open>internal/probes\<close>: redaction of errors, Job probes, and the
    HTTP, TLS, MySQL and PostgreSQL executors; the locale \<open>probe_executor\<close> is interpreted for the four.
  \<^item> \<open>Dso_Materialize\<close>, \<open>Dso_Validate\<close>, \<open>Dso_Controller\<close>:
    \<^verbatim>\<open>internal/controller/dynamicsecretpolicy_controller.go\<close>: secret revisions and their garbage collection,
    the validation of the canary, and \<open>Reconcile\<close> with one definition per case of its switch
    (\<open>driftState\<close>, \<open>revisionPreparedState\<close>, \<open>canaryProvisioningState\<close>, \<open>rolloutProgressingState\<close>,
    \<open>validatingState\<close>, \<open>rolledBackState\<close>) and the mappers of the watches.
  \<^item> \<open>Dso_Events\<close>, \<open>Dso_Bus\<close>: \<^verbatim>\<open>internal/events\<close>, \<^verbatim>\<open>internal/azure/servicebus.go\<close> and the event handler of
    \<^verbatim>\<open>cmd/main.go\<close>; the locale \<open>event_handler\<close> is the contract between listener and handler.
  \<^item> \<open>Dso_Main\<close>: \<^verbatim>\<open>internal/azure/auth.go\<close>, the start of the operator in \<^verbatim>\<open>cmd/main.go\<close> with the options of its
    manager, and the watches of \<open>SetupWithManager\<close>.
  \<^item> \<open>Dso_Runs\<close>, \<open>Dso_Machine\<close>, \<open>Dso_System\<close>, \<open>Dso_Progress\<close>, \<open>Dso_Trips\<close>, \<open>Dso_Stale\<close>, \<open>Dso_Interleave\<close>, and
    this theory: whole reconciliations, sequences and interleavings of them.

  \<^bold>\<open>What is shown.\<close>
  \<^item> Safety of whole reconciliations (this theory over \<open>Dso_Runs\<close> and \<open>Dso_System\<close>): a workload is patched only
    with the desired revision, with a closed breaker, after every probe passed; an open breaker lets nothing
    through; promotions and preparations keep their order under every failure.
  \<^item> Refinement (\<open>Dso_Machine\<close>): each status patch is a step of the abstract rollout machine \<open>astep\<close>. Its
    invariants, by rule induction, give those of the reached statuses: the counter stays in its range and
    never wraps, phases are known, the rolled-back branch is dead.
  \<^item> Progress (\<open>Dso_Progress\<close>): in a cooperative cluster a drift is promoted after exactly four reconciliations,
    for an Argo Rollout that turns healthy after three, also when the breaker was open. A revision that never
    passes its validation opens the breaker after as many failures as the threshold (\<open>Dso_Trips\<close>).
  \<^item> Interleaving (\<open>Dso_Interleave\<close>): the same rotation in a running operator, where \<open>Reconcile\<close> reads the policy
    back from the store its accepted patches go to, other policies are reconciled in between, the
    cluster changes, and the validation may be pending any number of times, but no call the rotation needs is
    rejected and no probe fails: the number of reconciliations that did not wait determines the stage, and the
    promoted revision stays.
  \<^item> Stale reads (\<open>Dso_Stale\<close>): when a reconciliation reads an old status, its merge patch is applied to a newer
    one, and the owner edits the policy in between, the invariants of the single fields still hold.
  \<^item> Memory (\<open>Dso_DeepCopy\<close>): the copy of a policy that serves as the base of a patch shares no cell with the
    policy that is changed, which justifies that the other theories work on values.
  \<^item> Admission (\<open>Dso_Admission\<close>): an admitted policy with a specification starts from the fresh status the
    invariants assume, and meets none of the configuration errors of adapters, probes and the provider registry.
  \<^item> Components: the stored revision is the payload's hash; rotation replaces the managed references and
    keeps the others, idempotently; canary and promotion agree; both network policies admit, besides name
    resolution, the ports and addresses of the probes, the standard one the pods of the namespace for an
    unresolved probe; cleanup reports that the canary or its network policy could not be deleted; errors hide
    passwords; database endpoints are checked; pinned certificates are enforced; Job names are valid and
    distinct; ignore rules are listed, keep the user's and settle; messages of a batch are settled exactly once after
    their events were sent; the listener stops; a started operator has read-only sources, and its
    metrics never panic.
  \<^item> Deviations: properties of kind error state behaviour that the code has and its documentation or its
    other parts contradict, e.g. a stale \<^verbatim>\<open>RolloutProgressing\<close> condition, two Job probes that displace each other, or a network policy that
    opens the namespace for an endpoint that does not resolve.

  \<^bold>\<open>Loops and bounds.\<close> Loops over lists are structural. \<open>pemLoop\<close> has the length of its input plus one as
  fuel, which \<open>pem_fuel_enough\<close> shows to be enough since \<^verbatim>\<open>pem.Decode\<close> returns a shorter rest. The update of
  the Argo application is retried as often as \<^verbatim>\<open>retry.DefaultRetry\<close> has steps, a parameter. The receive loop has
  no end of its own: \<open>receiveLoop n\<close> makes at most \<open>n\<close> turns, \<open>Start\<close> has the value \<open>None\<close> when it still runs, and
  \<open>listener_stops\<close> shows that any \<open>n\<close> beyond the turn that finds the context done is enough. The reconciler
  asks for its own repetition; one reconciliation always returns.

  \<^bold>\<open>Not modelled.\<close> Log lines and trace spans, which no decision depends on;
  increments of metrics are events, their values are not. Deadlines appear as errors of the calls they
  guard. Test doubles. The parser of the command line and the options of the logger. Leader election, work
  queue and caches belong to controller-runtime: several workers of one policy are excluded by its queue, and
  a stale cache is an environment that replies an old object. JSON syntax, PEM, URLs and addresses are
  parsed by parameters; the lock of the provider registry is left out, as registration precedes use.

  \<^bold>\<open>Limits.\<close> An interleaving takes whole reconciliations as its steps: the policy's own is never interrupted by
  another of the same policy, and what others do meanwhile is a behaviour of the environment. That a
  requested repetition happens, and how soon a lost event is noticed by the periodic resync, are
  guarantees of controller-runtime; the properties count reconciliations and not time.
\<close>

section \<open>Sample worlds\<close>

text \<open>The environment of the sample with a tripped policy, with two policies of one namespace, with a
  policy in sync with its source, and with a policy about to be promoted.\<close>

definition tripped_world :: "unit env" where
  "tripped_world = sample_world\<lparr>client := sample_client\<lparr>cl_getPolicy := (\<lambda>ns n w. (Inr (sample_in CircuitBreakerTripped), w))\<rparr>\<rparr>"

definition source_world :: "unit env" where
  "source_world = sample_world\<lparr>client := sample_client\<lparr>cl_listPolicies := (\<lambda>ns w. (Inr [sample_policy, source_policy], w))\<rparr>\<rparr>"

definition synced_policy :: DynamicSecretPolicy where
  "synced_policy = sample_policy\<lparr>p_status := \<lparr>
     CurrentRevision = revisionHash \<lparr>sp_Data = [(''db'', ''v'')], sp_Version = ''1''\<rparr>,
     DesiredRevision = '''', ConsecutiveFailures = 0, Conditions = []\<rparr>\<rparr>"

definition synced_world :: "unit env" where
  "synced_world = sample_world\<lparr>client := sample_client\<lparr>cl_getPolicy := (\<lambda>ns n w. (Inr synced_policy, w))\<rparr>\<rparr>"

definition validating_sample :: DynamicSecretPolicy where
  "validating_sample = (unprobed_sample KindDeployment)\<lparr>p_status := p_status (sample_in Validating)\<rparr>"

definition validating_world :: "unit env" where
  "validating_world = sample_world\<lparr>client := sample_client\<lparr>cl_getPolicy := (\<lambda>ns n w. (Inr validating_sample, w))\<rparr>\<rparr>"

section \<open>Shared facts\<close>

lemma Reconcile_fetched:
  assumes "cl_getPolicy (client E) ns name (world s) = (Inr p, w)"
  shows "events_of (Reconcile E R ns name) s = events_of (reconcilePolicy E R p) (s\<lparr>world := w\<rparr>)"
    and "result_of (Reconcile E R ns name) s = result_of (reconcilePolicy E R p) (s\<lparr>world := w\<rparr>)"
  using assms by (simp_all add: Reconcile_def query_def events_of_def result_of_def)

lemma sample_fetch: "cl_getPolicy (client sample_world) ns name (world s) = (Inr sample_policy, ())"
  by (simp add: sample_defs)

lemma sample_named: "named_conditions sample_policy"
  by (simp add: named_conditions_def sample_defs)

lemma sample_open: "\<not> breakerOpen (libs sample_world) sample_policy"
  by (simp add: breakerOpen_def thresholdReached_def breakerThreshold_def condition_true_def find_condition_def list_libs_def sample_defs)

lemma sample_state: "determineState (libs sample_world) sample_policy = CanaryProvisioning"
  by (simp add: determineState_def condition_true_def find_condition_def list_libs_def sample_defs)

lemma sample_step:
  "reconcilePolicy sample_world sample_reconciler sample_policy = canaryProvisioningState sample_world sample_policy sample_policy"
  by (simp add: reconcilePolicy_def continueReconcile_def drifted_def dispatch_def sample_open sample_state)

lemma promotion_patches:
  "promotion_events L p base es \<Longrightarrow> EPatchStatus old new e \<in> set es \<Longrightarrow> \<not> quiet es"
  unfolding promotion_events_def patched_events_def by (auto simp: list_all_iff)

lemma validating_sample_phase: "in_phase (libs validating_world) validating_sample ''bbbbbbbbbbbb'' Validating validating_sample"
  by (simp add: in_phase_def phase_types_def validating_sample_def validating_world_def unprobed_sample_def find_condition_def list_libs_def
      sample_defs)

lemma validating_sample_promotes: "\<not> quiet (events_of (reconcilePolicy validating_world sample_reconciler validating_sample) s)"
proof -
  let ?E = validating_world and ?p = validating_sample
  have laws: "meta_laws (libs ?E)" using sample_laws by (simp add: validating_world_def)
  have coop: "cooperative ?E ?p" by (simp add: cooperative_def created_or_exists_def validating_world_def sample_defs list_libs_def)
  have A: "NewAdapter (targetKind ?p) = Inr DeploymentAdapter"
    by (simp add: NewAdapter_def targetKind_def validating_sample_def unprobed_sample_def)
  have probes: "reconcileValidationProbes ?E sample_reconciler ?p = ret (Inr noRequeue)"
    by (simp add: reconcileValidationProbes_def validating_sample_def unprobed_sample_def)
  have "reconcilePolicy ?E sample_reconciler ?p = validatingState ?E sample_reconciler ?p ?p"
    using in_phase_dispatch [OF laws validating_sample_phase] by (simp add: dispatch_def)
  moreover have run: "validatingState ?E sample_reconciler ?p ?p = promoteState ?E ?p ?p"
    by (simp add: validatingState_def probes pending_def noRequeue_def)
  moreover have "patches_to ?p (promoted_after 0 ?E sample_reconciler ''bbbbbbbbbbbb'') (result_of (promoteState ?E ?p ?p) s) (events_of (promoteState ?E ?p ?p) s)"
    using spec_events [OF validating_step [OF laws coop validating_sample_phase A, of sample_reconciler, unfolded probes run]]
    by (simp add: spec_ret del: promoted_after.simps)
  ultimately show ?thesis
    using promotion_patches [OF spec_events [OF promoteState_events]] unfolding patches_to_def by metis
qed

lemma canaryProvisioningState_patches:
  "spec (canaryProvisioningState E p base) (\<lambda>_ es. \<exists>new e. EPatchStatus base new e \<in> set es)"
  unfolding canaryProvisioningState_def by (auto intro!: part_rules)

lemma failure_events_patch:
  "failure_events L phase p base es \<Longrightarrow> EPatchStatus old new x \<in> set es \<Longrightarrow> failure_patch L phase p new \<and> old = base"
  unfolding failure_events_def by (auto simp: list_all_iff dest!: bspec)

lemma failure_patch_exact:
  assumes "meta_laws L" and "\<not> breakerOpen L p" and "failure_patch L phase p new" and "phase \<noteq> CircuitBreakerTripped"
  shows "sint (failures new) = sint (failures p) + 1 \<and> sint (failures new) \<le> sint (breakerThreshold p) \<and>
    (IsStatusConditionTrue L (conds new) CircuitBreakerTripped \<longleftrightarrow> sint (failures new) = sint (breakerThreshold p))"
proof -
  from assms(2) have below: "sint (failures p) < sint (breakerThreshold p)" and
    untripped: "\<not> IsStatusConditionTrue L (conds p) CircuitBreakerTripped"
    by (auto simp: breakerOpen_def thresholdReached_def)
  from sint_Suc_below [OF below] have suc: "sint (failures p + 1) = sint (failures p) + 1" .
  from assms(3) obtain c where new: "new = setCond L c (setFailures (failures p + 1) p)" and
    c: "if sint (breakerThreshold p) \<le> sint (failures p) + 1
        then c_type c = CircuitBreakerTripped \<and> c_status c = ConditionTrue else c_type c = phase \<and> c_status c = ConditionFalse"
    unfolding failure_patch_def thresholdReached_def by (auto simp: suc)
  have "failures new = failures p + 1" by (simp add: new setCond_def setFailures_def)
  moreover have "IsStatusConditionTrue L (conds new) CircuitBreakerTripped \<longleftrightarrow> c_type c = CircuitBreakerTripped"
    using untripped c assms(1,4) by (auto simp: new condition_true_abs abs_updates split: if_splits)
  ultimately show ?thesis using suc below c assms(4) by (auto split: if_splits)
qed

lemma synced_facts:
  "DesiredRevision (p_status synced_policy) = ''''" "CurrentRevision (p_status synced_policy) \<noteq> ''''"
  "\<not> breakerOpen (libs synced_world) synced_policy"
  "result_of (materializeSecretRevision synced_world sample_reconciler synced_policy) (sample_sys\<lparr>world := ()\<rparr>) =
     Inr (CurrentRevision (p_status synced_policy))"
proof -
  show "CurrentRevision (p_status synced_policy) \<noteq> ''''"
    using revisionHash_length [of "\<lparr>sp_Data = [(''db'', ''v'')], sp_Version = ''1''\<rparr>"] by (auto simp: synced_policy_def)
  show "\<not> breakerOpen (libs synced_world) synced_policy"
    by (simp add: breakerOpen_def thresholdReached_def breakerThreshold_def synced_policy_def synced_world_def condition_true_def
        find_condition_def list_libs_def sample_defs)
  show "result_of (materializeSecretRevision synced_world sample_reconciler synced_policy) (sample_sys\<lparr>world := ()\<rparr>) =
      Inr (CurrentRevision (p_status synced_policy))"
    by (simp add: result_of_def materializeSecretRevision_def activeRegistry_def sample_reconciler_def Registry_Get_def
        GetResolvedSource_def synced_policy_def synced_world_def createSecret_def call_def list_libs_def Let_def sample_defs)
qed (simp add: synced_policy_def)

section \<open>Properties of the reconciler\<close>

text \<open>C2: every status patch of a reconciliation is a step of the abstract rollout machine, taken from the
  fetched policy, with the policy's specification unchanged: the phases follow each other in the
  documented order, failures are counted one by one without wrap-around, and the breaker trips at the
  threshold.\<close>

theorem reconcile_refines_machine:
  assumes "meta_laws (libs E)" and "sources_readonly E R"
    and "cl_getPolicy (client E) ns name (world s) = (Inr p, w)" and "named_conditions p"
    and "EPatchStatus old new e \<in> set (events_of (Reconcile E R ns name) s)"
  shows "old = p \<and> p_spec new = p_spec p \<and>
    astep (sint (breakerThreshold p)) (targetKind p = KindRollout) (abs_status (libs E) p) (abs_status (libs E) new)"
proof -
  have "refines (libs E) p (EPatchStatus old new e)"
    using spec_events [OF reconcilePolicy_refines [OF assms(1,4,2)], of "s\<lparr>world := w\<rparr>"] assms(5)
    unfolding Reconcile_fetched(1) [OF assms(3)] by (simp add: list_all_iff)
  then show ?thesis by (auto simp: refines_def)
qed

theorem reconcile_refines_machine_witness:
  "\<exists>new e. EPatchStatus sample_policy new e \<in> set (events_of (Reconcile sample_world sample_reconciler ''prod'' ''web-policy'') sample_sys) \<and>
     astep 2 False (abs_status list_libs sample_policy) (abs_status list_libs new)"
proof -
  let ?es = "events_of (Reconcile sample_world sample_reconciler ''prod'' ''web-policy'') sample_sys"
  have "\<exists>new e. EPatchStatus sample_policy new e \<in> set ?es"
    unfolding Reconcile_fetched(1) [OF sample_fetch] sample_step
    using spec_events [OF canaryProvisioningState_patches] by blast
  then obtain new e where ev: "EPatchStatus sample_policy new e \<in> set ?es" by blast
  from reconcile_refines_machine [OF sample_laws sample_readonly sample_fetch sample_named ev]
  have "astep 2 False (abs_status list_libs sample_policy) (abs_status list_libs new)"
    by (simp add: breakerThreshold_def targetKind_def sample_defs)
  with ev show ?thesis by blast
qed

text \<open>C1: a reconciliation patches the target workload only with the promotion of its desired revision, only
  while the breaker is closed, and only after every probe of the policy passed in that same reconciliation (a
  network probe ran without an error, the Job of a Job probe had completed), or, for an Argo Rollout, right
  after the revision was prepared.\<close>

theorem workload_patch_justified:
  assumes "sources_readonly E R" and "cl_getPolicy (client E) ns name (world s) = (Inr p, w)"
  shows "justified E p (events_of (Reconcile E R ns name) s)"
  unfolding Reconcile_fetched(1) [OF assms(2)]
  by (rule spec_events [OF reconcilePolicy_justified [OF assms(1)]])

theorem workload_patch_justified_witness:
  "let es = events_of (Reconcile validating_world sample_reconciler ''prod'' ''web-policy'') sample_sys
   in \<not> quiet es \<and> justified validating_world validating_sample es"
proof -
  have fetch: "cl_getPolicy (client validating_world) ''prod'' ''web-policy'' (world sample_sys) = (Inr validating_sample, ())"
    by (simp add: validating_world_def)
  have "sources_readonly validating_world sample_reconciler"
    using sample_readonly by (simp add: sources_readonly_def activeRegistry_def sample_reconciler_def)
  from workload_patch_justified [OF this fetch] validating_sample_promotes show ?thesis
    unfolding Let_def Reconcile_fetched(1) [OF fetch] by blast
qed

text \<open>C3: with an open breaker, a reconciliation reads the source, stores a revision, writes metrics and the
  status and cleans up the canary; it patches no workload, creates no canary, runs no probe and
  touches no application.\<close>

theorem open_breaker_blocks:
  assumes "sources_readonly E R" and "cl_getPolicy (client E) ns name (world s) = (Inr p, w)" and "breakerOpen (libs E) p"
  shows "list_all let_through (events_of (Reconcile E R ns name) s)"
  unfolding Reconcile_fetched(1) [OF assms(2)]
  by (rule spec_events [OF reconcilePolicy_open [OF assms(1,3)]])

theorem open_breaker_blocks_witness:
  "list_all let_through (events_of (Reconcile tripped_world sample_reconciler ''prod'' ''web-policy'') sample_sys)"
proof (rule open_breaker_blocks)
  show "sources_readonly tripped_world sample_reconciler"
    using sample_readonly by (simp add: sources_readonly_def activeRegistry_def sample_reconciler_def)
  show "cl_getPolicy (client tripped_world) ''prod'' ''web-policy'' (world sample_sys) = (Inr (sample_in CircuitBreakerTripped), ())"
    by (simp add: tripped_world_def)
  show "breakerOpen (libs tripped_world) (sample_in CircuitBreakerTripped)"
    by (simp add: breakerOpen_def tripped_world_def condition_true_def find_condition_def list_libs_def sample_defs)
qed

text \<open>C7: the steps that touch a workload keep their order for every behaviour of the cluster. A promotion: ignore
  rules, then one workload patch; nothing follows a rejected patch; after an accepted one come the deletion
  of old revisions, the cleanup of the canary and last the status that makes the desired revision the current
  one. In the prepared state, a Rollout is patched and then marked as progressing; any other target gets
  its one-replica canary first, then its network policy, then the status: the policy only after the canary
  was created or found, the status only after the policy was.\<close>

theorem steps_in_order:
  "spec (promoteState E p base) (\<lambda>r. promotion_events (libs E) (setFailures 0 p) base) \<and>
   spec (revisionPreparedState E p base) (\<lambda>r. prepared_events (libs E) p base)"
  using promoteState_events revisionPreparedState_events by blast

section \<open>Reached statuses\<close>

text \<open>C9: in every status a fresh policy reaches, the failure counter lies between zero and the threshold, so
  the 32-bit counter never wraps, and at the threshold the breaker condition is set.\<close>

theorem reached_counter_bounded:
  assumes "meta_laws (libs E)" and "sources_readonly E R" and "fresh_policy p0" and "reached E R p0 p"
  shows "0 \<le> sint (failures p) \<and> sint (failures p) \<le> sint (breakerThreshold p) \<and>
    (sint (failures p) = sint (breakerThreshold p) \<longrightarrow> IsStatusConditionTrue (libs E) (conds p) CircuitBreakerTripped)"
  using reached_inv(1) [OF assms] reached_areach [OF assms] assms(1)
  by (auto simp: counter_inv_def condition_true_abs breakerThreshold_spec [of p p0])

lemma fresh_unprobed: "fresh_policy (unprobed_sample k)"
  by (simp add: fresh_policy_def unprobed_sample_def)

theorem reached_counter_bounded_witness:
  "\<exists>q. reached sample_world sample_reconciler (unprobed_sample KindDeployment) q \<and> DesiredRevision (p_status q) = sample_revision \<and>
     0 \<le> sint (failures q) \<and> sint (failures q) \<le> sint (breakerThreshold q)"
proof -
  from sample_validating obtain q where q: "reached sample_world sample_reconciler (unprobed_sample KindDeployment) q"
    "in_phase (libs sample_world) (unprobed_sample KindDeployment) sample_revision Validating q" by blast
  from reached_counter_bounded [OF sample_laws sample_readonly fresh_unprobed q(1)] q show ?thesis by (auto simp: in_phase_def)
qed

text \<open>C13: for a target that is not a Rollout, every reached status is in exactly one phase the reconciler
  handles: in sync, prepared, provisioning or validating, never in its fallback for unknown states and never rolled
  back; and no rotation is under way towards the revision that is already current.\<close>

theorem reached_phase_known:
  assumes "meta_laws (libs E)" and "sources_readonly E R" and "fresh_policy p0" and "reached E R p0 p"
    and "targetKind p \<noteq> KindRollout"
  shows "determineState (libs E) p \<in> {'''', RevisionPrepared, CanaryProvisioning, Validating} \<and>
    (DesiredRevision (p_status p) \<noteq> '''' \<longrightarrow> DesiredRevision (p_status p) \<noteq> CurrentRevision (p_status p))"
proof -
  have sp: "targetKind p0 \<noteq> KindRollout" using reached_areach [OF assms(1-4)] assms(5) targetKind_spec [of p p0] by simp
  from reached_inv(3) [OF assms(1-4) sp] reached_inv(2) [OF assms(1-4)] assms(1) show ?thesis
    by (auto simp: determineState_def phase_inv_def target_inv_def condition_true_abs abs_conds split: if_splits)
qed

theorem reached_phase_known_witness:
  "\<exists>q. reached sample_world sample_reconciler (unprobed_sample KindDeployment) q \<and> DesiredRevision (p_status q) = sample_revision \<and>
     determineState (libs sample_world) q \<in> {RevisionPrepared, CanaryProvisioning, Validating}"
proof -
  from sample_validating obtain q where q: "reached sample_world sample_reconciler (unprobed_sample KindDeployment) q"
    "in_phase (libs sample_world) (unprobed_sample KindDeployment) sample_revision Validating q" by blast
  have kind: "targetKind q \<noteq> KindRollout"
    using q(2) unprobed_facts(4) targetKind_spec [of q "unprobed_sample KindDeployment"] by (simp add: in_phase_def)
  have "determineState (libs sample_world) q = Validating"
    using in_phase_state(1) [OF sample_laws q(2)] unprobed_facts(2) by (simp add: drifted_def)
  with reached_phase_known [OF sample_laws sample_readonly fresh_unprobed q(1) kind] q show ?thesis by (auto simp: in_phase_def)
qed

section \<open>Single reconciliations\<close>

text \<open>C17: when the source still has the current revision and no rotation is under way, a reconciliation with a
  closed breaker asks for nothing. Besides the metrics of the fetch it makes exactly one call that could change
  something: the creation of the Secret of that same revision, which was accepted or found the Secret there.\<close>

theorem in_sync_is_quiet:
  assumes "sources_readonly E R" and "cl_getPolicy (client E) ns name (world s) = (Inr p, w)"
    and "DesiredRevision (p_status p) = ''''" and "CurrentRevision (p_status p) \<noteq> ''''" and "\<not> breakerOpen (libs E) p"
    and "result_of (materializeSecretRevision E R p) (s\<lparr>world := w\<rparr>) = Inr (CurrentRevision (p_status p))"
  shows "result_of (Reconcile E R ns name) s = Inr noRequeue \<and>
    stored_events E R p (CurrentRevision (p_status p)) (events_of (Reconcile E R ns name) s)"
proof -
  have "continueReconcile E R p (CurrentRevision (p_status p)) = ret (Inr noRequeue)"
    using assms(3-5) by (simp add: continueReconcile_def drifted_def determineState_def dispatch_def driftState_def)
  moreover have "reconcilePolicy E R p = State_Monad.bind (materializeSecretRevision E R p)
      (\<lambda>m. case m of Inl e \<Rightarrow> ret (Inl e) | Inr revision \<Rightarrow> continueReconcile E R p revision)"
    using assms(3) by (simp add: reconcilePolicy_def determineState_def)
  ultimately show ?thesis
    unfolding Reconcile_fetched [OF assms(2)]
    using run_bind_ret [where m = "materializeSecretRevision E R p" and s = "s\<lparr>world := w\<rparr>" and y = "Inr noRequeue"
        and f = "\<lambda>m. case m of Inl e \<Rightarrow> ret (Inl e) | Inr revision \<Rightarrow> continueReconcile E R p revision"]
      spec_events [OF materialize_stored [OF assms(1)], of p "s\<lparr>world := w\<rparr>"] assms(6) by simp
qed

theorem in_sync_is_quiet_witness:
  "result_of (Reconcile synced_world sample_reconciler ''prod'' ''web-policy'') sample_sys = Inr noRequeue"
proof (rule conjunct1 [OF in_sync_is_quiet])
  show "cl_getPolicy (client synced_world) ''prod'' ''web-policy'' (world sample_sys) = (Inr synced_policy, ())"
    by (simp add: synced_world_def)
  show "sources_readonly synced_world sample_reconciler"
    using sample_readonly by (simp add: sources_readonly_def activeRegistry_def sample_reconciler_def)
qed (simp_all add: synced_facts)

text \<open>C16: a failure counted while the breaker is closed, of a probe or of a degraded Rollout, raises the 32-bit
  counter by exactly one, to at most the threshold, and the patched status has the breaker condition
  exactly when the threshold is reached.\<close>

theorem failure_counted_exactly:
  assumes "meta_laws (libs E)" and "\<not> breakerOpen (libs E) p"
    and "EPatchStatus old new x \<in> set (events_of (validationFailedState E p base err) s) \<union> set (events_of (rolloutDegradedState E p base) s)"
  shows "old = base \<and> sint (failures new) = sint (failures p) + 1 \<and> sint (failures new) \<le> sint (breakerThreshold p) \<and>
    (IsStatusConditionTrue (libs E) (conds new) CircuitBreakerTripped \<longleftrightarrow> sint (failures new) = sint (breakerThreshold p))"
proof -
  from assms(3) spec_events [OF validationFailedState_events [of E p base err], of s] spec_events [OF rolloutDegradedState_events [of E p base], of s]
  obtain phase where "failure_patch (libs E) phase p new" "phase \<noteq> CircuitBreakerTripped" and old: "old = base"
    by (auto dest!: failure_events_patch)
  from failure_patch_exact [OF assms(1,2) this(1,2)] old show ?thesis by blast
qed

theorem failure_counted_exactly_witness:
  "\<exists>new x. EPatchStatus sample_policy new x \<in> set (events_of (validationFailedState sample_world (sample_in Validating) sample_policy
       (Errorf ''probe'' [] None)) sample_sys) \<and> sint (failures new) = 1"
proof -
  let ?es = "events_of (validationFailedState sample_world (sample_in Validating) sample_policy (Errorf ''probe'' [] None)) sample_sys"
  from spec_events [OF validationFailedState_events, of sample_world "sample_in Validating" sample_policy "Errorf ''probe'' [] None" sample_sys]
  obtain new x where ev: "EPatchStatus sample_policy new x \<in> set ?es" by (fastforce simp: failure_events_def)
  have "\<not> breakerOpen (libs sample_world) (sample_in Validating)"
    by (simp add: breakerOpen_def thresholdReached_def breakerThreshold_def condition_true_def find_condition_def list_libs_def sample_defs)
  from failure_counted_exactly [OF sample_laws this UnI1 [OF ev]] ev show ?thesis by (auto simp: sample_defs)
qed

text \<open>A policy whose breaker has already tripped counts another trip in the metric at every further
  reconciliation that finds no new revision.\<close>

theorem halted_reconcile_counts_again:
  assumes "IsStatusConditionTrue (libs E) (conds p) CircuitBreakerTripped"
  shows "events_of (haltReconcile E p base) s = [EMetric ''dso_circuit_breakers_tripped_total'' [pol_namespace p]]"
  using assms by (simp add: haltReconcile_def countMetric_def emit_def events_of_def)

theorem halted_reconcile_counts_again_witness:
  "events_of (haltReconcile sample_world (sample_in CircuitBreakerTripped) sample_policy) sample_sys =
     [EMetric ''dso_circuit_breakers_tripped_total'' [''prod'']]"
  using halted_reconcile_counts_again [of sample_world "sample_in CircuitBreakerTripped" sample_policy sample_sys]
  by (simp add: condition_true_def find_condition_def list_libs_def sample_defs)



section \<open>Metrics\<close>

text \<open>C30: the metrics of a started operator never panic: the collectors have distinct names, every metric of a
  reconciliation, its sources and its probes is used with as many values as it declares labels, and so
  is the one by which the listener counts a message.\<close>

theorem metrics_never_panic:
  assumes "startOperator K st discovery apiReader handler fl = Inr op"
  shows "distinct (map co_name collectors) \<and>
    list_all metric_ok (events_of (Reconcile E (op_reconciler op) ns name) s) \<and>
    spec (deliver (SetEventHandler (handleRotationEvent E members chan) l) receiver msg)
      (\<lambda>_. list_all bus_metric_ok)"
proof (intro conjI)
  show "distinct (map co_name collectors)" by (rule collectors_distinct)
  have "emits_only metric_ok (Reconcile E (op_reconciler op) ns name)"
    unfolding Reconcile_def
    by (auto intro!: spec_rules spec_case_sum reconcilePolicy_metrics [OF startOperator_readonly [OF assms]])
  then show "list_all metric_ok (events_of (Reconcile E (op_reconciler op) ns name) s)" by (rule spec_events)
  show "spec (deliver (SetEventHandler (handleRotationEvent E members chan) l) receiver msg)
      (\<lambda>_. list_all bus_metric_ok)"
    by (rule spec_mono [OF rotation.deliver_settles]) (rule settled_metrics)
qed

theorem metrics_never_panic_witness:
  "\<exists>op. startOperator sample_cloud sample_steps (Inr (Inr [])) (cl_getSecret sample_client) (\<lambda>b a. a) sample_flags = Inr op \<and>
     list_all metric_ok (events_of (Reconcile sample_world (op_reconciler op) ''prod'' ''web-policy'') sample_sys)"
proof -
  obtain op where op: "startOperator sample_cloud sample_steps (Inr (Inr [])) (cl_getSecret sample_client) (\<lambda>b a. a) sample_flags = Inr op"
    by (simp add: startOperator_def sample_cloud_eso sample_steps_def andThen_def)
  with metrics_never_panic [OF op] show ?thesis by blast
qed

section \<open>Watches\<close>

text \<open>A change of a source secret wakes exactly the policies of its namespace that ingest it, and the
  revision secrets the reconciler creates itself wake no policy through this watch, so materialising a
  revision does not feed back into another drift check.\<close>

theorem source_watch_exact:
  assumes "cl_listPolicies (client E) (Some (om_namespace (s_meta sec))) (world s) = (Inr ps, w)"
    and "map_get (om_labels (s_meta sec)) LabelManaged \<noteq> ManagedValueTrue"
  shows "set (result_of (findPoliciesForSourceSecret E sec) s) =
      {(pol_namespace p, pol_name p) | p. p \<in> set ps \<and> src_Type (GetResolvedSource (p_spec p)) = SourceTypeK8sSecret \<and>
         map_option k8s_Name (src_K8sSecret (GetResolvedSource (p_spec p))) = Some (om_name (s_meta sec))} \<and>
    result_of (findPoliciesForSourceSecret E (revisionSecretOf E q payload)) s' = []"
proof
  show "set (result_of (findPoliciesForSourceSecret E sec) s) =
      {(pol_namespace p, pol_name p) | p. p \<in> set ps \<and> src_Type (GetResolvedSource (p_spec p)) = SourceTypeK8sSecret \<and>
         map_option k8s_Name (src_K8sSecret (GetResolvedSource (p_spec p))) = Some (om_name (s_meta sec))}"
    using assms by (auto simp: findPoliciesForSourceSecret_def result_of_def query_def Let_def split: option.splits)
  show "result_of (findPoliciesForSourceSecret E (revisionSecretOf E q payload)) s' = []"
    by (simp add: findPoliciesForSourceSecret_def result_of_def revisionSecretOf_def revisionLabels_def map_get_def Let_def)
qed

theorem source_watch_exact_witness:
  "(''prod'', ''web-policy'') \<in> set (result_of (findPoliciesForSourceSecret source_world
     (sample_secret\<lparr>s_meta := empty_meta\<lparr>om_name := ''db'', om_namespace := ''prod''\<rparr>\<rparr>)) sample_sys)"
proof -
  let ?sec = "sample_secret\<lparr>s_meta := empty_meta\<lparr>om_name := ''db'', om_namespace := ''prod''\<rparr>\<rparr>"
  have "cl_listPolicies (client source_world) (Some (om_namespace (s_meta ?sec))) (world sample_sys) = (Inr [sample_policy, source_policy], ())"
    and "map_get (om_labels (s_meta ?sec)) LabelManaged \<noteq> ManagedValueTrue"
    by (simp_all add: source_world_def map_get_def empty_meta_def)
  note t = conjunct1 [OF source_watch_exact [OF this]]
  have "src_Type (GetResolvedSource (p_spec source_policy)) = SourceTypeK8sSecret"
    and "map_option k8s_Name (src_K8sSecret (GetResolvedSource (p_spec source_policy))) = Some (om_name (s_meta ?sec))"
    and "(pol_namespace source_policy, pol_name source_policy) = (''prod'', ''web-policy'')"
    by (simp_all add: source_policy_def GetResolvedSource_def sample_defs)
  then show ?thesis unfolding t by (auto intro!: exI [of _ source_policy])
qed

end
